(* ===== verification/JsNumber.thy ===== *)
theory JsNumber
  imports Complex_Main Prelude "HOL-Library.Log_Nat"
begin

text \<open>
  JavaScript numbers.  A finite number is the rational it denotes; every arithmetic
  operation rounds its exact result to the nearest IEEE double, ties to even
  (\<open>js_double\<close>).  Overflow to infinity, signed zeros and subnormals are outside the
  model: the code's magnitudes stay far inside the normal range.  The lemmas bound the rounding
  error and show that integers below \<open>2 ^ 53\<close> are exact.
\<close>

section \<open>Rounding to a double\<close>

definition rat_exponent :: "rat \<Rightarrow> int" where
  "rat_exponent x =
     (let (n, d) = quotient_of x; k = bitlen n - bitlen d
      in if 2 powi k \<le> x then k else k - 1)"

definition round_half_even :: "rat \<Rightarrow> int" where
  "round_half_even y =
     (let f = \<lfloor>y\<rfloor>; r = y - of_int f
      in if r < 1 / 2 then f else if 1 / 2 < r then f + 1 else if even f then f else f + 1)"

definition js_double :: "rat \<Rightarrow> rat" where
  "js_double x =
     (if x = 0 then 0
      else let u = 2 powi (rat_exponent \<bar>x\<bar> - 52)
           in sgn x * of_int (round_half_even (\<bar>x\<bar> / u)) * u)"

definition js_add :: "rat \<Rightarrow> rat \<Rightarrow> rat" where "js_add x y = js_double (x + y)"
definition js_sub :: "rat \<Rightarrow> rat \<Rightarrow> rat" where "js_sub x y = js_double (x - y)"
definition js_mul :: "rat \<Rightarrow> rat \<Rightarrow> rat" where "js_mul x y = js_double (x * y)"
definition js_div :: "rat \<Rightarrow> rat \<Rightarrow> rat" where "js_div x y = js_double (x / y)"
definition js_floor :: "rat \<Rightarrow> int" where "js_floor x = \<lfloor>x\<rfloor>"
definition js_ceil :: "rat \<Rightarrow> int" where "js_ceil x = \<lceil>x\<rceil>"
definition js_round :: "rat \<Rightarrow> int" where "js_round x = \<lfloor>x + 1 / 2\<rfloor>"

section \<open>Error bounds\<close>

lemma floorlog_2_bounds:
  assumes "0 < n"
  shows "2 ^ (floorlog 2 n - 1) \<le> n" "n < 2 ^ floorlog 2 n"
  using assms floorlog_bounds [of n 2] by auto

lemma powi_2_of_nat_diff: "(2 :: rat) powi (int a - int b) = 2 ^ a / 2 ^ b"
  by (simp add: power_int_diff)

lemma rat_of_nat_bounds:
  assumes "2 ^ i \<le> m" "m < 2 ^ j"
  shows "(2 :: rat) ^ i \<le> of_nat m" "of_nat m < (2 :: rat) ^ j"
proof -
  have "of_nat (2 ^ i) \<le> (of_nat m :: rat)" "of_nat m < (of_nat (2 ^ j) :: rat)"
    using assms by (simp_all only: of_nat_le_iff of_nat_less_iff)
  then show "(2 :: rat) ^ i \<le> of_nat m" "of_nat m < (2 :: rat) ^ j" by simp_all
qed

lemma rat_exponent_bounds:
  assumes "0 < x"
  shows "2 powi rat_exponent x \<le> x" "x < 2 powi (rat_exponent x + 1)"
proof -
  obtain n d where q: "quotient_of x = (n, d)" by (cases "quotient_of x")
  have d: "0 < d" by (rule quotient_of_denom_pos [OF q])
  have x: "x = of_int n / of_int d" by (rule quotient_of_div [OF q])
  with assms d have n: "0 < n" by (simp add: zero_less_divide_iff)
  define a b where "a = floorlog 2 (nat n)" and "b = floorlog 2 (nat d)"
  have a: "2 ^ (a - 1) \<le> nat n" "nat n < 2 ^ a"
    unfolding a_def using n by (simp_all only: floorlog_2_bounds zero_less_nat_eq)
  have b: "2 ^ (b - 1) \<le> nat d" "nat d < 2 ^ b"
    unfolding b_def using d by (simp_all only: floorlog_2_bounds zero_less_nat_eq)
  have pos: "0 < a" "0 < b"
    using n d by (simp_all add: a_def b_def floorlog_def)
  have n1: "(2 :: rat) ^ (a - 1) \<le> of_int n" and n2: "of_int n < (2 :: rat) ^ a"
    using rat_of_nat_bounds [OF a] n by simp_all
  have d1: "(2 :: rat) ^ (b - 1) \<le> of_int d" and d2: "of_int d < (2 :: rat) ^ b"
    using rat_of_nat_bounds [OF b] d by simp_all
  have "2 ^ (a - 1) / 2 ^ b \<le> x"
    unfolding x using n1 d2 d n by (intro frac_le) auto
  then have low: "2 powi (int a - int b - 1) \<le> x"
    using pos by (cases a) (simp_all add: power_int_diff field_simps)
  have "x < 2 ^ a / 2 ^ (b - 1)"
    unfolding x using n2 d1 n by (intro frac_less) auto
  then have high: "x < 2 powi (int a - int b + 1)"
    using pos by (cases b) (simp_all add: power_int_diff power_int_add field_simps)
  have e: "rat_exponent x = (if 2 powi (int a - int b) \<le> x then int a - int b else int a - int b - 1)"
    by (simp add: rat_exponent_def q a_def b_def Let_def bitlen_def)
  show "2 powi rat_exponent x \<le> x" "x < 2 powi (rat_exponent x + 1)"
    using low high by (auto simp: e)
qed

lemma round_half_even_error: "\<bar>of_int (round_half_even y) - y\<bar> \<le> 1 / 2"
proof -
  have "0 \<le> y - of_int \<lfloor>y\<rfloor>" "y - of_int \<lfloor>y\<rfloor> < 1"
    by linarith+
  then show ?thesis by (auto simp: round_half_even_def Let_def abs_le_iff)
qed

lemma round_half_even_of_int [simp]: "round_half_even (of_int k) = k"
  by (simp add: round_half_even_def)

lemma js_double_pos_error:
  assumes "0 < x"
  shows "\<bar>js_double x - x\<bar> \<le> x / 2 ^ 53"
proof -
  define e u where "e = rat_exponent x" and "u = (2 :: rat) powi (e - 52)"
  have u: "0 < u" by (simp add: u_def)
  have "of_int (round_half_even (x / u)) * u - x = (of_int (round_half_even (x / u)) - x / u) * u"
    using u by (simp add: left_diff_distrib)
  then have "\<bar>of_int (round_half_even (x / u)) * u - x\<bar> = \<bar>of_int (round_half_even (x / u)) - x / u\<bar> * u"
    using u by (simp add: abs_mult)
  also have "\<dots> \<le> 1 / 2 * u"
    using u round_half_even_error by (intro mult_right_mono) auto
  also have "1 / 2 * u = 2 powi e / 2 ^ 53"
    by (simp add: u_def power_int_diff)
  also have "\<dots> \<le> x / 2 ^ 53"
    using rat_exponent_bounds(1) [OF assms] by (simp add: e_def divide_right_mono)
  finally have "\<bar>of_int (round_half_even (x / u)) * u - x\<bar> \<le> x / 2 ^ 53" .
  moreover have "js_double x = of_int (round_half_even (x / u)) * u"
    using assms by (simp only: js_double_def Let_def u_def e_def) simp
  ultimately show ?thesis by (simp only:)
qed

lemma js_double_0 [simp]: "js_double 0 = 0"
  by (simp add: js_double_def)

lemma js_double_error:
  assumes "0 \<le> x"
  shows "\<bar>js_double x - x\<bar> \<le> x / 2 ^ 53"
  using assms js_double_pos_error [of x] by (cases "x = 0") auto

lemma js_double_minus: "js_double (- x) = - js_double x"
  by (simp add: js_double_def Let_def)

lemma js_double_nonneg: "0 \<le> x \<Longrightarrow> 0 \<le> js_double x"
proof (cases "x = 0")
  case False
  assume "0 \<le> x"
  with False have x: "0 < x" by simp
  have "x / 2 ^ 53 \<le> x" using x by (simp add: divide_le_eq)
  with js_double_pos_error [OF x] have "\<bar>js_double x - x\<bar> \<le> x" by (rule order_trans)
  then show ?thesis by (simp add: abs_le_iff)
qed simp

lemma js_double_of_int:
  assumes "\<bar>k\<bar> < 2 ^ 53"
  shows "js_double (of_int k) = of_int k"
proof (cases "k = 0")
  case False
  define x where "x = \<bar>of_int k :: rat\<bar>"
  have x: "0 < x" using False by (simp add: x_def)
  define e where "e = rat_exponent x"
  have "2 powi e < (2 :: rat) powi 53"
    using rat_exponent_bounds(1) [OF x] assms
    by (simp only: e_def x_def)
      (metis le_less_trans of_int_abs of_int_less_numeral_power_cancel_iff power_int_numeral)
  then have "e < 53"
    using power_int_increasing [of 53 e "2 :: rat"] by (cases "e < 53") auto
  then have "e - 52 \<le> 0" by simp
  then obtain m where m: "e - 52 = - int m"
    by (metis nonpos_int_cases)
  have "x / 2 powi (e - 52) = of_int (\<bar>k\<bar> * 2 ^ m)"
    by (simp add: m x_def power_int_minus field_simps)
  then have "round_half_even (x / 2 powi (e - 52)) = \<bar>k\<bar> * 2 ^ m"
    by (simp only: round_half_even_of_int)
  then show ?thesis
    using False by (simp add: js_double_def Let_def x_def [symmetric] e_def [symmetric])
      (simp add: m power_int_minus x_def sgn_if)
qed simp

end
