(* ===== verification/JsValue.thy ===== *)
theory JsValue
  imports JsNumber
begin

text \<open>
  JavaScript values as the source meets them (parsed JSON, with \<open>undefined\<close> for an absent
  property), the operators it applies to them, and the two library functions of the wire:
  \<open>JSON.stringify\<close> and \<open>JSON.parse\<close>.  The parser is a recursive descent with fuel; twice the
  length of the text is always enough on printed texts, and \<open>json_parse_stringify\<close> states the
  round trip for every value \<open>JSON.stringify\<close> prints losslessly.
\<close>

datatype jsval =
  JUndefined
| JNull
| JBool bool
| JNum rat
| JStr string
| JArr "jsval list"
| JObj "(string \<times> jsval) list"

section \<open>Operators\<close>

text \<open>\<open>o.k\<close> and \<open>o[k]\<close> on a value that is not \<open>null\<close> or \<open>undefined\<close>.\<close>

fun js_get :: "jsval \<Rightarrow> string \<Rightarrow> jsval" where
  "js_get (JObj fs) k = (case map_of fs k of None \<Rightarrow> JUndefined | Some v \<Rightarrow> v)"
| "js_get _ k = JUndefined"

text \<open>\<open>a[i]\<close> on an array.\<close>

fun js_nth :: "jsval list \<Rightarrow> nat \<Rightarrow> jsval" where
  "js_nth [] i = JUndefined"
| "js_nth (x # xs) 0 = x"
| "js_nth (x # xs) (Suc i) = js_nth xs i"

fun js_truthy :: "jsval \<Rightarrow> bool" where
  "js_truthy JUndefined = False"
| "js_truthy JNull = False"
| "js_truthy (JBool b) = b"
| "js_truthy (JNum r) = (r \<noteq> 0)"
| "js_truthy (JStr s) = (s \<noteq> [])"
| "js_truthy _ = True"

definition js_nullish :: "jsval \<Rightarrow> bool" where
  "js_nullish v \<longleftrightarrow> v = JUndefined \<or> v = JNull"

text \<open>\<open>a ?? b\<close> and \<open>a || b\<close>.\<close>

definition js_coalesce :: "jsval \<Rightarrow> jsval \<Rightarrow> jsval" where
  "js_coalesce a b = (if js_nullish a then b else a)"

definition js_or :: "jsval \<Rightarrow> jsval \<Rightarrow> jsval" where
  "js_or a b = (if js_truthy a then a else b)"

fun js_opt_str :: "string option \<Rightarrow> jsval" where
  "js_opt_str None = JUndefined"
| "js_opt_str (Some s) = JStr s"

fun js_opt_int :: "int option \<Rightarrow> jsval" where
  "js_opt_int None = JUndefined"
| "js_opt_int (Some i) = JNum (of_int i)"

fun js_opt_num :: "rat option \<Rightarrow> jsval" where
  "js_opt_num None = JUndefined"
| "js_opt_num (Some r) = JNum r"

section \<open>JSON.stringify\<close>

definition hex_char :: "nat \<Rightarrow> char" where
  "hex_char d = (if d < 10 then char_of (48 + d) else char_of (87 + d))"

definition json_escape :: "char \<Rightarrow> string" where
  "json_escape c =
     (let n = of_char c :: nat in
      if c = CHR 0x22 then [CHR 0x5C, CHR 0x22]
      else if c = CHR 0x5C then [CHR 0x5C, CHR 0x5C]
      else if n = 8 then [CHR 0x5C, CHR ''b'']
      else if n = 9 then [CHR 0x5C, CHR ''t'']
      else if n = 10 then [CHR 0x5C, CHR ''n'']
      else if n = 12 then [CHR 0x5C, CHR ''f'']
      else if n = 13 then [CHR 0x5C, CHR ''r'']
      else if n < 32 then [CHR 0x5C, CHR ''u'', CHR ''0'', CHR ''0'', hex_char (n div 16), hex_char (n mod 16)]
      else [c])"

definition json_string :: "string \<Rightarrow> string" where
  "json_string s = CHR 0x22 # concat (map json_escape s) @ [CHR 0x22]"

text \<open>
  The shortest decimal that reads back as the same double, as \<open>Number.prototype.toString\<close>
  prints it (without the exponent form of very small and very large magnitudes).
\<close>

fun short_decimal :: "nat \<Rightarrow> nat \<Rightarrow> rat \<Rightarrow> nat \<times> nat" where
  "short_decimal 0 d x = (nat (round_half_even (x * 10 ^ d)), d)"
| "short_decimal (Suc fuel) d x =
     (let m = round_half_even (x * 10 ^ d)
      in if js_double (of_int m / 10 ^ d) = x then (nat m, d) else short_decimal fuel (Suc d) x)"

definition json_number :: "rat \<Rightarrow> string" where
  "json_number r =
     (if r = of_int \<lfloor>r\<rfloor> then show_int \<lfloor>r\<rfloor>
      else let (m, d) = short_decimal 25 1 \<bar>r\<bar>
           in (if r < 0 then ''-'' else '''') @ show_nat (m div 10 ^ d) @ ''.''
              @ js_padStart d (CHR ''0'') (show_nat (m mod 10 ^ d)))"

fun json_stringify :: "jsval \<Rightarrow> string" where
  "json_stringify JUndefined = ''null''"
| "json_stringify JNull = ''null''"
| "json_stringify (JBool b) = (if b then ''true'' else ''false'')"
| "json_stringify (JNum r) = json_number r"
| "json_stringify (JStr s) = json_string s"
| "json_stringify (JArr xs) = ''['' @ js_join '','' (map json_stringify xs) @ '']''"
| "json_stringify (JObj fs) =
     ''{'' @ js_join '',''
       (map (\<lambda>(k, v). json_string k @ '':'' @ json_stringify v) (filter (\<lambda>(k, v). v \<noteq> JUndefined) fs)) @ ''}''"

text \<open>\<open>String(v)\<close> and the template literal; an array prints its elements, \<open>null\<close> and
  \<open>undefined\<close> among them as the empty text.\<close>

fun js_text :: "jsval \<Rightarrow> string" where
  "js_text JUndefined = ''undefined''"
| "js_text JNull = ''null''"
| "js_text (JBool b) = (if b then ''true'' else ''false'')"
| "js_text (JNum r) = json_number r"
| "js_text (JStr s) = s"
| "js_text (JArr xs) = js_join '','' (map (\<lambda>x. if js_nullish x then '''' else js_text x) xs)"
| "js_text (JObj fs) = ''[object Object]''"

section \<open>JSON.parse\<close>

definition is_json_space :: "char \<Rightarrow> bool" where
  "is_json_space c \<longleftrightarrow> of_char c \<in> {9, 10, 13, 32 :: nat}"

definition skip_space :: "string \<Rightarrow> string" where
  "skip_space s = dropWhile is_json_space s"

definition hex_val :: "char \<Rightarrow> nat option" where
  "hex_val c =
     (let n = of_char c :: nat in
      if 48 \<le> n \<and> n \<le> 57 then Some (n - 48)
      else if 97 \<le> n \<and> n \<le> 102 then Some (n - 87)
      else if 65 \<le> n \<and> n \<le> 70 then Some (n - 55) else None)"

definition json_unescape :: "char \<Rightarrow> char option" where
  "json_unescape e =
     (if e = CHR 0x22 then Some e else if e = CHR 0x5C then Some e else if e = CHR ''/'' then Some e
      else if e = CHR ''b'' then Some (char_of (8 :: nat)) else if e = CHR ''t'' then Some (char_of (9 :: nat))
      else if e = CHR ''n'' then Some (char_of (10 :: nat)) else if e = CHR ''f'' then Some (char_of (12 :: nat))
      else if e = CHR ''r'' then Some (char_of (13 :: nat)) else None)"

text \<open>The text after an opening quote, up to and including the closing one.\<close>

fun parse_chars :: "string \<Rightarrow> (string \<times> string) option" where
  "parse_chars [] = None"
| "parse_chars (c # cs) =
     (if c = CHR 0x22 then Some ([], cs)
      else if c = CHR 0x5C then
        (case cs of
           [] \<Rightarrow> None
         | e # es \<Rightarrow>
             if e = CHR ''u'' then
               (case es of
                  h1 # h2 # h3 # h4 # rest \<Rightarrow>
                    (case (hex_val h1, hex_val h2, hex_val h3, hex_val h4) of
                       (Some 0, Some 0, Some a, Some b) \<Rightarrow>
                         map_option (\<lambda>(x, r). (char_of (16 * a + b) # x, r)) (parse_chars rest)
                     | _ \<Rightarrow> None)
                | _ \<Rightarrow> None)
             else (case json_unescape e of
                     None \<Rightarrow> None
                   | Some ch \<Rightarrow> map_option (\<lambda>(x, r). (ch # x, r)) (parse_chars es)))
      else if (of_char c :: nat) < 32 then None
      else map_option (\<lambda>(x, r). (c # x, r)) (parse_chars cs))"

definition parse_exponent :: "string \<Rightarrow> (int \<times> string) option" where
  "parse_exponent s =
     (case s of
        c # cs \<Rightarrow>
          if c = CHR ''e'' \<or> c = CHR ''E'' then
            (let (neg, ds) = (case cs of x # xs \<Rightarrow> if x = CHR ''-'' then (True, xs) else if x = CHR ''+'' then (False, xs) else (False, cs) | [] \<Rightarrow> (False, cs));
                 e = takeWhile is_digit ds
             in if e = [] then None
                else Some ((if neg then - int (read_nat e) else int (read_nat e)), dropWhile is_digit ds))
          else Some (0, s)
      | [] \<Rightarrow> Some (0, s))"

definition parse_number :: "string \<Rightarrow> (jsval \<times> string) option" where
  "parse_number s =
     (let (neg, s1) = (case s of x # xs \<Rightarrow> if x = CHR ''-'' then (True, xs) else (False, s) | [] \<Rightarrow> (False, s));
          ds = takeWhile is_digit s1; s2 = dropWhile is_digit s1
      in if ds = [] \<or> (1 < length ds \<and> hd ds = CHR ''0'') then None
         else
           (let (fs, s3) = (case s2 of x # xs \<Rightarrow> if x = CHR ''.'' then (takeWhile is_digit xs, dropWhile is_digit xs) else ([], s2) | [] \<Rightarrow> ([], s2))
            in if (case s2 of x # xs \<Rightarrow> x = CHR ''.'' \<and> fs = [] | [] \<Rightarrow> False) then None
               else (case parse_exponent s3 of
                       None \<Rightarrow> None
                     | Some (e, s4) \<Rightarrow>
                         (let m = of_nat (read_nat (ds @ fs)) * 10 powi (e - int (length fs)) :: rat
                          in Some (JNum (js_double (if neg then - m else m)), s4)))))"

fun parse_value :: "nat \<Rightarrow> string \<Rightarrow> (jsval \<times> string) option"
and parse_elements :: "nat \<Rightarrow> string \<Rightarrow> (jsval list \<times> string) option"
and parse_members :: "nat \<Rightarrow> string \<Rightarrow> ((string \<times> jsval) list \<times> string) option" where
  "parse_value 0 s = None"
| "parse_value (Suc n) s =
     (case skip_space s of
        [] \<Rightarrow> None
      | c # cs \<Rightarrow>
          if c = CHR 0x22 then map_option (\<lambda>(x, r). (JStr x, r)) (parse_chars cs)
          else if c = CHR ''['' then
            (if prefix '']'' (skip_space cs) then Some (JArr [], tl (skip_space cs))
             else map_option (\<lambda>(xs, r). (JArr xs, r)) (parse_elements n cs))
          else if c = CHR ''{'' then
            (if prefix ''}'' (skip_space cs) then Some (JObj [], tl (skip_space cs))
             else map_option (\<lambda>(fs, r). (JObj (foldl (\<lambda>m (k, v). map_set k v m) [] fs), r)) (parse_members n cs))
          else if prefix ''true'' (c # cs) then Some (JBool True, drop 4 (c # cs))
          else if prefix ''false'' (c # cs) then Some (JBool False, drop 5 (c # cs))
          else if prefix ''null'' (c # cs) then Some (JNull, drop 4 (c # cs))
          else parse_number (c # cs))"
| "parse_elements 0 s = None"
| "parse_elements (Suc n) s =
     (case parse_value n s of
        None \<Rightarrow> None
      | Some (v, r) \<Rightarrow>
          (case skip_space r of
             [] \<Rightarrow> None
           | c # cs \<Rightarrow>
               if c = CHR '','' then map_option (\<lambda>(vs, r'). (v # vs, r')) (parse_elements n cs)
               else if c = CHR '']'' then Some ([v], cs) else None))"
| "parse_members 0 s = None"
| "parse_members (Suc n) s =
     (case skip_space s of
        [] \<Rightarrow> None
      | q # qs \<Rightarrow>
          if q \<noteq> CHR 0x22 then None
          else (case parse_chars qs of
             None \<Rightarrow> None
           | Some (k, r1) \<Rightarrow>
               if \<not> prefix '':'' (skip_space r1) then None
               else (case parse_value n (tl (skip_space r1)) of
                  None \<Rightarrow> None
                | Some (v, r2) \<Rightarrow>
                    (case skip_space r2 of
                       [] \<Rightarrow> None
                     | c # cs \<Rightarrow>
                         if c = CHR '','' then map_option (\<lambda>(fs, r'). ((k, v) # fs, r')) (parse_members n cs)
                         else if c = CHR ''}'' then Some ([(k, v)], cs) else None))))"

definition json_parse :: "string \<Rightarrow> jsval option" where
  "json_parse s =
     (case parse_value (2 * length s + 2) s of
        None \<Rightarrow> None
      | Some (v, r) \<Rightarrow> if skip_space r = [] then Some v else None)"

section \<open>The round trip\<close>

text \<open>Values that \<open>JSON.stringify\<close> prints without loss, and what may follow a value.\<close>

fun json_plain :: "jsval \<Rightarrow> bool" where
  "json_plain JUndefined = False"
| "json_plain (JNum r) = (r = of_int \<lfloor>r\<rfloor> \<and> \<bar>\<lfloor>r\<rfloor>\<bar> < 2 ^ 53)"
| "json_plain (JArr xs) = list_all json_plain xs"
| "json_plain (JObj fs) = (distinct (map fst fs) \<and> list_all (\<lambda>(k, v). json_plain v) fs)"
| "json_plain _ = True"

definition json_delimited :: "string \<Rightarrow> bool" where
  "json_delimited rest \<longleftrightarrow> (case rest of [] \<Rightarrow> True | c # _ \<Rightarrow> c \<in> {CHR '','', CHR '']'', CHR ''}''})"

lemma char_of_eqI: "of_char c = n \<Longrightarrow> c = char_of (n :: nat)"
  by auto

lemma hex_val_hex_char: "d < 16 \<Longrightarrow> hex_val (hex_char d) = Some d"
  by (auto simp: hex_val_def hex_char_def Let_def)

lemma parse_chars_escape:
  "parse_chars (json_escape c @ t) = map_option (\<lambda>(x, r). (c # x, r)) (parse_chars t)"
proof -
  have z: "hex_val (CHR ''0'') = Some 0" by (simp add: hex_val_def)
  have ne: "c \<noteq> CHR 0x22 \<and> c \<noteq> CHR 0x5C" if "(of_char c :: nat) < 32" using that by auto
  consider "c = CHR 0x22" | "c = CHR 0x5C"
    | (named) "of_char c \<in> {8, 9, 10, 12, 13 :: nat}"
    | (ctl) "(of_char c :: nat) < 32" "of_char c \<notin> {8, 9, 10, 12, 13 :: nat}"
    | (plain) "\<not> (of_char c :: nat) < 32" "c \<noteq> CHR 0x22" "c \<noteq> CHR 0x5C"
    by blast
  then show ?thesis
  proof cases
    case ctl
    then have "json_escape c = [CHR 0x5C, CHR ''u'', CHR ''0'', CHR ''0'',
        hex_char (of_char c div 16), hex_char (of_char c mod 16)]"
      using ne by (simp add: json_escape_def Let_def)
    moreover have "hex_val (hex_char (of_char c div 16)) = Some (of_char c div 16)"
      "hex_val (hex_char (of_char c mod 16)) = Some (of_char c mod 16)"
      using ctl(1) by (simp_all add: hex_val_hex_char)
    ultimately show ?thesis by (simp add: z)
  next
    case plain
    then show ?thesis by (auto simp: json_escape_def Let_def)
  next
    case named
    with ne have "c \<noteq> CHR 0x22" "c \<noteq> CHR 0x5C" by auto
    with named show ?thesis
      by (auto simp: json_escape_def json_unescape_def Let_def dest!: char_of_eqI)
  qed (simp_all add: json_escape_def json_unescape_def)
qed

lemma parse_chars_string:
  "parse_chars (concat (map json_escape s) @ CHR 0x22 # t) = Some (s, t)"
  by (induction s) (simp_all add: parse_chars_escape)

lemma delimited_cases:
  assumes "json_delimited rest"
  shows "takeWhile is_digit rest = []" "dropWhile is_digit rest = rest" "parse_exponent rest = Some (0, rest)"
    "\<not> prefix ''.'' rest"
  using assms by (auto simp: json_delimited_def is_digit_def parse_exponent_def split: list.splits)

lemma takeWhile_digits:
  assumes "json_delimited rest"
  shows "takeWhile is_digit (show_nat n @ rest) = show_nat n" "dropWhile is_digit (show_nat n @ rest) = rest"
  using delimited_cases [OF assms] show_nat_digits [of _ n]
  by (simp_all add: takeWhile_append2 dropWhile_append2)

lemma hd_show_nat: "0 < n \<Longrightarrow> hd (show_nat n) \<noteq> CHR ''0''"
proof (induction n rule: show_nat.induct)
  case (1 n)
  show ?case
  proof (cases "n < 10")
    case True
    then have "show_nat n = [digit_char n]" by (subst show_nat.simps) simp
    moreover have "digit_char n \<noteq> CHR ''0''"
    proof
      assume "digit_char n = CHR ''0''"
      then have "(of_char (digit_char n) :: nat) = 48" by simp
      with True 1(2) show False by simp
    qed
    ultimately show ?thesis by simp
  next
    case False
    then show ?thesis using 1 by (subst show_nat.simps) simp
  qed
qed

lemma show_nat_leading: "\<not> (1 < length (show_nat n) \<and> hd (show_nat n) = CHR ''0'')"
proof (cases "n = 0")
  case True
  then show ?thesis by (simp add: show_nat.simps)
qed (use hd_show_nat in auto)

lemma digit_not: "is_digit c \<Longrightarrow> c \<noteq> CHR ''-'' \<and> c \<noteq> CHR 0x22 \<and> c \<noteq> CHR ''['' \<and> c \<noteq> CHR ''{''
    \<and> c \<noteq> CHR ''t'' \<and> c \<noteq> CHR ''f'' \<and> c \<noteq> CHR ''n'' \<and> c \<noteq> CHR '']'' \<and> c \<noteq> CHR ''}'' \<and> \<not> is_json_space c"
  by (auto simp: is_digit_def is_json_space_def)

lemma show_nat_ConsE: obtains c cs where "show_nat n = c # cs" "is_digit c"
  using show_nat_digits [of _ n] show_nat_nonempty [of n] by (cases "show_nat n") auto

lemma parse_number_tail:
  assumes "json_delimited rest"
  shows "(case rest of x # xs \<Rightarrow> if x = CHR ''.'' then (takeWhile is_digit xs, dropWhile is_digit xs) else ([], rest) | [] \<Rightarrow> ([], rest)) = ([], rest)"
    "(case rest of x # xs \<Rightarrow> x = CHR ''.'' \<and> B | [] \<Rightarrow> False) = False"
  using assms by (auto simp: json_delimited_def split: list.splits)

lemma parse_number_show_int:
  assumes "json_delimited rest" "\<bar>k\<bar> < 2 ^ 53"
  shows "parse_number (show_int k @ rest) = Some (JNum (of_int k), rest)"
proof -
  define n where "n = nat \<bar>k\<bar>"
  have j: "js_double (of_int k) = of_int k" by (rule js_double_of_int [OF assms(2)])
  obtain c cs where c: "show_nat n = c # cs" "is_digit c" by (rule show_nat_ConsE)
  note tw = takeWhile_digits [OF assms(1), of n]
  have neg: "(case show_int k @ rest of x # xs \<Rightarrow> if x = CHR ''-'' then (True, xs) else (False, show_int k @ rest)
      | [] \<Rightarrow> (False, show_int k @ rest)) = (k < 0, show_nat n @ rest)"
    using c digit_not [OF c(2)] by (cases "k < 0") (simp_all add: show_int_def n_def)
  have val: "(if k < 0 then - rat_of_nat (read_nat (show_nat n @ [])) else rat_of_nat (read_nat (show_nat n @ []))) = of_int k"
    by (simp add: n_def)
  show ?thesis
    unfolding parse_number_def neg Let_def prod.case tw parse_number_tail [OF assms(1)]
    using show_nat_leading [of n] val j delimited_cases(3) [OF assms(1)]
    by (auto simp: power_int_def)
qed

lemma show_int_ConsE:
  obtains c cs where "show_int k = c # cs" "c = CHR ''-'' \<or> is_digit c"
  by (cases "k < 0"; rule show_nat_ConsE [of "nat \<bar>k\<bar>"]) (auto simp: show_int_def)

lemma minus_not: "\<not> is_json_space (CHR ''-'')"
  by (simp add: is_json_space_def)

lemma stringify_ConsE:
  assumes "json_plain v"
  obtains c cs where "json_stringify v = c # cs" "\<not> is_json_space c" "c \<noteq> CHR '']''" "c \<noteq> CHR ''}''"
proof (cases v)
  case (JNum r)
  with assms have v: "json_stringify v = show_int \<lfloor>r\<rfloor>" by (simp add: json_number_def)
  obtain c cs where "show_int \<lfloor>r\<rfloor> = c # cs" "c = CHR ''-'' \<or> is_digit c"
    by (rule show_int_ConsE)
  then show ?thesis using that [of c cs] v minus_not digit_not [of c] by auto
next
  case (JBool b)
  then show ?thesis by (cases b) (use that in \<open>simp_all add: is_json_space_def\<close>)
qed (use that assms in \<open>simp_all add: is_json_space_def json_string_def\<close>)

lemma skip_space_idle: "\<not> is_json_space c \<Longrightarrow> skip_space (c # cs) = c # cs"
  by (simp add: skip_space_def)

lemma skip_space_punct [simp]:
  "skip_space (CHR '','' # t) = CHR '','' # t" "skip_space (CHR '']'' # t) = CHR '']'' # t"
  "skip_space (CHR ''}'' # t) = CHR ''}'' # t" "skip_space (CHR '':'' # t) = CHR '':'' # t"
  "skip_space (CHR 0x22 # t) = CHR 0x22 # t" "skip_space [] = []"
  by (simp_all add: skip_space_def is_json_space_def)

text \<open>What the two loops need of the values they read.\<close>

definition reads_back :: "jsval \<Rightarrow> bool" where
  "reads_back v \<longleftrightarrow> (\<forall>fuel rest. 2 * length (json_stringify v) < fuel \<longrightarrow> json_delimited rest \<longrightarrow>
     parse_value fuel (json_stringify v @ rest) = Some (v, rest))"

lemma reads_backD:
  "reads_back v \<Longrightarrow> 2 * length (json_stringify v) < fuel \<Longrightarrow> json_delimited rest \<Longrightarrow>
     parse_value fuel (json_stringify v @ rest) = Some (v, rest)"
  by (simp add: reads_back_def)

lemma delimited_punct [simp]:
  "json_delimited (CHR '','' # t)" "json_delimited (CHR '']'' # t)" "json_delimited (CHR ''}'' # t)" "json_delimited []"
  by (simp_all add: json_delimited_def)

lemma parse_elements_join:
  assumes "list_all reads_back xs" "xs \<noteq> []" "2 * length (js_join '','' (map json_stringify xs)) + 1 < fuel"
  shows "parse_elements fuel (js_join '','' (map json_stringify xs) @ CHR '']'' # rest) = Some (xs, rest)"
  using assms
proof (induction xs arbitrary: fuel)
  case (Cons x xs)
  then obtain n where n: "fuel = Suc n" by (cases fuel) auto
  show ?case
  proof (cases xs)
    case Nil
    with Cons n show ?thesis by (simp add: reads_backD)
  next
    case (Cons y ys)
    have j: "js_join '','' (map json_stringify (x # xs)) = json_stringify x @ CHR '','' # js_join '','' (map json_stringify xs)"
      using Cons by simp
    have len: "2 * length (json_stringify x) + 2 + 2 * length (js_join '','' (map json_stringify xs)) < Suc n"
      using Cons.prems(3) unfolding j n by simp
    have "parse_value n (json_stringify x @ CHR '','' # js_join '','' (map json_stringify xs) @ CHR '']'' # rest)
        = Some (x, CHR '','' # js_join '','' (map json_stringify xs) @ CHR '']'' # rest)"
      using Cons.prems(1) len by (intro reads_backD) auto
    moreover have "parse_elements n (js_join '','' (map json_stringify xs) @ CHR '']'' # rest) = Some (xs, rest)"
      using Cons.prems(1) len Cons by (intro Cons.IH) auto
    ultimately show ?thesis unfolding n j by simp
  qed
qed simp

definition member_text :: "string \<times> jsval \<Rightarrow> string" where
  "member_text = (\<lambda>(k, v). json_string k @ '':'' @ json_stringify v)"

lemma parse_members_join:
  assumes "list_all (\<lambda>(k, v). reads_back v) fs" "fs \<noteq> []" "2 * length (js_join '','' (map member_text fs)) + 1 < fuel"
  shows "parse_members fuel (js_join '','' (map member_text fs) @ CHR ''}'' # rest) = Some (fs, rest)"
  using assms
proof (induction fs arbitrary: fuel)
  case (Cons f fs)
  obtain k v where f: "f = (k, v)" by (cases f)
  from Cons obtain n where n: "fuel = Suc n" by (cases fuel) auto
  have m: "member_text f = CHR 0x22 # concat (map json_escape k) @ CHR 0x22 # CHR '':'' # json_stringify v"
    by (simp add: member_text_def f json_string_def)
  show ?case
  proof (cases fs)
    case Nil
    have "2 * length (json_stringify v) < n"
      using Cons.prems(3) unfolding n by (simp add: Nil m)
    moreover have "reads_back v"
      using Cons.prems(1) f by simp
    ultimately have "parse_value n (json_stringify v @ CHR ''}'' # rest) = Some (v, CHR ''}'' # rest)"
      by (intro reads_backD) auto
    then show ?thesis using Nil m by (simp add: n parse_chars_string f)
  next
    case (Cons g gs)
    let ?t = "js_join '','' (map member_text fs) @ CHR ''}'' # rest"
    have j: "js_join '','' (map member_text (f # fs)) = member_text f @ CHR '','' # js_join '','' (map member_text fs)"
      using Cons by simp
    have len: "2 * length (json_stringify v) + 4 + 2 * length (js_join '','' (map member_text fs)) < Suc n"
      using Cons.prems(3) unfolding j n m by simp
    have "parse_value n (json_stringify v @ CHR '','' # ?t) = Some (v, CHR '','' # ?t)"
      using Cons.prems(1) len f by (intro reads_backD) auto
    moreover have "parse_members n ?t = Some (fs, rest)"
      using Cons.prems(1) len Cons by (intro Cons.IH) auto
    ultimately show ?thesis unfolding n j m by (simp add: parse_chars_string f)
  qed
qed simp

lemma map_set_fresh: "k \<notin> fst ` set m \<Longrightarrow> map_set k v m = m @ [(k, v)]"
  by (induction m) auto

lemma foldl_map_set:
  "distinct (map fst (m @ fs)) \<Longrightarrow> foldl (\<lambda>m (k, v). map_set k v m) m fs = m @ fs"
proof (induction fs arbitrary: m)
  case (Cons f fs)
  obtain k v where f: "f = (k, v)" by (cases f)
  with Cons.prems have "k \<notin> fst ` set m" by auto
  then have "map_set k v m = m @ [(k, v)]" by (rule map_set_fresh)
  with Cons f show ?case by simp
qed simp

lemma json_plain_reads_back: "json_plain v \<Longrightarrow> reads_back v"
proof (induction v)
  case (JNum r)
  have "parse_value fuel (json_stringify (JNum r) @ rest) = Some (JNum r, rest)"
    if fuel: "0 < fuel" and rest: "json_delimited rest" for fuel rest
  proof -
    obtain c cs where c: "show_int \<lfloor>r\<rfloor> = c # cs" "c = CHR ''-'' \<or> is_digit c"
      by (rule show_int_ConsE)
    have p: "parse_number (show_int \<lfloor>r\<rfloor> @ rest) = Some (JNum (of_int \<lfloor>r\<rfloor>), rest)"
      using JNum rest by (intro parse_number_show_int) auto
    obtain n where "fuel = Suc n" using fuel by (cases fuel) auto
    then show ?thesis
      using c p JNum digit_not [of c] minus_not
      by (auto simp: json_number_def skip_space_idle)
  qed
  then show ?case by (simp add: reads_back_def)
next
  case (JStr s)
  have "parse_value (Suc n) (json_stringify (JStr s) @ rest) = Some (JStr s, rest)" for n rest
    by (simp add: json_string_def parse_chars_string)
  then show ?case unfolding reads_back_def by (metis Suc_pred bot_nat_0.not_eq_extremum not_less0)
next
  case (JArr xs)
  then have all: "list_all reads_back xs" by (simp add: list_all_iff)
  have "parse_value (Suc n) (json_stringify (JArr xs) @ rest) = Some (JArr xs, rest)"
    if "2 * length (json_stringify (JArr xs)) \<le> n" for n rest
  proof (cases xs)
    case Nil
    then show ?thesis by (simp add: skip_space_def is_json_space_def)
  next
    case (Cons x ys)
    with JArr have "json_plain x" by simp
    then obtain c cs where c: "json_stringify x = c # cs" "\<not> is_json_space c" "c \<noteq> CHR '']''"
      by (rule stringify_ConsE)
    then have h: "js_join '','' (map json_stringify xs) = c # tl (js_join '','' (map json_stringify xs))"
      using Cons by (cases ys) auto
    have "parse_elements n (js_join '','' (map json_stringify xs) @ CHR '']'' # rest) = Some (xs, rest)"
      using that Cons by (intro parse_elements_join [OF all]) auto
    moreover have "\<not> prefix '']'' (skip_space (js_join '','' (map json_stringify xs) @ CHR '']'' # rest))"
      by (subst h) (use c in \<open>auto simp: skip_space_idle\<close>)
    ultimately show ?thesis by (simp add: skip_space_def is_json_space_def)
  qed
  then show ?case unfolding reads_back_def
    by (metis Suc_pred bot_nat_0.not_eq_extremum less_Suc_eq_le not_less0)
next
  case (JObj fs)
  then have all: "list_all (\<lambda>(k, v). reads_back v) fs" and dist: "distinct (map fst fs)"
    by (fastforce simp: list_all_iff)+
  have flt: "filter (\<lambda>(k, v). v \<noteq> JUndefined) fs = fs"
    using JObj.prems by (intro filter_True) (auto simp: list_all_iff)
  have text_eq: "json_stringify (JObj fs) = ''{'' @ js_join '','' (map member_text fs) @ ''}''"
    by (simp add: flt member_text_def)
  have "parse_value (Suc n) (json_stringify (JObj fs) @ rest) = Some (JObj fs, rest)"
    if "2 * length (json_stringify (JObj fs)) \<le> n" for n rest
  proof (cases fs)
    case Nil
    then show ?thesis by (simp add: skip_space_def is_json_space_def)
  next
    case (Cons f gs)
    have h: "js_join '','' (map member_text fs) = CHR 0x22 # tl (js_join '','' (map member_text fs))"
      using Cons by (cases gs) (auto simp: member_text_def json_string_def split: prod.splits)
    have "parse_members n (js_join '','' (map member_text fs) @ CHR ''}'' # rest) = Some (fs, rest)"
      using that Cons unfolding text_eq by (intro parse_members_join [OF all]) auto
    moreover have "\<not> prefix ''}'' (skip_space (js_join '','' (map member_text fs) @ CHR ''}'' # rest))"
      by (subst h) simp
    ultimately show ?thesis
      unfolding text_eq using foldl_map_set [of "[]" fs] dist by (simp add: skip_space_def is_json_space_def)
  qed
  then show ?case unfolding reads_back_def
    by (metis Suc_pred bot_nat_0.not_eq_extremum less_Suc_eq_le not_less0)
next
  case (JBool b)
  have "parse_value (Suc n) (json_stringify (JBool b) @ rest) = Some (JBool b, rest)" for n rest
    by (simp add: skip_space_def is_json_space_def)
  then show ?case unfolding reads_back_def by (metis Suc_pred bot_nat_0.not_eq_extremum not_less0)
next
  case JNull
  have "parse_value (Suc n) (json_stringify JNull @ rest) = Some (JNull, rest)" for n rest
    by (simp add: skip_space_def is_json_space_def)
  then show ?case unfolding reads_back_def by (metis Suc_pred bot_nat_0.not_eq_extremum not_less0)
qed simp

theorem json_parse_stringify: "json_plain v \<Longrightarrow> json_parse (json_stringify v) = Some v"
  using reads_backD [OF json_plain_reads_back, of v "2 * length (json_stringify v) + 2" "[]"]
  by (simp add: json_parse_def)

end
