(* ===== verification/JsDate.thy ===== *)
theory JsDate
  imports JsValue
begin

text \<open>
  JavaScript dates: an instant is the number of milliseconds since 1970-01-01 UTC.
  \<open>date_iso\<close> is \<open>toISOString\<close> and \<open>js_date_parse\<close> is the ISO 8601 part of \<open>Date.parse\<close>
  (date, or date and time with optional seconds, fraction and offset; no offset is read as UTC).
  Any other text is an invalid date.
\<close>

definition days_from_civil :: "int \<Rightarrow> int \<Rightarrow> int \<Rightarrow> int" where
  "days_from_civil y m d =
     (let y' = (if m \<le> 2 then y - 1 else y); era = y' div 400; yoe = y' - era * 400;
          doy = (153 * (if 2 < m then m - 3 else m + 9) + 2) div 5 + d - 1;
          doe = yoe * 365 + yoe div 4 - yoe div 100 + doy
      in era * 146097 + doe - 719468)"

definition civil_from_days :: "int \<Rightarrow> int \<times> int \<times> int" where
  "civil_from_days z0 =
     (let z = z0 + 719468; era = z div 146097; doe = z - era * 146097;
          yoe = (doe - doe div 1460 + doe div 36524 - doe div 146096) div 365;
          y = yoe + era * 400; doy = doe - (365 * yoe + yoe div 4 - yoe div 100);
          mp = (5 * doy + 2) div 153; d = doy - (153 * mp + 2) div 5 + 1;
          m = (if mp < 10 then mp + 3 else mp - 9)
      in (if m \<le> 2 then y + 1 else y, m, d))"

definition pad_int :: "nat \<Rightarrow> int \<Rightarrow> string" where
  "pad_int n i = js_padStart n (CHR ''0'') (show_int i)"

definition date_iso :: "int \<Rightarrow> string" where
  "date_iso t =
     (let (y, m, d) = civil_from_days (t div 86400000); r = t mod 86400000
      in pad_int 4 y @ ''-'' @ pad_int 2 m @ ''-'' @ pad_int 2 d @ ''T''
         @ pad_int 2 (r div 3600000) @ '':'' @ pad_int 2 (r div 60000 mod 60) @ '':''
         @ pad_int 2 (r div 1000 mod 60) @ ''.'' @ pad_int 3 (r mod 1000) @ ''Z'')"

definition take_digits :: "nat \<Rightarrow> string \<Rightarrow> (int \<times> string) option" where
  "take_digits n s =
     (if n \<le> length s \<and> list_all is_digit (take n s) then Some (int (read_nat (take n s)), drop n s) else None)"

definition take_char :: "char \<Rightarrow> string \<Rightarrow> string option" where
  "take_char c s = (case s of [] \<Rightarrow> None | x # xs \<Rightarrow> if x = c then Some xs else None)"

definition parse_offset :: "string \<Rightarrow> int option" where
  "parse_offset s =
     (if s = [] \<or> s = ''Z'' then Some 0
      else case s of
        c # cs \<Rightarrow>
          if c = CHR ''+'' \<or> c = CHR ''-'' then
            (case take_digits 2 cs of
               Some (h, r) \<Rightarrow>
                 (case take_char (CHR '':'') r of
                    Some r' \<Rightarrow>
                      (case take_digits 2 r' of
                         Some (m, []) \<Rightarrow> Some ((if c = CHR ''-'' then - 1 else 1) * (h * 60 + m) * 60000)
                       | _ \<Rightarrow> None)
                  | None \<Rightarrow> None)
             | None \<Rightarrow> None)
          else None
      | [] \<Rightarrow> None)"

definition parse_seconds :: "string \<Rightarrow> (int \<times> string) option" where
  "parse_seconds s =
     (case take_char (CHR '':'') s of
        None \<Rightarrow> Some (0, s)
      | Some r \<Rightarrow>
          (case take_digits 2 r of
             None \<Rightarrow> None
           | Some (sec, r1) \<Rightarrow>
               if 60 \<le> sec then None
               else (case take_char (CHR ''.'') r1 of
                  None \<Rightarrow> Some (sec * 1000, r1)
                | Some r2 \<Rightarrow>
                    (let fs = takeWhile is_digit r2; ms = int (read_nat (take 3 (fs @ ''000'')))
                     in if fs = [] then None else Some (sec * 1000 + ms, dropWhile is_digit r2)))))"

definition parse_time :: "string \<Rightarrow> int option" where
  "parse_time s =
     (case take_digits 2 s of
        None \<Rightarrow> None
      | Some (h, r) \<Rightarrow>
          (case take_char (CHR '':'') r of
             None \<Rightarrow> None
           | Some r1 \<Rightarrow>
               (case take_digits 2 r1 of
                  None \<Rightarrow> None
                | Some (m, r2) \<Rightarrow>
                    (case parse_seconds r2 of
                       None \<Rightarrow> None
                     | Some (ms, r3) \<Rightarrow>
                         if 24 \<le> h \<or> 60 \<le> m then None
                         else map_option (\<lambda>off. h * 3600000 + m * 60000 + ms - off) (parse_offset r3)))))"

definition js_date_parse :: "string \<Rightarrow> int option" where
  "js_date_parse s =
     (case take_digits 4 s of
        None \<Rightarrow> None
      | Some (y, r) \<Rightarrow>
          (case take_char (CHR ''-'') r of
             None \<Rightarrow> None
           | Some r1 \<Rightarrow>
               (case take_digits 2 r1 of
                  None \<Rightarrow> None
                | Some (m, r2) \<Rightarrow>
                    (case take_char (CHR ''-'') r2 of
                       None \<Rightarrow> None
                     | Some r3 \<Rightarrow>
                         (case take_digits 2 r3 of
                            None \<Rightarrow> None
                          | Some (d, r4) \<Rightarrow>
                              if m < 1 \<or> 12 < m \<or> d < 1 \<or> 31 < d then None
                              else let base = days_from_civil y m d * 86400000
                                   in if r4 = [] then Some base
                                      else (case take_char (CHR ''T'') r4 of
                                              None \<Rightarrow> None
                                            | Some r5 \<Rightarrow> map_option (\<lambda>t. base + t) (parse_time r5)))))))"

text \<open>\<open>new Date(v)\<close> on a JSON value; \<^const>\<open>None\<close> is an invalid date.\<close>

fun js_new_date :: "jsval \<Rightarrow> int option" where
  "js_new_date (JStr s) = js_date_parse s"
| "js_new_date (JNum r) = Some (if r < 0 then \<lceil>r\<rceil> else \<lfloor>r\<rfloor>)"
| "js_new_date JNull = Some 0"
| "js_new_date (JBool b) = Some (if b then 1 else 0)"
| "js_new_date _ = None"

end
