(* ===== verification/Events.thy ===== *)
theory Events
  imports JsDate
begin

text \<open>
  The event catalogue of \<open>packages/shared/src/types/events.ts\<close>: the event types, one record per
  payload interface, and the JSON object a payload is written as.  A field the handlers copy
  from an unchecked request stays a JSON value; an optional field is \<open>undefined\<close> or an option.
\<close>

datatype CsmsEventType =
  StationOnline | StationOffline | TransactionStarted | TransactionStopped | MeterValueUpdate
| ConnectorStatusChanged | FaultRaised | FaultCleared | FirmwareStatusChanged | OcppCommandResultReceived

fun event_type_text :: "CsmsEventType \<Rightarrow> string" where
  "event_type_text StationOnline = ''StationOnline''"
| "event_type_text StationOffline = ''StationOffline''"
| "event_type_text TransactionStarted = ''TransactionStarted''"
| "event_type_text TransactionStopped = ''TransactionStopped''"
| "event_type_text MeterValueUpdate = ''MeterValueUpdate''"
| "event_type_text ConnectorStatusChanged = ''ConnectorStatusChanged''"
| "event_type_text FaultRaised = ''FaultRaised''"
| "event_type_text FaultCleared = ''FaultCleared''"
| "event_type_text FirmwareStatusChanged = ''FirmwareStatusChanged''"
| "event_type_text OcppCommandResultReceived = ''OcppCommandResultReceived''"

record StationOnlinePayload =
  son_stationId :: string
  son_chargePointVendor :: jsval
  son_chargePointModel :: jsval
  son_firmwareVersion :: jsval

record StationOfflinePayload =
  soff_stationId :: string
  soff_reason :: string

record TransactionStartedPayload =
  tst_transactionId :: int
  tst_sessionId :: string
  tst_stationId :: string
  tst_connectorId :: int
  tst_idTag :: "string option"
  tst_meterStart :: int
  tst_timeStart :: string
  tst_unitPriceVnd :: "int option"
  tst_marginRate :: "string option"
  tst_settlementSchedule :: "string option"
  tst_settlementDay :: "int option"
  tst_settlementDayOfWeek :: "int option"
  tst_siteId :: "int option"

record TransactionStoppedPayload =
  tsp_transactionId :: int
  tsp_sessionId :: string
  tsp_stationId :: string
  tsp_meterStart :: int
  tsp_meterStop :: int
  tsp_totalKwh :: rat
  tsp_costVnd :: "int option"
  tsp_unitPriceVnd :: "int option"
  tsp_timeStart :: string
  tsp_timeEnd :: string
  tsp_reason :: "string option"

record MeterValueUpdatePayload =
  mvu_transactionId :: int
  mvu_sessionId :: string
  mvu_stationId :: string
  mvu_currentKwh :: "rat option"
  mvu_currentW :: "rat option"

record ConnectorStatusChangedPayload =
  csc_stationId :: string
  csc_connectorId :: int
  csc_status :: jsval
  csc_errorCode :: "string option"

record FaultRaisedPayload =
  fr_stationId :: string
  fr_connectorId :: int
  fr_errorCode :: string
  fr_info :: "string option"

record FaultClearedPayload =
  fc_stationId :: string
  fc_connectorId :: int

record FirmwareStatusChangedPayload =
  fsc_stationId :: string
  fsc_status :: string

record OcppCommandResultReceivedPayload =
  ocr_stationId :: string
  ocr_messageId :: string
  ocr_action :: string
  ocr_status :: string
  ocr_responsePayload :: jsval

text \<open>The payload of an event, by the interface it implements (\<open>CsmsEventPayloadMap\<close>).\<close>

datatype csms_payload =
  StationOnlineP StationOnlinePayload
| StationOfflineP StationOfflinePayload
| TransactionStartedP TransactionStartedPayload
| TransactionStoppedP TransactionStoppedPayload
| MeterValueUpdateP MeterValueUpdatePayload
| ConnectorStatusChangedP ConnectorStatusChangedPayload
| FaultRaisedP FaultRaisedPayload
| FaultClearedP FaultClearedPayload
| FirmwareStatusChangedP FirmwareStatusChangedPayload
| OcppCommandResultReceivedP OcppCommandResultReceivedPayload

fun payload_type :: "csms_payload \<Rightarrow> CsmsEventType" where
  "payload_type (StationOnlineP _) = StationOnline"
| "payload_type (StationOfflineP _) = StationOffline"
| "payload_type (TransactionStartedP _) = TransactionStarted"
| "payload_type (TransactionStoppedP _) = TransactionStopped"
| "payload_type (MeterValueUpdateP _) = MeterValueUpdate"
| "payload_type (ConnectorStatusChangedP _) = ConnectorStatusChanged"
| "payload_type (FaultRaisedP _) = FaultRaised"
| "payload_type (FaultClearedP _) = FaultCleared"
| "payload_type (FirmwareStatusChangedP _) = FirmwareStatusChanged"
| "payload_type (OcppCommandResultReceivedP _) = OcppCommandResultReceived"

definition js_int :: "int \<Rightarrow> jsval" where
  "js_int i = JNum (of_int i)"

fun payload_json :: "csms_payload \<Rightarrow> jsval" where
  "payload_json (StationOnlineP p) = JObj
     [(''stationId'', JStr (son_stationId p)), (''chargePointVendor'', son_chargePointVendor p),
      (''chargePointModel'', son_chargePointModel p), (''firmwareVersion'', son_firmwareVersion p)]"
| "payload_json (StationOfflineP p) = JObj
     [(''stationId'', JStr (soff_stationId p)), (''reason'', JStr (soff_reason p))]"
| "payload_json (TransactionStartedP p) = JObj
     [(''transactionId'', js_int (tst_transactionId p)), (''sessionId'', JStr (tst_sessionId p)),
      (''stationId'', JStr (tst_stationId p)), (''connectorId'', js_int (tst_connectorId p)),
      (''idTag'', js_opt_str (tst_idTag p)), (''meterStart'', js_int (tst_meterStart p)),
      (''timeStart'', JStr (tst_timeStart p)), (''unitPriceVnd'', js_opt_int (tst_unitPriceVnd p)),
      (''marginRate'', js_opt_str (tst_marginRate p)), (''settlementSchedule'', js_opt_str (tst_settlementSchedule p)),
      (''settlementDay'', js_opt_int (tst_settlementDay p)), (''settlementDayOfWeek'', js_opt_int (tst_settlementDayOfWeek p)),
      (''siteId'', js_opt_int (tst_siteId p))]"
| "payload_json (TransactionStoppedP p) = JObj
     [(''transactionId'', js_int (tsp_transactionId p)), (''sessionId'', JStr (tsp_sessionId p)),
      (''stationId'', JStr (tsp_stationId p)), (''meterStart'', js_int (tsp_meterStart p)),
      (''meterStop'', js_int (tsp_meterStop p)), (''totalKwh'', JNum (tsp_totalKwh p)),
      (''costVnd'', js_opt_int (tsp_costVnd p)), (''unitPriceVnd'', js_opt_int (tsp_unitPriceVnd p)),
      (''timeStart'', JStr (tsp_timeStart p)), (''timeEnd'', JStr (tsp_timeEnd p)), (''reason'', js_opt_str (tsp_reason p))]"
| "payload_json (MeterValueUpdateP p) = JObj
     [(''transactionId'', js_int (mvu_transactionId p)), (''sessionId'', JStr (mvu_sessionId p)),
      (''stationId'', JStr (mvu_stationId p)), (''currentKwh'', js_opt_num (mvu_currentKwh p)),
      (''currentW'', js_opt_num (mvu_currentW p))]"
| "payload_json (ConnectorStatusChangedP p) = JObj
     [(''stationId'', JStr (csc_stationId p)), (''connectorId'', js_int (csc_connectorId p)),
      (''status'', csc_status p), (''errorCode'', js_opt_str (csc_errorCode p))]"
| "payload_json (FaultRaisedP p) = JObj
     [(''stationId'', JStr (fr_stationId p)), (''connectorId'', js_int (fr_connectorId p)),
      (''errorCode'', JStr (fr_errorCode p)), (''info'', js_opt_str (fr_info p))]"
| "payload_json (FaultClearedP p) = JObj
     [(''stationId'', JStr (fc_stationId p)), (''connectorId'', js_int (fc_connectorId p))]"
| "payload_json (FirmwareStatusChangedP p) = JObj
     [(''stationId'', JStr (fsc_stationId p)), (''status'', JStr (fsc_status p))]"
| "payload_json (OcppCommandResultReceivedP p) = JObj
     [(''stationId'', JStr (ocr_stationId p)), (''messageId'', JStr (ocr_messageId p)),
      (''action'', JStr (ocr_action p)), (''status'', JStr (ocr_status p)),
      (''responsePayload'', ocr_responsePayload p)]"

end
