(* ===== verification/Errors.thy ===== *)
theory Errors
  imports JsValue
begin

text \<open>
  The errors a request can raise (\<open>packages/shared/src/errors\<close>).  A \<open>throw\<close> is a value of
  \<open>js_error\<close>: a plain \<open>Error\<close> with its message, an \<open>AppError\<close> of one of the listed classes,
  a failed validation of a request
  (\<open>ZodError\<close> with its first message), an error of the database client, of Redis or of the file system.  Korean message literals are given
  in English; status, code and message key are the source's.
\<close>

datatype app_error_class =
  BadRequestErr | UnauthorizedErr | ForbiddenErr | NotFoundErr | ConflictErr | UnprocessableErr
| InternalErr | EmptySettlementErr | BankingErr | InternalApiErr

record app_error =
  ae_class :: app_error_class
  ae_message :: string
  ae_statusCode :: int
  ae_code :: string
  ae_messageKey :: "string option"

section \<open>The AppError subclasses\<close>

definition BadRequestError :: "string \<Rightarrow> string \<Rightarrow> app_error" where
  "BadRequestError msg key = \<lparr>ae_class = BadRequestErr, ae_message = msg, ae_statusCode = 400,
     ae_code = ''BAD_REQUEST'', ae_messageKey = Some key\<rparr>"

definition UnauthorizedError :: "string \<Rightarrow> string \<Rightarrow> app_error" where
  "UnauthorizedError msg key = \<lparr>ae_class = UnauthorizedErr, ae_message = msg, ae_statusCode = 401,
     ae_code = ''UNAUTHORIZED'', ae_messageKey = Some key\<rparr>"

definition ForbiddenError :: "string \<Rightarrow> string \<Rightarrow> app_error" where
  "ForbiddenError msg key = \<lparr>ae_class = ForbiddenErr, ae_message = msg, ae_statusCode = 403,
     ae_code = ''FORBIDDEN'', ae_messageKey = Some key\<rparr>"

definition NotFoundError :: "string \<Rightarrow> string \<Rightarrow> app_error" where
  "NotFoundError msg key = \<lparr>ae_class = NotFoundErr, ae_message = msg, ae_statusCode = 404,
     ae_code = ''NOT_FOUND'', ae_messageKey = Some key\<rparr>"

definition ConflictError :: "string \<Rightarrow> string \<Rightarrow> app_error" where
  "ConflictError msg key = \<lparr>ae_class = ConflictErr, ae_message = msg, ae_statusCode = 409,
     ae_code = ''CONFLICT'', ae_messageKey = Some key\<rparr>"

definition UnprocessableError :: "string \<Rightarrow> string option \<Rightarrow> app_error" where
  "UnprocessableError msg key = \<lparr>ae_class = UnprocessableErr, ae_message = msg, ae_statusCode = 422,
     ae_code = ''UNPROCESSABLE'', ae_messageKey = key\<rparr>"

definition InternalError :: "string \<Rightarrow> string \<Rightarrow> app_error" where
  "InternalError msg key = \<lparr>ae_class = InternalErr, ae_message = msg, ae_statusCode = 500,
     ae_code = ''INTERNAL_ERROR'', ae_messageKey = Some key\<rparr>"

definition EmptySettlementError :: "string \<Rightarrow> app_error" where
  "EmptySettlementError key = \<lparr>ae_class = EmptySettlementErr, ae_message = ''nothing to settle'', ae_statusCode = 400,
     ae_code = ''EMPTY_SETTLEMENT'', ae_messageKey = Some key\<rparr>"

definition BankingError :: "string \<Rightarrow> string \<Rightarrow> app_error" where
  "BankingError msg key = \<lparr>ae_class = BankingErr, ae_message = msg, ae_statusCode = 502,
     ae_code = ''BANKING_ERROR'', ae_messageKey = Some key\<rparr>"

text \<open>The default message key of a subclass that has one.\<close>

abbreviation not_found_default :: "string \<Rightarrow> app_error" where
  "not_found_default msg \<equiv> NotFoundError msg ''error:notFound''"

abbreviation conflict_default :: "string \<Rightarrow> app_error" where
  "conflict_default msg \<equiv> ConflictError msg ''error:conflict''"

section \<open>InternalApiErrors\<close>

datatype InternalApiErrorCode =
  STATION_NOT_FOUND | STATION_OFFLINE | OCPP_TIMEOUT | OCPP_REJECTED | DUPLICATE_REQUEST
| UNAUTHORIZED | BAD_REQUEST | NOT_FOUND | CONFLICT | INTERNAL_ERROR

fun code_text :: "InternalApiErrorCode \<Rightarrow> string" where
  "code_text STATION_NOT_FOUND = ''STATION_NOT_FOUND''"
| "code_text STATION_OFFLINE = ''STATION_OFFLINE''"
| "code_text OCPP_TIMEOUT = ''OCPP_TIMEOUT''"
| "code_text OCPP_REJECTED = ''OCPP_REJECTED''"
| "code_text DUPLICATE_REQUEST = ''DUPLICATE_REQUEST''"
| "code_text UNAUTHORIZED = ''UNAUTHORIZED''"
| "code_text BAD_REQUEST = ''BAD_REQUEST''"
| "code_text NOT_FOUND = ''NOT_FOUND''"
| "code_text CONFLICT = ''CONFLICT''"
| "code_text INTERNAL_ERROR = ''INTERNAL_ERROR''"

definition InternalApiError :: "InternalApiErrorCode \<Rightarrow> int \<Rightarrow> string \<Rightarrow> app_error" where
  "InternalApiError code httpStatus message = \<lparr>ae_class = InternalApiErr, ae_message = message,
     ae_statusCode = httpStatus, ae_code = code_text code, ae_messageKey = None\<rparr>"

text \<open>The single quote of the message templates.\<close>

abbreviation sq :: string where
  "sq \<equiv> [CHR 0x27]"

definition api_stationNotFound :: "string \<Rightarrow> app_error" where
  "api_stationNotFound stationId =
     InternalApiError STATION_NOT_FOUND 404 (''Station '' @ sq @ stationId @ sq @ '' not found'')"

definition api_stationOffline :: "string \<Rightarrow> app_error" where
  "api_stationOffline stationId =
     InternalApiError STATION_OFFLINE 422 (''Station '' @ sq @ stationId @ sq @ '' is offline'')"

definition api_ocppTimeout :: "string \<Rightarrow> string \<Rightarrow> app_error" where
  "api_ocppTimeout stationId action =
     InternalApiError OCPP_TIMEOUT 504
       (''OCPP command '' @ sq @ action @ sq @ '' timed out for station '' @ sq @ stationId @ sq)"

definition api_ocppRejected :: "string \<Rightarrow> string \<Rightarrow> app_error" where
  "api_ocppRejected stationId action =
     InternalApiError OCPP_REJECTED 422
       (''OCPP command '' @ sq @ action @ sq @ '' was rejected by station '' @ sq @ stationId @ sq)"

definition api_duplicateRequest :: "string \<Rightarrow> app_error" where
  "api_duplicateRequest idempotencyKey =
     InternalApiError DUPLICATE_REQUEST 409
       (''Request with Idempotency-Key '' @ sq @ idempotencyKey @ sq @ '' is already being processed'')"

definition api_unauthorized :: "string \<Rightarrow> app_error" where
  "api_unauthorized reason = InternalApiError UNAUTHORIZED 401 reason"

definition api_badRequest :: "string \<Rightarrow> app_error" where
  "api_badRequest message = InternalApiError BAD_REQUEST 400 message"

definition api_notFound :: "string \<Rightarrow> app_error" where
  "api_notFound message = InternalApiError NOT_FOUND 404 message"

definition api_conflict :: "string \<Rightarrow> app_error" where
  "api_conflict message = InternalApiError CONFLICT 409 message"

definition api_internalError :: "string \<Rightarrow> app_error" where
  "api_internalError message = InternalApiError INTERNAL_ERROR 500 message"

section \<open>Thrown values\<close>

text \<open>The ways a database call fails.\<close>

datatype prisma_error =
  UniqueViolation | ForeignKeyViolation | RecordNotFound | ValueTooLong | ArgumentInvalid | ConnectionLost

datatype js_error =
  PlainError string
| AppErr app_error
| PrismaErr prisma_error
| ZodErr string
| RedisErr
| FsErr

text \<open>The errors after which a PostgreSQL transaction is aborted.\<close>

fun aborts_sql :: "prisma_error \<Rightarrow> bool" where
  "aborts_sql RecordNotFound = False"
| "aborts_sql ArgumentInvalid = False"
| "aborts_sql _ = True"

end
