(* ===== verification/Database.thy ===== *)
theory Database
  imports Events Errors
begin

text \<open>
  The tables of \<open>prisma/schema.prisma\<close> that the core server uses, one record per model, with the
  columns the code reads or writes, and the calls of the database client the code makes on them.
  A table is the list of its rows in insertion order; a query without \<open>orderBy\<close> returns rows in
  that order.  A call enforces what the schema declares: primary and unique keys, foreign keys,
  \<open>VarChar\<close> lengths and the 32-bit range of \<open>Int\<close> columns.
\<close>

section \<open>Enumerations\<close>

datatype StationStatus = StOnline | StOffline | StFaulted | StInspecting | StCommunicationFault | StUnknown
datatype ConnectorStatus =
  CoAvailable | CoPreparing | CoCharging | CoSuspendedEVSE | CoSuspendedEV | CoFinishing
| CoReserved | CoUnavailable | CoFaulted
datatype IdTokenType =
  ItCentral | ItEMAID | ItISO14443 | ItISO15693 | ItKeyCode | ItLocal | ItMacAddress | ItNoAuthorization
datatype IdTokenStatus = IdAccepted | IdBlocked | IdExpired | IdInvalid | IdConcurrentTx
datatype TransactionStatus = TxPending | TxActive | TxStopped | TxFailed
datatype GoalType = GTime | GKwh | GAmount | GFree
datatype OcppCommandStatus = CmdPending | CmdCompleted | CmdError | CmdTimeout
datatype DiagnosticsStatus = DgIdle | DgUploading | DgUploaded | DgUploadFailed
datatype FirmwareCampaignStatus = FcRunning | FcCompleted | FcCancelled
datatype FirmwareCampaignProgressStatus =
  FpQueued | FpSent | FpDownloading | FpDownloaded | FpInstalling | FpInstalled | FpFailed | FpSendError
datatype FaultType = FtConnectorFault | FtCommunicationError | FtPowerFault | FtOther
datatype FaultStatus = FsReceived | FsInProgress | FsResolved
datatype ProvisioningStatus = PvRegistered | PvProvisioned | PvRejected | PvRevoked
datatype ChargerConfigStatus = CcNormal | CcError

section \<open>Rows\<close>

record ChargingStation =
  st_id :: string
  st_modelName :: "string option"
  st_vendorName :: "string option"
  st_manufacturer :: "string option"
  st_firmwareVersion :: "string option"
  st_chargingKwh :: rat
  st_firmwareStatus :: "string option"
  st_diagnosticsStatus :: "string option"
  st_serialNumber :: "string option"
  st_passwordHash :: "string option"
  st_status :: StationStatus
  st_lastHeartbeatAt :: "int option"
  st_siteId :: "int option"

record Connector =
  co_stationId :: string
  co_connectorId :: int
  co_currentStatus :: ConnectorStatus
  co_errorCode :: "string option"
  co_info :: "string option"
  co_vendorId :: "string option"
  co_vendorErrorCode :: "string option"
  co_statusTimestamp :: "int option"

record IdToken =
  it_idTag :: string
  it_type :: IdTokenType
  it_status :: IdTokenStatus
  it_expiryDate :: "int option"
  it_userId :: "int option"

record Transaction =
  tx_id :: int
  tx_sessionId :: string
  tx_ocppTransactionId :: "int option"
  tx_stationId :: string
  tx_connectorId :: int
  tx_idTag :: "string option"
  tx_goalType :: "GoalType option"
  tx_goalValue :: "rat option"
  tx_status :: TransactionStatus
  tx_meterStart :: int
  tx_meterEnd :: "int option"
  tx_timeStart :: int
  tx_timeEnd :: "int option"
  tx_costVnd :: "int option"
  tx_failReason :: "string option"
  tx_unitPriceVnd :: "int option"
  tx_marginRate :: "rat option"
  tx_settlementSchedule :: "string option"
  tx_settlementDay :: "int option"
  tx_settlementDayOfWeek :: "int option"

record MeterValue =
  mv_transactionId :: int
  mv_timestamp :: int
  mv_measurand :: string
  mv_value :: rat
  mv_unit :: "string option"
  mv_phase :: "string option"
  mv_context :: "string option"
  mv_format :: "string option"
  mv_location :: "string option"

record OcppMessageRow =
  om_stationId :: string
  om_messageId :: string
  om_direction :: int
  om_inbound :: bool
  om_action :: "string option"
  om_payload :: string
  om_createdAt :: int

record OcppCommandResult =
  cr_id :: int
  cr_messageId :: string
  cr_stationId :: "string option"
  cr_action :: string
  cr_status :: OcppCommandStatus
  cr_requestPayload :: jsval
  cr_responsePayload :: "jsval option"
  cr_errorCode :: "string option"
  cr_errorDescription :: "string option"
  cr_requestedBy :: "string option"
  cr_sentAt :: int
  cr_receivedAt :: "int option"

record DiagnosticsRequest =
  dr_id :: int
  dr_messageId :: string
  dr_stationId :: string
  dr_status :: DiagnosticsStatus
  dr_fileName :: "string option"
  dr_uploadLocation :: "string option"
  dr_startTime :: "int option"
  dr_stopTime :: "int option"
  dr_retries :: "int option"
  dr_retryInterval :: "int option"
  dr_requestedBy :: "string option"
  dr_requestedAt :: int
  dr_completedAt :: "int option"

record Firmware =
  fw_id :: int
  fw_filename :: string
  fw_originalName :: string
  fw_version :: string
  fw_chargerModel :: "string option"
  fw_chargerVendor :: "string option"
  fw_fileSize :: int
  fw_sha256 :: string
  fw_uploadedBy :: string
  fw_isActive :: bool
  fw_notes :: "string option"

record FirmwareCampaign =
  ca_id :: int
  ca_firmwareId :: int
  ca_status :: FirmwareCampaignStatus
  ca_startedBy :: string
  ca_notes :: "string option"
  ca_completedAt :: "int option"

record FirmwareCampaignProgress =
  fp_id :: int
  fp_campaignId :: int
  fp_stationId :: "string option"
  fp_status :: FirmwareCampaignProgressStatus
  fp_startedAt :: "int option"
  fp_completedAt :: "int option"
  fp_error :: "string option"
  fp_updatedAt :: int

record FaultLog =
  fl_id :: int
  fl_stationId :: string
  fl_faultType :: FaultType
  fl_description :: "string option"
  fl_resolvedAt :: "int option"
  fl_reportedBy :: "string option"
  fl_status :: FaultStatus
  fl_createdAt :: int

record OfflineLog =
  ol_stationId :: string
  ol_siteId :: "int option"
  ol_partnerId :: "int option"
  ol_status :: StationStatus
  ol_loggedAt :: int

record Manufacturer =
  ma_id :: int
  ma_channelId :: string
  ma_name :: string
  ma_tokenHash :: string
  ma_isActive :: bool

record ChargerProvisioning =
  pv_id :: int
  pv_serialNumber :: string
  pv_modelName :: "string option"
  pv_clientId :: "string option"
  pv_stationId :: "string option"
  pv_status :: ProvisioningStatus
  pv_registeredBy :: "string option"
  pv_provisionedAt :: "int option"
  pv_rejectReason :: "string option"
  pv_manufacturerId :: "int option"
  pv_chargingKwh :: rat

record ChargerConfig =
  cc_id :: int
  cc_stationId :: string
  cc_key :: string
  cc_value :: "string option"
  cc_status :: ChargerConfigStatus
  cc_errorDesc :: "string option"

record OutboxEvent =
  ob_id :: int
  ob_eventId :: string
  ob_eventType :: CsmsEventType
  ob_aggregateType :: "string option"
  ob_aggregateId :: "string option"
  ob_payload :: csms_payload
  ob_occurredAt :: int
  ob_publishedAt :: "int option"
  ob_attempts :: nat
  ob_lastError :: "string option"

text \<open>The tables with an autoincremented key the code uses.\<close>

datatype table =
  TTransaction | TCommand | TDiagnostics | TFirmware | TCampaign | TProgress | TFaultLog
| TManufacturer | TProvisioning | TConfig | TOutbox

record db =
  stations :: "ChargingStation list"
  connectors :: "Connector list"
  idTokens :: "IdToken list"
  transactions :: "Transaction list"
  meterValues :: "MeterValue list"
  ocppMessages :: "OcppMessageRow list"
  commandResults :: "OcppCommandResult list"
  diagnostics :: "DiagnosticsRequest list"
  firmwares :: "Firmware list"
  campaigns :: "FirmwareCampaign list"
  progresses :: "FirmwareCampaignProgress list"
  faultLogs :: "FaultLog list"
  offlineLogs :: "OfflineLog list"
  manufacturers :: "Manufacturer list"
  provisionings :: "ChargerProvisioning list"
  configs :: "ChargerConfig list"
  outbox :: "OutboxEvent list"
  stationSeq :: "int option"
  seqs :: "table \<Rightarrow> int"

definition empty_db :: db where
  "empty_db = \<lparr>stations = [], connectors = [], idTokens = [], transactions = [], meterValues = [],
     ocppMessages = [], commandResults = [], diagnostics = [], firmwares = [], campaigns = [],
     progresses = [], faultLogs = [], offlineLogs = [], manufacturers = [], provisionings = [],
     configs = [], outbox = [], stationSeq = None, seqs = (\<lambda>_. 0)\<rparr>"

section \<open>Column constraints\<close>

definition fits :: "nat \<Rightarrow> string \<Rightarrow> bool" where
  "fits n s \<longleftrightarrow> length s \<le> n"

definition fits_opt :: "nat \<Rightarrow> string option \<Rightarrow> bool" where
  "fits_opt n s \<longleftrightarrow> (case s of None \<Rightarrow> True | Some t \<Rightarrow> length t \<le> n)"

definition int32 :: "int \<Rightarrow> bool" where
  "int32 i \<longleftrightarrow> - (2 ^ 31) \<le> i \<and> i < 2 ^ 31"

definition int32_opt :: "int option \<Rightarrow> bool" where
  "int32_opt i \<longleftrightarrow> (case i of None \<Rightarrow> True | Some j \<Rightarrow> int32 j)"

definition station_ok :: "ChargingStation \<Rightarrow> bool" where
  "station_ok r \<longleftrightarrow> fits 50 (st_id r) \<and> fits_opt 100 (st_modelName r) \<and> fits_opt 100 (st_vendorName r)
     \<and> fits_opt 100 (st_manufacturer r) \<and> fits_opt 50 (st_firmwareVersion r) \<and> fits_opt 30 (st_firmwareStatus r)
     \<and> fits_opt 30 (st_diagnosticsStatus r) \<and> fits_opt 100 (st_serialNumber r) \<and> fits_opt 255 (st_passwordHash r)
     \<and> int32_opt (st_siteId r)"

definition connector_ok :: "Connector \<Rightarrow> bool" where
  "connector_ok r \<longleftrightarrow> int32 (co_connectorId r) \<and> fits_opt 50 (co_errorCode r) \<and> fits_opt 255 (co_info r)
     \<and> fits_opt 255 (co_vendorId r) \<and> fits_opt 50 (co_vendorErrorCode r)"

definition transaction_ok :: "Transaction \<Rightarrow> bool" where
  "transaction_ok r \<longleftrightarrow> fits 100 (tx_sessionId r) \<and> int32_opt (tx_ocppTransactionId r) \<and> int32 (tx_connectorId r)
     \<and> fits_opt 50 (tx_idTag r) \<and> int32 (tx_meterStart r) \<and> int32_opt (tx_meterEnd r)
     \<and> int32_opt (tx_costVnd r) \<and> fits_opt 255 (tx_failReason r) \<and> int32_opt (tx_unitPriceVnd r)"

definition meterValue_ok :: "MeterValue \<Rightarrow> bool" where
  "meterValue_ok r \<longleftrightarrow> fits 100 (mv_measurand r) \<and> \<bar>mv_value r\<bar> < 10 ^ 8 \<and> fits_opt 20 (mv_unit r)
     \<and> fits_opt 10 (mv_phase r) \<and> fits_opt 30 (mv_context r) \<and> fits_opt 20 (mv_format r) \<and> fits_opt 20 (mv_location r)"

definition ocppMessage_ok :: "OcppMessageRow \<Rightarrow> bool" where
  "ocppMessage_ok r \<longleftrightarrow> fits 100 (om_messageId r) \<and> fits_opt 50 (om_action r)"

definition command_ok :: "OcppCommandResult \<Rightarrow> bool" where
  "command_ok r \<longleftrightarrow> fits 50 (cr_messageId r) \<and> fits 50 (cr_action r) \<and> fits_opt 50 (cr_errorCode r)
     \<and> fits_opt 500 (cr_errorDescription r) \<and> fits_opt 150 (cr_requestedBy r)"

definition diagnostics_ok :: "DiagnosticsRequest \<Rightarrow> bool" where
  "diagnostics_ok r \<longleftrightarrow> fits 50 (dr_messageId r) \<and> fits_opt 255 (dr_fileName r) \<and> fits_opt 500 (dr_uploadLocation r)
     \<and> int32_opt (dr_retries r) \<and> int32_opt (dr_retryInterval r) \<and> fits_opt 150 (dr_requestedBy r)"

definition firmware_ok :: "Firmware \<Rightarrow> bool" where
  "firmware_ok r \<longleftrightarrow> fits 255 (fw_filename r) \<and> fits 255 (fw_originalName r) \<and> fits 50 (fw_version r)
     \<and> fits_opt 100 (fw_chargerModel r) \<and> fits_opt 100 (fw_chargerVendor r) \<and> int32 (fw_fileSize r)
     \<and> fits 64 (fw_sha256 r) \<and> fits 150 (fw_uploadedBy r)"

definition campaign_ok :: "FirmwareCampaign \<Rightarrow> bool" where
  "campaign_ok r \<longleftrightarrow> fits 150 (ca_startedBy r)"

definition progress_ok :: "FirmwareCampaignProgress \<Rightarrow> bool" where
  "progress_ok r \<longleftrightarrow> fits_opt 500 (fp_error r)"

definition faultLog_ok :: "FaultLog \<Rightarrow> bool" where
  "faultLog_ok r \<longleftrightarrow> fits_opt 150 (fl_reportedBy r)"

definition manufacturer_ok :: "Manufacturer \<Rightarrow> bool" where
  "manufacturer_ok r \<longleftrightarrow> fits 50 (ma_channelId r) \<and> fits 100 (ma_name r) \<and> fits 255 (ma_tokenHash r)"

definition provisioning_ok :: "ChargerProvisioning \<Rightarrow> bool" where
  "provisioning_ok r \<longleftrightarrow> fits 100 (pv_serialNumber r) \<and> fits_opt 100 (pv_modelName r) \<and> fits_opt 50 (pv_clientId r)
     \<and> fits_opt 50 (pv_stationId r) \<and> fits_opt 150 (pv_registeredBy r) \<and> fits_opt 255 (pv_rejectReason r)
     \<and> \<bar>pv_chargingKwh r\<bar> < 10 ^ 4"

definition config_ok :: "ChargerConfig \<Rightarrow> bool" where
  "config_ok r \<longleftrightarrow> fits 50 (cc_stationId r) \<and> fits 100 (cc_key r) \<and> fits_opt 255 (cc_errorDesc r)"

text \<open>A \<open>Decimal(_, k)\<close> column rounds half away from zero to \<open>k\<close> places.\<close>

definition decimal_round :: "nat \<Rightarrow> rat \<Rightarrow> rat" where
  "decimal_round k x = sgn x * of_int \<lfloor>\<bar>x\<bar> * 10 ^ k + 1 / 2\<rfloor> / 10 ^ k"

end
