(* ===== verification/Store.thy ===== *)
theory Store
  imports Database
begin

text \<open>
  The calls of the database client, as total functions from a database to an error or a result
  with the new database: \<open>create\<close>, \<open>update\<close>, \<open>updateMany\<close>, \<open>upsert\<close>, \<open>delete\<close>, \<open>deleteMany\<close> on the
  rows of one table, lifted to the table, with the foreign keys of the table as guards.
  \<open>update\<close> and \<open>delete\<close> fail with \<open>RecordNotFound\<close> (P2025) where no row matches;
  \<open>updateMany\<close> and \<open>deleteMany\<close> return a count.
\<close>

section \<open>Rows of one table\<close>

definition insert_row :: "('r \<Rightarrow> bool) \<Rightarrow> ('r \<Rightarrow> 'r \<Rightarrow> bool) \<Rightarrow> 'r \<Rightarrow> 'r list \<Rightarrow> prisma_error + 'r \<times> 'r list" where
  "insert_row ok clash r rows =
     (if \<not> ok r then Inl ValueTooLong
      else if list_ex (\<lambda>q. clash q r) rows then Inl UniqueViolation
      else Inr (r, rows @ [r]))"

definition insert_rows :: "('r \<Rightarrow> bool) \<Rightarrow> 'r list \<Rightarrow> 'r list \<Rightarrow> prisma_error + nat \<times> 'r list" where
  "insert_rows ok rs rows =
     (if list_all ok rs then Inr (length rs, rows @ rs) else Inl ValueTooLong)"

definition update_row :: "('r \<Rightarrow> bool) \<Rightarrow> ('r \<Rightarrow> bool) \<Rightarrow> ('r \<Rightarrow> 'r) \<Rightarrow> 'r list \<Rightarrow> prisma_error + 'r \<times> 'r list" where
  "update_row ok P f rows =
     (case List.find P rows of
        None \<Rightarrow> Inl RecordNotFound
      | Some r \<Rightarrow> if ok (f r) then Inr (f r, update_where P f rows) else Inl ValueTooLong)"

definition update_rows :: "('r \<Rightarrow> bool) \<Rightarrow> ('r \<Rightarrow> bool) \<Rightarrow> ('r \<Rightarrow> 'r) \<Rightarrow> 'r list \<Rightarrow> prisma_error + nat \<times> 'r list" where
  "update_rows ok P f rows =
     (if list_all (\<lambda>r. P r \<longrightarrow> ok (f r)) rows then Inr (length (filter P rows), update_where P f rows)
      else Inl ValueTooLong)"

definition upsert_row ::
  "('r \<Rightarrow> bool) \<Rightarrow> ('r \<Rightarrow> 'r \<Rightarrow> bool) \<Rightarrow> ('r \<Rightarrow> bool) \<Rightarrow> ('r \<Rightarrow> 'r) \<Rightarrow> 'r \<Rightarrow> 'r list \<Rightarrow> prisma_error + 'r \<times> 'r list" where
  "upsert_row ok clash P f r rows =
     (case List.find P rows of
        None \<Rightarrow> insert_row ok clash r rows
      | Some _ \<Rightarrow> update_row ok P f rows)"

definition delete_row :: "('r \<Rightarrow> bool) \<Rightarrow> 'r list \<Rightarrow> prisma_error + 'r \<times> 'r list" where
  "delete_row P rows =
     (case List.find P rows of
        None \<Rightarrow> Inl RecordNotFound
      | Some r \<Rightarrow> Inr (r, filter (\<lambda>q. \<not> P q) rows))"

definition delete_rows :: "('r \<Rightarrow> bool) \<Rightarrow> 'r list \<Rightarrow> prisma_error + nat \<times> 'r list" where
  "delete_rows P rows = Inr (length (filter P rows), filter (\<lambda>q. \<not> P q) rows)"

lemma insert_row_Inr:
  "insert_row ok clash r rows = Inr (x, rows') \<longleftrightarrow>
     ok r \<and> (\<forall>q \<in> set rows. \<not> clash q r) \<and> x = r \<and> rows' = rows @ [r]"
  by (auto simp: insert_row_def list_ex_iff)

lemma insert_rows_Inr:
  "insert_rows ok rs rows = Inr (x, rows') \<longleftrightarrow> (\<forall>r \<in> set rs. ok r) \<and> x = length rs \<and> rows' = rows @ rs"
  by (auto simp: insert_rows_def list_all_iff)

lemma update_row_Inr:
  "update_row ok P f rows = Inr (x, rows') \<longleftrightarrow>
     (\<exists>r. List.find P rows = Some r \<and> ok (f r) \<and> x = f r) \<and> rows' = update_where P f rows"
  by (auto simp: update_row_def split: option.splits)

lemma update_rows_Inr:
  "update_rows ok P f rows = Inr (x, rows') \<longleftrightarrow>
     (\<forall>r \<in> set rows. P r \<longrightarrow> ok (f r)) \<and> x = length (filter P rows) \<and> rows' = update_where P f rows"
  by (auto simp: update_rows_def list_all_iff)

lemma upsert_row_Inr:
  "upsert_row ok clash P f r rows = Inr (x, rows') \<longleftrightarrow>
     (List.find P rows = None \<and> insert_row ok clash r rows = Inr (x, rows')) \<or>
     (List.find P rows \<noteq> None \<and> update_row ok P f rows = Inr (x, rows'))"
  by (auto simp: upsert_row_def split: option.splits)

lemma delete_row_Inr:
  "delete_row P rows = Inr (x, rows') \<longleftrightarrow> List.find P rows = Some x \<and> rows' = filter (\<lambda>q. \<not> P q) rows"
  by (auto simp: delete_row_def split: option.splits)

lemma delete_rows_Inr:
  "delete_rows P rows = Inr (x, rows') \<longleftrightarrow> x = length (filter P rows) \<and> rows' = filter (\<lambda>q. \<not> P q) rows"
  by (auto simp: delete_rows_def)

lemmas rows_Inr = insert_row_Inr insert_rows_Inr update_row_Inr update_rows_Inr upsert_row_Inr
  delete_row_Inr delete_rows_Inr

section \<open>Tables\<close>

type_synonym 'a db_op = "db \<Rightarrow> prisma_error + 'a \<times> db"

definition lift_rows :: "(db \<Rightarrow> 'r list) \<Rightarrow> ('r list \<Rightarrow> db \<Rightarrow> db) \<Rightarrow>
    ('r list \<Rightarrow> prisma_error + 'a \<times> 'r list) \<Rightarrow> 'a db_op" where
  "lift_rows get put g d = (case g (get d) of Inl e \<Rightarrow> Inl e | Inr (x, rows) \<Rightarrow> Inr (x, put rows d))"

lemma lift_rows_Inr:
  "lift_rows get put g d = Inr (x, d') \<longleftrightarrow> (\<exists>rows. g (get d) = Inr (x, rows) \<and> d' = put rows d)"
  by (auto simp: lift_rows_def split: sum.splits)

definition on_stations where [prog_defs]: "on_stations = lift_rows stations (\<lambda>r d. d\<lparr>stations := r\<rparr>)"
definition on_connectors where [prog_defs]: "on_connectors = lift_rows connectors (\<lambda>r d. d\<lparr>connectors := r\<rparr>)"
definition on_idTokens where [prog_defs]: "on_idTokens = lift_rows idTokens (\<lambda>r d. d\<lparr>idTokens := r\<rparr>)"
definition on_transactions where [prog_defs]: "on_transactions = lift_rows transactions (\<lambda>r d. d\<lparr>transactions := r\<rparr>)"
definition on_meterValues where [prog_defs]: "on_meterValues = lift_rows meterValues (\<lambda>r d. d\<lparr>meterValues := r\<rparr>)"
definition on_ocppMessages where [prog_defs]: "on_ocppMessages = lift_rows ocppMessages (\<lambda>r d. d\<lparr>ocppMessages := r\<rparr>)"
definition on_commandResults where [prog_defs]: "on_commandResults = lift_rows commandResults (\<lambda>r d. d\<lparr>commandResults := r\<rparr>)"
definition on_diagnostics where [prog_defs]: "on_diagnostics = lift_rows diagnostics (\<lambda>r d. d\<lparr>diagnostics := r\<rparr>)"
definition on_firmwares where [prog_defs]: "on_firmwares = lift_rows firmwares (\<lambda>r d. d\<lparr>firmwares := r\<rparr>)"
definition on_campaigns where [prog_defs]: "on_campaigns = lift_rows campaigns (\<lambda>r d. d\<lparr>campaigns := r\<rparr>)"
definition on_progresses where [prog_defs]: "on_progresses = lift_rows progresses (\<lambda>r d. d\<lparr>progresses := r\<rparr>)"
definition on_faultLogs where [prog_defs]: "on_faultLogs = lift_rows faultLogs (\<lambda>r d. d\<lparr>faultLogs := r\<rparr>)"
definition on_offlineLogs where [prog_defs]: "on_offlineLogs = lift_rows offlineLogs (\<lambda>r d. d\<lparr>offlineLogs := r\<rparr>)"
definition on_manufacturers where [prog_defs]: "on_manufacturers = lift_rows manufacturers (\<lambda>r d. d\<lparr>manufacturers := r\<rparr>)"
definition on_provisionings where [prog_defs]: "on_provisionings = lift_rows provisionings (\<lambda>r d. d\<lparr>provisionings := r\<rparr>)"
definition on_configs where [prog_defs]: "on_configs = lift_rows configs (\<lambda>r d. d\<lparr>configs := r\<rparr>)"
definition on_outbox where [prog_defs]: "on_outbox = lift_rows outbox (\<lambda>r d. d\<lparr>outbox := r\<rparr>)"

lemmas on_table_defs = on_stations_def on_connectors_def on_idTokens_def on_transactions_def
  on_meterValues_def on_ocppMessages_def on_commandResults_def on_diagnostics_def on_firmwares_def
  on_campaigns_def on_progresses_def on_faultLogs_def on_offlineLogs_def on_manufacturers_def
  on_provisionings_def on_configs_def on_outbox_def

text \<open>A foreign key, and a row whose key the database assigns.\<close>

definition with_fk :: "(db \<Rightarrow> bool) \<Rightarrow> 'a db_op \<Rightarrow> 'a db_op" where
  "with_fk P g d = (if P d then g d else Inl ForeignKeyViolation)"

definition with_id :: "table \<Rightarrow> (int \<Rightarrow> 'a db_op) \<Rightarrow> 'a db_op" where
  "with_id T g d =
     (let i = seqs d T + 1
      in case g i d of Inl e \<Rightarrow> Inl e | Inr (x, d') \<Rightarrow> Inr (x, d'\<lparr>seqs := (seqs d')(T := i)\<rparr>))"

lemma with_fk_Inr: "with_fk P g d = Inr r \<longleftrightarrow> P d \<and> g d = Inr r"
  by (auto simp: with_fk_def)

lemma with_id_Inr:
  "with_id T g d = Inr (x, d') \<longleftrightarrow>
     (\<exists>d1. g (seqs d T + 1) d = Inr (x, d1) \<and> d' = d1\<lparr>seqs := (seqs d1)(T := seqs d T + 1)\<rparr>)"
  by (auto simp: with_id_def Let_def split: sum.splits)

lemmas op_Inr = with_fk_Inr with_id_Inr on_table_defs lift_rows_Inr rows_Inr

section \<open>Keys\<close>

definition station_exists :: "string \<Rightarrow> db \<Rightarrow> bool" where
  "station_exists i d \<longleftrightarrow> list_ex (\<lambda>r. st_id r = i) (stations d)"

definition station_ref :: "string option \<Rightarrow> db \<Rightarrow> bool" where
  "station_ref i d \<longleftrightarrow> (case i of None \<Rightarrow> True | Some s \<Rightarrow> station_exists s d)"

definition idTag_ref :: "string option \<Rightarrow> db \<Rightarrow> bool" where
  "idTag_ref i d \<longleftrightarrow> (case i of None \<Rightarrow> True | Some s \<Rightarrow> list_ex (\<lambda>r. it_idTag r = s) (idTokens d))"

definition find_station :: "string \<Rightarrow> db \<Rightarrow> ChargingStation option" where
  "find_station i d = List.find (\<lambda>r. st_id r = i) (stations d)"

definition find_connector :: "string \<Rightarrow> int \<Rightarrow> db \<Rightarrow> Connector option" where
  "find_connector s c d = List.find (\<lambda>r. co_stationId r = s \<and> co_connectorId r = c) (connectors d)"

definition find_transaction :: "int \<Rightarrow> db \<Rightarrow> Transaction option" where
  "find_transaction i d = List.find (\<lambda>r. tx_id r = i) (transactions d)"

definition is_open_tx :: "Transaction \<Rightarrow> bool" where
  "is_open_tx t \<longleftrightarrow> tx_status t \<in> {TxActive, TxPending}"

lemma station_exists_find: "station_exists i d \<longleftrightarrow> find_station i d \<noteq> None"
  by (simp add: station_exists_def find_station_def list_ex_iff ex_find)

section \<open>Creating rows\<close>

definition create_station :: "ChargingStation \<Rightarrow> ChargingStation db_op" where
  "create_station r = on_stations (insert_row station_ok (\<lambda>q r. st_id q = st_id r) r)"

definition create_transaction :: "Transaction \<Rightarrow> Transaction db_op" where
  "create_transaction r = with_id TTransaction (\<lambda>i.
     with_fk (\<lambda>d. station_exists (tx_stationId r) d \<and> idTag_ref (tx_idTag r) d)
       (on_transactions (insert_row transaction_ok (\<lambda>q r. tx_id q = tx_id r \<or> tx_sessionId q = tx_sessionId r)
          (r\<lparr>tx_id := i\<rparr>))))"

definition create_outbox :: "OutboxEvent \<Rightarrow> OutboxEvent db_op" where
  "create_outbox r = with_id TOutbox (\<lambda>i.
     on_outbox (insert_row (\<lambda>_. True) (\<lambda>q r. ob_id q = ob_id r \<or> ob_eventId q = ob_eventId r) (r\<lparr>ob_id := i\<rparr>)))"

definition create_meterValues :: "MeterValue list \<Rightarrow> nat db_op" where
  "create_meterValues rs =
     with_fk (\<lambda>d. list_all (\<lambda>r. find_transaction (mv_transactionId r) d \<noteq> None) rs)
       (on_meterValues (insert_rows meterValue_ok rs))"

definition create_faultLog :: "FaultLog \<Rightarrow> FaultLog db_op" where
  "create_faultLog r = with_id TFaultLog (\<lambda>i. with_fk (station_exists (fl_stationId r))
     (on_faultLogs (insert_row faultLog_ok (\<lambda>q r. fl_id q = fl_id r) (r\<lparr>fl_id := i\<rparr>))))"

definition create_offlineLog :: "OfflineLog \<Rightarrow> OfflineLog db_op" where
  "create_offlineLog r = with_fk (station_exists (ol_stationId r))
     (on_offlineLogs (insert_row (\<lambda>_. True) (\<lambda>_ _. False) r))"

definition create_ocppMessage :: "OcppMessageRow \<Rightarrow> OcppMessageRow db_op" where
  "create_ocppMessage r = with_fk (station_exists (om_stationId r))
     (on_ocppMessages (insert_row ocppMessage_ok (\<lambda>_ _. False) r))"

definition create_command :: "OcppCommandResult \<Rightarrow> OcppCommandResult db_op" where
  "create_command r = with_id TCommand (\<lambda>i. with_fk (station_ref (cr_stationId r))
     (on_commandResults (insert_row command_ok (\<lambda>q r. cr_id q = cr_id r \<or> cr_messageId q = cr_messageId r) (r\<lparr>cr_id := i\<rparr>))))"

definition create_diagnostics :: "DiagnosticsRequest \<Rightarrow> DiagnosticsRequest db_op" where
  "create_diagnostics r = with_id TDiagnostics (\<lambda>i. with_fk (station_exists (dr_stationId r))
     (on_diagnostics (insert_row diagnostics_ok (\<lambda>q r. dr_id q = dr_id r \<or> dr_messageId q = dr_messageId r) (r\<lparr>dr_id := i\<rparr>))))"

definition upsert_connector :: "string \<Rightarrow> int \<Rightarrow> (Connector \<Rightarrow> Connector) \<Rightarrow> Connector \<Rightarrow> Connector db_op" where
  "upsert_connector s c f r = with_fk (\<lambda>d. find_connector s c d \<noteq> None \<or> station_exists s d)
     (on_connectors (upsert_row connector_ok
        (\<lambda>q r. co_stationId q = co_stationId r \<and> co_connectorId q = co_connectorId r)
        (\<lambda>q. co_stationId q = s \<and> co_connectorId q = c) f r))"

section \<open>Updating rows by key\<close>

definition update_station :: "string \<Rightarrow> (ChargingStation \<Rightarrow> ChargingStation) \<Rightarrow> ChargingStation db_op" where
  "update_station i f = on_stations (update_row station_ok (\<lambda>r. st_id r = i) f)"

definition update_transaction :: "int \<Rightarrow> (Transaction \<Rightarrow> Transaction) \<Rightarrow> Transaction db_op" where
  "update_transaction i f = on_transactions (update_row transaction_ok (\<lambda>r. tx_id r = i) f)"

definition update_command :: "string \<Rightarrow> (OcppCommandResult \<Rightarrow> OcppCommandResult) \<Rightarrow> OcppCommandResult db_op" where
  "update_command m f = on_commandResults (update_row command_ok (\<lambda>r. cr_messageId r = m) f)"

definition update_outbox :: "int \<Rightarrow> (OutboxEvent \<Rightarrow> OutboxEvent) \<Rightarrow> OutboxEvent db_op" where
  "update_outbox i f = on_outbox (update_row (\<lambda>_. True) (\<lambda>r. ob_id r = i) f)"

section \<open>Updating and deleting many rows\<close>

definition update_transactions :: "(Transaction \<Rightarrow> bool) \<Rightarrow> (Transaction \<Rightarrow> Transaction) \<Rightarrow> nat db_op" where
  "update_transactions P f = on_transactions (update_rows transaction_ok P f)"

definition update_connectors :: "(Connector \<Rightarrow> bool) \<Rightarrow> (Connector \<Rightarrow> Connector) \<Rightarrow> nat db_op" where
  "update_connectors P f = on_connectors (update_rows connector_ok P f)"

definition update_commands :: "(OcppCommandResult \<Rightarrow> bool) \<Rightarrow> (OcppCommandResult \<Rightarrow> OcppCommandResult) \<Rightarrow> nat db_op" where
  "update_commands P f = on_commandResults (update_rows command_ok P f)"

definition update_diagnostics :: "(DiagnosticsRequest \<Rightarrow> bool) \<Rightarrow> (DiagnosticsRequest \<Rightarrow> DiagnosticsRequest) \<Rightarrow> DiagnosticsRequest db_op" where
  "update_diagnostics P f = on_diagnostics (update_row diagnostics_ok P f)"

definition update_progress :: "int \<Rightarrow> (FirmwareCampaignProgress \<Rightarrow> FirmwareCampaignProgress) \<Rightarrow> FirmwareCampaignProgress db_op" where
  "update_progress i f = on_progresses (update_row progress_ok (\<lambda>r. fp_id r = i) f)"

definition update_campaign :: "int \<Rightarrow> (FirmwareCampaign \<Rightarrow> FirmwareCampaign) \<Rightarrow> FirmwareCampaign db_op" where
  "update_campaign i f = on_campaigns (update_row campaign_ok (\<lambda>r. ca_id r = i) f)"

lemmas store_defs = create_station_def create_transaction_def create_outbox_def create_meterValues_def
  create_faultLog_def create_offlineLog_def create_ocppMessage_def create_command_def create_diagnostics_def
  upsert_connector_def update_station_def update_transaction_def update_command_def update_outbox_def
  update_transactions_def update_connectors_def update_commands_def update_diagnostics_def
  update_progress_def update_campaign_def

end
