(* ===== verification/Runtime.thy ===== *)
theory Runtime
  imports Store
begin

text \<open>
  The world a request handler runs in and the programs that run in it.  A program takes a world
  to a result or a thrown error and a new world; \<open>andthen\<close> is \<open>await\<close> followed by the rest of the
  function, \<open>catch_err\<close> is \<open>try/catch\<close> and \<open>.catch(...)\<close>, \<open>db_transaction\<close> is
  \<open>prisma.$transaction\<close>.  What the process cannot see coming is in the \<open>host\<close>: which outside
  calls fail, the clock, random values, the third-party hashes and the environment
  variables.  Every outside call takes one tick of the counter \<open>tick\<close>, and the host answers by tick.

  The last section has the rules for two-state contracts: \<open>conforms R m\<close> says that every run
  of \<open>m\<close>, failing or not, relates the world before to the world after by \<open>R\<close>.
\<close>

section \<open>The host\<close>

text \<open>
  The third-party and library functions the code calls are fields: \<open>bcrypt\<close> and \<open>sha256\<close>, random
  values in hexadecimal and base64url form, the start of the day of a time in the configured time zone and the
  translation of a message key.
\<close>

record host =
  fails :: "nat \<Rightarrow> bool"
  clock :: "nat \<Rightarrow> int"
  uuid :: "nat \<Rightarrow> string"
  random_hex :: "nat \<Rightarrow> nat \<Rightarrow> string"
  bcrypt_hash :: "string \<Rightarrow> string"
  bcrypt_compare :: "string \<Rightarrow> string \<Rightarrow> bool"
  sha256_hex :: "string \<Rightarrow> string"
  error_text :: "js_error \<Rightarrow> string"
  heartbeat_interval :: int
  response_timeout :: int
  csms_url :: string
  api_token_env :: "string option"
  firmware_max_mb :: int
  firmware_base_url :: string
  firmware_dir :: string
  random_base64url :: "nat \<Rightarrow> nat \<Rightarrow> string"
  day_start :: "int \<Rightarrow> int"
  translate :: "string \<Rightarrow> string"
  reply :: "string \<Rightarrow> js_error + jsval"

section \<open>The world\<close>

datatype txn_state = NoTx | TxOk | TxAborted
datatype ready_state = CONNECTING | OPEN | CLOSING | CLOSED

text \<open>A command waiting for the reply of its station.\<close>

datatype command_kind = PlainCommand | DiagnosticsCommand

record command_call =
  cc_call_station :: string
  cc_call_action :: string
  cc_call_kind :: command_kind

record goal_job =
  gj_sessionId :: string
  gj_goalType :: GoalType
  gj_goalValue :: rat
  gj_unitPriceVnd :: int
  gj_delay :: int
  gj_jobId :: string

record world =
  host :: host
  tick :: nat
  txn :: txn_state
  db :: db
  conns :: "(string \<times> nat) list"
  socks :: "nat \<Rightarrow> ready_state"
  sent :: "(nat \<times> string) list"
  pending :: "(string \<times> command_call) list"
  settled :: "(string \<times> command_call \<times> (js_error + jsval)) list"
  stream :: "(string \<times> string) list list"
  dlq :: "(string \<times> string) list list"
  kv :: "(string \<times> string) list"
  jobs :: "goal_job list"
  files :: "(string \<times> string) list"
  relay_running :: bool
  relay_timer :: bool
  sweeper_timer :: bool
  core_workers :: bool
  dt_handlers :: "(string \<times> (string \<Rightarrow> jsval \<Rightarrow> js_error + jsval)) list"
  dt_vendors :: "string list"

definition boot_world :: "host \<Rightarrow> db \<Rightarrow> world" where
  "boot_world h d = \<lparr>host = h, tick = 0, txn = NoTx, db = d, conns = [], socks = (\<lambda>_. CONNECTING),
     sent = [], pending = [], settled = [], stream = [], dlq = [], kv = [], jobs = [], files = [],
     relay_running = False, relay_timer = False, sweeper_timer = False, core_workers = False,
     dt_handlers = [], dt_vendors = []\<rparr>"

section \<open>Programs\<close>

type_synonym 'a prog = "world \<Rightarrow> (js_error + 'a) \<times> world"

definition ret :: "'a \<Rightarrow> 'a prog" where [prog_defs]: "ret x w = (Inr x, w)"

definition raise :: "js_error \<Rightarrow> 'a prog" where [prog_defs]: "raise e w = (Inl e, w)"

definition andthen :: "'a prog \<Rightarrow> ('a \<Rightarrow> 'b prog) \<Rightarrow> 'b prog" where [prog_defs]:
  "andthen m k w = (case m w of (r, w1) \<Rightarrow> (case r of Inl e \<Rightarrow> (Inl e, w1) | Inr x \<Rightarrow> k x w1))"

definition catch_err :: "'a prog \<Rightarrow> (js_error \<Rightarrow> 'a prog) \<Rightarrow> 'a prog" where [prog_defs]:
  "catch_err m h w = (case m w of (r, w1) \<Rightarrow> (case r of Inl e \<Rightarrow> h e w1 | Inr x \<Rightarrow> (Inr x, w1)))"

text \<open>\<open>m.catch(() => {})\<close> where the value is not used.\<close>

definition ignore_err :: "'a prog \<Rightarrow> unit prog" where [prog_defs]:
  "ignore_err m = catch_err (andthen m (\<lambda>_. ret ())) (\<lambda>_. ret ())"

definition only_if :: "bool \<Rightarrow> unit prog \<Rightarrow> unit prog" where [prog_defs]:
  "only_if b m = (if b then m else ret ())"

primrec for_each :: "'a list \<Rightarrow> ('a \<Rightarrow> unit prog) \<Rightarrow> unit prog" where
  "for_each [] f = ret ()"
| "for_each (x # xs) f = andthen (f x) (\<lambda>_. for_each xs f)"

primrec map_prog :: "('a \<Rightarrow> 'b prog) \<Rightarrow> 'a list \<Rightarrow> 'b list prog" where
  "map_prog f [] = ret []"
| "map_prog f (x # xs) = andthen (f x) (\<lambda>y. andthen (map_prog f xs) (\<lambda>ys. ret (y # ys)))"

declare for_each.simps [prog_defs] map_prog.simps [prog_defs]

definition from_option :: "js_error \<Rightarrow> 'a option \<Rightarrow> 'a prog" where [prog_defs]:
  "from_option e v = (case v of None \<Rightarrow> raise e | Some x \<Rightarrow> ret x)"

definition ask :: "(world \<Rightarrow> 'a) \<Rightarrow> 'a prog" where [prog_defs]: "ask f w = (Inr (f w), w)"

definition js_now :: "int prog" where [prog_defs]:
  "js_now w = (Inr (clock (host w) (tick w)), w\<lparr>tick := tick w + 1\<rparr>)"

definition new_uuid :: "string prog" where [prog_defs]:
  "new_uuid w = (Inr (uuid (host w) (tick w)), w\<lparr>tick := tick w + 1\<rparr>)"

definition random_bytes_hex :: "nat \<Rightarrow> string prog" where [prog_defs]:
  "random_bytes_hex n w = (Inr (random_hex (host w) (tick w) n), w\<lparr>tick := tick w + 1\<rparr>)"

definition random_password :: "nat \<Rightarrow> string prog" where [prog_defs]:
  "random_password n w = (Inr (take n (random_base64url (host w) (tick w) n)), w\<lparr>tick := tick w + 1\<rparr>)"

text \<open>\<open>err.message\<close>, the text of a thrown value.\<close>

fun err_message :: "host \<Rightarrow> js_error \<Rightarrow> string" where
  "err_message h (PlainError m) = m"
| "err_message h (AppErr a) = ae_message a"
| "err_message h e = error_text h e"

section \<open>Database calls\<close>

text \<open>
  A call fails without effect where the host says so.  Inside a transaction a failing statement
  aborts it and every later statement fails (PostgreSQL 25P02); \<open>RecordNotFound\<close> and argument
  validation are raised by the client and abort nothing.
\<close>

definition db_do :: "'a db_op \<Rightarrow> 'a prog" where [prog_defs]:
  "db_do g w =
     (let w1 = w\<lparr>tick := tick w + 1\<rparr>; broken = (if txn w = NoTx then NoTx else TxAborted) in
      if txn w = TxAborted then (Inl (PrismaErr ConnectionLost), w1)
      else if fails (host w) (tick w) then (Inl (PrismaErr ConnectionLost), w1\<lparr>txn := broken\<rparr>)
      else (case g (db w) of
              Inl e \<Rightarrow> (Inl (PrismaErr e), if aborts_sql e then w1\<lparr>txn := broken\<rparr> else w1)
            | Inr (x, d) \<Rightarrow> (Inr x, w1\<lparr>db := d\<rparr>)))"

definition db_read :: "(db \<Rightarrow> 'a) \<Rightarrow> 'a prog" where [prog_defs]:
  "db_read f = db_do (\<lambda>d. Inr (f d, d))"

text \<open>
  \<open>$transaction\<close>: an error of the body or of the commit, and an aborted transaction, restore the
  database of the start; the commit of an aborted transaction is a rollback without an error.
\<close>

definition db_transaction :: "'a prog \<Rightarrow> 'a prog" where [prog_defs]:
  "db_transaction m w =
     (if fails (host w) (tick w) then (Inl (PrismaErr ConnectionLost), w\<lparr>tick := tick w + 1\<rparr>)
      else (case m (w\<lparr>tick := tick w + 1, txn := TxOk\<rparr>) of (r, w1) \<Rightarrow>
        let back = w1\<lparr>db := db w, tick := tick w1 + 1, txn := NoTx\<rparr> in
        (case r of
           Inl e \<Rightarrow> (Inl e, back)
         | Inr x \<Rightarrow>
             if fails (host w) (tick w1) then (Inl (PrismaErr ConnectionLost), back)
             else if txn w1 = TxOk then (Inr x, w1\<lparr>tick := tick w1 + 1, txn := NoTx\<rparr>)
             else (Inr x, back))))"

text \<open>A command to Redis (a stream, the key-value store, a job queue) or to the file system.\<close>

definition redis_do :: "(world \<Rightarrow> 'a \<times> world) \<Rightarrow> 'a prog" where [prog_defs]:
  "redis_do f w =
     (let w1 = w\<lparr>tick := tick w + 1\<rparr> in
      if fails (host w) (tick w) then (Inl RedisErr, w1) else (case f w1 of (x, w2) \<Rightarrow> (Inr x, w2)))"

section \<open>Arguments of database calls\<close>

text \<open>
  The client checks the type of every argument: a JSON value that is not of the column's type is
  \<open>ArgumentInvalid\<close>.  \<open>undefined\<close> in a filter leaves the filter out, in an update it leaves the
  column alone.
\<close>

fun as_string :: "jsval \<Rightarrow> string option" where
  "as_string (JStr s) = Some s"
| "as_string _ = None"

fun as_int :: "jsval \<Rightarrow> int option" where
  "as_int (JNum r) = (if r = of_int \<lfloor>r\<rfloor> then Some \<lfloor>r\<rfloor> else None)"
| "as_int _ = None"

fun as_string_opt :: "jsval \<Rightarrow> string option option" where
  "as_string_opt (JStr s) = Some (Some s)"
| "as_string_opt JUndefined = Some None"
| "as_string_opt JNull = Some None"
| "as_string_opt _ = None"

fun as_int_opt :: "jsval \<Rightarrow> int option option" where
  "as_int_opt (JNum r) = (if r = of_int \<lfloor>r\<rfloor> then Some (Some \<lfloor>r\<rfloor>) else None)"
| "as_int_opt JUndefined = Some None"
| "as_int_opt JNull = Some None"
| "as_int_opt _ = None"

fun string_filter :: "jsval \<Rightarrow> (string \<Rightarrow> bool) option" where
  "string_filter JUndefined = Some (\<lambda>_. True)"
| "string_filter (JStr s) = Some (\<lambda>x. x = s)"
| "string_filter _ = None"

fun int_filter :: "jsval \<Rightarrow> (int \<Rightarrow> bool) option" where
  "int_filter JUndefined = Some (\<lambda>_. True)"
| "int_filter (JNum r) = (if r = of_int \<lfloor>r\<rfloor> then Some (\<lambda>x. x = \<lfloor>r\<rfloor>) else None)"
| "int_filter _ = None"

fun int_opt_filter :: "jsval \<Rightarrow> (int option \<Rightarrow> bool) option" where
  "int_opt_filter JUndefined = Some (\<lambda>_. True)"
| "int_opt_filter JNull = Some (\<lambda>x. x = None)"
| "int_opt_filter (JNum r) = (if r = of_int \<lfloor>r\<rfloor> then Some (\<lambda>x. x = Some \<lfloor>r\<rfloor>) else None)"
| "int_opt_filter _ = None"

text \<open>The new value of a nullable column in an update.\<close>

fun string_update :: "jsval \<Rightarrow> (string option \<Rightarrow> string option) option" where
  "string_update JUndefined = Some (\<lambda>x. x)"
| "string_update JNull = Some (\<lambda>_. None)"
| "string_update (JStr s) = Some (\<lambda>_. Some s)"
| "string_update _ = None"

text \<open>\<open>v ? new Date(v) : new Date()\<close>, possibly an invalid date.\<close>

definition date_or_now :: "jsval \<Rightarrow> int option prog" where [prog_defs]:
  "date_or_now v = (if js_truthy v then ret (js_new_date v) else andthen js_now (\<lambda>now. ret (Some now)))"

definition arg :: "'a option \<Rightarrow> 'a prog" where [prog_defs]:
  "arg v = from_option (PrismaErr ArgumentInvalid) v"

lemma as_int_js_int [simp]: "as_int (js_int i) = Some i"
  by (simp add: js_int_def)

section \<open>Successful runs\<close>

text \<open>The states a successful run went through, for symbolic execution by \<open>auto\<close>.\<close>

lemma ret_Inr: "ret x w = (Inr y, w') \<longleftrightarrow> y = x \<and> w' = w"
  by (auto simp: ret_def)

lemma raise_Inr: "raise e w = (Inr y, w') \<longleftrightarrow> False"
  by (simp add: raise_def)

lemma andthen_Inr: "andthen m k w = (Inr y, w') \<longleftrightarrow> (\<exists>x w1. m w = (Inr x, w1) \<and> k x w1 = (Inr y, w'))"
  by (auto simp: andthen_def split: prod.splits sum.splits)

lemma catch_err_Inr:
  "catch_err m h w = (Inr y, w') \<longleftrightarrow> m w = (Inr y, w') \<or> (\<exists>e w1. m w = (Inl e, w1) \<and> h e w1 = (Inr y, w'))"
  by (auto simp: catch_err_def split: prod.splits sum.splits)

lemma ask_Inr: "ask f w = (Inr y, w') \<longleftrightarrow> y = f w \<and> w' = w"
  by (auto simp: ask_def)

lemma from_option_Inr: "from_option e v w = (Inr y, w') \<longleftrightarrow> v = Some y \<and> w' = w"
  by (auto simp: from_option_def ret_def raise_def split: option.splits)

lemma arg_Inr: "arg v w = (Inr y, w') \<longleftrightarrow> v = Some y \<and> w' = w"
  by (simp add: arg_def from_option_Inr)

lemma js_now_Inr: "js_now w = (Inr y, w') \<longleftrightarrow> y = clock (host w) (tick w) \<and> w' = w\<lparr>tick := tick w + 1\<rparr>"
  by (auto simp: js_now_def)

lemma new_uuid_Inr: "new_uuid w = (Inr y, w') \<longleftrightarrow> y = uuid (host w) (tick w) \<and> w' = w\<lparr>tick := tick w + 1\<rparr>"
  by (auto simp: new_uuid_def)

lemma random_bytes_hex_Inr:
  "random_bytes_hex n w = (Inr y, w') \<longleftrightarrow> y = random_hex (host w) (tick w) n \<and> w' = w\<lparr>tick := tick w + 1\<rparr>"
  by (auto simp: random_bytes_hex_def)

lemma random_password_Inr:
  "random_password n w = (Inr y, w') \<longleftrightarrow>
     y = take n (random_base64url (host w) (tick w) n) \<and> w' = w\<lparr>tick := tick w + 1\<rparr>"
  by (auto simp: random_password_def)

lemma db_do_Inr:
  "db_do g w = (Inr y, w') \<longleftrightarrow>
     txn w \<noteq> TxAborted \<and> \<not> fails (host w) (tick w) \<and>
     (\<exists>d. g (db w) = Inr (y, d) \<and> w' = w\<lparr>tick := tick w + 1, db := d\<rparr>)"
  by (auto simp: db_do_def Let_def split: sum.splits prod.splits)

lemma db_read_Inr:
  "db_read f w = (Inr y, w') \<longleftrightarrow>
     txn w \<noteq> TxAborted \<and> \<not> fails (host w) (tick w) \<and> y = f (db w) \<and> w' = w\<lparr>tick := tick w + 1\<rparr>"
  by (auto simp: db_read_def db_do_Inr)

lemma redis_do_Inr:
  "redis_do f w = (Inr y, w') \<longleftrightarrow> \<not> fails (host w) (tick w) \<and> f (w\<lparr>tick := tick w + 1\<rparr>) = (y, w')"
  by (auto simp: redis_do_def Let_def split: prod.splits)

lemmas run_Inr = ret_Inr raise_Inr andthen_Inr catch_err_Inr ask_Inr from_option_Inr arg_Inr
  js_now_Inr new_uuid_Inr random_bytes_hex_Inr random_password_Inr db_read_Inr db_do_Inr redis_do_Inr

lemma db_transaction_cases:
  obtains (failed) e w' where "db_transaction m w = (Inl e, w')" "db w' = db w"
  | (committed) x w1 w' where "m (w\<lparr>tick := tick w + 1, txn := TxOk\<rparr>) = (Inr x, w1)" "txn w1 = TxOk"
      "db_transaction m w = (Inr x, w')" "w' = w1\<lparr>tick := tick w1 + 1, txn := NoTx\<rparr>"
  | (aborted) x w1 w' where "m (w\<lparr>tick := tick w + 1, txn := TxOk\<rparr>) = (Inr x, w1)" "txn w1 \<noteq> TxOk"
      "db_transaction m w = (Inr x, w')" "db w' = db w"
proof -
  obtain r w1 where m: "m (w\<lparr>tick := tick w + 1, txn := TxOk\<rparr>) = (r, w1)"
    by (cases "m (w\<lparr>tick := tick w + 1, txn := TxOk\<rparr>)")
  show thesis
  proof (cases "fails (host w) (tick w)")
    case True
    then show thesis by (intro failed, simp add: db_transaction_def, simp)
  next
    case begun: False
    show thesis
    proof (cases r)
      case (Inl e)
      with m begun show thesis by (intro failed, simp add: db_transaction_def, simp)
    next
      case (Inr x)
      show thesis
      proof (cases "fails (host w) (tick w1)")
        case True
        with Inr m begun show thesis by (intro failed, simp add: db_transaction_def, simp)
      next
        case False
        with Inr m begun show thesis
          by (cases "txn w1 = TxOk") (auto intro: committed aborted simp: db_transaction_def)
      qed
    qed
  qed
qed

text \<open>An error out of a transaction leaves the database as it was.\<close>

lemma db_transaction_Inl: "db_transaction m w = (Inl e, w') \<Longrightarrow> db w' = db w"
  by (cases rule: db_transaction_cases [of m w]) auto

lemma transaction_run:
  assumes "db_transaction m w = (r, w')"
  shows "db w' = db w \<or> (\<exists>x w1. r = Inr x \<and> m (w\<lparr>tick := tick w + 1, txn := TxOk\<rparr>) = (Inr x, w1) \<and> db w' = db w1)"
  using assms by (cases rule: db_transaction_cases [of m w]) auto

lemma committed_run:
  assumes "db_transaction m w = (Inr x, w')"
    and "\<And>w y w1. m w = (Inr y, w1) \<Longrightarrow> txn w = TxOk \<Longrightarrow> txn w1 = TxOk"
  obtains w1 where "m (w\<lparr>tick := tick w + 1, txn := TxOk\<rparr>) = (Inr x, w1)" "db w' = db w1"
  by (cases rule: db_transaction_cases [of m w]) (use assms in \<open>force+\<close>)

section \<open>Two-state contracts\<close>

definition conforms :: "(world \<Rightarrow> world \<Rightarrow> bool) \<Rightarrow> 'a prog \<Rightarrow> bool" where
  "conforms R m \<longleftrightarrow> (\<forall>w. R w (snd (m w)))"

definition on_db :: "(db \<Rightarrow> db \<Rightarrow> bool) \<Rightarrow> world \<Rightarrow> world \<Rightarrow> bool" where
  "on_db rel w w' \<longleftrightarrow> rel (db w) (db w')"

lemma conformsI: "(\<And>w r w'. m w = (r, w') \<Longrightarrow> R w w') \<Longrightarrow> conforms R m"
  unfolding conforms_def by (metis prod.collapse)

lemma conformsD: "conforms R m \<Longrightarrow> m w = (r, w') \<Longrightarrow> R w w'"
  unfolding conforms_def by (metis snd_conv)

text \<open>A relation that composes along the control flow of a program: it is reflexive and transitive.\<close>

locale composable =
  fixes R :: "world \<Rightarrow> world \<Rightarrow> bool"
  assumes refl: "R w w"
    and trans: "R w1 w2 \<Longrightarrow> R w2 w3 \<Longrightarrow> R w1 w3"
begin

lemma conforms_ret [contract_intros]: "conforms R (ret x)"
  by (simp add: conforms_def ret_def refl)

lemma conforms_raise [contract_intros]: "conforms R (raise e)"
  by (simp add: conforms_def raise_def refl)

lemma conforms_ask [contract_intros]: "conforms R (ask f)"
  by (simp add: conforms_def ask_def refl)

lemma conforms_from_option [contract_intros]: "conforms R (from_option e v)"
  by (cases v) (simp_all add: from_option_def conforms_ret conforms_raise)

lemma conforms_arg [contract_intros]: "conforms R (arg v)"
  unfolding arg_def by (rule conforms_from_option)

lemma conforms_andthen [contract_intros]:
  assumes "conforms R m" "\<And>x. conforms R (k x)"
  shows "conforms R (andthen m k)"
proof (rule conformsI)
  fix w r w' assume run: "andthen m k w = (r, w')"
  obtain q w1 where m: "m w = (q, w1)" by (cases "m w")
  then have "R w w1" by (rule conformsD [OF assms(1)])
  show "R w w'"
  proof (cases q)
    case (Inl e)
    with run m \<open>R w w1\<close> show ?thesis by (simp add: andthen_def)
  next
    case (Inr x)
    with run m have "k x w1 = (r, w')" by (simp add: andthen_def)
    from trans [OF \<open>R w w1\<close> conformsD [OF assms(2) this]] show ?thesis .
  qed
qed

lemma conforms_catch [contract_intros]:
  assumes "conforms R m" "\<And>e. conforms R (h e)"
  shows "conforms R (catch_err m h)"
proof (rule conformsI)
  fix w r w' assume run: "catch_err m h w = (r, w')"
  obtain q w1 where m: "m w = (q, w1)" by (cases "m w")
  then have "R w w1" by (rule conformsD [OF assms(1)])
  show "R w w'"
  proof (cases q)
    case (Inr x)
    with run m \<open>R w w1\<close> show ?thesis by (simp add: catch_err_def)
  next
    case (Inl e)
    with run m have "h e w1 = (r, w')" by (simp add: catch_err_def)
    from trans [OF \<open>R w w1\<close> conformsD [OF assms(2) this]] show ?thesis .
  qed
qed

lemma conforms_ignore [contract_intros]: "conforms R m \<Longrightarrow> conforms R (ignore_err m)"
  unfolding ignore_err_def by (intro conforms_catch conforms_andthen conforms_ret)

lemma conforms_if [contract_intros]:
  "(b \<Longrightarrow> conforms R m) \<Longrightarrow> (\<not> b \<Longrightarrow> conforms R n) \<Longrightarrow> conforms R (if b then m else n)"
  by simp

lemma conforms_only_if [contract_intros]: "(b \<Longrightarrow> conforms R m) \<Longrightarrow> conforms R (only_if b m)"
  by (simp add: only_if_def conforms_ret)

lemma conforms_option [contract_intros]:
  "(v = None \<Longrightarrow> conforms R m) \<Longrightarrow> (\<And>x. v = Some x \<Longrightarrow> conforms R (k x)) \<Longrightarrow>
   conforms R (case v of None \<Rightarrow> m | Some x \<Rightarrow> k x)"
  by (simp split: option.splits)

lemma conforms_prod [contract_intros]:
  "(\<And>x y. v = (x, y) \<Longrightarrow> conforms R (k x y)) \<Longrightarrow> conforms R (case v of (x, y) \<Rightarrow> k x y)"
  by (simp split: prod.splits)

lemma conforms_sum [contract_intros]:
  "(\<And>x. v = Inl x \<Longrightarrow> conforms R (k x)) \<Longrightarrow> (\<And>y. v = Inr y \<Longrightarrow> conforms R (j y)) \<Longrightarrow>
   conforms R (case v of Inl x \<Rightarrow> k x | Inr y \<Rightarrow> j y)"
  by (simp split: sum.splits)

lemma conforms_list [contract_intros]:
  "(v = [] \<Longrightarrow> conforms R m) \<Longrightarrow> (\<And>x xs. v = x # xs \<Longrightarrow> conforms R (k x xs)) \<Longrightarrow>
   conforms R (case v of [] \<Rightarrow> m | x # xs \<Rightarrow> k x xs)"
  by (simp split: list.splits)

lemma conforms_let [contract_intros]: "(\<And>x. x = v \<Longrightarrow> conforms R (k x)) \<Longrightarrow> conforms R (let x = v in k x)"
  by simp

lemma conforms_for_each [contract_intros]:
  "(\<And>x. x \<in> set xs \<Longrightarrow> conforms R (f x)) \<Longrightarrow> conforms R (for_each xs f)"
  by (induction xs) (simp_all add: conforms_ret conforms_andthen)

lemma conforms_map_prog [contract_intros]:
  "(\<And>x. conforms R (f x)) \<Longrightarrow> conforms R (map_prog f xs)"
  by (induction xs) (simp_all add: conforms_ret conforms_andthen)

end

text \<open>
  A contract is a reflexive and transitive relation that ignores the counter and the transaction
  state and survives the rollback of the database.
\<close>

locale contract = composable R
  for R :: "world \<Rightarrow> world \<Rightarrow> bool" +
  assumes ticks: "R w w' \<Longrightarrow> R w (w'\<lparr>tick := n, txn := t\<rparr>)"
    and ticks_left: "R (w\<lparr>tick := n, txn := t\<rparr>) w' \<Longrightarrow> R w w'"
    and rollback: "R w w' \<Longrightarrow> R w (w'\<lparr>db := db w\<rparr>)"
begin

lemma tick_only: "R w w' \<Longrightarrow> R w (w'\<lparr>tick := n\<rparr>)"
  using ticks [where n = n and t = "txn w'"] by fastforce

lemma txn_only: "R w w' \<Longrightarrow> R w (w'\<lparr>txn := t\<rparr>)"
  using ticks [where n = "tick w'" and t = t] by fastforce

lemma conforms_js_now [contract_intros]: "conforms R js_now"
  by (simp add: conforms_def js_now_def refl tick_only)

lemma conforms_new_uuid [contract_intros]: "conforms R new_uuid"
  by (simp add: conforms_def new_uuid_def refl tick_only)

lemma conforms_random [contract_intros]: "conforms R (random_bytes_hex n)" "conforms R (random_password n)"
  by (simp_all add: conforms_def random_bytes_hex_def random_password_def refl tick_only)

lemma conforms_db_do:
  assumes "\<And>w x d. g (db w) = Inr (x, d) \<Longrightarrow> R w (w\<lparr>db := d\<rparr>)"
  shows "conforms R (db_do g)"
proof (rule conformsI)
  fix w r w' assume run: "db_do g w = (r, w')"
  show "R w w'"
  proof (cases "txn w = TxAborted \<or> fails (host w) (tick w)")
    case True
    with run show ?thesis
      by (auto simp: db_do_def Let_def refl tick_only intro: ticks split: if_splits)
  next
    case ok: False
    show ?thesis
    proof (cases "g (db w)")
      case (Inl e)
      with ok run show ?thesis
        by (auto simp: db_do_def Let_def refl tick_only intro: ticks split: if_splits)
    next
      case (Inr p)
      with ok run obtain x d where "g (db w) = Inr (x, d)" "w' = w\<lparr>db := d\<rparr>\<lparr>tick := tick w + 1\<rparr>"
        by (cases p) (auto simp: db_do_def Let_def)
      with assms tick_only show ?thesis by metis
    qed
  qed
qed

lemma conforms_db_read [contract_intros]: "conforms R (db_read f)"
  unfolding db_read_def by (rule conforms_db_do) (simp add: refl)

text \<open>A transaction needs the contract only of its committed runs.\<close>

lemma conforms_committed:
  assumes step: "\<And>w x w'. txn w = TxOk \<Longrightarrow> m w = (Inr x, w') \<Longrightarrow> txn w' = TxOk \<Longrightarrow> R w w'"
    and body: "\<And>w r w'. m w = (r, w') \<Longrightarrow> R w (w'\<lparr>db := db w\<rparr>)"
  shows "conforms R (db_transaction m)"
proof (rule conformsI)
  fix w r w' assume run: "db_transaction m w = (r, w')"
  define w0 where "w0 = w\<lparr>tick := tick w + 1, txn := TxOk\<rparr>"
  obtain q w1 where m: "m w0 = (q, w1)" by (cases "m w0")
  have "R w0 (w1\<lparr>db := db w0\<rparr>)" by (rule body [OF m])
  then have "R w (w1\<lparr>db := db w\<rparr>)" using ticks_left w0_def by auto
  then have "R w (w1\<lparr>db := db w\<rparr>\<lparr>tick := tick w1 + 1, txn := NoTx\<rparr>)" by (rule ticks)
  then have undone: "R w (w1\<lparr>db := db w, tick := tick w1 + 1, txn := NoTx\<rparr>)"
    by simp
  have go: "R w (w1\<lparr>tick := tick w1 + 1, txn := NoTx\<rparr>)" if "q = Inr x" "txn w1 = TxOk" for x
  proof -
    have "R w0 w1" using step [of w0 x w1] m that by (simp add: w0_def)
    then have "R w w1" using ticks_left w0_def by auto
    then show ?thesis by (rule ticks)
  qed
  show "R w w'"
    using run m [unfolded w0_def] undone go refl [of w]
    by (auto simp: db_transaction_def Let_def tick_only split: if_splits sum.splits)
qed

lemma conforms_transaction [contract_intros]:
  assumes "conforms R m" shows "conforms R (db_transaction m)"
  by (rule conforms_committed) (use assms in \<open>auto dest: conformsD intro: rollback\<close>)

text \<open>A read followed by a rest that depends on the state it read.\<close>

lemma conforms_read_then:
  assumes "\<And>w r w'. k (f (db w)) w = (r, w') \<Longrightarrow> R w w'"
  shows "conforms R (andthen (db_read f) k)"
proof (rule conformsI)
  fix w r w' assume run: "andthen (db_read f) k w = (r, w')"
  obtain q w1 where rd: "db_read f w = (q, w1)" by (cases "db_read f w")
  from conformsD [OF conforms_db_read rd] have "R w w1" .
  show "R w w'"
  proof (cases q)
    case (Inl e)
    with run rd \<open>R w w1\<close> show ?thesis by (simp add: andthen_def)
  next
    case (Inr x)
    with rd have "x = f (db w)" "db w1 = db w" by (auto simp: db_read_Inr)
    with run rd Inr have "k (f (db w1)) w1 = (r, w')" by (simp add: andthen_def)
    from trans [OF \<open>R w w1\<close> assms [OF this]] show ?thesis .
  qed
qed

lemma run_andthen:
  assumes "andthen m k w = (r, w')" "\<And>q w1. m w = (q, w1) \<Longrightarrow> R w w1" "\<And>x. conforms R (k x)"
  shows "R w w'"
proof -
  obtain q w1 where m: "m w = (q, w1)" by (cases "m w")
  show ?thesis
  proof (cases q)
    case (Inl e)
    with assms(1,2) m show ?thesis by (simp add: andthen_def)
  next
    case (Inr x)
    with assms(1) m have "k x w1 = (r, w')" by (simp add: andthen_def)
    from trans [OF assms(2) [OF m] conformsD [OF assms(3) this]] show ?thesis .
  qed
qed

lemma run_skip:
  assumes "andthen m k w = (r, w')" "conforms R m"
    and "\<And>x w1. m w = (Inr x, w1) \<Longrightarrow> k x w1 = (r, w') \<Longrightarrow> R w1 w'"
  shows "R w w'"
proof -
  obtain q w1 where m: "m w = (q, w1)" by (cases "m w")
  show ?thesis
  proof (cases q)
    case (Inl e)
    with assms(1) m conformsD [OF assms(2) m] show ?thesis by (simp add: andthen_def)
  next
    case (Inr x)
    with assms(1) m have "k x w1 = (r, w')" by (simp add: andthen_def)
    from trans [OF conformsD [OF assms(2) m] assms(3) [OF _ this]] m Inr show ?thesis by simp
  qed
qed

end

text \<open>A contract on the database alone.\<close>

locale db_contract =
  fixes rel :: "db \<Rightarrow> db \<Rightarrow> bool"
  assumes db_refl: "rel d d"
    and db_trans: "rel d1 d2 \<Longrightarrow> rel d2 d3 \<Longrightarrow> rel d1 d3"

sublocale db_contract \<subseteq> contract "on_db rel"
  by unfold_locales (auto simp: on_db_def db_refl intro: db_trans)

context db_contract
begin

lemma conforms_op: "(\<And>d x d'. g d = Inr (x, d') \<Longrightarrow> rel d d') \<Longrightarrow> conforms (on_db rel) (db_do g)"
  by (rule conforms_db_do) (simp add: on_db_def)

lemma conforms_redis [contract_intros]:
  assumes db: "\<And>w. db (snd (f w)) = db w"
  shows "conforms (on_db rel) (redis_do f)"
proof (rule conformsI)
  fix w r w' assume run: "redis_do f w = (r, w')"
  have "db w' = db w"
  proof (cases "fails (host w) (tick w)")
    case False
    obtain x w2 where "f (w\<lparr>tick := tick w + 1\<rparr>) = (x, w2)" by (cases "f (w\<lparr>tick := tick w + 1\<rparr>)")
    with db [of "w\<lparr>tick := tick w + 1\<rparr>"] run False show ?thesis by (auto simp: redis_do_def)
  qed (use run in \<open>auto simp: redis_do_def\<close>)
  then show "on_db rel w w'" by (simp add: on_db_def db_refl)
qed

lemma conforms_commit:
  assumes "\<And>w x w'. txn w = TxOk \<Longrightarrow> m w = (Inr x, w') \<Longrightarrow> txn w' = TxOk \<Longrightarrow> rel (db w) (db w')"
  shows "conforms (on_db rel) (db_transaction m)"
  by (rule conforms_committed) (use assms in \<open>auto simp: on_db_def db_refl\<close>)

end

end
