(* ===== verification/Samples.thy ===== *)
theory Samples
  imports Runtime
begin

text \<open>
  Concrete inputs on which the properties are applied: a host that answers every call, with
  transparent stand-ins for the third-party hashes, and a database with one station, one
  connector, one id token and three transactions (pending, active and stopped).
\<close>

definition quiet_host :: host where
  "quiet_host = \<lparr>fails = (\<lambda>_. False), clock = (\<lambda>n. 100 + int n),
     uuid = (\<lambda>n. ''uuid-'' @ show_nat n), random_hex = (\<lambda>n k. js_padStart k (CHR ''0'') (show_nat n)),
     bcrypt_hash = (\<lambda>s. ''bcrypt:'' @ s), bcrypt_compare = (\<lambda>s h. h = ''bcrypt:'' @ s),
     sha256_hex = (\<lambda>s. ''sha256:'' @ s), error_text = (\<lambda>_. ''unavailable''),
     heartbeat_interval = 300, response_timeout = 30000, csms_url = ''wss://csms'',
     api_token_env = Some ''0123456789abcdef0123456789abcdef'', firmware_max_mb = 1, firmware_base_url = ''https://fw/'',
     firmware_dir = ''/fw'', random_base64url = (\<lambda>n k. js_padStart k (CHR ''A'') (show_nat n)),
     day_start = (\<lambda>t. t - t mod 86400000), translate = (\<lambda>k. k),
     reply = (\<lambda>_. Inr (JObj [(''status'', JStr ''Accepted'')]))\<rparr>"

text \<open>The same host with the outside calls of the given ticks failing.\<close>

definition failing_host :: "nat list \<Rightarrow> host" where
  "failing_host ns = quiet_host\<lparr>fails := (\<lambda>n. n \<in> set ns)\<rparr>"

definition sample_station :: ChargingStation where
  "sample_station = \<lparr>st_id = ''EN0000001'', st_modelName = Some ''AC7'', st_vendorName = Some ''Entech'',
     st_manufacturer = None, st_firmwareVersion = None, st_chargingKwh = 7, st_firmwareStatus = None,
     st_diagnosticsStatus = None, st_serialNumber = Some ''SN1'', st_passwordHash = Some ''bcrypt:secret'',
     st_status = StOnline, st_lastHeartbeatAt = None, st_siteId = Some 3\<rparr>"

definition sample_connector :: Connector where
  "sample_connector = \<lparr>co_stationId = ''EN0000001'', co_connectorId = 1, co_currentStatus = CoFaulted,
     co_errorCode = Some ''GroundFailure'', co_info = None, co_vendorId = None, co_vendorErrorCode = None,
     co_statusTimestamp = None\<rparr>"

definition sample_token :: IdToken where
  "sample_token = \<lparr>it_idTag = ''TAG1'', it_type = ItISO14443, it_status = IdAccepted,
     it_expiryDate = None, it_userId = None\<rparr>"

definition sample_tx :: "int \<Rightarrow> string \<Rightarrow> TransactionStatus \<Rightarrow> Transaction" where
  "sample_tx i s st = \<lparr>tx_id = i, tx_sessionId = s, tx_ocppTransactionId = Some i,
     tx_stationId = ''EN0000001'', tx_connectorId = 1, tx_idTag = None, tx_goalType = None, tx_goalValue = None,
     tx_status = st, tx_meterStart = 1000, tx_meterEnd = None, tx_timeStart = 1700000000000, tx_timeEnd = None,
     tx_costVnd = None, tx_failReason = None, tx_unitPriceVnd = Some 3500, tx_marginRate = None,
     tx_settlementSchedule = None, tx_settlementDay = None, tx_settlementDayOfWeek = None\<rparr>"

definition sample_event :: "int \<Rightarrow> nat \<Rightarrow> OutboxEvent" where
  "sample_event i n = \<lparr>ob_id = i, ob_eventId = ''event-'' @ show_int i, ob_eventType = StationOffline,
     ob_aggregateType = Some ''Station'', ob_aggregateId = Some ''EN0000001'',
     ob_payload = StationOfflineP \<lparr>soff_stationId = ''EN0000001'', soff_reason = ''gone''\<rparr>,
     ob_occurredAt = 1700000000000, ob_publishedAt = None, ob_attempts = n, ob_lastError = None\<rparr>"

definition sample_db :: db where
  "sample_db = empty_db\<lparr>stations := [sample_station], connectors := [sample_connector], idTokens := [sample_token],
     transactions := [sample_tx 1 ''s1'' TxPending, sample_tx 2 ''s2'' TxActive, sample_tx 3 ''s3'' TxStopped],
     outbox := [sample_event 1 0, sample_event 2 9],
     seqs := (\<lambda>T. case T of TTransaction \<Rightarrow> 3 | TOutbox \<Rightarrow> 2 | _ \<Rightarrow> 0)\<rparr>"

definition sample_world :: world where
  "sample_world = boot_world quiet_host sample_db"

text \<open>Requests of the sample station.\<close>

definition start_request :: "string \<Rightarrow> int \<Rightarrow> jsval" where
  "start_request tag ms = JObj [(''connectorId'', JNum 1), (''idTag'', JStr tag), (''meterStart'', js_int ms),
     (''timestamp'', JStr ''2024-01-01T09:00:00Z'')]"

definition stop_request :: "int \<Rightarrow> int \<Rightarrow> jsval" where
  "stop_request i ms = JObj [(''transactionId'', js_int i), (''meterStop'', js_int ms),
     (''timestamp'', JStr ''2024-01-01T10:00:00Z''), (''reason'', JStr ''Local'')]"

definition status_request :: "string \<Rightarrow> string \<Rightarrow> jsval" where
  "status_request st err = JObj [(''connectorId'', JNum 1), (''errorCode'', JStr err), (''status'', JStr st)]"

lemma sample_outbox [simp]: "outbox (db sample_world) = [sample_event 1 0, sample_event 2 9]"
  by (simp add: sample_world_def boot_world_def sample_db_def)

lemma sample_event_simps [simp]:
  "ob_id (sample_event i n) = i" "ob_attempts (sample_event i n) = n" "ob_publishedAt (sample_event i n) = None"
  by (simp_all add: sample_event_def)

lemma sample_world_simps [simp]:
  "host sample_world = quiet_host" "tick sample_world = 0" "txn sample_world = NoTx"
  "relay_running sample_world = False" "db sample_world = sample_db"
  by (simp_all add: sample_world_def boot_world_def)

lemma quiet_host_fails [simp]: "\<not> fails quiet_host n"
  by (simp add: quiet_host_def)

lemma failing_host_fails [simp]: "fails (failing_host ns) n \<longleftrightarrow> n \<in> set ns"
  by (simp add: failing_host_def)

end
