(* ===== verification/Messages.thy ===== *)
theory Messages
  imports Samples
begin

text \<open>
  The wire format of OCPP 1.6J (\<open>packages/core/src/ocpp/messageParser.ts\<close>) and the check of required
  fields (\<open>schemaValidator.ts\<close>).  A frame is a JSON array \<open>[2, id, action, payload]\<close>,
  \<open>[3, id, payload]\<close> or \<open>[4, id, code, description, details]\<close>; the parser does not check the types of
  the elements, so they stay JSON values.
\<close>

section \<open>messageParser.ts\<close>

datatype OcppMessage =
  OcppCall (messageId: jsval) jsval jsval
| OcppCallResult (messageId: jsval) jsval
| OcppCallError (messageId: jsval) jsval jsval jsval

fun messageTypeId :: "OcppMessage \<Rightarrow> int" where
  "messageTypeId (OcppCall _ _ _) = 2"
| "messageTypeId (OcppCallResult _ _) = 3"
| "messageTypeId (OcppCallError _ _ _ _) = 4"

fun messageAction :: "OcppMessage \<Rightarrow> jsval" where
  "messageAction (OcppCall _ a _) = a"
| "messageAction _ = JUndefined"

definition parseOcppMessage :: "string \<Rightarrow> js_error + OcppMessage" where
  "parseOcppMessage raw =
     (case json_parse raw of
        None \<Rightarrow> Inl (PlainError ''Invalid JSON'')
      | Some v \<Rightarrow>
          (case v of
             JArr parsed \<Rightarrow>
               if length parsed < 3 then Inl (PlainError ''Invalid OCPP message format'')
               else
                 let el = js_nth parsed in
                 if el 0 = JNum 2 then Inr (OcppCall (el 1) (el 2) (js_coalesce (el 3) (JObj [])))
                 else if el 0 = JNum 3 then Inr (OcppCallResult (el 1) (js_coalesce (el 2) (JObj [])))
                 else if el 0 = JNum 4 then Inr (OcppCallError (el 1) (el 2) (el 3) (js_coalesce (el 4) (JObj [])))
                 else Inl (PlainError (''Unknown message type: '' @ js_text (el 0)))
           | _ \<Rightarrow> Inl (PlainError ''Invalid OCPP message format'')))"

definition serializeCallResult :: "jsval \<Rightarrow> jsval \<Rightarrow> string" where
  "serializeCallResult mid payload = json_stringify (JArr [JNum 3, mid, payload])"

definition serializeCallError :: "jsval \<Rightarrow> string \<Rightarrow> string \<Rightarrow> string" where
  "serializeCallError mid errorCode errorDescription =
     json_stringify (JArr [JNum 4, mid, JStr errorCode, JStr errorDescription, JObj []])"

definition serializeCall :: "string \<Rightarrow> string \<Rightarrow> jsval \<Rightarrow> string" where
  "serializeCall mid action payload = json_stringify (JArr [JNum 2, JStr mid, JStr action, payload])"

section \<open>schemaValidator.ts\<close>

definition ocppSchemas :: "(string \<times> string list) list" where
  "ocppSchemas =
     [(''BootNotification'', [''chargePointModel'', ''chargePointVendor'']),
      (''Heartbeat'', []),
      (''StatusNotification'', [''connectorId'', ''errorCode'', ''status'']),
      (''StartTransaction'', [''connectorId'', ''idTag'', ''meterStart'', ''timestamp'']),
      (''StopTransaction'', [''meterStop'', ''timestamp'', ''transactionId'']),
      (''Authorize'', [''idTag'']),
      (''MeterValues'', [''connectorId'', ''meterValue'']),
      (''DataTransfer'', [''vendorId'']),
      (''FirmwareStatusNotification'', [''status'']),
      (''DiagnosticsStatusNotification'', [''status''])]"

definition validate :: "jsval \<Rightarrow> jsval \<Rightarrow> string option" where
  "validate action payload =
     (case map_get ocppSchemas (js_text action) of
        None \<Rightarrow> None
      | Some required \<Rightarrow>
          map_option (\<lambda>field. ''Missing required field: '' @ field)
            (List.find (\<lambda>field. js_nullish (js_get payload field)) required))"

section \<open>Round trips\<close>

lemma json_plain_small [simp]: "json_plain (JNum 2)" "json_plain (JNum 3)" "json_plain (JNum 4)"
  by simp_all

lemma js_coalesce_plain [simp]: "json_plain v \<Longrightarrow> v \<noteq> JNull \<Longrightarrow> js_coalesce v d = v"
  by (cases v) (simp_all add: js_coalesce_def js_nullish_def)



text \<open>The validator accepts a payload exactly when every field its action requires is present and not null,
  and it never objects to an action it does not know.\<close>

theorem validate_iff_required_present:
  "validate action payload = None \<longleftrightarrow>
     (case map_of ocppSchemas (js_text action) of
        None \<Rightarrow> True
      | Some required \<Rightarrow> (\<forall>field \<in> set required. js_get payload field \<notin> {JUndefined, JNull}))"
  by (auto simp: validate_def js_nullish_def find_None_iff split: option.splits)

theorem validate_iff_required_present_witness:
  "validate (JStr ''Authorize'') (JObj [(''idTag'', JStr ''TAG1'')]) = None"
  using validate_iff_required_present [of "JStr ''Authorize''" "JObj [(''idTag'', JStr ''TAG1'')]"]
  by (simp add: ocppSchemas_def)

end
