(* ===== verification/Outbox.thy ===== *)
theory Outbox
  imports Samples
begin

text \<open>
  The transactional outbox (\<open>packages/core/src/outbox\<close>).  A handler writes its event as a row of the
  outbox table in the transaction of its business data (\<open>writeOutbox\<close>); the relay polls the
  table and publishes each row to the Redis stream, marks it published, and after ten failed
  attempts moves it to the dead-letter stream.  The approximate trimming of the stream
  (\<open>MAXLEN ~ 1000000\<close>) is not modelled.
\<close>

section \<open>outboxWriter.ts\<close>

record OutboxEventInput =
  in_eventType :: CsmsEventType
  in_aggregateType :: "string option"
  in_aggregateId :: "string option"
  in_payload :: csms_payload

definition writeOutbox :: "OutboxEventInput \<Rightarrow> string prog" where [prog_defs]:
  "writeOutbox inp =
     andthen new_uuid (\<lambda>eventId.
     andthen js_now (\<lambda>now.
     andthen (db_do (create_outbox
       \<lparr>ob_id = 0, ob_eventId = eventId, ob_eventType = in_eventType inp,
        ob_aggregateType = in_aggregateType inp, ob_aggregateId = in_aggregateId inp,
        ob_payload = in_payload inp, ob_occurredAt = now, ob_publishedAt = None,
        ob_attempts = 0, ob_lastError = None\<rparr>)) (\<lambda>_.
     ret eventId)))"

section \<open>streamPublisher.ts\<close>

record PublishableEvent =
  pe_eventId :: string
  pe_eventType :: string
  pe_occurredAt :: string
  pe_aggregateType :: "string option"
  pe_aggregateId :: "string option"
  pe_payload :: jsval

definition text_or_empty :: "string option \<Rightarrow> string" where
  "text_or_empty s = (case s of None \<Rightarrow> '''' | Some t \<Rightarrow> t)"

definition stream_entry :: "PublishableEvent \<Rightarrow> (string \<times> string) list" where
  "stream_entry ev =
     [(''eventId'', pe_eventId ev), (''eventType'', pe_eventType ev), (''occurredAt'', pe_occurredAt ev),
      (''aggregateType'', text_or_empty (pe_aggregateType ev)), (''aggregateId'', text_or_empty (pe_aggregateId ev)),
      (''payload'', json_stringify (pe_payload ev))]"

definition publishEventToStream :: "PublishableEvent \<Rightarrow> unit prog" where
  "publishEventToStream ev = redis_do (\<lambda>w. ((), w\<lparr>stream := stream w @ [stream_entry ev]\<rparr>))"

definition dlq_entry :: "PublishableEvent \<Rightarrow> string \<Rightarrow> (string \<times> string) list" where
  "dlq_entry ev reason =
     [(''eventId'', pe_eventId ev), (''eventType'', pe_eventType ev), (''reason'', reason),
      (''occurredAt'', pe_occurredAt ev), (''payload'', json_stringify (pe_payload ev))]"

definition moveToDeadLetter :: "PublishableEvent \<Rightarrow> string \<Rightarrow> unit prog" where
  "moveToDeadLetter ev reason = redis_do (\<lambda>w. ((), w\<lparr>dlq := dlq w @ [dlq_entry ev reason]\<rparr>))"

section \<open>outboxRelay.ts\<close>

definition BATCH_SIZE :: nat where "BATCH_SIZE = 100"
definition MAX_ATTEMPTS :: nat where "MAX_ATTEMPTS = 10"

definition publishable :: "OutboxEvent \<Rightarrow> PublishableEvent" where
  "publishable ev = \<lparr>pe_eventId = ob_eventId ev, pe_eventType = event_type_text (ob_eventType ev),
     pe_occurredAt = date_iso (ob_occurredAt ev), pe_aggregateType = ob_aggregateType ev,
     pe_aggregateId = ob_aggregateId ev, pe_payload = payload_json (ob_payload ev)\<rparr>"

definition is_due :: "OutboxEvent \<Rightarrow> bool" where
  "is_due ev \<longleftrightarrow> ob_publishedAt ev = None \<and> ob_attempts ev < MAX_ATTEMPTS"

definition relay_batch :: "db \<Rightarrow> OutboxEvent list" where
  "relay_batch d = take BATCH_SIZE (sort_key ob_id (filter is_due (outbox d)))"

definition mark_published :: "int \<Rightarrow> int \<Rightarrow> OutboxEvent db_op" where
  "mark_published i now = update_outbox i (\<lambda>e. e\<lparr>ob_publishedAt := Some now, ob_lastError := None\<rparr>)"

definition mark_dead :: "int \<Rightarrow> nat \<Rightarrow> string \<Rightarrow> int \<Rightarrow> OutboxEvent db_op" where
  "mark_dead i n reason now =
     update_outbox i (\<lambda>e. e\<lparr>ob_attempts := n, ob_lastError := Some reason, ob_publishedAt := Some now\<rparr>)"

definition mark_failed :: "int \<Rightarrow> nat \<Rightarrow> string \<Rightarrow> OutboxEvent db_op" where
  "mark_failed i n reason = update_outbox i (\<lambda>e. e\<lparr>ob_attempts := n, ob_lastError := Some reason\<rparr>)"

text \<open>The \<open>try\<close> and the \<open>catch\<close> block of one event of the loop of \<open>tick\<close>.\<close>

definition deliver :: "OutboxEvent \<Rightarrow> unit prog" where
  "deliver ev =
     andthen (publishEventToStream (publishable ev)) (\<lambda>_.
     andthen js_now (\<lambda>now.
     andthen (db_do (mark_published (ob_id ev) now)) (\<lambda>_. ret ())))"

definition delivery_failed :: "OutboxEvent \<Rightarrow> js_error \<Rightarrow> unit prog" where
  "delivery_failed ev err =
     andthen (ask (\<lambda>w. err_message (host w) err)) (\<lambda>reason.
       let nextAttempts = ob_attempts ev + 1 in
       if MAX_ATTEMPTS \<le> nextAttempts then
         andthen (ignore_err (moveToDeadLetter (publishable ev) reason)) (\<lambda>_.
         andthen js_now (\<lambda>now.
         andthen (db_do (mark_dead (ob_id ev) nextAttempts reason now)) (\<lambda>_. ret ())))
       else andthen (db_do (mark_failed (ob_id ev) nextAttempts reason)) (\<lambda>_. ret ()))"

definition relay_event :: "OutboxEvent \<Rightarrow> unit prog" where
  "relay_event ev = catch_err (deliver ev) (delivery_failed ev)"

definition relay_pass :: "unit prog" where
  "relay_pass = andthen (db_read relay_batch) (\<lambda>pending. for_each pending relay_event)"

definition relay_tick :: "unit prog" where
  "relay_tick w =
     (if relay_running w then (Inr (), w)
      else (case catch_err relay_pass (\<lambda>_. ret ()) (w\<lparr>relay_running := True\<rparr>) of
              (r, w1) \<Rightarrow> (r, w1\<lparr>relay_running := False\<rparr>)))"

definition startOutboxRelay :: "unit prog" where
  "startOutboxRelay w = (Inr (), w\<lparr>relay_timer := True\<rparr>)"

definition stopOutboxRelay :: "unit prog" where
  "stopOutboxRelay w = (Inr (), w\<lparr>relay_timer := False\<rparr>)"

text \<open>The interval timer: ticks happen only between \<open>startOutboxRelay\<close> and \<open>stopOutboxRelay\<close>.\<close>

definition relay_interval :: "unit prog" where
  "relay_interval w = (if relay_timer w then relay_tick w else (Inr (), w))"

section \<open>Writing an event\<close>

definition fresh_event :: "OutboxEventInput \<Rightarrow> int \<Rightarrow> string \<Rightarrow> int \<Rightarrow> OutboxEvent" where
  "fresh_event inp i eventId now =
     \<lparr>ob_id = i, ob_eventId = eventId, ob_eventType = in_eventType inp,
      ob_aggregateType = in_aggregateType inp, ob_aggregateId = in_aggregateId inp,
      ob_payload = in_payload inp, ob_occurredAt = now, ob_publishedAt = None,
      ob_attempts = 0, ob_lastError = None\<rparr>"

lemma writeOutbox_Inr:
  "writeOutbox inp w = (Inr eventId, w') \<longleftrightarrow>
     (let ev = fresh_event inp (seqs (db w) TOutbox + 1) (uuid (host w) (tick w)) (clock (host w) (tick w + 1)) in
      eventId = ob_eventId ev \<and> txn w \<noteq> TxAborted \<and> \<not> fails (host w) (tick w + 2) \<and>
      (\<forall>q \<in> set (outbox (db w)). ob_id q \<noteq> ob_id ev \<and> ob_eventId q \<noteq> ob_eventId ev) \<and>
      w' = w\<lparr>tick := tick w + 3, db := (db w)\<lparr>outbox := outbox (db w) @ [ev],
                 seqs := (seqs (db w))(TOutbox := ob_id ev)\<rparr>\<rparr>)"
  by (auto simp: writeOutbox_def run_Inr create_outbox_def op_Inr fresh_event_def Let_def)

lemma fresh_event_simps [simp]:
  "ob_id (fresh_event inp i e now) = i"
  "ob_eventId (fresh_event inp i e now) = e"
  "ob_eventType (fresh_event inp i e now) = in_eventType inp"
  "ob_aggregateId (fresh_event inp i e now) = in_aggregateId inp"
  "ob_payload (fresh_event inp i e now) = in_payload inp"
  "ob_publishedAt (fresh_event inp i e now) = None"
  "ob_attempts (fresh_event inp i e now) = 0"
  by (simp_all add: fresh_event_def)

text \<open>The outbox only grows: no event is removed or rewritten, only its delivery columns change.\<close>

definition event_key :: "OutboxEvent \<Rightarrow> int \<times> string \<times> CsmsEventType \<times> string option \<times> string option \<times> csms_payload \<times> int" where
  "event_key e = (ob_id e, ob_eventId e, ob_eventType e, ob_aggregateType e, ob_aggregateId e, ob_payload e, ob_occurredAt e)"

definition outbox_grows :: "db \<Rightarrow> db \<Rightarrow> bool" where
  "outbox_grows d d' \<longleftrightarrow> prefix (map event_key (outbox d)) (map event_key (outbox d'))"

interpretation outbox_log: db_contract outbox_grows
  by unfold_locales (auto simp: outbox_grows_def)

lemma outbox_grows_frame [row_simps]: "outbox d' = outbox d \<Longrightarrow> outbox_grows d d'"
  by (simp add: outbox_grows_def)

lemma writeOutbox_grows [contract_intros]: "conforms (on_db outbox_grows) (writeOutbox inp)"
  unfolding writeOutbox_def
  by (intro contract_intros outbox_log.conforms_op)
    (auto simp: create_outbox_def op_Inr outbox_grows_def)

section \<open>Relaying one event\<close>

definition published_as :: "OutboxEvent \<Rightarrow> world \<Rightarrow> bool" where
  "published_as e w \<longleftrightarrow> stream_entry (publishable e) \<in> set (stream w)"

text \<open>
  What one attempt does to its row: nothing (the database did not answer), published after the
  entry is in the stream, one more failed attempt, or given up at the tenth.
\<close>

definition attempt_outcome :: "OutboxEvent \<Rightarrow> world \<Rightarrow> OutboxEvent \<Rightarrow> bool" where
  "attempt_outcome e w' e' \<longleftrightarrow>
     e' = e \<or>
     (\<exists>t. e' = e\<lparr>ob_publishedAt := Some t, ob_lastError := None\<rparr> \<and> published_as e w') \<or>
     (\<exists>r. e' = e\<lparr>ob_attempts := ob_attempts e + 1, ob_lastError := Some r\<rparr> \<and> ob_attempts e + 1 < MAX_ATTEMPTS) \<or>
     (\<exists>r t. e' = e\<lparr>ob_attempts := ob_attempts e + 1, ob_lastError := Some r, ob_publishedAt := Some t\<rparr> \<and>
        ob_attempts e + 1 = MAX_ATTEMPTS)"

lemma outcome_published:
  "published_as e w' \<Longrightarrow> attempt_outcome e w' (e\<lparr>ob_publishedAt := Some t, ob_lastError := None\<rparr>)"
  unfolding attempt_outcome_def by blast

lemma outcome_retry:
  "ob_attempts e + 1 < MAX_ATTEMPTS \<Longrightarrow>
   attempt_outcome e w' (e\<lparr>ob_attempts := ob_attempts e + 1, ob_lastError := Some r\<rparr>)"
  unfolding attempt_outcome_def by blast

lemma outcome_dead:
  "ob_attempts e + 1 = MAX_ATTEMPTS \<Longrightarrow>
   attempt_outcome e w' (e\<lparr>ob_attempts := ob_attempts e + 1, ob_lastError := Some r, ob_publishedAt := Some t\<rparr>)"
  unfolding attempt_outcome_def by blast

lemma find_by_id:
  "distinct (map ob_id rows) \<Longrightarrow> e \<in> set rows \<Longrightarrow> List.find (\<lambda>r. ob_id r = ob_id e) rows = Some e"
  by (rule find_unique)

lemma update_where_id:
  assumes "distinct (map k rows)" "e \<in> set rows"
  shows "update_where (\<lambda>r. k r = k e) f rows = update_where (\<lambda>r. k r = k e) (\<lambda>_. f e) rows"
  unfolding update_where_def
  by (rule map_cong) (use assms in \<open>auto dest: distinct_map_eq\<close>)

lemma update_where_same:
  assumes "distinct (map k rows)" "e \<in> set rows"
  shows "update_where (\<lambda>r. k r = k e) (\<lambda>_. e) rows = rows"
  unfolding update_where_def
  by (rule map_idI) (use assms in \<open>auto dest: distinct_map_eq\<close>)

lemma update_outbox_run:
  assumes "distinct (map ob_id (outbox (db w)))" "e \<in> set (outbox (db w))"
  shows "db_do (update_outbox (ob_id e) f) w =
    (if txn w = TxAborted \<or> fails (host w) (tick w)
     then (Inl (PrismaErr ConnectionLost), w\<lparr>tick := tick w + 1, txn := if txn w = NoTx then NoTx else TxAborted\<rparr>)
     else (Inr (f e), w\<lparr>tick := tick w + 1,
            db := (db w)\<lparr>outbox := update_where (\<lambda>r. ob_id r = ob_id e) (\<lambda>_. f e) (outbox (db w))\<rparr>\<rparr>))"
proof -
  have "update_where (\<lambda>r. ob_id r = ob_id e) f (outbox (db w))
    = update_where (\<lambda>r. ob_id r = ob_id e) (\<lambda>_. f e) (outbox (db w))"
    by (rule update_where_id [OF assms])
  with find_by_id [OF assms] show ?thesis
    by (simp add: db_do_def Let_def update_outbox_def on_outbox_def lift_rows_def update_row_def)
qed

text \<open>The state after one attempt on the row of \<open>e\<close>.\<close>

definition attempted :: "OutboxEvent \<Rightarrow> world \<Rightarrow> world \<Rightarrow> bool" where
  "attempted e w w' \<longleftrightarrow>
     (\<exists>e'. attempt_outcome e w' e' \<and>
        db w' = (db w)\<lparr>outbox := update_where (\<lambda>r. ob_id r = ob_id e) (\<lambda>_. e') (outbox (db w))\<rparr>) \<and>
     prefix (stream w) (stream w') \<and> prefix (dlq w) (dlq w')"

lemma attempted_idle:
  assumes "distinct (map ob_id (outbox (db w)))" "e \<in> set (outbox (db w))"
    "db w' = db w" "prefix (stream w) (stream w')" "prefix (dlq w) (dlq w')"
  shows "attempted e w w'"
  using assms by (auto simp: attempted_def attempt_outcome_def update_where_same intro!: exI [of _ e])

lemma attemptedI:
  assumes "attempt_outcome e w' (f e)" "prefix (stream w) (stream w')" "prefix (dlq w) (dlq w')"
    "db w' = (db w)\<lparr>outbox := update_where (\<lambda>r. ob_id r = ob_id e) (\<lambda>_. f e) (outbox (db w))\<rparr>"
  shows "attempted e w w'"
  using assms by (auto simp: attempted_def)

text \<open>One update of the row of \<open>e\<close> at the end of an attempt.\<close>

lemma attempted_update:
  assumes rows: "distinct (map ob_id (outbox (db w)))" "e \<in> set (outbox (db w))"
    and mid: "db w1 = db w" "prefix (stream w) (stream w1)" "prefix (dlq w) (dlq w1)"
    and run: "andthen (db_do (update_outbox (ob_id e) f)) (\<lambda>_. ret ()) w1 = (r, w')"
    and outcome: "\<And>w'. stream w' = stream w1 \<Longrightarrow> attempt_outcome e w' (f e)"
  shows "attempted e w w'"
    and "r = Inl err \<Longrightarrow> db w' = db w \<and> prefix (stream w) (stream w') \<and> dlq w' = dlq w1"
proof -
  have upd: "db_do (update_outbox (ob_id e) f) w1 =
    (if txn w1 = TxAborted \<or> fails (host w1) (tick w1)
     then (Inl (PrismaErr ConnectionLost), w1\<lparr>tick := tick w1 + 1, txn := if txn w1 = NoTx then NoTx else TxAborted\<rparr>)
     else (Inr (f e), w1\<lparr>tick := tick w1 + 1,
            db := (db w1)\<lparr>outbox := update_where (\<lambda>r. ob_id r = ob_id e) (\<lambda>_. f e) (outbox (db w1))\<rparr>\<rparr>))"
    by (rule update_outbox_run) (simp_all add: rows mid)
  show "attempted e w w'"
  proof (cases "txn w1 = TxAborted \<or> fails (host w1) (tick w1)")
    case True
    with run have "db w' = db w1" "stream w' = stream w1" "dlq w' = dlq w1"
      by (auto simp: andthen_def upd)
    with mid rows show ?thesis by (intro attempted_idle) simp_all
  next
    case False
    with run have w': "w' = w1\<lparr>tick := tick w1 + 1,
            db := (db w1)\<lparr>outbox := update_where (\<lambda>r. ob_id r = ob_id e) (\<lambda>_. f e) (outbox (db w1))\<rparr>\<rparr>"
      by (auto simp: andthen_def upd ret_def)
    show ?thesis
      by (rule attemptedI [where f = f]) (simp_all add: w' mid outcome)
  qed
  show "r = Inl err \<Longrightarrow> db w' = db w \<and> prefix (stream w) (stream w') \<and> dlq w' = dlq w1"
    using run mid by (auto simp: andthen_def upd ret_def split: if_splits)
qed

lemma deliver_run:
  assumes rows: "distinct (map ob_id (outbox (db w)))" "e \<in> set (outbox (db w))"
    and run: "deliver e w = (r, w')"
  shows "attempted e w w'"
    and "r = Inl err \<Longrightarrow> db w' = db w \<and> prefix (stream w) (stream w') \<and> dlq w' = dlq w"
proof -
  define w1 where "w1 = w\<lparr>stream := stream w @ [stream_entry (publishable e)], tick := tick w + 2\<rparr>"
  let ?f = "\<lambda>e. e\<lparr>ob_publishedAt := Some (clock (host w) (tick w + 1)), ob_lastError := None\<rparr>"
  consider (lost) "db w' = db w" "stream w' = stream w" "dlq w' = dlq w" 
    | (sent) "andthen (db_do (update_outbox (ob_id e) ?f)) (\<lambda>_. ret ()) w1 = (r, w')"
    using run by (cases "fails (host w) (tick w)")
      (auto simp: deliver_def publishEventToStream_def andthen_def redis_do_def Let_def js_now_def mark_published_def w1_def)
  note cases = this
  have outcome: "attempt_outcome e w' (?f e)" if "stream w' = stream w1" for w'
    by (rule outcome_published) (simp add: that w1_def published_as_def)
  show "attempted e w w'"
  proof (cases rule: cases)
    case lost
    with rows show ?thesis by (intro attempted_idle) simp_all
  next
    case sent
    show ?thesis by (rule attempted_update(1) [OF rows _ _ _ sent outcome]) (simp_all add: w1_def)
  qed
  show "r = Inl err \<Longrightarrow> db w' = db w \<and> prefix (stream w) (stream w') \<and> dlq w' = dlq w"
  proof (cases rule: cases)
    case sent
    assume "r = Inl err"
    from attempted_update(2) [OF rows _ _ _ sent outcome this] show ?thesis by (simp add: w1_def)
  qed simp
qed

lemma moveToDeadLetter_run:
  "\<exists>n q. ignore_err (moveToDeadLetter ev reason) w = (Inr (), w\<lparr>tick := n, dlq := dlq w @ q\<rparr>)"
proof (cases "fails (host w) (tick w)")
  case True
  then show ?thesis
    by (auto simp: ignore_err_def catch_err_def andthen_def moveToDeadLetter_def redis_do_def Let_def ret_def
        intro!: exI [of _ "tick w + 1"] exI [of _ "[]"])
next
  case False
  then show ?thesis
    by (auto simp: ignore_err_def catch_err_def andthen_def moveToDeadLetter_def redis_do_def Let_def ret_def
        intro!: exI [of _ "tick w + 1"] exI [of _ "[dlq_entry ev reason]"])
qed

lemma delivery_failed_run:
  assumes rows: "distinct (map ob_id (outbox (db w)))" "e \<in> set (outbox (db w))" and due: "is_due e"
    and run: "delivery_failed e err w = (r, w')"
  shows "attempted e w w'"
proof (cases "MAX_ATTEMPTS \<le> ob_attempts e + 1")
  case True
  with due have ten: "ob_attempts e + 1 = MAX_ATTEMPTS" by (simp add: is_due_def)
  let ?reason = "err_message (host w) err"
  obtain n q where move: "ignore_err (moveToDeadLetter (publishable e) ?reason) w = (Inr (), w\<lparr>tick := n, dlq := dlq w @ q\<rparr>)"
    using moveToDeadLetter_run by blast
  define w1 where "w1 = w\<lparr>dlq := dlq w @ q, tick := n + 1\<rparr>"
  let ?f = "\<lambda>e'. e'\<lparr>ob_attempts := ob_attempts e + 1, ob_lastError := Some ?reason, ob_publishedAt := Some (clock (host w) n)\<rparr>"
  have go: "andthen (db_do (update_outbox (ob_id e) ?f)) (\<lambda>_. ret ()) w1 = (r, w')"
    using run True move
    by (simp add: delivery_failed_def ask_def Let_def js_now_def mark_dead_def w1_def andthen_def [where m = "ask f" for f]
        andthen_def [where m = "ignore_err f" for f] andthen_def [where m = js_now])
  show ?thesis
    by (rule attempted_update(1) [OF rows _ _ _ go]) (simp_all add: w1_def outcome_dead [OF ten, simplified])
next
  case False
  let ?f = "\<lambda>e'. e'\<lparr>ob_attempts := ob_attempts e + 1, ob_lastError := Some (err_message (host w) err)\<rparr>"
  have go: "andthen (db_do (update_outbox (ob_id e) ?f)) (\<lambda>_. ret ()) w = (r, w')"
    using run False by (simp add: delivery_failed_def ask_def Let_def mark_failed_def andthen_def [where m = "ask f" for f])
  from False have "ob_attempts e + 1 < MAX_ATTEMPTS" by simp
  with outcome_retry show ?thesis by (intro attempted_update(1) [OF rows _ _ _ go]) simp_all
qed

lemma relay_event_run:
  assumes rows: "distinct (map ob_id (outbox (db w)))" "e \<in> set (outbox (db w))" and due: "is_due e"
    and run: "relay_event e w = (r, w')"
  shows "attempted e w w'"
proof (cases "deliver e w")
  case (Pair q w1)
  show ?thesis
  proof (cases q)
    case (Inl err)
    with Pair run have fin: "delivery_failed e err w1 = (r, w')" by (simp add: relay_event_def catch_err_def)
    from deliver_run(2) [OF rows Pair Inl]
    have w1: "db w1 = db w" "prefix (stream w) (stream w1)" "dlq w1 = dlq w" by simp_all
    have "attempted e w1 w'" by (rule delivery_failed_run [OF _ _ due fin]) (simp_all add: w1 rows)
    with w1 show ?thesis by (auto simp: attempted_def intro: prefix_order.trans)
  next
    case (Inr x)
    with Pair run deliver_run(1) [OF rows Pair] show ?thesis by (simp add: relay_event_def catch_err_def)
  qed
qed

section \<open>One tick\<close>

lemma publishable_key: "event_key e' = event_key e \<Longrightarrow> publishable e' = publishable e"
  by (simp add: event_key_def publishable_def)

lemma published_as_mono: "published_as e w \<Longrightarrow> prefix (stream w) (stream w') \<Longrightarrow> published_as e w'"
  by (auto simp: published_as_def dest: set_mono_prefix)

lemma attempt_outcome_mono:
  "attempt_outcome e w e' \<Longrightarrow> prefix (stream w) (stream w') \<Longrightarrow> attempt_outcome e w' e'"
  unfolding attempt_outcome_def using published_as_mono by blast

lemma attempt_outcome_key: "attempt_outcome e w e' \<Longrightarrow> event_key e' = event_key e \<and> ob_id e' = ob_id e"
  by (auto simp: attempt_outcome_def event_key_def)

lemma attempt_outcome_refl: "attempt_outcome e w e"
  by (simp add: attempt_outcome_def)

text \<open>Rows before and after: the attempted events have an outcome, the others are untouched.\<close>

definition rows_attempted :: "OutboxEvent set \<Rightarrow> world \<Rightarrow> OutboxEvent list \<Rightarrow> OutboxEvent list \<Rightarrow> bool" where
  "rows_attempted S w' rows rows' \<longleftrightarrow>
     list_all2 (\<lambda>e e'. if e \<in> S then attempt_outcome e w' e' else e' = e) rows rows'"

lemma rows_attempted_ids: "rows_attempted S w' rows rows' \<Longrightarrow> map ob_id rows' = map ob_id rows"
  unfolding rows_attempted_def
  by (induction rule: list_all2_induct) (auto dest: attempt_outcome_key split: if_splits)

lemma rows_attempted_keys: "rows_attempted S w' rows rows' \<Longrightarrow> map event_key rows' = map event_key rows"
  unfolding rows_attempted_def
  by (induction rule: list_all2_induct) (auto dest: attempt_outcome_key split: if_splits)

lemma rows_attempted_refl: "rows_attempted {} w' rows rows"
  by (simp add: rows_attempted_def list.rel_refl)

lemma rows_attempted_stream: "stream w1 = stream w2 \<Longrightarrow> rows_attempted S w1 = rows_attempted S w2"
  by (simp add: fun_eq_iff rows_attempted_def attempt_outcome_def published_as_def)

lemma rows_attempted_step:
  assumes ids: "distinct (map ob_id rows)" "e \<in> set rows" "e \<notin> S"
    and out: "attempt_outcome e w1 e1" and pre: "prefix (stream w1) (stream w')"
    and rest: "rows_attempted S w' (update_where (\<lambda>r. ob_id r = ob_id e) (\<lambda>_. e1) rows) rows'"
    and S: "S \<subseteq> set rows"
  shows "rows_attempted (insert e S) w' rows rows'"
proof -
  have len: "length rows' = length rows"
    using rest by (auto simp: rows_attempted_def dest: list_all2_lengthD)
  have "if rows ! i \<in> insert e S then attempt_outcome (rows ! i) w' (rows' ! i) else rows' ! i = rows ! i"
    if i: "i < length rows" for i
  proof (cases "rows ! i = e")
    case True
    from rest i have r: "if e1 \<in> S then attempt_outcome e1 w' (rows' ! i) else rows' ! i = e1"
      by (auto simp: rows_attempted_def list_all2_conv_all_nth update_where_nth True)
    have "e1 \<notin> S"
    proof
      assume "e1 \<in> S"
      with S have "e1 \<in> set rows" by auto
      with ids attempt_outcome_key [OF out] have "e1 = e" by (auto dest: distinct_map_eq)
      with \<open>e1 \<in> S\<close> ids show False by simp
    qed
    with r out pre True show ?thesis by (auto intro: attempt_outcome_mono)
  next
    case False
    then have "ob_id (rows ! i) \<noteq> ob_id e"
      using distinct_map_eq [OF ids(1) nth_mem [OF i] ids(2)] by blast
    with rest i False show ?thesis
      by (auto simp: rows_attempted_def list_all2_conv_all_nth update_where_nth)
  qed
  with len show ?thesis by (simp add: rows_attempted_def list_all2_conv_all_nth)
qed

lemma relay_loop_run:
  assumes "distinct (map ob_id (outbox (db w)))" "distinct es" "set es \<subseteq> set (outbox (db w))"
    and "\<forall>e \<in> set es. is_due e" and "for_each es relay_event w = (r, w')"
  shows "(\<exists>S \<subseteq> set es. rows_attempted S w' (outbox (db w)) (outbox (db w'))) \<and>
    db w' = (db w)\<lparr>outbox := outbox (db w')\<rparr> \<and> prefix (stream w) (stream w') \<and> prefix (dlq w) (dlq w')"
  using assms
proof (induction es arbitrary: w)
  case Nil
  then show ?case by (auto simp: ret_def intro!: rows_attempted_refl)
next
  case (Cons e es)
  obtain q w1 where one: "relay_event e w = (q, w1)" by (cases "relay_event e w")
  have "attempted e w w1" by (rule relay_event_run [OF _ _ _ one]) (use Cons.prems in auto)
  then obtain e1 where e1: "attempt_outcome e w1 e1"
      "db w1 = (db w)\<lparr>outbox := update_where (\<lambda>r. ob_id r = ob_id e) (\<lambda>_. e1) (outbox (db w))\<rparr>"
    and pre: "prefix (stream w) (stream w1)" "prefix (dlq w) (dlq w1)"
    by (auto simp: attempted_def)
  let ?rows = "update_where (\<lambda>r. ob_id r = ob_id e) (\<lambda>_. e1) (outbox (db w))"
  show ?case
  proof (cases q)
    case (Inl x)
    with one Cons.prems have w': "w' = w1" by (simp add: andthen_def)
    have "rows_attempted (insert e {}) w' (outbox (db w)) (outbox (db w'))"
      using Cons.prems e1 w'
      by (intro rows_attempted_step [of _ _ _ w1 e1]) (simp_all add: rows_attempted_refl)
    with w' e1 pre show ?thesis by (intro conjI exI [of _ "{e}"]) auto
  next
    case (Inr x)
    with one Cons.prems have rest: "for_each es relay_event w1 = (r, w')" by (simp add: andthen_def)
    have ids: "map ob_id ?rows = map ob_id (outbox (db w))"
      using attempt_outcome_key [OF e1(1)] by (auto simp: update_where_def)
    have sub: "set es \<subseteq> set ?rows"
    proof
      fix x assume x: "x \<in> set es"
      with Cons.prems have "x \<noteq> e" "x \<in> set (outbox (db w))" by auto
      with Cons.prems have "ob_id x \<noteq> ob_id e" by (auto dest: distinct_map_eq)
      with \<open>x \<in> set (outbox (db w))\<close> show "x \<in> set ?rows" by (auto simp: set_update_where)
    qed
    have "(\<exists>S \<subseteq> set es. rows_attempted S w' (outbox (db w1)) (outbox (db w'))) \<and>
      db w' = (db w1)\<lparr>outbox := outbox (db w')\<rparr> \<and> prefix (stream w1) (stream w') \<and> prefix (dlq w1) (dlq w')"
      by (rule Cons.IH [OF _ _ _ _ rest]) (use Cons.prems e1 ids sub in auto)
    then obtain S where S: "S \<subseteq> set es" "rows_attempted S w' ?rows (outbox (db w'))"
      and more: "db w' = (db w1)\<lparr>outbox := outbox (db w')\<rparr>" "prefix (stream w1) (stream w')" "prefix (dlq w1) (dlq w')"
      using e1 by auto
    have "rows_attempted (insert e S) w' (outbox (db w)) (outbox (db w'))"
      using Cons.prems e1 more S by (intro rows_attempted_step [of _ _ _ w1 e1]) auto
    moreover have "db w' = (db w)\<lparr>outbox := outbox (db w')\<rparr>" using more(1) e1(2) by simp
    moreover have "prefix (stream w) (stream w')" "prefix (dlq w) (dlq w')"
      using pre more by (auto intro: prefix_order.trans)
    moreover have "insert e S \<subseteq> set (e # es)" using S by auto
    ultimately show ?thesis by blast
  qed
qed

lemma relay_batch_props:
  assumes "distinct (map ob_id (outbox d))"
  shows "distinct (relay_batch d)" "set (relay_batch d) \<subseteq> set (outbox d)" "\<forall>e \<in> set (relay_batch d). is_due e"
    "sorted (map ob_id (relay_batch d))"
proof -
  have "distinct (sort_key ob_id (filter is_due (outbox d)))"
    using assms by (simp add: distinct_map)
  then show "distinct (relay_batch d)" by (simp add: relay_batch_def)
  show "set (relay_batch d) \<subseteq> set (outbox d)" "\<forall>e \<in> set (relay_batch d). is_due e"
    by (auto simp: relay_batch_def dest: in_set_takeD)
  show "sorted (map ob_id (relay_batch d))"
    by (simp add: relay_batch_def take_map [symmetric] sorted_wrt_take)
qed

lemma relay_tick_run:
  assumes ids: "distinct (map ob_id (outbox (db w)))" and run: "relay_tick w = (r, w')"
  obtains S where "S \<subseteq> set (relay_batch (db w))" "rows_attempted S w' (outbox (db w)) (outbox (db w'))"
    "db w' = (db w)\<lparr>outbox := outbox (db w')\<rparr>" "prefix (stream w) (stream w')" "prefix (dlq w) (dlq w')"
proof -
  let ?w0 = "w\<lparr>relay_running := True\<rparr>"
  show thesis
  proof (cases "relay_running w \<or> txn w = TxAborted \<or> fails (host w) (tick w)")
    case True
    with run have "db w' = db w" "stream w' = stream w" "dlq w' = dlq w"
      by (auto simp: relay_tick_def relay_pass_def catch_err_def andthen_def db_read_def db_do_def Let_def ret_def
          split: if_splits)
    then show thesis by (intro that [of "{}"]) (auto intro: rows_attempted_refl)
  next
    case False
    let ?w1 = "w\<lparr>tick := tick w + 1, relay_running := True\<rparr>"
    obtain q w2 where loop: "for_each (relay_batch (db w)) relay_event (w\<lparr>relay_running := True, tick := tick w + 1\<rparr>) = (q, w2)"
      by (cases "for_each (relay_batch (db w)) relay_event (w\<lparr>relay_running := True, tick := tick w + 1\<rparr>)")
    with False run have w': "db w' = db w2" "stream w' = stream w2" "dlq w' = dlq w2"
      by (auto simp: relay_tick_def relay_pass_def catch_err_def andthen_def db_read_def db_do_def Let_def ret_def
          split: if_splits sum.splits prod.splits)
    obtain S where S: "S \<subseteq> set (relay_batch (db w))" "rows_attempted S w2 (outbox (db w)) (outbox (db w2))"
      "db w2 = (db w)\<lparr>outbox := outbox (db w2)\<rparr>" "prefix (stream w) (stream w2)" "prefix (dlq w) (dlq w2)"
      using relay_loop_run [OF _ _ _ _ loop] relay_batch_props [OF ids] ids by auto
    then have "rows_attempted S w' (outbox (db w)) (outbox (db w'))"
      using w' rows_attempted_stream [of w' w2] by simp
    with S w' show thesis by (intro that [of S]) auto
  qed
qed

section \<open>Ticks without failures\<close>

lemma deliver_ok:
  assumes "distinct (map ob_id (outbox (db w)))" "e \<in> set (outbox (db w))"
    and "\<forall>n. \<not> fails (host w) n" "txn w \<noteq> TxAborted"
  obtains w' t where "relay_event e w = (Inr (), w')" "stream w' = stream w @ [stream_entry (publishable e)]"
    "db w' = (db w)\<lparr>outbox := update_where (\<lambda>r. ob_id r = ob_id e)
       (\<lambda>_. e\<lparr>ob_publishedAt := Some t, ob_lastError := None\<rparr>) (outbox (db w))\<rparr>"
    "host w' = host w" "txn w' = txn w" "relay_running w' = relay_running w"
proof -
  let ?w1 = "w\<lparr>stream := stream w @ [stream_entry (publishable e)], tick := tick w + 2\<rparr>"
  have "relay_event e w = (Inr (), ?w1\<lparr>tick := tick w + 3,
      db := (db w)\<lparr>outbox := update_where (\<lambda>r. ob_id r = ob_id e)
       (\<lambda>_. e\<lparr>ob_publishedAt := Some (clock (host w) (tick w + 1)), ob_lastError := None\<rparr>) (outbox (db w))\<rparr>\<rparr>)"
    using assms update_outbox_run [of ?w1 e]
    by (simp add: relay_event_def catch_err_def deliver_def publishEventToStream_def andthen_def redis_do_def Let_def
        js_now_def mark_published_def ret_def numeral_3_eq_3)
  then show thesis by (rule that) simp_all
qed

definition mark_all :: "OutboxEvent list \<Rightarrow> OutboxEvent list \<Rightarrow> OutboxEvent list \<Rightarrow> bool" where
  "mark_all es rows rows' \<longleftrightarrow>
     list_all2 (\<lambda>e e'. if e \<in> set es then \<not> is_due e' else e' = e) rows rows'"

lemma filter_due_mark_all:
  "mark_all es rows rows' \<Longrightarrow> filter is_due rows' = filter (\<lambda>e. is_due e \<and> e \<notin> set es) rows"
  unfolding mark_all_def by (induction rule: list_all2_induct) (auto split: if_splits)

lemma relay_loop_ok:
  assumes "distinct (map ob_id (outbox (db w)))" "distinct es" "set es \<subseteq> set (outbox (db w))"
    and "\<forall>n. \<not> fails (host w) n" "txn w \<noteq> TxAborted"
  shows "\<exists>w'. for_each es relay_event w = (Inr (), w') \<and>
    stream w' = stream w @ map (\<lambda>e. stream_entry (publishable e)) es \<and>
    mark_all es (outbox (db w)) (outbox (db w')) \<and> map ob_id (outbox (db w')) = map ob_id (outbox (db w)) \<and>
    host w' = host w \<and> txn w' = txn w \<and> relay_running w' = relay_running w"
  using assms
proof (induction es arbitrary: w)
  case Nil
  then show ?case by (simp add: ret_def mark_all_def list.rel_refl)
next
  case (Cons e es)
  obtain w1 t where one: "relay_event e w = (Inr (), w1)" "stream w1 = stream w @ [stream_entry (publishable e)]"
    and db1: "db w1 = (db w)\<lparr>outbox := update_where (\<lambda>r. ob_id r = ob_id e)
       (\<lambda>_. e\<lparr>ob_publishedAt := Some t, ob_lastError := None\<rparr>) (outbox (db w))\<rparr>"
    and same: "host w1 = host w" "txn w1 = txn w" "relay_running w1 = relay_running w"
    using Cons.prems by (elim deliver_ok [of w e, rotated -1]) auto
  let ?e1 = "e\<lparr>ob_publishedAt := Some t, ob_lastError := None\<rparr>"
  let ?rows = "update_where (\<lambda>r. ob_id r = ob_id e) (\<lambda>_. ?e1) (outbox (db w))"
  have ids: "map ob_id ?rows = map ob_id (outbox (db w))" by (auto simp: update_where_def)
  have other: "x \<in> set (outbox (db w)) \<Longrightarrow> x \<noteq> e \<Longrightarrow> ob_id x \<noteq> ob_id e" for x
    using Cons.prems(1,3) distinct_map_eq by fastforce
  have "set es \<subseteq> set ?rows"
    using Cons.prems other by (fastforce simp: set_update_where)
  then obtain w' where w': "for_each es relay_event w1 = (Inr (), w')"
      "stream w' = stream w1 @ map (\<lambda>e. stream_entry (publishable e)) es"
      "mark_all es ?rows (outbox (db w'))" "map ob_id (outbox (db w')) = map ob_id (outbox (db w))"
      "host w' = host w" "txn w' = txn w" "relay_running w' = relay_running w"
    using Cons.IH [of w1] Cons.prems db1 ids same by auto
  have "mark_all (e # es) (outbox (db w)) (outbox (db w'))"
    unfolding mark_all_def list_all2_conv_all_nth
  proof (intro conjI allI impI)
    show "length (outbox (db w)) = length (outbox (db w'))"
      using w'(3) by (auto simp: mark_all_def dest: list_all2_lengthD)
    fix i assume i: "i < length (outbox (db w))"
    have step: "if ?rows ! i \<in> set es then \<not> is_due (outbox (db w') ! i) else outbox (db w') ! i = ?rows ! i"
      using w'(3) i by (auto simp: mark_all_def list_all2_conv_all_nth)
    show "if outbox (db w) ! i \<in> set (e # es) then \<not> is_due (outbox (db w') ! i)
          else outbox (db w') ! i = outbox (db w) ! i"
    proof (cases "outbox (db w) ! i = e")
      case True
      with i have "?rows ! i = ?e1" by (simp add: update_where_nth)
      with step True show ?thesis by (auto simp: is_due_def split: if_splits)
    next
      case False
      with i other [of "outbox (db w) ! i"] have "?rows ! i = outbox (db w) ! i" by (simp add: update_where_nth)
      with step False show ?thesis by auto
    qed
  qed
  with one w' show ?case by (simp add: andthen_def)
qed

lemma relay_tick_ok:
  assumes "distinct (map ob_id (outbox (db w)))" "\<forall>n. \<not> fails (host w) n" "txn w \<noteq> TxAborted" "\<not> relay_running w"
  shows "\<exists>w'. relay_tick w = (Inr (), w') \<and>
    stream w' = stream w @ map (\<lambda>e. stream_entry (publishable e)) (relay_batch (db w)) \<and>
    filter is_due (outbox (db w')) = filter (\<lambda>e. is_due e \<and> e \<notin> set (relay_batch (db w))) (outbox (db w)) \<and>
    map ob_id (outbox (db w')) = map ob_id (outbox (db w)) \<and>
    host w' = host w \<and> txn w' = txn w \<and> \<not> relay_running w'"
proof -
  let ?w1 = "w\<lparr>relay_running := True, tick := tick w + 1\<rparr>"
  from relay_loop_ok [of ?w1 "relay_batch (db w)"] relay_batch_props [OF assms(1)] assms
  obtain w' where "for_each (relay_batch (db w)) relay_event ?w1 = (Inr (), w')"
    "stream w' = stream w @ map (\<lambda>e. stream_entry (publishable e)) (relay_batch (db w))"
    "mark_all (relay_batch (db w)) (outbox (db w)) (outbox (db w'))"
    "map ob_id (outbox (db w')) = map ob_id (outbox (db w))" "host w' = host w" "txn w' = txn w"
    by auto
  with assms filter_due_mark_all show ?thesis
    by (auto simp: relay_tick_def relay_pass_def catch_err_def andthen_def db_read_def db_do_def Let_def)
qed

lemma filter_not_taken:
  assumes "distinct xs"
  shows "length (filter (\<lambda>x. x \<notin> set (take n (sort_key f xs))) xs) = length xs - n"
proof -
  let ?ys = "sort_key f xs"
  have ys: "distinct ?ys" "set ?ys = set xs" "length ?ys = length xs" using assms by simp_all
  have "set (filter (\<lambda>x. x \<notin> set (take n ?ys)) xs) = set (drop n ?ys)"
  proof -
    have "set ?ys = set (take n ?ys) \<union> set (drop n ?ys)"
      by (metis append_take_drop_id set_append)
    moreover have "set (take n ?ys) \<inter> set (drop n ?ys) = {}"
      using ys(1) by (simp add: set_take_disj_set_drop_if_distinct)
    ultimately show ?thesis using ys(2) by auto
  qed
  moreover have "distinct (filter (\<lambda>x. x \<notin> set (take n ?ys)) xs)" "distinct (drop n ?ys)"
    using assms ys(1) by simp_all
  ultimately have "length (filter (\<lambda>x. x \<notin> set (take n ?ys)) xs) = length (drop n ?ys)"
    by (metis distinct_card)
  then show ?thesis using ys(3) by simp
qed

lemma due_after_tick:
  assumes "distinct (map ob_id (outbox d))"
  shows "length (filter (\<lambda>e. is_due e \<and> e \<notin> set (relay_batch d)) (outbox d))
    = length (filter is_due (outbox d)) - BATCH_SIZE"
proof -
  have "distinct (filter is_due (outbox d))" using assms by (simp add: distinct_map)
  from filter_not_taken [OF this, of BATCH_SIZE ob_id] show ?thesis
    by (simp add: relay_batch_def conj_commute)
qed

abbreviation ticks_of :: "nat \<Rightarrow> world \<Rightarrow> world" where
  "ticks_of k \<equiv> (\<lambda>w. snd (relay_tick w)) ^^ k"

lemma relay_drain:
  assumes "distinct (map ob_id (outbox (db w)))" "\<forall>n. \<not> fails (host w) n" "txn w \<noteq> TxAborted" "\<not> relay_running w"
    and "length (filter is_due (outbox (db w))) \<le> k * BATCH_SIZE"
  shows "filter is_due (outbox (db (ticks_of k w))) = [] \<and> prefix (stream w) (stream (ticks_of k w)) \<and>
    (\<forall>e \<in> set (outbox (db w)). is_due e \<longrightarrow> published_as e (ticks_of k w))"
  using assms
proof (induction k arbitrary: w)
  case 0
  then show ?case by (simp add: filter_empty_conv)
next
  case (Suc k)
  from relay_tick_ok [OF Suc.prems(1-4)]
  obtain w' where w': "relay_tick w = (Inr (), w')"
    "stream w' = stream w @ map (\<lambda>e. stream_entry (publishable e)) (relay_batch (db w))"
    "filter is_due (outbox (db w')) = filter (\<lambda>e. is_due e \<and> e \<notin> set (relay_batch (db w))) (outbox (db w))"
    "map ob_id (outbox (db w')) = map ob_id (outbox (db w))" "host w' = host w" "txn w' = txn w" "\<not> relay_running w'"
    by blast
  have IH: "filter is_due (outbox (db (ticks_of k w'))) = []" "prefix (stream w') (stream (ticks_of k w'))"
    "\<forall>e \<in> set (outbox (db w')). is_due e \<longrightarrow> published_as e (ticks_of k w')"
    using Suc.IH [of w'] Suc.prems w' due_after_tick [OF Suc.prems(1)] by simp_all
  have "published_as e (ticks_of k w')" if e: "e \<in> set (outbox (db w))" "is_due e" for e
  proof (cases "e \<in> set (relay_batch (db w))")
    case True
    then have "published_as e w'" by (auto simp: published_as_def w'(2))
    from published_as_mono [OF this IH(2)] show ?thesis .
  next
    case False
    with e w'(3) have "e \<in> set (filter is_due (outbox (db w')))" by simp
    with IH(3) show ?thesis by simp
  qed
  moreover have "ticks_of (Suc k) w = ticks_of k w'"
    using w'(1) by (simp add: funpow_Suc_right del: funpow.simps)
  moreover have "prefix (stream w) (stream (ticks_of k w'))"
    using w'(2) IH(2) by (metis append_prefixD)
  ultimately show ?case using IH(1) by simp
qed

section \<open>What the relay guarantees\<close>

text \<open>
  No event disappears: a row marked published is in the stream or was given up at the tenth attempt,
  and an unpublished row has attempts left.
\<close>

definition delivery_ok :: "world \<Rightarrow> OutboxEvent \<Rightarrow> bool" where
  "delivery_ok w e \<longleftrightarrow> ob_attempts e \<le> MAX_ATTEMPTS \<and>
     (ob_publishedAt e = None \<longrightarrow> ob_attempts e < MAX_ATTEMPTS) \<and>
     (ob_publishedAt e \<noteq> None \<longrightarrow> published_as e w \<or> ob_attempts e = MAX_ATTEMPTS)"

definition outbox_ok :: "world \<Rightarrow> bool" where
  "outbox_ok w \<longleftrightarrow> distinct (map ob_id (outbox (db w))) \<and> (\<forall>e \<in> set (outbox (db w)). delivery_ok w e)"

text \<open>One tick of the relay attempts every event at most once, only events of the batch it read,
  and leaves each row either untouched, published with its entry in the stream, with one more
  failed attempt below the limit, or given up at exactly the tenth attempt; the streams only grow.\<close>

theorem relay_tick_outcomes:
  assumes "distinct (map ob_id (outbox (db w)))" and "relay_tick w = (r, w')"
  shows "list_all2 (\<lambda>e e'. e' = e \<or> e \<in> set (relay_batch (db w)) \<and> attempt_outcome e w' e')
           (outbox (db w)) (outbox (db w')) \<and>
         prefix (stream w) (stream w') \<and> prefix (dlq w) (dlq w')"
proof -
  from relay_tick_run [OF assms] obtain S where S: "S \<subseteq> set (relay_batch (db w))"
    and rows: "rows_attempted S w' (outbox (db w)) (outbox (db w'))"
    and streams: "prefix (stream w) (stream w')" "prefix (dlq w) (dlq w')" .
  from rows have "list_all2 (\<lambda>e e'. e' = e \<or> e \<in> set (relay_batch (db w)) \<and> attempt_outcome e w' e')
           (outbox (db w)) (outbox (db w'))"
    unfolding rows_attempted_def by (rule list.rel_mono_strong) (use S in \<open>auto split: if_splits\<close>)
  with streams show ?thesis by simp
qed

theorem relay_tick_outcomes_witness:
  "list_all2 (\<lambda>e e'. e' = e \<or> e \<in> set (relay_batch sample_db) \<and> attempt_outcome e (snd (relay_tick sample_world)) e')
     (outbox sample_db) (outbox (db (snd (relay_tick sample_world))))"
  using relay_tick_outcomes [of sample_world "fst (relay_tick sample_world)" "snd (relay_tick sample_world)"]
  by (simp add: sample_db_def)

lemma outcome_ok:
  assumes "attempt_outcome e w' e'" "is_due e"
  shows "delivery_ok w' e'"
proof -
  from assms(1) have key: "published_as e' w' \<longleftrightarrow> published_as e w'"
    using publishable_key attempt_outcome_key by (metis published_as_def)
  from assms(1) show ?thesis
    unfolding attempt_outcome_def
    by (elim disjE exE conjE) (use key assms(2) in \<open>auto simp: is_due_def delivery_ok_def\<close>)
qed

lemma relay_tick_preserves:
  assumes ok: "outbox_ok w" and run: "relay_tick w = (r, w')"
  shows "outbox_ok w'"
proof -
  from ok have ids: "distinct (map ob_id (outbox (db w)))" by (simp add: outbox_ok_def)
  from relay_tick_run [OF ids run] obtain S where S: "S \<subseteq> set (relay_batch (db w))"
    and rows: "rows_attempted S w' (outbox (db w)) (outbox (db w'))"
    and pre: "prefix (stream w) (stream w')" .
  have "\<exists>e \<in> set (outbox (db w)). e' = e \<or> is_due e \<and> attempt_outcome e w' e'" if "e' \<in> set (outbox (db w'))" for e'
    using rows that S relay_batch_props(3) [OF ids]
    unfolding rows_attempted_def by (fastforce simp: list_all2_conv_all_nth in_set_conv_nth split: if_splits)
  moreover have "delivery_ok w e \<Longrightarrow> delivery_ok w' e" for e
    using published_as_mono [OF _ pre] by (auto simp: delivery_ok_def)
  ultimately show ?thesis
    using ok outcome_ok rows_attempted_ids [OF rows] by (fastforce simp: outbox_ok_def)
qed

text \<open>A tick preserves the delivery invariant of the outbox: no row is marked published without its
  entry in the Redis stream unless ten attempts failed, attempts never exceed ten, and a row that is not
  published still has attempts left.\<close>

theorem relay_tick_preserves_delivery:
  assumes ok: "outbox_ok w" and run: "relay_tick w = (r, w')"
  shows "outbox_ok w'"
  using assms by (rule relay_tick_preserves)

theorem relay_tick_preserves_delivery_witness: "outbox_ok (snd (relay_tick sample_world))"
  using relay_tick_preserves_delivery [of sample_world "fst (relay_tick sample_world)" "snd (relay_tick sample_world)"]
  by (simp add: outbox_ok_def delivery_ok_def sample_db_def MAX_ATTEMPTS_def)

text \<open>C26. Without failures, \<open>k\<close> ticks publish every due event of an outbox that holds at most
  \<open>k\<close> batches of them, and none is left.\<close>

theorem relay_drains_outbox:
  assumes "distinct (map ob_id (outbox (db w)))" "\<forall>n. \<not> fails (host w) n" "txn w \<noteq> TxAborted" "\<not> relay_running w"
    and "length (filter is_due (outbox (db w))) \<le> k * BATCH_SIZE"
  shows "filter is_due (outbox (db (ticks_of k w))) = [] \<and>
    (\<forall>e \<in> set (outbox (db w)). is_due e \<longrightarrow> published_as e (ticks_of k w))"
  using relay_drain [OF assms] by simp

theorem relay_drains_outbox_witness:
  "filter is_due (outbox (db (ticks_of 1 sample_world))) = [] \<and>
   published_as (sample_event 1 0) (ticks_of 1 sample_world) \<and> published_as (sample_event 2 9) (ticks_of 1 sample_world)"
  using relay_drains_outbox [of sample_world 1]
  by (simp add: sample_db_def is_due_def MAX_ATTEMPTS_def BATCH_SIZE_def)

text \<open>The tenth failed attempt loses an event when the dead-letter write fails too: the row is marked
  published although neither stream received it.\<close>

theorem relay_event_lost:
  assumes "distinct (map ob_id (outbox (db w)))" "e \<in> set (outbox (db w))" "ob_attempts e + 1 = MAX_ATTEMPTS"
    and "fails (host w) (tick w)" "fails (host w) (tick w + 1)" "\<not> fails (host w) (tick w + 3)" "txn w = NoTx"
  shows "let w' = snd (relay_event e w) in
    stream w' = stream w \<and> dlq w' = dlq w \<and>
    (\<exists>e' \<in> set (outbox (db w')). event_key e' = event_key e \<and> ob_publishedAt e' \<noteq> None)"
proof -
  let ?f = "\<lambda>e'. e'\<lparr>ob_attempts := ob_attempts e + 1, ob_lastError := Some (error_text (host w) RedisErr),
                ob_publishedAt := Some (clock (host w) (tick w + 2))\<rparr>"
  have "relay_event e w = (Inr (), w\<lparr>tick := tick w + 4,
      db := (db w)\<lparr>outbox := update_where (\<lambda>r. ob_id r = ob_id e) (\<lambda>_. ?f e) (outbox (db w))\<rparr>\<rparr>)"
    using assms update_outbox_run [of "w\<lparr>tick := tick w + 3\<rparr>" e ?f]
    by (simp add: relay_event_def catch_err_def deliver_def publishEventToStream_def andthen_def redis_do_def Let_def
        delivery_failed_def ask_def ignore_err_def moveToDeadLetter_def ret_def js_now_def mark_dead_def numeral_eq_Suc)
  with assms(2) show ?thesis
    by (auto simp: Let_def set_update_where event_key_def intro!: bexI [of _ "?f e"])
qed

theorem relay_event_lost_witness:
  "let w = sample_world\<lparr>host := failing_host [0, 1]\<rparr>; w' = snd (relay_event (sample_event 2 9) w) in
    stream w' = stream w \<and> dlq w' = dlq w \<and>
    (\<exists>e' \<in> set (outbox (db w')). event_key e' = event_key (sample_event 2 9) \<and> ob_publishedAt e' \<noteq> None)"
  using relay_event_lost [of "sample_world\<lparr>host := failing_host [0, 1]\<rparr>" "sample_event 2 9"]
  by (simp add: sample_db_def MAX_ATTEMPTS_def)

end
