(* ===== verification/StationHandlers.thy ===== *)
theory StationHandlers
  imports Outbox
begin

text \<open>
  The handlers of the messages by which a station reports itself: \<open>BootNotification\<close>,
  \<open>Heartbeat\<close> and \<open>StatusNotification\<close> (\<open>packages/core/src/ocpp/handlers\<close>).  A handler takes the
  station and the JSON payload to the JSON response.
\<close>

section \<open>bootNotification.handler.ts\<close>

definition stop_open_of_station :: "string \<Rightarrow> int \<Rightarrow> nat db_op" where
  "stop_open_of_station stationId now =
     update_transactions (\<lambda>t. tx_stationId t = stationId \<and> is_open_tx t)
       (\<lambda>t. t\<lparr>tx_status := TxStopped, tx_timeEnd := Some now, tx_failReason := Some ''BootNotification:Reset''\<rparr>)"

definition boot_create_station :: "string \<Rightarrow> jsval \<Rightarrow> unit prog" where
  "boot_create_station stationId p =
     andthen js_now (\<lambda>now.
     andthen (arg (as_string_opt (js_get p ''chargePointModel''))) (\<lambda>model.
     andthen (arg (as_string_opt (js_get p ''chargePointVendor''))) (\<lambda>vendor.
     andthen (arg (as_string_opt (js_get p ''firmwareVersion''))) (\<lambda>fw.
     andthen (arg (as_string_opt (js_get p ''chargePointSerialNumber''))) (\<lambda>serial.
     andthen (db_do (create_station
       \<lparr>st_id = stationId, st_modelName = model, st_vendorName = vendor, st_manufacturer = None,
        st_firmwareVersion = fw, st_chargingKwh = 7 / 2, st_firmwareStatus = None, st_diagnosticsStatus = None,
        st_serialNumber = serial, st_passwordHash = None, st_status = StOnline,
        st_lastHeartbeatAt = Some now, st_siteId = None\<rparr>)) (\<lambda>_. ret ()))))))"

definition boot_update_station :: "string \<Rightarrow> jsval \<Rightarrow> unit prog" where
  "boot_update_station stationId p =
     andthen js_now (\<lambda>now.
     andthen (arg (string_update (js_get p ''chargePointModel''))) (\<lambda>model.
     andthen (arg (string_update (js_get p ''chargePointVendor''))) (\<lambda>vendor.
     andthen (arg (string_update (js_get p ''firmwareVersion''))) (\<lambda>fw.
     andthen (db_do (update_station stationId (\<lambda>s. s
       \<lparr>st_modelName := model (st_modelName s), st_vendorName := vendor (st_vendorName s),
        st_firmwareVersion := fw (st_firmwareVersion s), st_status := StOnline,
        st_lastHeartbeatAt := Some now\<rparr>))) (\<lambda>_. ret ())))))"

definition bootNotificationHandler :: "string \<Rightarrow> jsval \<Rightarrow> jsval prog" where
  "bootNotificationHandler stationId p =
     andthen (db_read (find_station stationId)) (\<lambda>station.
     andthen (db_transaction
       (andthen (if station = None then boot_create_station stationId p else boot_update_station stationId p) (\<lambda>_.
        andthen (writeOutbox \<lparr>in_eventType = StationOnline, in_aggregateType = Some ''Station'',
          in_aggregateId = Some stationId,
          in_payload = StationOnlineP \<lparr>son_stationId = stationId,
            son_chargePointVendor = js_get p ''chargePointVendor'',
            son_chargePointModel = js_get p ''chargePointModel'',
            son_firmwareVersion = js_get p ''firmwareVersion''\<rparr>\<rparr>) (\<lambda>_. ret ())))) (\<lambda>_.
     andthen (catch_err (andthen js_now (\<lambda>now. db_do (stop_open_of_station stationId now))) (\<lambda>_. ret 0)) (\<lambda>stuckTxCount.
     andthen js_now (\<lambda>now.
     andthen (ask (\<lambda>w. heartbeat_interval (host w))) (\<lambda>interval.
     ret (JObj [(''status'', JStr ''Accepted''), (''currentTime'', JStr (date_iso now)),
                (''interval'', js_int interval)]))))))"

section \<open>heartbeat.handler.ts\<close>

definition heartbeatHandler :: "string \<Rightarrow> jsval \<Rightarrow> jsval prog" where
  "heartbeatHandler stationId p =
     andthen (ignore_err (andthen js_now (\<lambda>now.
        db_do (update_station stationId (\<lambda>s. s\<lparr>st_lastHeartbeatAt := Some now\<rparr>))))) (\<lambda>_.
     andthen js_now (\<lambda>now. ret (JObj [(''currentTime'', JStr (date_iso now))])))"

section \<open>statusNotification.handler.ts\<close>

fun connector_status :: "string \<Rightarrow> ConnectorStatus option" where
  "connector_status s =
     (if s = ''Available'' then Some CoAvailable
      else if s = ''Preparing'' then Some CoPreparing
      else if s = ''Charging'' then Some CoCharging
      else if s = ''SuspendedEVSE'' then Some CoSuspendedEVSE
      else if s = ''SuspendedEV'' then Some CoSuspendedEV
      else if s = ''Finishing'' then Some CoFinishing
      else if s = ''Reserved'' then Some CoReserved
      else if s = ''Unavailable'' then Some CoUnavailable
      else if s = ''Faulted'' then Some CoFaulted
      else None)"

definition normalized_status :: "jsval \<Rightarrow> ConnectorStatus" where
  "normalized_status v =
     (case as_string v of
        None \<Rightarrow> CoUnavailable
      | Some s \<Rightarrow> (case connector_status s of None \<Rightarrow> CoUnavailable | Some c \<Rightarrow> c))"

definition reported_error :: "jsval \<Rightarrow> jsval" where
  "reported_error v = (if js_truthy v \<and> v \<noteq> JStr ''NoError'' then v else JNull)"

definition OFFLINE_STATUSES :: "StationStatus list" where
  "OFFLINE_STATUSES = [StFaulted, StInspecting, StCommunicationFault, StUnknown]"

definition writeOfflineLog :: "string \<Rightarrow> StationStatus \<Rightarrow> unit prog" where
  "writeOfflineLog stationId status =
     ignore_err
       (andthen (db_read (find_station stationId)) (\<lambda>station.
        andthen js_now (\<lambda>now.
        db_do (create_offlineLog \<lparr>ol_stationId = stationId, ol_siteId = Option.bind station st_siteId,
          ol_partnerId = None, ol_status = status, ol_loggedAt = now\<rparr>))))"

text \<open>Connector 0 stands for the station itself.\<close>

definition station_status_branch :: "string \<Rightarrow> jsval \<Rightarrow> unit prog" where
  "station_status_branch stationId ocppStatus =
     (let stationStatus = (if ocppStatus = JStr ''Faulted'' then StFaulted else StOnline) in
      andthen (ignore_err (db_do (update_station stationId (\<lambda>s. s\<lparr>st_status := stationStatus\<rparr>)))) (\<lambda>_.
      only_if (stationStatus \<in> set OFFLINE_STATUSES) (writeOfflineLog stationId stationStatus)))"

definition connector_ref :: "string \<Rightarrow> int \<Rightarrow> string" where
  "connector_ref stationId c = stationId @ '':'' @ show_int c"

definition connector_event :: "string \<Rightarrow> int \<Rightarrow> CsmsEventType \<Rightarrow> csms_payload \<Rightarrow> OutboxEventInput" where
  "connector_event stationId c ty p = \<lparr>in_eventType = ty, in_aggregateType = Some ''Connector'',
     in_aggregateId = Some (connector_ref stationId c), in_payload = p\<rparr>"

definition connector_status_tx :: "string \<Rightarrow> int \<Rightarrow> jsval \<Rightarrow> int option \<Rightarrow> bool \<Rightarrow> unit prog" where
  "connector_status_tx stationId c p stamp wasInFault =
     andthen (arg (as_string_opt (reported_error (js_get p ''errorCode'')))) (\<lambda>errorCode.
     andthen (arg (as_string_opt (js_get p ''info''))) (\<lambda>info.
     andthen (arg (as_string_opt (js_get p ''vendorId''))) (\<lambda>vendorId.
     andthen (arg (as_string_opt (js_get p ''vendorErrorCode''))) (\<lambda>vendorErrorCode.
     andthen (arg stamp) (\<lambda>statusTimestamp.
     let status = normalized_status (js_get p ''status'');
         row = \<lparr>co_stationId = stationId, co_connectorId = c, co_currentStatus = status, co_errorCode = errorCode,
           co_info = info, co_vendorId = vendorId, co_vendorErrorCode = vendorErrorCode,
           co_statusTimestamp = Some statusTimestamp\<rparr> in
     andthen (db_do (upsert_connector stationId c (\<lambda>_. row) row)) (\<lambda>_.
     andthen (writeOutbox (connector_event stationId c ConnectorStatusChanged (ConnectorStatusChangedP
        \<lparr>csc_stationId = stationId, csc_connectorId = c, csc_status = js_get p ''status'', csc_errorCode = errorCode\<rparr>))) (\<lambda>_.
     case errorCode of
       Some code \<Rightarrow> andthen (writeOutbox (connector_event stationId c FaultRaised (FaultRaisedP
          \<lparr>fr_stationId = stationId, fr_connectorId = c, fr_errorCode = code, fr_info = info\<rparr>))) (\<lambda>_. ret ())
     | None \<Rightarrow> only_if wasInFault
          (andthen (writeOutbox (connector_event stationId c FaultCleared (FaultClearedP
             \<lparr>fc_stationId = stationId, fc_connectorId = c\<rparr>))) (\<lambda>_. ret ())))))))))"

text \<open>The sessions a charger forgot: its connector is free again.\<close>

definition stop_stuck_on_available :: "string \<Rightarrow> int \<Rightarrow> unit prog" where
  "stop_stuck_on_available stationId c =
     andthen (db_read (\<lambda>d. filter (\<lambda>t. tx_stationId t = stationId \<and> tx_connectorId t = c \<and> is_open_tx t) (transactions d))) (\<lambda>stuckTxs.
     only_if (stuckTxs \<noteq> [])
       (andthen js_now (\<lambda>now.
        andthen (db_do (update_transactions (\<lambda>t. tx_id t \<in> set (map tx_id stuckTxs))
          (\<lambda>t. t\<lparr>tx_status := TxStopped, tx_timeEnd := Some now, tx_failReason := Some ''StatusNotification:Available''\<rparr>))) (\<lambda>_.
        ret ()))))"

definition connector_status_branch :: "string \<Rightarrow> jsval \<Rightarrow> int option \<Rightarrow> unit prog" where
  "connector_status_branch stationId p stamp =
     andthen (arg (as_int (js_get p ''connectorId''))) (\<lambda>c.
     andthen (db_read (find_connector stationId c)) (\<lambda>prev.
     andthen (db_transaction (connector_status_tx stationId c p stamp (Option.bind prev co_errorCode \<noteq> None))) (\<lambda>_.
     only_if (js_get p ''status'' = JStr ''Available'') (stop_stuck_on_available stationId c))))"

definition fault_description :: "jsval \<Rightarrow> string" where
  "fault_description p =
     (let parts = filter js_truthy [reported_error (js_get p ''errorCode''), js_get p ''vendorErrorCode'', js_get p ''info'']
      in if parts \<noteq> [] then js_join '' / '' (map js_text parts) else ''Charger reported Faulted status'')"

definition statusNotificationHandler :: "string \<Rightarrow> jsval \<Rightarrow> jsval prog" where
  "statusNotificationHandler stationId p =
     andthen (date_or_now (js_get p ''timestamp'')) (\<lambda>stamp.
     andthen (if js_get p ''connectorId'' = JNum 0
              then station_status_branch stationId (js_get p ''status'')
              else connector_status_branch stationId p stamp) (\<lambda>_.
     andthen (only_if (js_get p ''status'' = JStr ''Faulted'')
       (ignore_err (andthen js_now (\<lambda>now.
          db_do (create_faultLog \<lparr>fl_id = 0, fl_stationId = stationId, fl_faultType = FtCommunicationError,
            fl_description = Some (fault_description p), fl_resolvedAt = None, fl_reportedBy = None,
            fl_status = FsReceived, fl_createdAt = now\<rparr>))))) (\<lambda>_.
     ret (JObj []))))"

end
