(* ===== verification/Sockets.thy ===== *)
theory Sockets
  imports Messages StationHandlers
begin

text \<open>
  The connections of the charging stations: the registry of open sockets
  (\<open>connectionManager.ts\<close>), the table of calls that wait for a reply (\<open>pendingRequests.ts\<close>), the
  WebSocket server's event handlers (\<open>server.ts\<close>), the check of HTTP Basic credentials
  (\<open>packages/shared/src/utils/auth.ts\<close>) and the raw operations of the gateway (\<open>gateway.impl.ts\<close>).
  A socket is a number; \<open>socks\<close> has its ready state.  \<open>send\<close> on a socket that is not open is
  dropped, as the library does.
\<close>

section \<open>Sockets\<close>

definition ws_send :: "nat \<Rightarrow> string \<Rightarrow> unit prog" where
  "ws_send ws raw w = (Inr (), if socks w ws = OPEN then w\<lparr>sent := sent w @ [(ws, raw)]\<rparr> else w)"

definition ws_close :: "nat \<Rightarrow> unit prog" where
  "ws_close ws w =
     (Inr (), if socks w ws \<in> {CONNECTING, OPEN} then w\<lparr>socks := (socks w)(ws := CLOSING)\<rparr> else w)"

definition ws_terminate :: "nat \<Rightarrow> unit prog" where
  "ws_terminate ws w =
     (Inr (), if socks w ws \<noteq> CLOSED then w\<lparr>socks := (socks w)(ws := CLOSING)\<rparr> else w)"

section \<open>connectionManager.ts\<close>

definition register :: "string \<Rightarrow> nat \<Rightarrow> unit prog" where
  "register stationId ws =
     andthen (ask (\<lambda>w. map_get (conns w) stationId)) (\<lambda>existing.
     andthen (case existing of None \<Rightarrow> ret () | Some old \<Rightarrow> only_if (old \<noteq> ws) (ws_close old)) (\<lambda>_ w.
     (Inr (), w\<lparr>conns := map_set stationId ws (conns w)\<rparr>)))"

text \<open>The timer that \<open>register\<close> leaves behind for a replaced socket.\<close>

definition terminate_replaced :: "nat \<Rightarrow> unit prog" where
  "terminate_replaced old = andthen (ask (\<lambda>w. socks w old)) (\<lambda>st. only_if (st \<noteq> CLOSED) (ws_terminate old))"

definition unregister :: "string \<Rightarrow> unit prog" where
  "unregister stationId w = (Inr (), w\<lparr>conns := map_delete stationId (conns w)\<rparr>)"

definition isConnected :: "world \<Rightarrow> string \<Rightarrow> bool" where
  "isConnected w stationId = (case map_get (conns w) stationId of None \<Rightarrow> False | Some ws \<Rightarrow> socks w ws = OPEN)"

definition getConnectedStationIds :: "world \<Rightarrow> string list" where
  "getConnectedStationIds w = filter (isConnected w) (map fst (conns w))"

definition getConnectionCount :: "world \<Rightarrow> nat" where
  "getConnectionCount w = length (getConnectedStationIds w)"

section \<open>pendingRequests.ts\<close>

definition waitFor :: "string \<Rightarrow> command_call \<Rightarrow> unit prog" where
  "waitFor mid call w = (Inr (), w\<lparr>pending := map_set mid call (pending w)\<rparr>)"

definition settle :: "string \<Rightarrow> (js_error + jsval) \<Rightarrow> unit prog" where
  "settle mid outcome w =
     (Inr (), case map_get (pending w) mid of
        None \<Rightarrow> w
      | Some call \<Rightarrow> w\<lparr>pending := map_delete mid (pending w), settled := settled w @ [(mid, call, outcome)]\<rparr>)"

text \<open>The key of the \<open>Map\<close> is compared by identity, so only a text can match.\<close>

definition pending_resolve :: "jsval \<Rightarrow> jsval \<Rightarrow> unit prog" where
  "pending_resolve mid payload = (case as_string mid of None \<Rightarrow> ret () | Some m \<Rightarrow> settle m (Inr payload))"

definition pending_reject :: "jsval \<Rightarrow> string \<Rightarrow> unit prog" where
  "pending_reject mid message =
     (case as_string mid of None \<Rightarrow> ret () | Some m \<Rightarrow> settle m (Inl (PlainError message)))"

definition pending_timeout :: "string \<Rightarrow> unit prog" where
  "pending_timeout mid = settle mid (Inl (PlainError (''OCPP response timeout for messageId: '' @ mid)))"

section \<open>gateway.impl.ts\<close>

definition sendRawCall :: "string \<Rightarrow> string \<Rightarrow> jsval \<Rightarrow> string option prog" where
  "sendRawCall stationId action payload =
     andthen (ask (\<lambda>w. map_get (conns w) stationId)) (\<lambda>ws.
     andthen (ask (\<lambda>w. isConnected w stationId)) (\<lambda>up.
     case ws of
       None \<Rightarrow> ret None
     | Some n \<Rightarrow>
         if \<not> up then ret None
         else andthen new_uuid (\<lambda>mid.
              andthen (ws_send n (serializeCall mid action payload)) (\<lambda>_. ret (Some mid)))))"

definition forceDisconnect :: "string \<Rightarrow> unit prog" where
  "forceDisconnect stationId =
     andthen (ask (\<lambda>w. map_get (conns w) stationId)) (\<lambda>ws.
     case ws of None \<Rightarrow> ret () | Some n \<Rightarrow> andthen (ws_terminate n) (\<lambda>_. unregister stationId))"

section \<open>utils/auth.ts\<close>

definition base64_value :: "char \<Rightarrow> nat option" where
  "base64_value c =
     (let n = of_char c :: nat in
      if 65 \<le> n \<and> n \<le> 90 then Some (n - 65)
      else if 97 \<le> n \<and> n \<le> 122 then Some (n - 71)
      else if 48 \<le> n \<and> n \<le> 57 then Some (n + 4)
      else if c = CHR ''+'' \<or> c = CHR ''-'' then Some 62
      else if c = CHR ''/'' \<or> c = CHR ''_'' then Some 63 else None)"

fun base64_bytes :: "nat list \<Rightarrow> nat list" where
  "base64_bytes (a # b # c # d # r) =
     (4 * a + b div 16) # ((b mod 16) * 16 + c div 4) # ((c mod 4) * 64 + d) # base64_bytes r"
| "base64_bytes [a, b, c] = [4 * a + b div 16, (b mod 16) * 16 + c div 4]"
| "base64_bytes [a, b] = [4 * a + b div 16]"
| "base64_bytes _ = []"

text \<open>\<open>Buffer.from(s, 'base64')\<close> skips foreign characters and stops at the padding.\<close>

definition base64_decode :: "string \<Rightarrow> string" where
  "base64_decode s = map char_of (base64_bytes (List.map_filter base64_value (takeWhile (\<lambda>c. c \<noteq> CHR ''='') s)))"

definition credentials_match :: "host \<Rightarrow> string \<Rightarrow> string \<Rightarrow> string option \<Rightarrow> bool" where
  "credentials_match h stationId passwordHash authHeader =
     (case authHeader of
        None \<Rightarrow> False
      | Some hdr \<Rightarrow>
          if \<not> js_startsWith hdr ''Basic '' then False
          else
            let decoded = base64_decode (drop 6 hdr) in
            (case js_indexOf decoded (CHR '':'') of
               None \<Rightarrow> False
             | Some i \<Rightarrow> if take i decoded \<noteq> stationId then False
                         else bcrypt_compare h (drop (i + 1) decoded) passwordHash))"

definition verifyOcppBasicAuth :: "string \<Rightarrow> string option \<Rightarrow> bool prog" where
  "verifyOcppBasicAuth stationId authHeader =
     andthen (db_read (find_station stationId)) (\<lambda>station.
     andthen (ask host) (\<lambda>h.
     ret (case station of
            None \<Rightarrow> False
          | Some s \<Rightarrow>
              (case st_passwordHash s of
                 None \<Rightarrow> True
               | Some hash \<Rightarrow> if hash = [] then True else credentials_match h stationId hash authHeader))))"

section \<open>server.ts\<close>

definition extractStationId :: "string \<Rightarrow> string option" where
  "extractStationId url =
     (let pathParts = filter (\<lambda>s. s \<noteq> []) (js_split (CHR ''/'') url) in
      if js_startsWith url ''/ocpp/'' then
        (if pathParts \<noteq> [] \<and> last pathParts \<noteq> ''ocpp'' then Some (last pathParts) else None)
      else (case pathParts of [x] \<Rightarrow> Some x | _ \<Rightarrow> None))"

datatype verdict = Allow | Deny int string

definition verifyClient :: "string \<Rightarrow> string option \<Rightarrow> verdict prog" where
  "verifyClient url authHeader =
     (case extractStationId url of
        None \<Rightarrow> ret (Deny 400 ''Station ID required'')
      | Some stationId \<Rightarrow>
          catch_err
            (andthen (verifyOcppBasicAuth stationId authHeader) (\<lambda>ok.
             ret (if ok then Allow else Deny 401 ''Unauthorized'')))
            (\<lambda>_. ret (Deny 500 ''Server error'')))"

definition on_connection :: "string \<Rightarrow> nat \<Rightarrow> unit prog" where
  "on_connection url ws =
     (case extractStationId url of None \<Rightarrow> ws_close ws | Some stationId \<Rightarrow> register stationId ws)"

definition offline_tx :: "string \<Rightarrow> string \<Rightarrow> unit prog" where
  "offline_tx stationId reason =
     db_transaction
       (andthen (db_do (update_station stationId (\<lambda>s. s\<lparr>st_status := StCommunicationFault\<rparr>))) (\<lambda>_.
        andthen (writeOutbox \<lparr>in_eventType = StationOffline, in_aggregateType = Some ''Station'',
          in_aggregateId = Some stationId,
          in_payload = StationOfflineP \<lparr>soff_stationId = stationId, soff_reason = reason\<rparr>\<rparr>) (\<lambda>_. ret ())))"

definition close_reason :: "int \<Rightarrow> string \<Rightarrow> string" where
  "close_reason code reason = (if reason \<noteq> [] then reason else ''WebSocket closed (code: '' @ show_int code @ '')'')"

definition on_close :: "string \<Rightarrow> nat \<Rightarrow> int \<Rightarrow> string \<Rightarrow> unit prog" where
  "on_close stationId ws code reason =
     andthen (ask (\<lambda>w. map_get (conns w) stationId)) (\<lambda>current.
     if current \<noteq> Some ws then ret ()
     else
       andthen (unregister stationId) (\<lambda>_.
       andthen (ignore_err (offline_tx stationId (close_reason code reason))) (\<lambda>_.
       writeOfflineLog stationId StCommunicationFault)))"

definition on_error :: "string \<Rightarrow> nat \<Rightarrow> unit prog" where
  "on_error stationId ws =
     andthen (ask (\<lambda>w. map_get (conns w) stationId)) (\<lambda>current.
     only_if (current = Some ws) (unregister stationId))"

section \<open>Credentials\<close>

lemma js_indexOf_split:
  "js_indexOf d c = Some i \<longleftrightarrow> d = take i d @ c # drop (i + 1) d \<and> i < length d \<and> c \<notin> set (take i d)"
proof
  assume "js_indexOf d c = Some i"
  from js_indexOf_Some [OF this] show "d = take i d @ c # drop (i + 1) d \<and> i < length d \<and> c \<notin> set (take i d)"
    by (metis Suc_eq_plus1 id_take_nth_drop)
next
  assume r: "d = take i d @ c # drop (i + 1) d \<and> i < length d \<and> c \<notin> set (take i d)"
  then have "js_indexOf (take i d @ c # drop (i + 1) d) c = Some (length (take i d))"
    by (intro js_indexOf_append) simp
  with r show "js_indexOf d c = Some i" by (metis length_take min.absorb2 less_imp_le_nat min.commute)
qed

lemma credentials_match_iff:
  assumes "CHR '':'' \<notin> set stationId"
  shows "credentials_match h stationId hash hdr \<longleftrightarrow>
    (\<exists>e password. hdr = Some (''Basic '' @ e) \<and> base64_decode e = stationId @ '':'' @ password \<and>
       bcrypt_compare h password hash)"
proof
  assume m: "credentials_match h stationId hash hdr"
  then obtain hd where hd: "hdr = Some hd" "js_startsWith hd ''Basic ''"
    by (auto simp: credentials_match_def split: option.splits if_splits)
  then obtain e where e: "hd = ''Basic '' @ e" by (auto simp: js_startsWith_def prefix_def)
  with m hd obtain i where i: "js_indexOf (base64_decode e) (CHR '':'') = Some i"
      "take i (base64_decode e) = stationId" "bcrypt_compare h (drop (i + 1) (base64_decode e)) hash"
    by (auto simp: credentials_match_def Let_def split: option.splits if_splits)
  with js_indexOf_split [of "base64_decode e" "CHR '':''" i]
  have "base64_decode e = stationId @ '':'' @ drop (i + 1) (base64_decode e)" by simp
  with hd e i show "\<exists>e password. hdr = Some (''Basic '' @ e) \<and> base64_decode e = stationId @ '':'' @ password \<and>
       bcrypt_compare h password hash" by blast
next
  assume "\<exists>e password. hdr = Some (''Basic '' @ e) \<and> base64_decode e = stationId @ '':'' @ password \<and>
       bcrypt_compare h password hash"
  then obtain e password where "hdr = Some (''Basic '' @ e)" "base64_decode e = stationId @ '':'' @ password"
    "bcrypt_compare h password hash" by blast
  with js_indexOf_append [OF assms, of password] show "credentials_match h stationId hash hdr"
    by (simp add: credentials_match_def Let_def js_startsWith_def)
qed



section \<open>Closing\<close>

text \<open>The close of a socket that is not the registered one of its station (it was replaced, or an error event
  unregistered it) changes neither the registry nor the database.\<close>

theorem stale_close_is_ignored:
  "map_get (conns w) stationId \<noteq> Some ws \<Longrightarrow> on_close stationId ws code reason w = (Inr (), w)"
  by (simp add: on_close_def andthen_def ask_def ret_def)

text \<open>After an error event the close event is stale: the station keeps its status and no \<open>StationOffline\<close>
  event is written, although its registered socket is gone.\<close>

theorem error_hides_the_close:
  assumes "map_get (conns w) stationId = Some ws"
  shows "let w' = snd (on_close stationId ws code reason (snd (on_error stationId ws w))) in
    map_get (conns w') stationId = None \<and> db w' = db w"
  using assms
  by (simp add: on_error_def on_close_def andthen_def ask_def ret_def only_if_def unregister_def delete_conv' Let_def)

lemma offline_tx_run:
  assumes "offline_tx stationId reason w = (r, w')"
  shows "db w' = db w \<or>
    stations (db w') = update_where (\<lambda>s. st_id s = stationId) (\<lambda>s. s\<lparr>st_status := StCommunicationFault\<rparr>) (stations (db w)) \<and>
    (\<exists>ev. outbox (db w') = outbox (db w) @ [ev] \<and>
       ob_payload ev = StationOfflineP \<lparr>soff_stationId = stationId, soff_reason = reason\<rparr>)"
  using transaction_run [OF assms [unfolded offline_tx_def]]
  by (elim disjE exE conjE) (auto simp: run_Inr writeOutbox_Inr Let_def store_defs op_Inr)

text \<open>Stations and events: what the log of offline periods does not touch.\<close>

definition same_stations :: "db \<Rightarrow> db \<Rightarrow> bool" where
  "same_stations d d' \<longleftrightarrow> stations d' = stations d \<and> outbox d' = outbox d"

interpretation station_frame: db_contract same_stations
  by unfold_locales (auto simp: same_stations_def)

lemma same_stations_offlineLog: "conforms (on_db same_stations) (writeOfflineLog s st)"
  unfolding writeOfflineLog_def
  by (intro contract_intros station_frame.conforms_op; auto simp: store_defs op_Inr same_stations_def)

text \<open>The network side of the world, which only the socket operations change.\<close>

definition same_net :: "world \<Rightarrow> world \<Rightarrow> bool" where
  "same_net w w' \<longleftrightarrow> conns w' = conns w \<and> socks w' = socks w \<and> sent w' = sent w \<and> pending w' = pending w \<and>
     settled w' = settled w \<and> host w' = host w"

interpretation net: contract same_net
  by unfold_locales (auto simp: same_net_def)

lemma net_db_do [contract_intros]: "conforms same_net (db_do g)"
  by (rule net.conforms_db_do) (simp add: same_net_def)

lemma net_redis [contract_intros]:
  assumes f: "\<And>w. same_net w (snd (f w))"
  shows "conforms same_net (redis_do f)"
proof (rule conformsI)
  fix w r w' assume run: "redis_do f w = (r, w')"
  obtain x w2 where "f (w\<lparr>tick := tick w + 1\<rparr>) = (x, w2)" by (cases "f (w\<lparr>tick := tick w + 1\<rparr>)")
  with f [of "w\<lparr>tick := tick w + 1\<rparr>"] run show "same_net w w'"
    by (auto simp: redis_do_def Let_def same_net_def split: if_splits)
qed

lemma net_writeOutbox [contract_intros]: "conforms same_net (writeOutbox inp)"
  unfolding writeOutbox_def by (intro contract_intros)

lemma net_offline: "conforms same_net (offline_tx s r)" "conforms same_net (writeOfflineLog s st)"
  unfolding offline_tx_def writeOfflineLog_def by (intro contract_intros)+

text \<open>C29. When the registered socket of a station closes, the station leaves the registry, and its row becomes
  \<open>CommunicationFault\<close> together with exactly one \<open>StationOffline\<close> event with the reason of the close, or neither
  happens.\<close>

theorem close_marks_offline_atomically:
  assumes "map_get (conns w) stationId = Some ws" and "on_close stationId ws code reason w = (r, w')"
  shows "map_get (conns w') stationId = None \<and>
    (stations (db w') = stations (db w) \<and> outbox (db w') = outbox (db w) \<or>
     stations (db w') = update_where (\<lambda>s. st_id s = stationId) (\<lambda>s. s\<lparr>st_status := StCommunicationFault\<rparr>) (stations (db w)) \<and>
     (\<exists>ev. outbox (db w') = outbox (db w) @ [ev] \<and>
        ob_payload ev = StationOfflineP \<lparr>soff_stationId = stationId, soff_reason = close_reason code reason\<rparr>))"
proof -
  let ?w1 = "w\<lparr>conns := map_delete stationId (conns w)\<rparr>"
  obtain q w2 where tx: "offline_tx stationId (close_reason code reason) ?w1 = (q, w2)"
    by (cases "offline_tx stationId (close_reason code reason) ?w1")
  have "on_close stationId ws code reason w = writeOfflineLog stationId StCommunicationFault w2"
    using assms(1) tx
    by (cases q) (simp_all add: on_close_def andthen_def ask_def unregister_def ignore_err_def catch_err_def ret_def)
  with assms(2) have log: "writeOfflineLog stationId StCommunicationFault w2 = (r, w')" by simp
  from conformsD [OF same_stations_offlineLog log]
  have same: "stations (db w') = stations (db w2)" "outbox (db w') = outbox (db w2)"
    by (simp_all add: on_db_def same_stations_def)
  from conformsD [OF net_offline(1) tx] conformsD [OF net_offline(2) log]
  have "conns w' = map_delete stationId (conns w)" by (simp add: same_net_def)
  moreover from offline_tx_run [OF tx]
  have "stations (db w2) = stations (db w) \<and> outbox (db w2) = outbox (db w) \<or>
     stations (db w2) = update_where (\<lambda>s. st_id s = stationId) (\<lambda>s. s\<lparr>st_status := StCommunicationFault\<rparr>) (stations (db w)) \<and>
     (\<exists>ev. outbox (db w2) = outbox (db w) @ [ev] \<and>
        ob_payload ev = StationOfflineP \<lparr>soff_stationId = stationId, soff_reason = close_reason code reason\<rparr>)" by auto
  ultimately show ?thesis unfolding same by (simp add: delete_conv')
qed

definition online_world :: world where
  "online_world = sample_world\<lparr>conns := [(''EN0000001'', 0)], socks := (\<lambda>n. if n = 0 then OPEN else CONNECTING)\<rparr>"

theorem close_marks_offline_atomically_witness:
  "map_get (conns (snd (on_close ''EN0000001'' 0 1006 '''' online_world))) ''EN0000001'' = None"
  using close_marks_offline_atomically [of online_world "''EN0000001''" 0 1006 "''''"
      "fst (on_close ''EN0000001'' 0 1006 '''' online_world)" "snd (on_close ''EN0000001'' 0 1006 '''' online_world)"]
  by (simp add: online_world_def)

theorem stale_close_is_ignored_witness:
  "on_close ''EN0000001'' 1 1000 ''Replaced by new connection'' online_world = (Inr (), online_world)"
  by (rule stale_close_is_ignored) (simp add: online_world_def)

theorem error_hides_the_close_witness:
  "let w' = snd (on_close ''EN0000001'' 0 1006 '''' (snd (on_error ''EN0000001'' 0 online_world))) in
    map_get (conns w') ''EN0000001'' = None \<and> db w' = db online_world"
  by (rule error_hides_the_close) (simp add: online_world_def)

end
