(* ===== verification/TransactionHandlers.thy ===== *)
theory TransactionHandlers
  imports Outbox
begin

text \<open>
  The handlers of a charging session: \<open>Authorize\<close>, \<open>StartTransaction\<close>, \<open>StopTransaction\<close> and
  \<open>MeterValues\<close> (\<open>packages/core/src/ocpp/handlers\<close>).  Energies are watt-hours; the price and the
  cost are Vietnamese dong, computed in double arithmetic as the source does.
\<close>

section \<open>authorize.handler.ts\<close>

fun token_status_text :: "IdTokenStatus \<Rightarrow> string" where
  "token_status_text IdAccepted = ''Accepted''"
| "token_status_text IdBlocked = ''Blocked''"
| "token_status_text IdExpired = ''Expired''"
| "token_status_text IdInvalid = ''Invalid''"
| "token_status_text IdConcurrentTx = ''ConcurrentTx''"

definition authorize_status :: "IdToken option \<Rightarrow> int \<Rightarrow> string" where
  "authorize_status idToken now =
     (case idToken of
        None \<Rightarrow> ''Invalid''
      | Some t \<Rightarrow>
          if it_status t = IdAccepted then
            (if (case it_expiryDate t of None \<Rightarrow> False | Some e \<Rightarrow> e < now) then ''Expired'' else ''Accepted'')
          else token_status_text (it_status t))"

definition authorizeHandler :: "string \<Rightarrow> jsval \<Rightarrow> jsval prog" where
  "authorizeHandler stationId p =
     andthen (arg (as_string (js_get p ''idTag''))) (\<lambda>idTag.
     andthen (db_read (\<lambda>d. List.find (\<lambda>t. it_idTag t = idTag) (idTokens d))) (\<lambda>idToken.
     andthen js_now (\<lambda>now.
     ret (JObj [(''idTagInfo'', JObj ((''status'', JStr (authorize_status idToken now)) #
       (case Option.bind idToken it_expiryDate of
          None \<Rightarrow> [] | Some e \<Rightarrow> [(''expiryDate'', JStr (date_iso e))])))]))))"

section \<open>startTransaction.handler.ts\<close>

definition UNIT_PRICE :: int where "UNIT_PRICE = 3500"

definition tx_event :: "CsmsEventType \<Rightarrow> csms_payload \<Rightarrow> int \<Rightarrow> OutboxEventInput" where
  "tx_event ty p i = \<lparr>in_eventType = ty, in_aggregateType = Some ''Transaction'',
     in_aggregateId = Some (show_int i), in_payload = p\<rparr>"

definition start_response :: "int \<Rightarrow> jsval" where
  "start_response i = JObj [(''transactionId'', js_int i), (''idTagInfo'', JObj [(''status'', JStr ''Accepted'')])]"

text \<open>The pending session the mobile app created under this id tag.\<close>

definition find_pending :: "string \<Rightarrow> (string \<Rightarrow> bool) \<Rightarrow> db \<Rightarrow> Transaction option" where
  "find_pending stationId P d =
     List.find (\<lambda>t. P (tx_sessionId t) \<and> tx_stationId t = stationId \<and> tx_status t = TxPending) (transactions d)"

definition site_of :: "string \<Rightarrow> db \<Rightarrow> int option" where
  "site_of stationId d = Option.bind (find_station stationId d) st_siteId"

definition started_payload :: "Transaction \<Rightarrow> int option \<Rightarrow> TransactionStartedPayload" where
  "started_payload t site = \<lparr>tst_transactionId = tx_id t, tst_sessionId = tx_sessionId t,
     tst_stationId = tx_stationId t, tst_connectorId = tx_connectorId t, tst_idTag = tx_idTag t,
     tst_meterStart = tx_meterStart t, tst_timeStart = date_iso (tx_timeStart t),
     tst_unitPriceVnd = tx_unitPriceVnd t, tst_marginRate = map_option (\<lambda>r. json_number r) (tx_marginRate t),
     tst_settlementSchedule = tx_settlementSchedule t, tst_settlementDay = tx_settlementDay t,
     tst_settlementDayOfWeek = tx_settlementDayOfWeek t, tst_siteId = site\<rparr>"

text \<open>A session started at the charger, without a pending record.\<close>

definition start_unplanned :: "string \<Rightarrow> jsval \<Rightarrow> Transaction prog" where
  "start_unplanned stationId p =
     db_transaction
       (andthen js_now (\<lambda>now.
        andthen (arg (as_int (js_get p ''connectorId''))) (\<lambda>c.
        andthen (arg (as_string_opt (js_get p ''idTag''))) (\<lambda>idTag.
        andthen (arg (as_int (js_get p ''meterStart''))) (\<lambda>meterStart.
        andthen (arg (js_new_date (js_get p ''timestamp''))) (\<lambda>timeStart.
        andthen (db_do (create_transaction
          \<lparr>tx_id = 0, tx_sessionId = ''ocpp_'' @ show_int now, tx_ocppTransactionId = None, tx_stationId = stationId,
           tx_connectorId = c, tx_idTag = idTag, tx_goalType = None, tx_goalValue = None, tx_status = TxActive,
           tx_meterStart = meterStart, tx_meterEnd = None, tx_timeStart = timeStart, tx_timeEnd = None,
           tx_costVnd = None, tx_failReason = None, tx_unitPriceVnd = None, tx_marginRate = None,
           tx_settlementSchedule = None, tx_settlementDay = None, tx_settlementDayOfWeek = None\<rparr>)) (\<lambda>created.
        andthen (db_do (update_transaction (tx_id created)
          (\<lambda>t. t\<lparr>tx_ocppTransactionId := Some (tx_id created)\<rparr>))) (\<lambda>updated.
        andthen (db_read (site_of stationId)) (\<lambda>site.
        andthen (writeOutbox (tx_event TransactionStarted (TransactionStartedP ((started_payload updated site)\<lparr>tst_stationId := stationId\<rparr>))
          (tx_id updated))) (\<lambda>_.
        ret updated))))))))))"

text \<open>The pending session becomes active at the reported meter value.\<close>

definition activate :: "int \<Rightarrow> int \<Rightarrow> int \<Rightarrow> Transaction \<Rightarrow> Transaction" where
  "activate i meterStart timeStart t = t\<lparr>tx_ocppTransactionId := Some i, tx_status := TxActive,
     tx_meterStart := meterStart, tx_timeStart := timeStart, tx_unitPriceVnd := Some UNIT_PRICE,
     tx_marginRate := None, tx_settlementSchedule := None, tx_settlementDay := None, tx_settlementDayOfWeek := None\<rparr>"

definition start_planned :: "string \<Rightarrow> jsval \<Rightarrow> Transaction \<Rightarrow> unit prog" where
  "start_planned stationId p t =
     db_transaction
       (andthen (arg (as_int (js_get p ''meterStart''))) (\<lambda>meterStart.
        andthen (arg (js_new_date (js_get p ''timestamp''))) (\<lambda>timeStart.
        andthen (db_do (update_transaction (tx_id t) (activate (tx_id t) meterStart timeStart))) (\<lambda>_.
        andthen (db_read (site_of stationId)) (\<lambda>site.
        andthen (writeOutbox (tx_event TransactionStarted (TransactionStartedP
          \<lparr>tst_transactionId = tx_id t, tst_sessionId = tx_sessionId t, tst_stationId = stationId,
           tst_connectorId = tx_connectorId t, tst_idTag = tx_idTag t, tst_meterStart = meterStart,
           tst_timeStart = date_iso timeStart, tst_unitPriceVnd = Some UNIT_PRICE, tst_marginRate = None,
           tst_settlementSchedule = None, tst_settlementDay = None, tst_settlementDayOfWeek = None,
           tst_siteId = site\<rparr>) (tx_id t))) (\<lambda>_.
        ret ()))))))"

definition enqueue_goal_check :: "Transaction \<Rightarrow> unit prog" where
  "enqueue_goal_check t =
     (case (tx_goalType t, tx_goalValue t) of
        (Some g, Some v) \<Rightarrow>
          ignore_err (redis_do (\<lambda>w. ((), w\<lparr>jobs := jobs w @
            [\<lparr>gj_sessionId = tx_sessionId t, gj_goalType = g, gj_goalValue = js_double v,
              gj_unitPriceVnd = UNIT_PRICE, gj_delay = 60000, gj_jobId = ''goal-'' @ tx_sessionId t\<rparr>]\<rparr>)))
      | _ \<Rightarrow> ret ())"

definition new_connector :: "string \<Rightarrow> int \<Rightarrow> ConnectorStatus \<Rightarrow> Connector" where
  "new_connector stationId c st = \<lparr>co_stationId = stationId, co_connectorId = c, co_currentStatus = st,
     co_errorCode = None, co_info = None, co_vendorId = None, co_vendorErrorCode = None, co_statusTimestamp = None\<rparr>"

definition mark_charging :: "string \<Rightarrow> jsval \<Rightarrow> unit prog" where
  "mark_charging stationId connectorId =
     ignore_err (andthen (arg (as_int connectorId)) (\<lambda>c.
       db_do (upsert_connector stationId c (\<lambda>r. r\<lparr>co_currentStatus := CoCharging\<rparr>)
         (new_connector stationId c CoCharging))))"

definition startTransactionHandler :: "string \<Rightarrow> jsval \<Rightarrow> jsval prog" where
  "startTransactionHandler stationId p =
     andthen (arg (string_filter (js_get p ''idTag''))) (\<lambda>P.
     andthen (db_read (find_pending stationId P)) (\<lambda>transaction.
     case transaction of
       None \<Rightarrow> andthen (start_unplanned stationId p) (\<lambda>newTx. ret (start_response (tx_id newTx)))
     | Some t \<Rightarrow>
         andthen (db_read (find_station stationId)) (\<lambda>_.
         andthen (start_planned stationId p t) (\<lambda>_.
         andthen (enqueue_goal_check t) (\<lambda>_.
         andthen (mark_charging stationId (js_get p ''connectorId'')) (\<lambda>_.
         ret (start_response (tx_id t))))))))"

section \<open>stopTransaction.handler.ts\<close>

definition total_kwh :: "int \<Rightarrow> int \<Rightarrow> rat" where
  "total_kwh meterStart meterStop =
     js_div (max 0 (js_sub (of_int meterStop) (of_int meterStart))) 1000"

definition session_cost :: "int \<Rightarrow> int \<Rightarrow> int \<Rightarrow> int" where
  "session_cost unitPrice meterStart meterStop =
     js_floor (js_mul (total_kwh meterStart meterStop) (of_int unitPrice))"

definition unit_price_of :: "Transaction \<Rightarrow> int" where
  "unit_price_of t = (case tx_unitPriceVnd t of None \<Rightarrow> UNIT_PRICE | Some u \<Rightarrow> u)"

definition fail_reason :: "string option \<Rightarrow> string option" where
  "fail_reason stopReason =
     (if stopReason \<noteq> Some ''Local'' \<and> stopReason \<noteq> Some ''Remote'' then stopReason else None)"

definition close_tx :: "int \<Rightarrow> int \<Rightarrow> int \<Rightarrow> int \<Rightarrow> string option \<Rightarrow> Transaction \<Rightarrow> Transaction" where
  "close_tx meterStop timeEnd cost unitPrice reason t = t\<lparr>tx_status := TxStopped, tx_meterEnd := Some meterStop,
     tx_timeEnd := Some timeEnd, tx_costVnd := Some cost, tx_unitPriceVnd := Some unitPrice,
     tx_failReason := fail_reason reason\<rparr>"

definition stopped_payload :: "string \<Rightarrow> int \<Rightarrow> int \<Rightarrow> string option \<Rightarrow> Transaction \<Rightarrow> TransactionStoppedPayload" where
  "stopped_payload stationId meterStart meterStop reason t = \<lparr>tsp_transactionId = tx_id t, tsp_sessionId = tx_sessionId t,
     tsp_stationId = stationId, tsp_meterStart = tx_meterStart t, tsp_meterStop = meterStop,
     tsp_totalKwh = total_kwh meterStart meterStop, tsp_costVnd = tx_costVnd t, tsp_unitPriceVnd = tx_unitPriceVnd t,
     tsp_timeStart = date_iso (tx_timeStart t),
     tsp_timeEnd = (case tx_timeEnd t of None \<Rightarrow> '''' | Some e \<Rightarrow> date_iso e), tsp_reason = reason\<rparr>"

definition stop_tx :: "string \<Rightarrow> jsval \<Rightarrow> Transaction \<Rightarrow> unit prog" where
  "stop_tx stationId p t =
     db_transaction
       (andthen (arg (as_int (js_get p ''meterStop''))) (\<lambda>meterStop.
        andthen (arg (js_new_date (js_get p ''timestamp''))) (\<lambda>timeEnd.
        andthen (arg (as_string_opt (js_get p ''reason''))) (\<lambda>reason.
        let unitPrice = unit_price_of t; cost = session_cost unitPrice (tx_meterStart t) meterStop in
        andthen (db_do (update_transaction (tx_id t) (close_tx meterStop timeEnd cost unitPrice reason))) (\<lambda>updated.
        andthen (writeOutbox (tx_event TransactionStopped (TransactionStoppedP
          (stopped_payload stationId (tx_meterStart t) meterStop reason updated)) (tx_id updated))) (\<lambda>_.
        ret ()))))))"

text \<open>The leading decimal number of a text, as \<open>parseFloat\<close> reads it; \<open>None\<close> is \<open>NaN\<close>.\<close>

definition float_prefix :: "string \<Rightarrow> rat option" where
  "float_prefix s =
     (let (neg, s1) = (case s of x # xs \<Rightarrow> if x = CHR ''-'' then (True, xs) else if x = CHR ''+'' then (False, xs) else (False, s) | [] \<Rightarrow> (False, s));
          ds = takeWhile is_digit s1; s2 = dropWhile is_digit s1;
          (fs, s3) = (case s2 of x # xs \<Rightarrow> if x = CHR ''.'' then (takeWhile is_digit xs, dropWhile is_digit xs) else ([], s2) | [] \<Rightarrow> ([], s2))
      in if ds = [] \<and> fs = [] then None
         else let e = (case parse_exponent s3 of None \<Rightarrow> 0 | Some (e, _) \<Rightarrow> e);
                  m = of_nat (read_nat (ds @ fs)) * 10 powi (e - int (length fs)) :: rat
              in Some (js_double (if neg then - m else m)))"

definition parseFloat :: "jsval \<Rightarrow> rat option" where
  "parseFloat v = (case v of JNum r \<Rightarrow> Some r | _ \<Rightarrow> float_prefix (dropWhile is_js_space (js_text v)))"

definition sample_value :: "jsval \<Rightarrow> rat" where
  "sample_value sv = (case parseFloat (js_get sv ''value'') of None \<Rightarrow> 0 | Some r \<Rightarrow> r)"

definition ENERGY :: string where "ENERGY = ''Energy.Active.Import.Register''"
definition POWER :: string where "POWER = ''Power.Active.Import''"

definition measurand_of :: "jsval \<Rightarrow> jsval" where
  "measurand_of sv = js_or (js_get sv ''measurand'') (JStr ENERGY)"

text \<open>\<open>for (const x of v)\<close>: only arrays (and texts, which have no fields) are iterable.\<close>

fun js_iterate :: "jsval \<Rightarrow> jsval list option" where
  "js_iterate (JArr xs) = Some xs"
| "js_iterate (JStr s) = Some (map (\<lambda>c. JStr [c]) s)"
| "js_iterate _ = None"

fun js_concat :: "'a list option list \<Rightarrow> 'a list option" where
  "js_concat [] = Some []"
| "js_concat (None # xs) = None"
| "js_concat (Some x # xs) = map_option (\<lambda>ys. x @ ys) (js_concat xs)"

text \<open>The pairs of entry and sampled value in the order of the two nested loops.\<close>

definition sampled_pairs :: "jsval \<Rightarrow> (jsval \<times> jsval) list option" where
  "sampled_pairs v =
     (case js_iterate v of
        None \<Rightarrow> None
      | Some entries \<Rightarrow> js_concat (map (\<lambda>mv.
          if js_nullish mv then None
          else Option.bind (js_iterate (js_get mv ''sampledValue'')) (\<lambda>svs.
            if list_ex js_nullish svs then None else Some (map (\<lambda>sv. (mv, sv)) svs))) entries))"

definition meter_row :: "int \<Rightarrow> (jsval \<Rightarrow> jsval \<Rightarrow> jsval) \<Rightarrow> jsval \<times> jsval \<Rightarrow> MeterValue option" where
  "meter_row i pick p =
     (case p of (mv, sv) \<Rightarrow>
      (case (js_new_date (js_get mv ''timestamp''), as_string (measurand_of sv), as_string_opt (pick sv (JStr ''unit'')),
             as_string_opt (pick sv (JStr ''phase'')), as_string_opt (pick sv (JStr ''context'')),
             as_string_opt (pick sv (JStr ''format'')), as_string_opt (pick sv (JStr ''location''))) of
         (Some ts, Some m, Some un, Some ph, Some cx, Some fo, Some lo) \<Rightarrow>
           Some \<lparr>mv_transactionId = i, mv_timestamp = ts, mv_measurand = m,
             mv_value = decimal_round 4 (sample_value sv), mv_unit = un, mv_phase = ph, mv_context = cx,
             mv_format = fo, mv_location = lo\<rparr>
       | _ \<Rightarrow> None))"

fun all_some :: "'a option list \<Rightarrow> 'a list option" where
  "all_some [] = Some []"
| "all_some (None # xs) = None"
| "all_some (Some x # xs) = map_option (\<lambda>ys. x # ys) (all_some xs)"

text \<open>In \<open>StopTransaction\<close> an absent field is null (\<open>??\<close>).\<close>

definition stop_field :: "jsval \<Rightarrow> jsval \<Rightarrow> jsval" where
  "stop_field sv k = js_coalesce (js_get sv (js_text k)) JNull"

definition nonempty_array :: "jsval \<Rightarrow> bool" where
  "nonempty_array v = (case v of JArr xs \<Rightarrow> xs \<noteq> [] | _ \<Rightarrow> False)"

definition save_transaction_data :: "int \<Rightarrow> jsval \<Rightarrow> unit prog" where
  "save_transaction_data i data =
     only_if (nonempty_array data)
       (andthen (from_option (PlainError ''not iterable'') (sampled_pairs data)) (\<lambda>pairs.
        only_if (pairs \<noteq> [])
          (ignore_err (andthen (arg (all_some (map (meter_row i stop_field) pairs))) (\<lambda>records.
             db_do (create_meterValues records))))))"

definition accepted_response :: jsval where
  "accepted_response = JObj [(''idTagInfo'', JObj [(''status'', JStr ''Accepted'')])]"

definition find_ocpp_transaction :: "string \<Rightarrow> (int option \<Rightarrow> bool) \<Rightarrow> db \<Rightarrow> Transaction option" where
  "find_ocpp_transaction stationId P d =
     List.find (\<lambda>t. P (tx_ocppTransactionId t) \<and> tx_stationId t = stationId) (transactions d)"

definition stopTransactionHandler :: "string \<Rightarrow> jsval \<Rightarrow> jsval prog" where
  "stopTransactionHandler stationId p =
     andthen (arg (int_opt_filter (js_get p ''transactionId''))) (\<lambda>P.
     andthen (db_read (find_ocpp_transaction stationId P)) (\<lambda>transaction.
     case transaction of
       None \<Rightarrow> ret accepted_response
     | Some t \<Rightarrow>
         andthen (stop_tx stationId p t) (\<lambda>_.
         andthen (save_transaction_data (tx_id t) (js_get p ''transactionData'')) (\<lambda>_.
         andthen (ignore_err (db_do (update_connectors
           (\<lambda>r. co_stationId r = stationId \<and> co_connectorId r = tx_connectorId t)
           (\<lambda>r. r\<lparr>co_currentStatus := CoAvailable\<rparr>)))) (\<lambda>_.
         ret accepted_response)))))"

section \<open>meterValues.handler.ts\<close>

text \<open>In \<open>MeterValues\<close> a falsy field is null and the unit defaults to \<open>Wh\<close> (\<open>||\<close>).\<close>

definition meter_field :: "jsval \<Rightarrow> jsval \<Rightarrow> jsval" where
  "meter_field sv k = js_or (js_get sv (js_text k)) (if k = JStr ''unit'' then JStr ''Wh'' else JNull)"

definition latest :: "string \<Rightarrow> (jsval \<times> jsval) list \<Rightarrow> rat option" where
  "latest m pairs =
     (case filter (\<lambda>(mv, sv). measurand_of sv = JStr m) (rev pairs) of
        [] \<Rightarrow> None | (mv, sv) # _ \<Rightarrow> Some (sample_value sv))"

definition current_kwh :: "int \<Rightarrow> rat \<Rightarrow> rat" where
  "current_kwh meterStart wh =
     (let kwh = max 0 (js_div (js_sub wh (of_int meterStart)) 1000)
      in js_div (of_int (js_round (js_mul kwh 1000))) 1000)"

definition meterValuesHandler :: "string \<Rightarrow> jsval \<Rightarrow> jsval prog" where
  "meterValuesHandler stationId p =
     andthen (arg (int_filter (js_get p ''connectorId''))) (\<lambda>P.
     andthen (db_read (\<lambda>d. List.find (\<lambda>t. tx_stationId t = stationId \<and> P (tx_connectorId t) \<and> tx_status t = TxActive)
        (transactions d))) (\<lambda>transaction.
     case transaction of
       None \<Rightarrow> ret (JObj [])
     | Some t \<Rightarrow>
         andthen (from_option (PlainError ''not iterable'') (sampled_pairs (js_get p ''meterValue''))) (\<lambda>pairs.
         andthen (only_if (pairs \<noteq> [])
           (andthen (arg (all_some (map (meter_row (tx_id t) meter_field) pairs))) (\<lambda>records.
            andthen (db_do (create_meterValues records)) (\<lambda>_.
            ignore_err (db_transaction (writeOutbox (tx_event MeterValueUpdate (MeterValueUpdateP
              \<lparr>mvu_transactionId = tx_id t, mvu_sessionId = tx_sessionId t, mvu_stationId = stationId,
               mvu_currentKwh = map_option (current_kwh (tx_meterStart t)) (latest ENERGY pairs),
               mvu_currentW = latest POWER pairs\<rparr>) (tx_id t)))))))) (\<lambda>_.
         ret (JObj [])))))"

end
