(* ===== verification/MaintenanceHandlers.thy ===== *)
theory MaintenanceHandlers
  imports Outbox
begin

text \<open>
  The handlers of firmware and diagnostics reports and of vendor messages:
  \<open>FirmwareStatusNotification\<close>, \<open>DiagnosticsStatusNotification\<close> and \<open>DataTransfer\<close>
  (\<open>packages/core/src/ocpp/handlers\<close>).  A campaign of firmware updates is the rows of its
  progress table; a final report closes a row and the last one closes the campaign.
\<close>

section \<open>firmwareStatusNotification.handler.ts\<close>

definition VALID_FIRMWARE_STATUSES :: "string list" where
  "VALID_FIRMWARE_STATUSES = [''Idle'', ''Downloaded'', ''DownloadFailed'', ''Downloading'',
     ''InstallationFailed'', ''Installing'', ''Installed'']"

definition normalize_status :: "string list \<Rightarrow> jsval \<Rightarrow> string" where
  "normalize_status valid v =
     (case as_string v of None \<Rightarrow> ''Idle'' | Some s \<Rightarrow> if s \<in> set valid then s else ''Idle'')"

definition STATUS_MAP :: "string \<Rightarrow> FirmwareCampaignProgressStatus option" where
  "STATUS_MAP s =
     (if s = ''Downloading'' then Some FpDownloading
      else if s = ''Downloaded'' then Some FpDownloaded
      else if s = ''Installing'' then Some FpInstalling
      else if s = ''Installed'' then Some FpInstalled
      else if s = ''DownloadFailed'' \<or> s = ''InstallationFailed'' then Some FpFailed
      else None)"

definition FINAL_STATUSES :: "FirmwareCampaignProgressStatus list" where
  "FINAL_STATUSES = [FpInstalled, FpFailed]"

definition in_flight :: "FirmwareCampaignProgressStatus \<Rightarrow> bool" where
  "in_flight s \<longleftrightarrow> s \<in> {FpSent, FpDownloading, FpDownloaded, FpInstalling}"

definition is_settled :: "FirmwareCampaignProgressStatus \<Rightarrow> bool" where
  "is_settled s \<longleftrightarrow> s \<in> {FpInstalled, FpFailed, FpSendError}"

text \<open>The row updated last among those in flight (\<open>orderBy updatedAt desc\<close>, first of equals).\<close>

fun first_max :: "('a \<Rightarrow> int) \<Rightarrow> 'a list \<Rightarrow> 'a option" where
  "first_max key [] = None"
| "first_max key (x # xs) =
     (case first_max key xs of None \<Rightarrow> Some x | Some y \<Rightarrow> if key y \<le> key x then Some x else Some y)"

definition open_progress :: "string \<Rightarrow> db \<Rightarrow> FirmwareCampaignProgress option" where
  "open_progress stationId d =
     first_max fp_updatedAt (filter (\<lambda>r. fp_stationId r = Some stationId \<and> in_flight (fp_status r)) (progresses d))"

definition remaining_in :: "int \<Rightarrow> db \<Rightarrow> nat" where
  "remaining_in campaignId d =
     length (filter (\<lambda>r. fp_campaignId r = campaignId \<and> \<not> is_settled (fp_status r)) (progresses d))"

definition report_firmware_status :: "string \<Rightarrow> string \<Rightarrow> unit prog" where
  "report_firmware_status stationId status =
     ignore_err (db_transaction
       (andthen (ignore_err (db_do (update_station stationId (\<lambda>s. s\<lparr>st_firmwareStatus := Some status\<rparr>)))) (\<lambda>_.
        writeOutbox \<lparr>in_eventType = FirmwareStatusChanged, in_aggregateType = Some ''Station'',
          in_aggregateId = Some stationId,
          in_payload = FirmwareStatusChangedP \<lparr>fsc_stationId = stationId, fsc_status = status\<rparr>\<rparr>)))"

definition close_campaign_if_done :: "int \<Rightarrow> unit prog" where
  "close_campaign_if_done campaignId =
     andthen (catch_err (db_read (\<lambda>d. int (remaining_in campaignId d))) (\<lambda>_. ret (- 1))) (\<lambda>remaining.
     only_if (remaining = 0)
       (ignore_err (andthen js_now (\<lambda>now.
          db_do (update_campaign campaignId (\<lambda>c. c\<lparr>ca_status := FcCompleted, ca_completedAt := Some now\<rparr>))))))"

definition advance_progress :: "FirmwareCampaignProgress \<Rightarrow> FirmwareCampaignProgressStatus \<Rightarrow> string \<Rightarrow> unit prog" where
  "advance_progress open_row mapped status =
     (let isFinal = mapped \<in> set FINAL_STATUSES in
      andthen (ignore_err (andthen js_now (\<lambda>now.
        db_do (update_progress (fp_id open_row) (\<lambda>r. r\<lparr>fp_status := mapped,
          fp_completedAt := (if isFinal then Some now else None),
          fp_error := (if mapped = FpFailed then Some (''OCPP status: '' @ status) else None),
          fp_updatedAt := now\<rparr>))))) (\<lambda>_.
      only_if isFinal (close_campaign_if_done (fp_campaignId open_row))))"

definition firmwareStatusNotificationHandler :: "string \<Rightarrow> jsval \<Rightarrow> jsval prog" where
  "firmwareStatusNotificationHandler stationId p =
     (let status = normalize_status VALID_FIRMWARE_STATUSES (js_get p ''status'') in
      andthen (report_firmware_status stationId status) (\<lambda>_.
      case STATUS_MAP status of
        None \<Rightarrow> ret (JObj [])
      | Some mapped \<Rightarrow>
          andthen (catch_err (db_read (open_progress stationId)) (\<lambda>_. ret None)) (\<lambda>open_row.
          case open_row of
            None \<Rightarrow> ret (JObj [])
          | Some r \<Rightarrow> andthen (advance_progress r mapped status) (\<lambda>_. ret (JObj [])))))"

section \<open>diagnosticsStatusNotification.handler.ts\<close>

definition VALID_DIAGNOSTICS_STATUSES :: "string list" where
  "VALID_DIAGNOSTICS_STATUSES = [''Idle'', ''Uploaded'', ''UploadFailed'', ''Uploading'']"

definition diagnostics_status :: "string \<Rightarrow> DiagnosticsStatus" where
  "diagnostics_status s =
     (if s = ''Uploaded'' then DgUploaded else if s = ''UploadFailed'' then DgUploadFailed
      else if s = ''Uploading'' then DgUploading else DgIdle)"

definition open_diagnostics :: "string \<Rightarrow> db \<Rightarrow> DiagnosticsRequest option" where
  "open_diagnostics stationId d =
     first_max dr_requestedAt (filter (\<lambda>r. dr_stationId r = stationId \<and> dr_completedAt r = None) (diagnostics d))"

definition diagnosticsStatusNotificationHandler :: "string \<Rightarrow> jsval \<Rightarrow> jsval prog" where
  "diagnosticsStatusNotificationHandler stationId p =
     (let status = normalize_status VALID_DIAGNOSTICS_STATUSES (js_get p ''status'') in
      andthen (ignore_err (db_do (update_station stationId (\<lambda>s. s\<lparr>st_diagnosticsStatus := Some status\<rparr>)))) (\<lambda>_.
      andthen (only_if (status \<noteq> ''Idle'')
        (andthen (catch_err (db_read (open_diagnostics stationId)) (\<lambda>_. ret None)) (\<lambda>open_row.
         case open_row of
           None \<Rightarrow> ret ()
         | Some r \<Rightarrow>
             (let isFinal = status = ''Uploaded'' \<or> status = ''UploadFailed'' in
              ignore_err (andthen js_now (\<lambda>now.
                db_do (update_diagnostics (\<lambda>q. dr_id q = dr_id r) (\<lambda>q. q\<lparr>dr_status := diagnostics_status status,
                  dr_completedAt := (if isFinal then Some now else None)\<rparr>)))))))) (\<lambda>_.
      ret (JObj []))))"

section \<open>dataTransfer.handler.ts\<close>

definition makeKey :: "string \<Rightarrow> string option \<Rightarrow> string" where
  "makeKey vendorId messageId =
     vendorId @ ''::'' @ (case messageId of None \<Rightarrow> ''__default__'' | Some m \<Rightarrow> m)"

definition dt_register :: "string \<Rightarrow> string option \<Rightarrow> (string \<Rightarrow> jsval \<Rightarrow> js_error + jsval) \<Rightarrow> unit prog" where
  "dt_register vendorId messageId handler w =
     (Inr (), w\<lparr>dt_handlers := map_set (makeKey vendorId messageId) handler (dt_handlers w),
        dt_vendors := (if vendorId \<in> set (dt_vendors w) then dt_vendors w else dt_vendors w @ [vendorId])\<rparr>)"

definition dt_resolve :: "jsval \<Rightarrow> jsval \<Rightarrow> world \<Rightarrow> (string \<Rightarrow> jsval \<Rightarrow> js_error + jsval) option" where
  "dt_resolve vendorId messageId w =
     (case (if js_truthy messageId
            then map_get (dt_handlers w) (makeKey (js_text vendorId) (Some (js_text messageId))) else None) of
        Some h \<Rightarrow> Some h
      | None \<Rightarrow> map_get (dt_handlers w) (makeKey (js_text vendorId) None))"

definition dt_known_vendor :: "jsval \<Rightarrow> world \<Rightarrow> bool" where
  "dt_known_vendor vendorId w \<longleftrightarrow> (case as_string vendorId of None \<Rightarrow> False | Some v \<Rightarrow> v \<in> set (dt_vendors w))"

definition status_only :: "string \<Rightarrow> jsval" where
  "status_only s = JObj [(''status'', JStr s)]"

definition dataTransferHandler :: "string \<Rightarrow> jsval \<Rightarrow> jsval prog" where
  "dataTransferHandler stationId p =
     andthen (ask (dt_resolve (js_get p ''vendorId'') (js_get p ''messageId''))) (\<lambda>handler.
     case handler of
       Some h \<Rightarrow> (case h stationId (js_get p ''data'') of Inl e \<Rightarrow> ret (status_only ''Rejected'') | Inr r \<Rightarrow> ret r)
     | None \<Rightarrow>
         andthen (ask (dt_known_vendor (js_get p ''vendorId''))) (\<lambda>known.
         ret (status_only (if known then ''UnknownMessageId'' else ''UnknownVendorId''))))"

end
