(* ===== verification/Contracts.thy ===== *)
theory Contracts
  imports StationHandlers TransactionHandlers MaintenanceHandlers
begin

text \<open>
  What every handler promises about the database, whether it succeeds, throws or half of its
  calls fail: the outbox only grows (\<open>outbox_grows\<close>), a session that ended never reopens and
  no session disappears (\<open>tx_evolves\<close>), every recorded cost was announced
  (\<open>ledger_ok\<close>), every active session was announced (\<open>started_ok\<close>), and the fault state of a
  connector is the one its last fault event says (\<open>faults_ok\<close>).  Each is an instance of the
  locale \<open>db_contract\<close>, so a handler keeps it by composition; only the committed
  transactions that touch the tables in question are executed symbolically.
\<close>

section \<open>The outbox only grows\<close>

lemmas station_programs = bootNotificationHandler_def boot_create_station_def boot_update_station_def
  heartbeatHandler_def statusNotificationHandler_def station_status_branch_def connector_status_branch_def
  connector_status_tx_def stop_stuck_on_available_def writeOfflineLog_def date_or_now_def

lemmas transaction_programs = authorizeHandler_def startTransactionHandler_def start_unplanned_def start_planned_def
  enqueue_goal_check_def mark_charging_def stopTransactionHandler_def stop_tx_def save_transaction_data_def
  meterValuesHandler_def

lemmas maintenance_programs = firmwareStatusNotificationHandler_def report_firmware_status_def advance_progress_def
  close_campaign_if_done_def diagnosticsStatusNotificationHandler_def dataTransferHandler_def

lemma outbox_grows_station:
  "conforms (on_db outbox_grows) (bootNotificationHandler s p)"
  "conforms (on_db outbox_grows) (heartbeatHandler s p)"
  "conforms (on_db outbox_grows) (statusNotificationHandler s p)"
  unfolding station_programs stop_open_of_station_def
  by (intro contract_intros outbox_log.conforms_op; auto simp: store_defs op_Inr intro!: outbox_grows_frame)+

lemma outbox_grows_transaction:
  "conforms (on_db outbox_grows) (authorizeHandler s p)"
  "conforms (on_db outbox_grows) (startTransactionHandler s p)"
  "conforms (on_db outbox_grows) (stopTransactionHandler s p)"
  "conforms (on_db outbox_grows) (meterValuesHandler s p)"
  unfolding transaction_programs Let_def
  by (intro contract_intros outbox_log.conforms_op; auto simp: store_defs op_Inr intro!: outbox_grows_frame)+

lemma outbox_grows_maintenance:
  "conforms (on_db outbox_grows) (firmwareStatusNotificationHandler s p)"
  "conforms (on_db outbox_grows) (diagnosticsStatusNotificationHandler s p)"
  "conforms (on_db outbox_grows) (dataTransferHandler s p)"
  unfolding maintenance_programs Let_def
  by (intro contract_intros outbox_log.conforms_op; auto simp: store_defs op_Inr intro!: outbox_grows_frame)+

section \<open>Sessions never reopen or disappear\<close>

definition tx_step :: "Transaction \<Rightarrow> Transaction \<Rightarrow> bool" where
  "tx_step t t' \<longleftrightarrow> tx_id t' = tx_id t \<and> tx_sessionId t' = tx_sessionId t \<and> tx_stationId t' = tx_stationId t
     \<and> tx_connectorId t' = tx_connectorId t \<and> tx_idTag t' \<in> {tx_idTag t, None}
     \<and> (is_open_tx t' \<longrightarrow> is_open_tx t) \<and> (tx_status t' = TxPending \<longrightarrow> tx_status t = TxPending)"

definition tx_ids_ok :: "db \<Rightarrow> bool" where
  "tx_ids_ok d \<longleftrightarrow> distinct (map tx_id (transactions d))"

definition tx_evolves :: "db \<Rightarrow> db \<Rightarrow> bool" where
  "tx_evolves d d' \<longleftrightarrow> (tx_ids_ok d \<longrightarrow> tx_ids_ok d' \<and>
     (\<exists>rows new. transactions d' = rows @ new \<and> list_all2 tx_step (transactions d) rows))"

lemma tx_step_refl [simp]: "tx_step t t"
  by (simp add: tx_step_def)

lemma tx_step_trans: "tx_step t1 t2 \<Longrightarrow> tx_step t2 t3 \<Longrightarrow> tx_step t1 t3"
  by (auto simp: tx_step_def)

lemma tx_evolves_refl: "tx_evolves d d"
  unfolding tx_evolves_def
  by (intro impI conjI exI [of _ "transactions d"] exI [of _ "[]"]) (simp_all add: list.rel_refl)

lemma tx_evolves_trans:
  assumes "tx_evolves d1 d2" "tx_evolves d2 d3"
  shows "tx_evolves d1 d3"
  unfolding tx_evolves_def
proof
  assume "tx_ids_ok d1"
  with assms obtain rows1 new1 rows2 new2 where
      d2: "tx_ids_ok d2" "transactions d2 = rows1 @ new1" "list_all2 tx_step (transactions d1) rows1"
    and d3: "tx_ids_ok d3" "transactions d3 = rows2 @ new2" "list_all2 tx_step (rows1 @ new1) rows2"
    by (auto simp: tx_evolves_def)
  from d3(3) obtain a b where ab: "rows2 = a @ b" "list_all2 tx_step rows1 a"
    by (auto simp: list_all2_append1)
  from list_all2_trans [of tx_step tx_step tx_step, OF _ d2(3) ab(2)] tx_step_trans
  have "list_all2 tx_step (transactions d1) a" by blast
  with d3(1,2) ab(1) show "tx_ids_ok d3 \<and> (\<exists>rows new. transactions d3 = rows @ new \<and> list_all2 tx_step (transactions d1) rows)"
    by auto
qed

interpretation tx_log: db_contract tx_evolves
  by unfold_locales (auto intro: tx_evolves_refl tx_evolves_trans)

lemma tx_evolves_frame: "transactions d' = transactions d \<Longrightarrow> tx_evolves d d'"
  using tx_evolves_refl [of d] by (simp add: tx_evolves_def tx_ids_ok_def)

lemma tx_evolves_update:
  assumes "transactions d' = update_where P f (transactions d)"
    and "\<And>t. t \<in> set (transactions d) \<Longrightarrow> tx_ids_ok d \<Longrightarrow> P t \<Longrightarrow> tx_step t (f t)"
  shows "tx_evolves d d'"
  unfolding tx_evolves_def
proof
  assume ids: "tx_ids_ok d"
  have "map tx_id (transactions d') = map tx_id (transactions d)"
    unfolding assms(1) update_where_def using assms(2) [OF _ ids] by (simp add: tx_step_def)
  with ids have "tx_ids_ok d'" by (simp add: tx_ids_ok_def)
  moreover have "list_all2 tx_step (transactions d) (transactions d')"
    unfolding assms(1) using assms(2) [OF _ ids]
    by (simp add: list_all2_conv_all_nth update_where_nth)
  ultimately show "tx_ids_ok d' \<and> (\<exists>rows new. transactions d' = rows @ new \<and> list_all2 tx_step (transactions d) rows)"
    by (intro conjI exI [of _ "transactions d'"] exI [of _ "[]"]) simp_all
qed

lemma tx_evolves_insert:
  assumes "transactions d' = transactions d @ [t]" "\<forall>q \<in> set (transactions d). tx_id q \<noteq> tx_id t"
  shows "tx_evolves d d'"
  unfolding tx_evolves_def
  by (intro impI conjI exI [of _ "transactions d"] exI [of _ "[t]"])
    (use assms in \<open>auto simp: tx_ids_ok_def image_iff list.rel_refl\<close>)

lemma writeOutbox_tx [contract_intros]: "conforms (on_db tx_evolves) (writeOutbox inp)"
  unfolding writeOutbox_def
  by (intro contract_intros tx_log.conforms_op; auto simp: store_defs op_Inr intro!: tx_evolves_frame)

lemma stops_are_steps:
  "tx_step t (t\<lparr>tx_status := TxStopped, tx_timeEnd := e, tx_failReason := r\<rparr>)"
  "tx_step t (t\<lparr>tx_ocppTransactionId := o'\<rparr>)"
  "tx_step t (close_tx meterStop timeEnd cost unitPrice reason t)"
  by (simp_all add: tx_step_def is_open_tx_def close_tx_def)

lemma tx_evolves_station:
  "conforms (on_db tx_evolves) (bootNotificationHandler s p)"
  "conforms (on_db tx_evolves) (heartbeatHandler s p)"
  "conforms (on_db tx_evolves) (statusNotificationHandler s p)"
  unfolding station_programs stop_open_of_station_def
  by (intro contract_intros tx_log.conforms_op;
      auto simp: store_defs op_Inr stops_are_steps intro: tx_evolves_frame tx_evolves_update)+

lemma tx_evolves_maintenance:
  "conforms (on_db tx_evolves) (firmwareStatusNotificationHandler s p)"
  "conforms (on_db tx_evolves) (diagnosticsStatusNotificationHandler s p)"
  "conforms (on_db tx_evolves) (dataTransferHandler s p)"
  unfolding maintenance_programs Let_def
  by (intro contract_intros tx_log.conforms_op; auto simp: store_defs op_Inr intro!: tx_evolves_frame)+

lemma tx_evolves_start_unplanned [contract_intros]: "conforms (on_db tx_evolves) (start_unplanned s p)"
  unfolding start_unplanned_def
  by (intro contract_intros tx_log.conforms_op;
      fastforce simp: store_defs op_Inr stops_are_steps intro: tx_evolves_frame tx_evolves_update tx_evolves_insert)

lemma tx_evolves_rest:
  "conforms (on_db tx_evolves) (authorizeHandler s p)"
  "conforms (on_db tx_evolves) (stopTransactionHandler s p)"
  "conforms (on_db tx_evolves) (meterValuesHandler s p)"
  "conforms (on_db tx_evolves) (enqueue_goal_check t)"
  "conforms (on_db tx_evolves) (mark_charging s c)"
  unfolding transaction_programs Let_def
  by (intro contract_intros tx_log.conforms_op;
      auto simp: store_defs op_Inr stops_are_steps intro: tx_evolves_frame tx_evolves_update)+

lemma find_pending_Some:
  "find_pending s P d = Some t \<Longrightarrow>
     t \<in> set (transactions d) \<and> P (tx_sessionId t) \<and> tx_stationId t = s \<and> tx_status t = TxPending"
  by (auto simp: find_pending_def dest: find_SomeD)

text \<open>What a committed \<open>start_planned\<close> did: the row of the pending session and one event.\<close>

lemma start_planned_run:
  assumes "start_planned s p t w = (r, w')"
  shows "db w' = db w \<or> (\<exists>ms ts site ev.
    as_int (js_get p ''meterStart'') = Some ms \<and> js_new_date (js_get p ''timestamp'') = Some ts \<and>
    transactions (db w') = update_where (\<lambda>q. tx_id q = tx_id t) (activate (tx_id t) ms ts) (transactions (db w)) \<and>
    outbox (db w') = outbox (db w) @ [ev] \<and> site = site_of s (db w) \<and>
    ob_payload ev = TransactionStartedP
          \<lparr>tst_transactionId = tx_id t, tst_sessionId = tx_sessionId t, tst_stationId = s,
           tst_connectorId = tx_connectorId t, tst_idTag = tx_idTag t, tst_meterStart = ms,
           tst_timeStart = date_iso ts, tst_unitPriceVnd = Some UNIT_PRICE, tst_marginRate = None,
           tst_settlementSchedule = None, tst_settlementDay = None, tst_settlementDayOfWeek = None,
           tst_siteId = site\<rparr> \<and>
    db w' = (db w)\<lparr>transactions := transactions (db w'), outbox := outbox (db w'), seqs := seqs (db w')\<rparr>)"
  using transaction_run [OF assms [unfolded start_planned_def]]
  by (elim disjE exE conjE)
    (auto simp: run_Inr writeOutbox_Inr Let_def store_defs op_Inr tx_event_def site_of_def find_station_def)

lemma start_planned_evolves:
  assumes "find_pending s P (db w) = Some t" "start_planned s p t w = (r, w')"
  shows "tx_evolves (db w) (db w')"
  using start_planned_run [OF assms(2)]
proof (elim disjE exE conjE)
  fix ms ts
  assume rows: "transactions (db w') = update_where (\<lambda>q. tx_id q = tx_id t) (activate (tx_id t) ms ts) (transactions (db w))"
  from find_pending_Some [OF assms(1)] have t: "t \<in> set (transactions (db w))" "tx_status t = TxPending" by simp_all
  show ?thesis
  proof (rule tx_evolves_update [OF rows])
    fix q assume "q \<in> set (transactions (db w))" "tx_ids_ok (db w)" "tx_id q = tx_id t"
    with t have "q = t" by (auto simp: tx_ids_ok_def dest: distinct_map_eq)
    with t show "tx_step q (activate (tx_id t) ms ts q)" by (simp add: tx_step_def activate_def is_open_tx_def)
  qed
qed (simp add: tx_evolves_refl)

text \<open>The shape of \<open>startTransactionHandler\<close>, once for all contracts on the database.\<close>

context db_contract
begin

lemma conforms_start:
  assumes "conforms (on_db rel) (start_unplanned s p)"
    and planned: "\<And>P w t r w'. find_pending s P (db w) = Some t \<Longrightarrow> start_planned s p t w = (r, w') \<Longrightarrow> rel (db w) (db w')"
    and "\<And>t. conforms (on_db rel) (enqueue_goal_check t)" "\<And>c. conforms (on_db rel) (mark_charging s c)"
  shows "conforms (on_db rel) (startTransactionHandler s p)"
  unfolding startTransactionHandler_def
proof (rule conforms_andthen [OF conforms_arg], rule conforms_read_then)
  fix P w r w'
  assume run: "(case find_pending s P (db w) of
       None \<Rightarrow> andthen (start_unplanned s p) (\<lambda>newTx. ret (start_response (tx_id newTx)))
     | Some t \<Rightarrow>
         andthen (db_read (find_station s)) (\<lambda>_.
         andthen (start_planned s p t) (\<lambda>_.
         andthen (enqueue_goal_check t) (\<lambda>_.
         andthen (mark_charging s (js_get p ''connectorId'')) (\<lambda>_.
         ret (start_response (tx_id t))))))) w = (r, w')"
  show "on_db rel w w'"
  proof (cases "find_pending s P (db w)")
    case None
    have "conforms (on_db rel) (andthen (start_unplanned s p) (\<lambda>newTx. ret (start_response (tx_id newTx))))"
      by (intro conforms_andthen conforms_ret assms)
    from conformsD [OF this] run None show ?thesis by simp
  next
    case (Some t)
    with run have "andthen (db_read (find_station s)) (\<lambda>_.
         andthen (start_planned s p t) (\<lambda>_.
         andthen (enqueue_goal_check t) (\<lambda>_.
         andthen (mark_charging s (js_get p ''connectorId'')) (\<lambda>_.
         ret (start_response (tx_id t)))))) w = (r, w')" by simp
    then show ?thesis
    proof (rule run_skip [OF _ conforms_db_read])
      fix x w1
      assume rd: "db_read (find_station s) w = (Inr x, w1)"
        and run1: "andthen (start_planned s p t) (\<lambda>_.
         andthen (enqueue_goal_check t) (\<lambda>_.
         andthen (mark_charging s (js_get p ''connectorId'')) (\<lambda>_.
         ret (start_response (tx_id t))))) w1 = (r, w')"
      from rd have same: "db w1 = db w" by (simp add: db_read_Inr)
      show "on_db rel w1 w'"
      proof (rule run_andthen [OF run1])
        fix q w2 assume "start_planned s p t w1 = (q, w2)"
        with planned [of P w1 t] Some same show "on_db rel w1 w2" by (simp add: on_db_def)
      qed (intro conforms_andthen conforms_ret assms)
    qed
  qed
qed

end

lemma tx_evolves_start: "conforms (on_db tx_evolves) (startTransactionHandler s p)"
  by (rule tx_log.conforms_start)
    (auto intro: tx_evolves_start_unplanned tx_evolves_rest start_planned_evolves)

section \<open>Invariants of the database\<close>

definition keeps :: "(db \<Rightarrow> bool) \<Rightarrow> db \<Rightarrow> db \<Rightarrow> bool" where
  "keeps I d d' \<longleftrightarrow> (I d \<longrightarrow> I d')"

subsection \<open>Every recorded cost was announced\<close>

definition announces_cost :: "int \<Rightarrow> int \<Rightarrow> csms_payload \<Rightarrow> bool" where
  "announces_cost i c p \<longleftrightarrow>
     (case p of TransactionStoppedP q \<Rightarrow> tsp_transactionId q = i \<and> tsp_costVnd q = Some c | _ \<Rightarrow> False)"

definition ledger_ok :: "db \<Rightarrow> bool" where
  "ledger_ok d \<longleftrightarrow> (\<forall>t \<in> set (transactions d). \<forall>c. tx_costVnd t = Some c \<longrightarrow>
     (\<exists>e \<in> set (outbox d). announces_cost (tx_id t) c (ob_payload e)))"

interpretation ledger: db_contract "keeps ledger_ok"
  by unfold_locales (auto simp: keeps_def)

lemma ledger_frame:
  assumes "\<And>t'. t' \<in> set (transactions d') \<Longrightarrow> tx_costVnd t' = None \<or>
      (\<exists>t \<in> set (transactions d). tx_id t = tx_id t' \<and> tx_costVnd t = tx_costVnd t')"
    and "\<And>e. e \<in> set (outbox d) \<Longrightarrow> e \<in> set (outbox d')"
  shows "keeps ledger_ok d d'"
  unfolding keeps_def ledger_ok_def using assms by (metis option.distinct(1))

lemma ledger_same:
  "transactions d' = transactions d \<Longrightarrow> (\<And>e. e \<in> set (outbox d) \<Longrightarrow> e \<in> set (outbox d')) \<Longrightarrow> keeps ledger_ok d d'"
  by (rule ledger_frame) auto

lemma ledger_insert:
  "transactions d' = transactions d @ [t] \<Longrightarrow> tx_costVnd t = None \<Longrightarrow>
   (\<And>e. e \<in> set (outbox d) \<Longrightarrow> e \<in> set (outbox d')) \<Longrightarrow> keeps ledger_ok d d'"
  by (rule ledger_frame) auto

lemma ledger_update:
  assumes "transactions d' = update_where P f (transactions d)"
    and "\<And>t. tx_id (f t) = tx_id t \<and> tx_costVnd (f t) = tx_costVnd t"
    and "\<And>e. e \<in> set (outbox d) \<Longrightarrow> e \<in> set (outbox d')"
  shows "keeps ledger_ok d d'"
proof (rule ledger_frame)
  fix t' assume "t' \<in> set (transactions d')"
  then show "tx_costVnd t' = None \<or> (\<exists>t \<in> set (transactions d). tx_id t = tx_id t' \<and> tx_costVnd t = tx_costVnd t')"
    unfolding assms(1) by (rule in_update_whereE) (use assms(2) in metis)+
qed (rule assms(3))

lemma ledger_writeOutbox [contract_intros]: "conforms (on_db (keeps ledger_ok)) (writeOutbox inp)"
  unfolding writeOutbox_def
  by (intro contract_intros ledger.conforms_op; auto simp: store_defs op_Inr intro: ledger_same)

lemma ledger_station:
  "conforms (on_db (keeps ledger_ok)) (bootNotificationHandler s p)"
  "conforms (on_db (keeps ledger_ok)) (heartbeatHandler s p)"
  "conforms (on_db (keeps ledger_ok)) (statusNotificationHandler s p)"
  unfolding station_programs stop_open_of_station_def
  by (intro contract_intros ledger.conforms_op;
      auto simp: store_defs op_Inr intro: ledger_same ledger_update ledger_insert)+

lemma ledger_maintenance:
  "conforms (on_db (keeps ledger_ok)) (firmwareStatusNotificationHandler s p)"
  "conforms (on_db (keeps ledger_ok)) (diagnosticsStatusNotificationHandler s p)"
  "conforms (on_db (keeps ledger_ok)) (dataTransferHandler s p)"
  unfolding maintenance_programs Let_def
  by (intro contract_intros ledger.conforms_op; auto simp: store_defs op_Inr intro: ledger_same)+

lemma ledger_rest:
  "conforms (on_db (keeps ledger_ok)) (authorizeHandler s p)"
  "conforms (on_db (keeps ledger_ok)) (start_unplanned s p)"
  "conforms (on_db (keeps ledger_ok)) (meterValuesHandler s p)"
  "conforms (on_db (keeps ledger_ok)) (enqueue_goal_check t)"
  "conforms (on_db (keeps ledger_ok)) (mark_charging s c)"
  "conforms (on_db (keeps ledger_ok)) (save_transaction_data i data)"
  unfolding transaction_programs Let_def
  by (intro contract_intros ledger.conforms_op;
      auto simp: store_defs op_Inr intro: ledger_same ledger_update ledger_insert)+

lemma ledger_start: "conforms (on_db (keeps ledger_ok)) (startTransactionHandler s p)"
proof (rule ledger.conforms_start)
  fix P w t r w'
  assume "find_pending s P (db w) = Some t" and run: "start_planned s p t w = (r, w')"
  show "keeps ledger_ok (db w) (db w')"
    using start_planned_run [OF run]
  proof (elim disjE exE conjE)
    fix ms ts ev
    assume "transactions (db w') = update_where (\<lambda>q. tx_id q = tx_id t) (activate (tx_id t) ms ts) (transactions (db w))"
      "outbox (db w') = outbox (db w) @ [ev]"
    then show ?thesis by (auto simp: activate_def intro: ledger_update)
  qed (simp add: keeps_def)
qed (auto intro: ledger_rest)

text \<open>What a committed \<open>stop_tx\<close> did: the row of the session and one event with its cost.\<close>

lemma stop_tx_run:
  assumes "stop_tx s p t w = (r, w')"
  shows "db w' = db w \<or> (\<exists>ms ts reason q ev.
    as_int (js_get p ''meterStop'') = Some ms \<and> js_new_date (js_get p ''timestamp'') = Some ts \<and>
    as_string_opt (js_get p ''reason'') = Some reason \<and> r = Inr () \<and>
    find_transaction (tx_id t) (db w) = Some q \<and>
    (let f = close_tx ms ts (session_cost (unit_price_of t) (tx_meterStart t) ms) (unit_price_of t) reason in
       transaction_ok (f q) \<and>
       transactions (db w') = update_where (\<lambda>q. tx_id q = tx_id t) f (transactions (db w)) \<and>
       ob_payload ev = TransactionStoppedP (stopped_payload s (tx_meterStart t) ms reason (f q))) \<and>
    outbox (db w') = outbox (db w) @ [ev] \<and> ob_eventType ev = TransactionStopped \<and>
    db w' = (db w)\<lparr>transactions := transactions (db w'), outbox := outbox (db w'), seqs := seqs (db w')\<rparr>)"
  using transaction_run [OF assms [unfolded stop_tx_def]]
  by (elim disjE exE conjE)
    (auto simp: run_Inr writeOutbox_Inr Let_def store_defs op_Inr tx_event_def find_transaction_def)

lemma ledger_stop_tx [contract_intros]: "conforms (on_db (keeps ledger_ok)) (stop_tx s p t)"
proof (rule conformsI, unfold on_db_def)
  fix w r w' assume run: "stop_tx s p t w = (r, w')"
  show "keeps ledger_ok (db w) (db w')"
    using stop_tx_run [OF run]
  proof (elim disjE exE conjE)
    fix ms ts reason q ev
    let ?c = "session_cost (unit_price_of t) (tx_meterStart t) ms"
    let ?f = "close_tx ms ts ?c (unit_price_of t) reason"
    assume q: "find_transaction (tx_id t) (db w) = Some q"
      and out: "outbox (db w') = outbox (db w) @ [ev]"
      and "let f = ?f in transaction_ok (f q) \<and>
        transactions (db w') = update_where (\<lambda>q. tx_id q = tx_id t) f (transactions (db w)) \<and>
        ob_payload ev = TransactionStoppedP (stopped_payload s (tx_meterStart t) ms reason (f q))"
    then have rows: "transactions (db w') = update_where (\<lambda>q. tx_id q = tx_id t) ?f (transactions (db w))"
      and ev: "ob_payload ev = TransactionStoppedP (stopped_payload s (tx_meterStart t) ms reason (?f q))"
      by (simp_all add: Let_def)
    from q have "tx_id q = tx_id t" by (auto simp: find_transaction_def dest: find_SomeD)
    with ev have "announces_cost (tx_id t) ?c (ob_payload ev)"
      by (simp add: announces_cost_def stopped_payload_def close_tx_def)
    then show ?thesis
      unfolding keeps_def ledger_ok_def rows out
      by (fastforce simp: close_tx_def elim!: in_update_whereE)
  qed (simp add: keeps_def)
qed

lemma ledger_stop: "conforms (on_db (keeps ledger_ok)) (stopTransactionHandler s p)"
  unfolding stopTransactionHandler_def
  by (intro contract_intros ledger.conforms_op ledger_rest; auto simp: store_defs op_Inr intro: ledger_same)

subsection \<open>Every active session was announced\<close>

definition announces_start :: "Transaction \<Rightarrow> csms_payload \<Rightarrow> bool" where
  "announces_start t p \<longleftrightarrow>
     (case p of TransactionStartedP q \<Rightarrow> tst_transactionId q = tx_id t \<and> tst_sessionId q = tx_sessionId t
        \<and> tst_meterStart q = tx_meterStart t \<and> tst_unitPriceVnd q = tx_unitPriceVnd t | _ \<Rightarrow> False)"

definition started_ok :: "db \<Rightarrow> bool" where
  "started_ok d \<longleftrightarrow> tx_ids_ok d \<and> (\<forall>t \<in> set (transactions d). tx_status t = TxActive \<longrightarrow>
     (\<exists>e \<in> set (outbox d). announces_start t (ob_payload e)))"

interpretation started: db_contract "keeps started_ok"
  by unfold_locales (auto simp: keeps_def)

lemma started_same:
  "transactions d' = transactions d \<Longrightarrow> (\<And>e. e \<in> set (outbox d) \<Longrightarrow> e \<in> set (outbox d')) \<Longrightarrow> keeps started_ok d d'"
  unfolding keeps_def started_ok_def tx_ids_ok_def by metis

definition keeps_start :: "(Transaction \<Rightarrow> Transaction) \<Rightarrow> bool" where
  "keeps_start f \<longleftrightarrow> (\<forall>t. tx_id (f t) = tx_id t \<and> (tx_status (f t) = TxActive \<longrightarrow> tx_status t = TxActive \<and>
     tx_sessionId (f t) = tx_sessionId t \<and> tx_meterStart (f t) = tx_meterStart t \<and> tx_unitPriceVnd (f t) = tx_unitPriceVnd t))"

lemma announces_start_cong:
  "tx_id t' = tx_id t \<Longrightarrow> tx_sessionId t' = tx_sessionId t \<Longrightarrow> tx_meterStart t' = tx_meterStart t \<Longrightarrow>
   tx_unitPriceVnd t' = tx_unitPriceVnd t \<Longrightarrow> announces_start t' = announces_start t"
  by (simp add: announces_start_def fun_eq_iff split: csms_payload.splits)

lemma started_update:
  assumes rows: "transactions d' = update_where P f (transactions d)" and f: "keeps_start f"
    and ev: "\<And>e. e \<in> set (outbox d) \<Longrightarrow> e \<in> set (outbox d')"
  shows "keeps started_ok d d'"
  unfolding keeps_def
proof
  assume ok: "started_ok d"
  have "map tx_id (transactions d') = map tx_id (transactions d)"
    unfolding rows by (rule map_update_where) (use f in \<open>simp add: keeps_start_def\<close>)
  with ok have "tx_ids_ok d'" by (simp add: started_ok_def tx_ids_ok_def)
  moreover have "\<exists>e \<in> set (outbox d'). announces_start t (ob_payload e)"
    if "t \<in> set (transactions d')" "tx_status t = TxActive" for t
    using that(1) unfolding rows
  proof (cases rule: in_update_whereE)
    case (changed q)
    with f that have "tx_status q = TxActive" "announces_start t = announces_start q"
      by (auto simp: keeps_start_def intro: announces_start_cong)
    with ok changed(1) ev show ?thesis unfolding started_ok_def by metis
  next
    case kept
    with ok that ev show ?thesis unfolding started_ok_def by metis
  qed
  ultimately show "started_ok d'" by (simp add: started_ok_def)
qed

lemma keeps_start_simps [simp]:
  "keeps_start (\<lambda>t. t\<lparr>tx_status := TxStopped, tx_timeEnd := e t, tx_failReason := r t\<rparr>)"
  "keeps_start (\<lambda>t. t\<lparr>tx_ocppTransactionId := o' t\<rparr>)"
  "keeps_start (close_tx ms ts c u reason)"
  by (simp_all add: keeps_start_def close_tx_def)

lemma started_writeOutbox [contract_intros]: "conforms (on_db (keeps started_ok)) (writeOutbox inp)"
  unfolding writeOutbox_def
  by (intro contract_intros started.conforms_op; auto simp: store_defs op_Inr intro: started_same)

lemma started_station:
  "conforms (on_db (keeps started_ok)) (bootNotificationHandler s p)"
  "conforms (on_db (keeps started_ok)) (heartbeatHandler s p)"
  "conforms (on_db (keeps started_ok)) (statusNotificationHandler s p)"
  unfolding station_programs stop_open_of_station_def
  by (intro contract_intros started.conforms_op;
      auto simp: store_defs op_Inr intro: started_same started_update)+

lemma started_maintenance:
  "conforms (on_db (keeps started_ok)) (firmwareStatusNotificationHandler s p)"
  "conforms (on_db (keeps started_ok)) (diagnosticsStatusNotificationHandler s p)"
  "conforms (on_db (keeps started_ok)) (dataTransferHandler s p)"
  unfolding maintenance_programs Let_def
  by (intro contract_intros started.conforms_op; auto simp: store_defs op_Inr intro: started_same)+

lemma started_rest:
  "conforms (on_db (keeps started_ok)) (authorizeHandler s p)"
  "conforms (on_db (keeps started_ok)) (stopTransactionHandler s p)"
  "conforms (on_db (keeps started_ok)) (meterValuesHandler s p)"
  "conforms (on_db (keeps started_ok)) (enqueue_goal_check t)"
  "conforms (on_db (keeps started_ok)) (mark_charging s c)"
  unfolding transaction_programs Let_def
  by (intro contract_intros started.conforms_op;
      auto simp: store_defs op_Inr intro: started_same started_update)+

lemma find_appended:
  "\<forall>q \<in> set xs. \<not> P q \<Longrightarrow> P x \<Longrightarrow> List.find P (xs @ [x]) = Some x"
  by (induction xs) auto

lemma created_row:
  assumes "create_transaction t d = Inr (x, d')"
  shows "x = t\<lparr>tx_id := seqs d TTransaction + 1\<rparr> \<and>
    (\<forall>q \<in> set (transactions d). tx_id q \<noteq> tx_id x \<and> tx_sessionId q \<noteq> tx_sessionId x) \<and>
    d' = d\<lparr>transactions := transactions d @ [x], seqs := (seqs d)(TTransaction := tx_id x)\<rparr>"
  using assms by (auto simp: create_transaction_def op_Inr)

lemma updated_new_row:
  assumes "update_transaction (tx_id x) f d = Inr (y, d')" "transactions d = ts @ [x]" "\<forall>q \<in> set ts. tx_id q \<noteq> tx_id x"
  shows "y = f x \<and> d' = d\<lparr>transactions := ts @ [f x]\<rparr>"
  using assms find_appended [of ts "\<lambda>q. tx_id q = tx_id x" x]
  by (auto simp: update_transaction_def op_Inr update_where_idle)

text \<open>What a committed \<open>start_unplanned\<close> did: a new active session and one event.\<close>

lemma start_unplanned_run:
  assumes "start_unplanned s p w = (r, w')"
  shows "db w' = db w \<or> (\<exists>t ev c idTag ms ts. r = Inr t \<and>
    as_int (js_get p ''connectorId'') = Some c \<and> as_string_opt (js_get p ''idTag'') = Some idTag \<and>
    as_int (js_get p ''meterStart'') = Some ms \<and> js_new_date (js_get p ''timestamp'') = Some ts \<and>
    tx_id t = seqs (db w) TTransaction + 1 \<and> tx_ocppTransactionId t = Some (tx_id t) \<and> tx_stationId t = s \<and>
    tx_connectorId t = c \<and> tx_idTag t = idTag \<and> tx_meterStart t = ms \<and> tx_timeStart t = ts \<and>
    tx_status t = TxActive \<and> tx_costVnd t = None \<and> tx_unitPriceVnd t = None \<and>
    (\<forall>q \<in> set (transactions (db w)). tx_id q \<noteq> tx_id t \<and> tx_sessionId q \<noteq> tx_sessionId t) \<and>
    transactions (db w') = transactions (db w) @ [t] \<and> outbox (db w') = outbox (db w) @ [ev] \<and>
    ob_payload ev = TransactionStartedP ((started_payload t (site_of s (db w)))\<lparr>tst_stationId := s\<rparr>) \<and>
    db w' = (db w)\<lparr>transactions := transactions (db w'), outbox := outbox (db w'), seqs := seqs (db w')\<rparr>)"
  using transaction_run [OF assms [unfolded start_unplanned_def]]
proof (elim disjE exE conjE)
  fix t w1
  assume r: "r = Inr t" and db': "db w' = db w1"
    and run: "andthen js_now (\<lambda>now.
        andthen (arg (as_int (js_get p ''connectorId''))) (\<lambda>c.
        andthen (arg (as_string_opt (js_get p ''idTag''))) (\<lambda>idTag.
        andthen (arg (as_int (js_get p ''meterStart''))) (\<lambda>meterStart.
        andthen (arg (js_new_date (js_get p ''timestamp''))) (\<lambda>timeStart.
        andthen (db_do (create_transaction
          \<lparr>tx_id = 0, tx_sessionId = ''ocpp_'' @ show_int now, tx_ocppTransactionId = None, tx_stationId = s,
           tx_connectorId = c, tx_idTag = idTag, tx_goalType = None, tx_goalValue = None, tx_status = TxActive,
           tx_meterStart = meterStart, tx_meterEnd = None, tx_timeStart = timeStart, tx_timeEnd = None,
           tx_costVnd = None, tx_failReason = None, tx_unitPriceVnd = None, tx_marginRate = None,
           tx_settlementSchedule = None, tx_settlementDay = None, tx_settlementDayOfWeek = None\<rparr>)) (\<lambda>created.
        andthen (db_do (update_transaction (tx_id created)
          (\<lambda>t. t\<lparr>tx_ocppTransactionId := Some (tx_id created)\<rparr>))) (\<lambda>updated.
        andthen (db_read (site_of s)) (\<lambda>site.
        andthen (writeOutbox (tx_event TransactionStarted (TransactionStartedP ((started_payload updated site)\<lparr>tst_stationId := s\<rparr>))
          (tx_id updated))) (\<lambda>_.
        ret updated))))))))) (w\<lparr>tick := tick w + 1, txn := TxOk\<rparr>) = (Inr t, w1)"
  from run obtain c idTag ms ts created d1 d2 w2 w3 where
      args: "as_int (js_get p ''connectorId'') = Some c" "as_string_opt (js_get p ''idTag'') = Some idTag"
        "as_int (js_get p ''meterStart'') = Some ms" "js_new_date (js_get p ''timestamp'') = Some ts"
    and cr: "create_transaction
          \<lparr>tx_id = 0, tx_sessionId = ''ocpp_'' @ show_int (clock (host w) (tick w + 1)), tx_ocppTransactionId = None, tx_stationId = s,
           tx_connectorId = c, tx_idTag = idTag, tx_goalType = None, tx_goalValue = None, tx_status = TxActive,
           tx_meterStart = ms, tx_meterEnd = None, tx_timeStart = ts, tx_timeEnd = None,
           tx_costVnd = None, tx_failReason = None, tx_unitPriceVnd = None, tx_marginRate = None,
           tx_settlementSchedule = None, tx_settlementDay = None, tx_settlementDayOfWeek = None\<rparr> (db w) = Inr (created, d1)"
    and up: "update_transaction (tx_id created) (\<lambda>t. t\<lparr>tx_ocppTransactionId := Some (tx_id created)\<rparr>) d1 = Inr (t, d2)"
    and ev: "writeOutbox (tx_event TransactionStarted (TransactionStartedP ((started_payload t (site_of s d2))\<lparr>tst_stationId := s\<rparr>)) (tx_id t)) w2 = (Inr w3, w1)"
    and w2: "db w2 = d2"
    by (auto simp: run_Inr)
  note created = created_row [OF cr]
  from created have "transactions d1 = transactions (db w) @ [created]" by simp
  note updated = updated_new_row [OF up this]
  from ev w2 obtain e S where out: "db w1 = d2\<lparr>outbox := outbox d2 @ [e], seqs := S\<rparr>"
      "ob_payload e = TransactionStartedP ((started_payload t (site_of s d2))\<lparr>tst_stationId := s\<rparr>)"
    by (auto simp: writeOutbox_Inr Let_def tx_event_def)
  have fin: "db w1 = (db w)\<lparr>transactions := transactions (db w) @ [t], outbox := outbox (db w) @ [e], seqs := S\<rparr>"
    using created updated out(1) by auto
  have site: "site_of s d2 = site_of s (db w)"
    using created updated by (auto simp: site_of_def find_station_def)
  show ?thesis
    by (rule disjI2, rule exI [of _ t], rule exI [of _ e])
      (use created updated out(2) args r in \<open>auto simp add: db' fin site\<close>)
qed simp

text \<open>What \<open>start_planned\<close> needs of the session it was given: that its row still has its id and session id.\<close>

lemma started_planned:
  assumes run: "start_planned s p t w = (r, w')" and t: "\<exists>q \<in> set (transactions (db w)). tx_id q = tx_id t \<and> tx_sessionId q = tx_sessionId t"
  shows "keeps started_ok (db w) (db w')"
  using start_planned_run [OF run]
proof (elim disjE exE conjE)
  fix ms ts site ev
  assume rows: "transactions (db w') = update_where (\<lambda>q. tx_id q = tx_id t) (activate (tx_id t) ms ts) (transactions (db w))"
    and out: "outbox (db w') = outbox (db w) @ [ev]"
    and ev: "ob_payload ev = TransactionStartedP
          \<lparr>tst_transactionId = tx_id t, tst_sessionId = tx_sessionId t, tst_stationId = s,
           tst_connectorId = tx_connectorId t, tst_idTag = tx_idTag t, tst_meterStart = ms,
           tst_timeStart = date_iso ts, tst_unitPriceVnd = Some UNIT_PRICE, tst_marginRate = None,
           tst_settlementSchedule = None, tst_settlementDay = None, tst_settlementDayOfWeek = None,
           tst_siteId = site\<rparr>"
  show ?thesis
    unfolding keeps_def
  proof
    assume ok: "started_ok (db w)"
    have "map tx_id (transactions (db w')) = map tx_id (transactions (db w))"
      unfolding rows by (rule map_update_where) (simp add: activate_def)
    with ok have "tx_ids_ok (db w')" by (simp add: started_ok_def tx_ids_ok_def)
    moreover have "\<exists>e \<in> set (outbox (db w')). announces_start q (ob_payload e)"
      if "q \<in> set (transactions (db w'))" "tx_status q = TxActive" for q
      using that(1) unfolding rows
    proof (cases rule: in_update_whereE)
      case (changed q0)
      with t ok have "tx_sessionId q0 = tx_sessionId t" unfolding started_ok_def tx_ids_ok_def by (metis distinct_map_eq)
      with changed(2,3) ev have "announces_start q (ob_payload ev)"
        by (simp add: announces_start_def activate_def)
      with out show ?thesis by simp
    next
      case kept
      with ok that(2) have "\<exists>e \<in> set (outbox (db w)). announces_start q (ob_payload e)"
        by (simp add: started_ok_def)
      with out show ?thesis by auto
    qed
    ultimately show "started_ok (db w')" by (simp add: started_ok_def)
  qed
qed (simp add: keeps_def)

lemma started_unplanned: "conforms (on_db (keeps started_ok)) (start_unplanned s p)"
proof (rule conformsI, unfold on_db_def)
  fix w r w' assume run: "start_unplanned s p w = (r, w')"
  show "keeps started_ok (db w) (db w')"
    using start_unplanned_run [OF run]
  proof (elim disjE exE conjE)
    fix t ev
    assume "\<forall>q \<in> set (transactions (db w)). tx_id q \<noteq> tx_id t \<and> tx_sessionId q \<noteq> tx_sessionId t"
      "transactions (db w') = transactions (db w) @ [t]" "outbox (db w') = outbox (db w) @ [ev]"
      "ob_payload ev = TransactionStartedP ((started_payload t (site_of s (db w)))\<lparr>tst_stationId := s\<rparr>)"
    then show ?thesis
      by (auto simp: keeps_def started_ok_def tx_ids_ok_def announces_start_def started_payload_def image_iff)
  qed (simp add: keeps_def)
qed

lemma started_start: "conforms (on_db (keeps started_ok)) (startTransactionHandler s p)"
  by (rule started.conforms_start) (auto intro: started_unplanned started_planned started_rest dest: find_pending_Some)

subsection \<open>The fault events follow the fault state of a connector\<close>

definition fault_step :: "string \<Rightarrow> int \<Rightarrow> csms_payload \<Rightarrow> string option \<Rightarrow> string option" where
  "fault_step s c p st =
     (case p of
        FaultRaisedP q \<Rightarrow> if fr_stationId q = s \<and> fr_connectorId q = c then Some (fr_errorCode q) else st
      | FaultClearedP q \<Rightarrow> if fc_stationId q = s \<and> fc_connectorId q = c then None else st
      | _ \<Rightarrow> st)"

text \<open>The fault a reader of the event log believes the connector to have.\<close>

definition announced_fault :: "string \<Rightarrow> int \<Rightarrow> OutboxEvent list \<Rightarrow> string option" where
  "announced_fault s c events = fold (\<lambda>e. fault_step s c (ob_payload e)) events None"

definition connector_fault :: "string \<Rightarrow> int \<Rightarrow> db \<Rightarrow> string option" where
  "connector_fault s c d = Option.bind (find_connector s c d) co_errorCode"

definition faults_ok :: "db \<Rightarrow> bool" where
  "faults_ok d \<longleftrightarrow> (\<forall>s c. announced_fault s c (outbox d) = connector_fault s c d)"

interpretation faults: db_contract "keeps faults_ok"
  by unfold_locales (auto simp: keeps_def)

definition no_fault_event :: "csms_payload \<Rightarrow> bool" where
  "no_fault_event p \<longleftrightarrow> (case p of FaultRaisedP _ \<Rightarrow> False | FaultClearedP _ \<Rightarrow> False | _ \<Rightarrow> True)"

lemma fault_step_other: "no_fault_event p \<Longrightarrow> fault_step s c p st = st"
  by (simp add: no_fault_event_def fault_step_def split: csms_payload.splits)

lemma announced_fault_append [simp]:
  "announced_fault s c (es @ [e]) = fault_step s c (ob_payload e) (announced_fault s c es)"
  by (simp add: announced_fault_def)

lemma connector_fault_frame: "connectors d' = connectors d \<Longrightarrow> connector_fault s c d' = connector_fault s c d"
  by (simp add: connector_fault_def find_connector_def)

lemma faults_same:
  "connectors d' = connectors d \<Longrightarrow> outbox d' = outbox d \<Longrightarrow> keeps faults_ok d d'"
  using connector_fault_frame [of d' d] by (simp add: keeps_def faults_ok_def)

lemma faults_event:
  "connectors d' = connectors d \<Longrightarrow> outbox d' = outbox d @ [e] \<Longrightarrow> no_fault_event (ob_payload e) \<Longrightarrow> keeps faults_ok d d'"
  using connector_fault_frame [of d' d] by (simp add: keeps_def faults_ok_def fault_step_other)

lemma faults_update:
  assumes "connectors d' = update_where P f (connectors d)" "outbox d' = outbox d"
    and "\<And>r. co_stationId (f r) = co_stationId r \<and> co_connectorId (f r) = co_connectorId r \<and> co_errorCode (f r) = co_errorCode r"
  shows "keeps faults_ok d d'"
proof -
  have "connector_fault s c d' = connector_fault s c d" for s c
    unfolding connector_fault_def find_connector_def assms(1)
    by (subst find_update_where) (auto simp: assms(3) split: Option.bind_splits)
  with assms(2) show ?thesis by (simp add: keeps_def faults_ok_def)
qed

lemma faults_insert:
  assumes "connectors d' = connectors d @ [r]" "outbox d' = outbox d" "co_errorCode r = None"
    and "find_connector (co_stationId r) (co_connectorId r) d = None"
  shows "keeps faults_ok d d'"
proof -
  have "List.find Q (xs @ [r]) = (case List.find Q xs of None \<Rightarrow> if Q r then Some r else None | Some x \<Rightarrow> Some x)"
    for Q and xs :: "Connector list" by (induction xs) auto
  then have "connector_fault s c d' = connector_fault s c d" for s c
    using assms by (auto simp: connector_fault_def find_connector_def split: option.splits)
  with assms(2) show ?thesis by (simp add: keeps_def faults_ok_def)
qed

lemma faults_writeOutbox [contract_intros]:
  "no_fault_event (in_payload inp) \<Longrightarrow> conforms (on_db (keeps faults_ok)) (writeOutbox inp)"
  unfolding writeOutbox_def
  by (intro contract_intros faults.conforms_op; auto simp: store_defs op_Inr intro: faults_event)

lemmas no_fault_simps = no_fault_event_def tx_event_def

lemma faults_mark_charging [contract_intros]: "conforms (on_db (keeps faults_ok)) (mark_charging s c)"
  unfolding mark_charging_def
  by (intro contract_intros faults.conforms_op;
      auto simp: upsert_connector_def op_Inr new_connector_def find_connector_def
        intro: faults_update faults_insert)

lemma faults_other:
  "conforms (on_db (keeps faults_ok)) (bootNotificationHandler s p)"
  "conforms (on_db (keeps faults_ok)) (heartbeatHandler s p)"
  "conforms (on_db (keeps faults_ok)) (authorizeHandler s p)"
  "conforms (on_db (keeps faults_ok)) (start_unplanned s p)"
  "conforms (on_db (keeps faults_ok)) (start_planned s p t)"
  "conforms (on_db (keeps faults_ok)) (enqueue_goal_check t)"
  "conforms (on_db (keeps faults_ok)) (stopTransactionHandler s p)"
  "conforms (on_db (keeps faults_ok)) (meterValuesHandler s p)"
  "conforms (on_db (keeps faults_ok)) (firmwareStatusNotificationHandler s p)"
  "conforms (on_db (keeps faults_ok)) (diagnosticsStatusNotificationHandler s p)"
  "conforms (on_db (keeps faults_ok)) (dataTransferHandler s p)"
  unfolding bootNotificationHandler_def boot_create_station_def boot_update_station_def heartbeatHandler_def
    stop_open_of_station_def authorizeHandler_def start_unplanned_def start_planned_def enqueue_goal_check_def
    stopTransactionHandler_def stop_tx_def save_transaction_data_def meterValuesHandler_def maintenance_programs Let_def
  by (intro contract_intros faults.conforms_op;
      auto simp: store_defs op_Inr no_fault_simps intro: faults_same faults_update)+

lemma faults_start: "conforms (on_db (keeps faults_ok)) (startTransactionHandler s p)"
  by (rule faults.conforms_start)
    (auto intro: faults_other faults_mark_charging dest: conformsD [OF faults_other(5)] simp: on_db_def)

text \<open>What a committed status transaction did: the row of the connector and its events.\<close>

definition fault_events :: "string \<Rightarrow> int \<Rightarrow> string option \<Rightarrow> string option \<Rightarrow> bool \<Rightarrow> csms_payload list" where
  "fault_events s c errorCode info wasInFault =
     (case errorCode of
        Some code \<Rightarrow> [FaultRaisedP \<lparr>fr_stationId = s, fr_connectorId = c, fr_errorCode = code, fr_info = info\<rparr>]
      | None \<Rightarrow> if wasInFault then [FaultClearedP \<lparr>fc_stationId = s, fc_connectorId = c\<rparr>] else [])"

lemma connector_status_run:
  assumes "db_transaction (connector_status_tx s c p stamp was) w = (r, w')"
  shows "db w' = db w \<or> (\<exists>row evs.
    as_string_opt (reported_error (js_get p ''errorCode'')) = Some (co_errorCode row) \<and>
    as_string_opt (js_get p ''info'') = Some (co_info row) \<and>
    co_stationId row = s \<and> co_connectorId row = c \<and> co_currentStatus row = normalized_status (js_get p ''status'') \<and>
    connectors (db w') = (if find_connector s c (db w) = None then connectors (db w) @ [row]
      else update_where (\<lambda>q. co_stationId q = s \<and> co_connectorId q = c) (\<lambda>_. row) (connectors (db w))) \<and>
    outbox (db w') = outbox (db w) @ evs \<and>
    map ob_payload evs = ConnectorStatusChangedP \<lparr>csc_stationId = s, csc_connectorId = c,
        csc_status = js_get p ''status'', csc_errorCode = co_errorCode row\<rparr>
      # fault_events s c (co_errorCode row) (co_info row) was \<and>
    db w' = (db w)\<lparr>connectors := connectors (db w'), outbox := outbox (db w'), seqs := seqs (db w')\<rparr>)"
  using transaction_run [OF assms]
proof (elim disjE exE conjE)
  fix x w1
  assume run: "connector_status_tx s c p stamp was (w\<lparr>tick := tick w + 1, txn := TxOk\<rparr>) = (Inr x, w1)"
    and db': "db w' = db w1"
  from run obtain errorCode info vendorId vendorErrorCode ts row row' d1 w2 w3 e1 where
      args: "as_string_opt (reported_error (js_get p ''errorCode'')) = Some errorCode"
        "as_string_opt (js_get p ''info'') = Some info"
    and row: "row = \<lparr>co_stationId = s, co_connectorId = c, co_currentStatus = normalized_status (js_get p ''status''),
        co_errorCode = errorCode, co_info = info, co_vendorId = vendorId, co_vendorErrorCode = vendorErrorCode,
        co_statusTimestamp = Some ts\<rparr>"
    and up: "upsert_connector s c (\<lambda>_. row) row (db w) = Inr (row', d1)"
    and ev1: "writeOutbox (connector_event s c ConnectorStatusChanged (ConnectorStatusChangedP
        \<lparr>csc_stationId = s, csc_connectorId = c, csc_status = js_get p ''status'', csc_errorCode = errorCode\<rparr>)) w2 = (Inr e1, w3)"
    and ev2: "(case errorCode of
       Some code \<Rightarrow> andthen (writeOutbox (connector_event s c FaultRaised (FaultRaisedP
          \<lparr>fr_stationId = s, fr_connectorId = c, fr_errorCode = code, fr_info = info\<rparr>))) (\<lambda>_. ret ())
     | None \<Rightarrow> only_if was
          (andthen (writeOutbox (connector_event s c FaultCleared (FaultClearedP
             \<lparr>fc_stationId = s, fc_connectorId = c\<rparr>))) (\<lambda>_. ret ()))) w3 = (Inr x, w1)"
    and w2: "db w2 = d1"
    by (auto simp: connector_status_tx_def run_Inr Let_def)
  from up have conn: "d1 = (db w)\<lparr>connectors := (if find_connector s c (db w) = None then connectors (db w) @ [row]
      else update_where (\<lambda>q. co_stationId q = s \<and> co_connectorId q = c) (\<lambda>_. row) (connectors (db w)))\<rparr>"
    by (auto simp: upsert_connector_def op_Inr find_connector_def)
  from ev1 w2 obtain ea Sa where a: "db w3 = d1\<lparr>outbox := outbox d1 @ [ea], seqs := Sa\<rparr>"
      "ob_payload ea = ConnectorStatusChangedP
        \<lparr>csc_stationId = s, csc_connectorId = c, csc_status = js_get p ''status'', csc_errorCode = errorCode\<rparr>"
    by (auto simp: writeOutbox_Inr Let_def connector_event_def)
  from ev2 obtain evs Sb where b: "db w1 = (db w3)\<lparr>outbox := outbox (db w3) @ evs, seqs := Sb\<rparr>"
      "map ob_payload evs = fault_events s c errorCode info was"
  proof (cases errorCode)
    case (Some code)
    with ev2 obtain e S where "db w1 = (db w3)\<lparr>outbox := outbox (db w3) @ [e], seqs := S\<rparr>"
      "ob_payload e = FaultRaisedP \<lparr>fr_stationId = s, fr_connectorId = c, fr_errorCode = code, fr_info = info\<rparr>"
      by (auto simp: run_Inr writeOutbox_Inr Let_def connector_event_def)
    with Some show thesis by (intro that [of S "[e]"]) (simp_all add: fault_events_def)
  next
    case None
    show thesis
    proof (cases was)
      case True
      with None ev2 obtain e S where "db w1 = (db w3)\<lparr>outbox := outbox (db w3) @ [e], seqs := S\<rparr>"
        "ob_payload e = FaultClearedP \<lparr>fc_stationId = s, fc_connectorId = c\<rparr>"
        by (auto simp: run_Inr only_if_def writeOutbox_Inr Let_def connector_event_def)
      with None True show thesis by (intro that [of S "[e]"]) (simp_all add: fault_events_def)
    next
      case False
      with None ev2 have "db w1 = db w3" by (auto simp: only_if_def ret_def)
      with None False show thesis by (intro that [of "seqs (db w3)" "[]"]) (simp_all add: fault_events_def)
    qed
  qed
  have fin: "db w1 = (db w)\<lparr>connectors := connectors d1, outbox := outbox (db w) @ ea # evs, seqs := Sb\<rparr>"
    using conn a(1) b(1) by simp
  show ?thesis
    by (rule disjI2, rule exI [of _ row], rule exI [of _ "ea # evs"])
      (use args a(2) b(2) in \<open>simp add: db' fin conn row\<close>)
qed simp

lemma connector_fault_upsert:
  assumes "connectors d' = (if find_connector s c d = None then connectors d @ [row]
      else update_where (\<lambda>q. co_stationId q = s \<and> co_connectorId q = c) (\<lambda>_. row) (connectors d))"
    and "co_stationId row = s" "co_connectorId row = c"
  shows "connector_fault s' c' d' = (if s' = s \<and> c' = c then co_errorCode row else connector_fault s' c' d)"
proof -
  let ?Q = "\<lambda>q. co_stationId q = s' \<and> co_connectorId q = c'"
  have app: "List.find Q (xs @ [r]) = (case List.find Q xs of None \<Rightarrow> if Q r then Some r else None | Some x \<Rightarrow> Some x)"
    for Q r and xs :: "Connector list" by (induction xs) auto
  show ?thesis
  proof (cases "find_connector s c d = None")
    case True
    with assms app show ?thesis by (auto simp: connector_fault_def find_connector_def split: option.splits)
  next
    case False
    have "List.find ?Q (update_where (\<lambda>q. co_stationId q = s \<and> co_connectorId q = c) (\<lambda>_. row) (connectors d))
      = map_option (\<lambda>q. if co_stationId q = s \<and> co_connectorId q = c then row else q) (List.find ?Q (connectors d))"
      by (rule find_update_where) (auto simp: assms)
    with False assms show ?thesis
      by (auto simp: connector_fault_def find_connector_def dest: find_SomeD split: Option.bind_splits)
  qed
qed

lemma fault_events_fold:
  "fold (fault_step s' c') (fault_events s c e info (f s c \<noteq> None)) (f s' c')
    = (if s' = s \<and> c' = c then e else f s' c')"
  by (auto simp: fault_events_def fault_step_def split: option.splits)

lemma faults_connector_tx:
  assumes "db_transaction (connector_status_tx s c p stamp (connector_fault s c (db w) \<noteq> None)) w = (r, w')"
  shows "keeps faults_ok (db w) (db w')"
  using connector_status_run [OF assms]
proof (elim disjE exE conjE)
  fix row evs
  assume row: "co_stationId row = s" "co_connectorId row = c"
    and conn: "connectors (db w') = (if find_connector s c (db w) = None then connectors (db w) @ [row]
      else update_where (\<lambda>q. co_stationId q = s \<and> co_connectorId q = c) (\<lambda>_. row) (connectors (db w)))"
    and out: "outbox (db w') = outbox (db w) @ evs"
    and evs: "map ob_payload evs = ConnectorStatusChangedP \<lparr>csc_stationId = s, csc_connectorId = c,
        csc_status = js_get p ''status'', csc_errorCode = co_errorCode row\<rparr>
      # fault_events s c (co_errorCode row) (co_info row) (connector_fault s c (db w) \<noteq> None)"
  show ?thesis
    unfolding keeps_def faults_ok_def
  proof (intro impI allI)
    fix s' c'
    assume ok: "\<forall>s c. announced_fault s c (outbox (db w)) = connector_fault s c (db w)"
    have "announced_fault s' c' (outbox (db w'))
      = fold (fault_step s' c') (map ob_payload evs) (announced_fault s' c' (outbox (db w)))"
      by (simp add: out announced_fault_def fold_map comp_def)
    also have "\<dots> = (if s' = s \<and> c' = c then co_errorCode row else connector_fault s' c' (db w))"
      using fault_events_fold [of s' c' s c "co_errorCode row" "co_info row" "\<lambda>s c. connector_fault s c (db w)"] ok
      by (simp add: evs fault_step_def)
    also have "\<dots> = connector_fault s' c' (db w')"
      using connector_fault_upsert [OF conn row] by simp
    finally show "announced_fault s' c' (outbox (db w')) = connector_fault s' c' (db w')" .
  qed
qed (simp add: keeps_def)

lemma faults_status: "conforms (on_db (keeps faults_ok)) (statusNotificationHandler s p)"
proof -
  have branch: "conforms (on_db (keeps faults_ok)) (connector_status_branch s p stamp)" for stamp
    unfolding connector_status_branch_def
  proof (rule faults.conforms_andthen [OF faults.conforms_arg], rule faults.conforms_read_then)
    fix c w r w'
    assume run: "andthen (db_transaction (connector_status_tx s c p stamp
        (Option.bind (find_connector s c (db w)) co_errorCode \<noteq> None)))
      (\<lambda>_. only_if (js_get p ''status'' = JStr ''Available'') (stop_stuck_on_available s c)) w = (r, w')"
    show "on_db (keeps faults_ok) w w'"
    proof (rule faults.run_andthen [OF run])
      fix q w1
      assume "db_transaction (connector_status_tx s c p stamp
        (Option.bind (find_connector s c (db w)) co_errorCode \<noteq> None)) w = (q, w1)"
      then show "on_db (keeps faults_ok) w w1"
        unfolding on_db_def connector_fault_def [symmetric] by (rule faults_connector_tx)
    next
      show "conforms (on_db (keeps faults_ok)) (only_if (js_get p ''status'' = JStr ''Available'') (stop_stuck_on_available s c))"
        unfolding stop_stuck_on_available_def
        by (intro contract_intros faults.conforms_op; auto simp: store_defs op_Inr intro: faults_same)
    qed
  qed
  show ?thesis
    unfolding statusNotificationHandler_def station_status_branch_def writeOfflineLog_def date_or_now_def Let_def
    by (intro contract_intros branch faults.conforms_op; auto simp: store_defs op_Inr intro: faults_same)
qed

end
