(* ===== verification/Router.thy ===== *)
theory Router
  imports Sockets Contracts
begin

text \<open>
  The router of inbound frames (\<open>packages/core/src/ocpp/messageRouter.ts\<close>): it parses a frame, logs
  it, validates a call, runs its handler and replies on the same socket, or hands a result to the
  call that waits for it.  The two log writes the router does not wait for run here in place.
\<close>

section \<open>handlers/index.ts\<close>

definition handlerMap :: "(string \<times> (string \<Rightarrow> jsval \<Rightarrow> jsval prog)) list" where
  "handlerMap =
     [(''BootNotification'', bootNotificationHandler),
      (''Heartbeat'', heartbeatHandler),
      (''StatusNotification'', statusNotificationHandler),
      (''StartTransaction'', startTransactionHandler),
      (''StopTransaction'', stopTransactionHandler),
      (''Authorize'', authorizeHandler),
      (''MeterValues'', meterValuesHandler),
      (''DataTransfer'', dataTransferHandler),
      (''FirmwareStatusNotification'', firmwareStatusNotificationHandler),
      (''DiagnosticsStatusNotification'', diagnosticsStatusNotificationHandler)]"

definition find_handler :: "jsval \<Rightarrow> (string \<Rightarrow> jsval \<Rightarrow> jsval prog) option" where
  "find_handler action = Option.bind (as_string action) (map_get handlerMap)"

section \<open>messageRouter.ts\<close>

definition classifyOcppError :: "string \<Rightarrow> string \<times> string" where
  "classifyOcppError message =
     (if js_includes message ''JSON'' then (''ProtocolError'', ''Invalid JSON format'')
      else if js_includes message ''Schema'' \<or> js_includes message ''Missing required''
      then (''FormationViolation'', ''Schema validation failed'')
      else if js_includes message ''NotImplemented'' then (''NotImplemented'', message)
      else (''InternalError'', ''Internal server error''))"

record log_meta =
  lm_direction :: int
  lm_messageId :: jsval
  lm_action :: jsval
  lm_inbound :: bool

definition persist :: "string \<Rightarrow> log_meta \<Rightarrow> string \<Rightarrow> unit prog" where
  "persist stationId meta raw =
     andthen (catch_err (db_read (station_exists stationId)) (\<lambda>_. ret False)) (\<lambda>stationExists.
     only_if stationExists
       (andthen (arg (as_string (lm_messageId meta))) (\<lambda>mid.
        andthen (arg (as_string_opt (lm_action meta))) (\<lambda>action.
        andthen js_now (\<lambda>now.
        andthen (db_do (create_ocppMessage \<lparr>om_stationId = stationId, om_messageId = mid,
          om_direction = lm_direction meta, om_inbound = lm_inbound meta, om_action = action,
          om_payload = raw, om_createdAt = now\<rparr>)) (\<lambda>_. ret ()))))))"

definition logInbound :: "string \<Rightarrow> OcppMessage \<Rightarrow> string \<Rightarrow> unit prog" where
  "logInbound stationId m raw = persist stationId
     \<lparr>lm_direction = messageTypeId m, lm_messageId = messageId m, lm_action = messageAction m, lm_inbound = True\<rparr> raw"

definition logOutbound :: "string \<Rightarrow> string \<Rightarrow> log_meta \<Rightarrow> unit prog" where
  "logOutbound stationId raw meta = ignore_err (persist stationId (meta\<lparr>lm_inbound := False\<rparr>) raw)"

definition sendAndLog :: "nat \<Rightarrow> string \<Rightarrow> string \<Rightarrow> log_meta \<Rightarrow> unit prog" where
  "sendAndLog ws stationId raw meta = andthen (ws_send ws raw) (\<lambda>_. logOutbound stationId raw meta)"

definition reply_meta :: "int \<Rightarrow> jsval \<Rightarrow> jsval \<Rightarrow> log_meta" where
  "reply_meta direction mid action = \<lparr>lm_direction = direction, lm_messageId = mid, lm_action = action, lm_inbound = False\<rparr>"

definition handle_call :: "string \<Rightarrow> nat \<Rightarrow> jsval \<Rightarrow> jsval \<Rightarrow> jsval \<Rightarrow> unit prog" where
  "handle_call stationId ws mid action payload =
     (case validate action payload of
        Some validationError \<Rightarrow>
          sendAndLog ws stationId (serializeCallError mid ''FormationViolation'' validationError) (reply_meta 4 mid action)
      | None \<Rightarrow>
          (case find_handler action of
             None \<Rightarrow>
               sendAndLog ws stationId
                 (serializeCallError mid ''NotImplemented'' (''Action '' @ js_text action @ '' not supported''))
                 (reply_meta 4 mid action)
           | Some handler \<Rightarrow>
               andthen (handler stationId payload) (\<lambda>responsePayload.
               sendAndLog ws stationId (serializeCallResult mid responsePayload) (reply_meta 3 mid action))))"

definition dispatch :: "string \<Rightarrow> nat \<Rightarrow> OcppMessage \<Rightarrow> unit prog" where
  "dispatch stationId ws m =
     (case m of
        OcppCall mid action payload \<Rightarrow> handle_call stationId ws mid action payload
      | OcppCallResult mid payload \<Rightarrow> pending_resolve mid payload
      | OcppCallError mid errorCode errorDescription details \<Rightarrow>
          pending_reject mid (js_text errorCode @ '': '' @ js_text errorDescription))"

definition reply_error :: "string \<Rightarrow> nat \<Rightarrow> jsval \<Rightarrow> jsval \<Rightarrow> js_error \<Rightarrow> unit prog" where
  "reply_error stationId ws mid action error =
     andthen (ask (\<lambda>w. err_message (host w) error)) (\<lambda>message.
     case classifyOcppError message of (ocppErrorCode, description) \<Rightarrow>
       sendAndLog ws stationId (serializeCallError mid ocppErrorCode description) (reply_meta 4 mid action))"

definition handle :: "string \<Rightarrow> nat \<Rightarrow> string \<Rightarrow> unit prog" where
  "handle stationId ws raw =
     (case parseOcppMessage raw of
        Inl e \<Rightarrow> reply_error stationId ws (JStr ''unknown'') JUndefined e
      | Inr m \<Rightarrow>
          catch_err
            (andthen (ignore_err (logInbound stationId m raw)) (\<lambda>_. dispatch stationId ws m))
            (reply_error stationId ws (messageId m) (messageAction m)))"

section \<open>The contracts, for every inbound frame\<close>

context contract
begin

lemma conforms_persist:
  assumes "\<And>r. conforms R (db_do (create_ocppMessage r))"
  shows "conforms R (persist s meta raw)"
  unfolding persist_def by (intro assms conforms_catch conforms_andthen conforms_db_read conforms_ret conforms_only_if conforms_arg conforms_js_now)

lemma conforms_sendAndLog:
  assumes "\<And>r. conforms R (db_do (create_ocppMessage r))" "\<And>ws raw. conforms R (ws_send ws raw)"
  shows "conforms R (sendAndLog ws s raw meta)"
  unfolding sendAndLog_def logOutbound_def
  by (intro conforms_andthen conforms_ignore conforms_persist assms)

lemma conforms_handle_frame:
  assumes net: "\<And>ws raw. conforms R (ws_send ws raw)" "\<And>mid out. conforms R (settle mid out)"
    and log: "\<And>r. conforms R (db_do (create_ocppMessage r))"
    and handlers: "\<And>a h p. (a, h) \<in> set handlerMap \<Longrightarrow> conforms R (h s p)"
  shows "conforms R (handle s ws raw)"
proof -
  have reply: "conforms R (reply_error s ws mid action e)" for mid action e
    unfolding reply_error_def by (intro conforms_andthen conforms_ask conforms_prod conforms_sendAndLog log net)
  have found: "find_handler action = Some h \<Longrightarrow> conforms R (h s p)" for action h p
    by (auto simp: find_handler_def bind_eq_Some_conv dest!: map_of_SomeD intro: handlers)
  have call: "conforms R (handle_call s ws mid action p)" for mid action p
    unfolding handle_call_def by (intro conforms_option conforms_andthen conforms_sendAndLog log net found)
  have "conforms R (dispatch s ws m)" for m
    unfolding dispatch_def pending_resolve_def pending_reject_def
    by (cases m) (auto intro: call conforms_option conforms_ret net)
  then show ?thesis
    unfolding handle_def logInbound_def
    by (intro conforms_sum reply conforms_catch conforms_andthen conforms_ignore conforms_persist log)
qed

end

context db_contract
begin

lemma conforms_same_db: "(\<And>w. db (snd (m w)) = db w) \<Longrightarrow> conforms (on_db rel) m"
  by (simp add: conforms_def on_db_def db_refl)

lemma conforms_ws_send: "conforms (on_db rel) (ws_send ws raw)"
  by (rule conforms_same_db) (simp add: ws_send_def)

lemma conforms_settle: "conforms (on_db rel) (settle mid out)"
  by (rule conforms_same_db) (simp add: settle_def split: option.splits)

lemma conforms_handle:
  assumes "\<And>r. conforms (on_db rel) (db_do (create_ocppMessage r))"
    and "\<And>a h p. (a, h) \<in> set handlerMap \<Longrightarrow> conforms (on_db rel) (h s p)"
  shows "conforms (on_db rel) (handle s ws raw)"
  by (rule conforms_handle_frame [OF conforms_ws_send conforms_settle]) (use assms in blast)+

end

lemma handlerMap_cases:
  assumes "(a, h) \<in> set handlerMap"
  obtains "h = bootNotificationHandler" | "h = heartbeatHandler" | "h = statusNotificationHandler"
  | "h = startTransactionHandler" | "h = stopTransactionHandler" | "h = authorizeHandler" | "h = meterValuesHandler"
  | "h = dataTransferHandler" | "h = firmwareStatusNotificationHandler" | "h = diagnosticsStatusNotificationHandler"
  using assms by (auto simp: handlerMap_def)

lemma handle_outbox_grows: "conforms (on_db outbox_grows) (handle s ws raw)"
  by (rule outbox_log.conforms_handle, rule outbox_log.conforms_op)
    (auto simp: store_defs op_Inr intro!: outbox_grows_frame
      intro: outbox_grows_station outbox_grows_transaction outbox_grows_maintenance elim: handlerMap_cases)

lemma handle_tx_evolves: "conforms (on_db tx_evolves) (handle s ws raw)"
  by (rule tx_log.conforms_handle, rule tx_log.conforms_op)
    (auto simp: store_defs op_Inr intro!: tx_evolves_frame
      intro: tx_evolves_station tx_evolves_start tx_evolves_rest tx_evolves_maintenance elim: handlerMap_cases)

lemma handle_ledger: "conforms (on_db (keeps ledger_ok)) (handle s ws raw)"
  by (rule ledger.conforms_handle, rule ledger.conforms_op)
    (auto simp: store_defs op_Inr intro!: ledger_same
      intro: ledger_station ledger_start ledger_stop ledger_rest ledger_maintenance elim: handlerMap_cases)

lemma handle_started: "conforms (on_db (keeps started_ok)) (handle s ws raw)"
  by (rule started.conforms_handle, rule started.conforms_op)
    (auto simp: store_defs op_Inr intro!: started_same
      intro: started_station started_start started_rest started_maintenance elim: handlerMap_cases)

lemma handle_faults: "conforms (on_db (keeps faults_ok)) (handle s ws raw)"
  by (rule faults.conforms_handle, rule faults.conforms_op)
    (auto simp: store_defs op_Inr intro!: faults_same
      intro: faults_other faults_start faults_status elim: handlerMap_cases)

end
