(* ===== verification/Commands.thy ===== *)
theory Commands
  imports Router
begin

text \<open>
  Server-initiated OCPP calls (\<open>packages/core/src/ocpp/commands\<close>): \<open>sendCommand\<close> records the call,
  sends it and waits; the reply, an error or the timeout settles it.  The two halves are
  \<open>command_begin\<close> and \<open>command_settle\<close>, so that the event loop can run anything between them;
  \<open>sendCommand\<close> composes them with the reply the host gives.  The second part is the bookkeeping of
  the records: the queries and sweeps of \<open>services/ocppCommandResult.service.ts\<close> and the periodic
  jobs.
\<close>

section \<open>Pagination (utils/auth.ts)\<close>

text \<open>\<open>parseInt(s, 10)\<close>: optional sign and leading digits; \<open>None\<close> is \<open>NaN\<close>.\<close>

definition parseInt10 :: "string \<Rightarrow> int option" where
  "parseInt10 s =
     (let t = dropWhile is_js_space s;
          (neg, u) = (case t of x # xs \<Rightarrow> if x = CHR ''-'' then (True, xs) else if x = CHR ''+'' then (False, xs) else (False, t)
                      | [] \<Rightarrow> (False, t));
          ds = takeWhile is_digit u
      in if ds = [] then None else Some (if neg then - int (read_nat ds) else int (read_nat ds)))"

definition parse_or :: "jsval \<Rightarrow> int \<Rightarrow> int" where
  "parse_or v d =
     (case parseInt10 (js_text (js_or v (js_int d))) of None \<Rightarrow> d | Some n \<Rightarrow> if n = 0 then d else n)"

record pagination =
  pg_page :: int
  pg_limit :: int
  pg_skip :: int

definition parsePagination :: "jsval \<Rightarrow> jsval \<Rightarrow> pagination" where
  "parsePagination page limit =
     (let p = max 1 (parse_or page 1); l = min 100 (max 1 (parse_or limit 20))
      in \<lparr>pg_page = p, pg_limit = l, pg_skip = (p - 1) * l\<rparr>)"

text \<open>\<open>findMany({skip, take})\<close> and the number of pages.\<close>

definition page_of :: "pagination \<Rightarrow> 'a list \<Rightarrow> 'a list" where
  "page_of pg xs = take (nat (pg_limit pg)) (drop (nat (pg_skip pg)) xs)"

definition total_pages :: "pagination \<Rightarrow> nat \<Rightarrow> int" where
  "total_pages pg n = js_ceil (js_div (of_nat n) (of_int (pg_limit pg)))"

section \<open>_sender.ts\<close>

definition pending_row :: "string \<Rightarrow> string \<Rightarrow> string \<Rightarrow> jsval \<Rightarrow> string option \<Rightarrow> int \<Rightarrow> OcppCommandResult" where
  "pending_row mid stationId action payload requestedBy now =
     \<lparr>cr_id = 0, cr_messageId = mid, cr_stationId = Some stationId, cr_action = action, cr_status = CmdPending,
      cr_requestPayload = payload, cr_responsePayload = None, cr_errorCode = None, cr_errorDescription = None,
      cr_requestedBy = requestedBy, cr_sentAt = now, cr_receivedAt = None\<rparr>"

definition open_socket :: "string \<Rightarrow> nat prog" where
  "open_socket stationId =
     andthen (ask (\<lambda>w. if isConnected w stationId then map_get (conns w) stationId else None))
       (from_option (PlainError (''Station '' @ stationId @ '' is not connected'')))"

definition command_begin :: "string \<Rightarrow> string \<Rightarrow> jsval \<Rightarrow> string option \<Rightarrow> string prog" where
  "command_begin stationId action payload requestedBy =
     andthen (open_socket stationId) (\<lambda>ws.
     andthen new_uuid (\<lambda>mid.
     andthen (ignore_err (andthen js_now (\<lambda>now.
        db_do (create_command (pending_row mid stationId action payload requestedBy now))))) (\<lambda>_.
     andthen (waitFor mid \<lparr>cc_call_station = stationId, cc_call_action = action, cc_call_kind = PlainCommand\<rparr>) (\<lambda>_.
     andthen (sendAndLog ws stationId (serializeCall mid action payload) (reply_meta 2 (JStr mid) (JStr action))) (\<lambda>_.
     ret mid)))))"

text \<open>The error branch: a message that mentions a timeout is one; otherwise the text before the first
  colon is the error code of the station.\<close>

definition is_timeout :: "string \<Rightarrow> bool" where
  "is_timeout message = js_includes (js_lower message) ''timeout''"

definition split_error :: "string \<Rightarrow> string option \<times> string" where
  "split_error message =
     (if is_timeout message then (None, message)
      else (case js_indexOf message (CHR '':'') of
              None \<Rightarrow> (None, message)
            | Some i \<Rightarrow> if 0 < i then (Some (js_trim (take i message)), js_trim (drop (i + 1) message))
                        else (None, message)))"

definition final_status :: "string \<Rightarrow> OcppCommandStatus" where
  "final_status message = (if is_timeout message then CmdTimeout else CmdError)"

fun command_status_text :: "OcppCommandStatus \<Rightarrow> string" where
  "command_status_text CmdPending = ''pending''"
| "command_status_text CmdCompleted = ''completed''"
| "command_status_text CmdError = ''error''"
| "command_status_text CmdTimeout = ''timeout''"

definition complete_command :: "jsval \<Rightarrow> int \<Rightarrow> OcppCommandResult \<Rightarrow> OcppCommandResult" where
  "complete_command responseObj now r =
     r\<lparr>cr_status := CmdCompleted, cr_responsePayload := Some responseObj, cr_receivedAt := Some now\<rparr>"

definition fail_command :: "string \<Rightarrow> int \<Rightarrow> OcppCommandResult \<Rightarrow> OcppCommandResult" where
  "fail_command message now r =
     (case split_error message of (errorCode, errorDescription) \<Rightarrow>
        r\<lparr>cr_status := final_status message, cr_errorCode := errorCode,
          cr_errorDescription := Some (take 500 errorDescription), cr_receivedAt := Some now\<rparr>)"

definition command_event :: "string \<Rightarrow> string \<Rightarrow> string \<Rightarrow> string \<Rightarrow> jsval \<Rightarrow> OutboxEventInput" where
  "command_event stationId mid action status payload =
     \<lparr>in_eventType = OcppCommandResultReceived, in_aggregateType = Some ''OcppCommand'', in_aggregateId = Some mid,
      in_payload = OcppCommandResultReceivedP \<lparr>ocr_stationId = stationId, ocr_messageId = mid, ocr_action = action,
        ocr_status = status, ocr_responsePayload = payload\<rparr>\<rparr>"

definition result_status :: "jsval \<Rightarrow> string" where
  "result_status responseObj = (case js_get responseObj ''status'' of JStr s \<Rightarrow> s | _ \<Rightarrow> ''Accepted'')"

definition nullable_json :: "string option \<Rightarrow> jsval" where
  "nullable_json s = (case s of None \<Rightarrow> JNull | Some t \<Rightarrow> JStr t)"

definition record_response :: "string \<Rightarrow> string \<Rightarrow> string \<Rightarrow> jsval \<Rightarrow> unit prog" where
  "record_response stationId action mid responseObj =
     db_transaction
       (andthen js_now (\<lambda>now.
        andthen (db_do (update_command mid (complete_command responseObj now))) (\<lambda>_.
        andthen (writeOutbox (command_event stationId mid action (result_status responseObj) responseObj)) (\<lambda>_.
        ret ()))))"

definition record_failure :: "string \<Rightarrow> string \<Rightarrow> string \<Rightarrow> string \<Rightarrow> unit prog" where
  "record_failure stationId action mid message =
     db_transaction
       (andthen js_now (\<lambda>now.
        andthen (db_do (update_command mid (fail_command message now))) (\<lambda>_.
        andthen (case split_error message of (errorCode, errorDescription) \<Rightarrow>
          writeOutbox (command_event stationId mid action (command_status_text (final_status message))
            (JObj [(''errorCode'', nullable_json errorCode), (''errorDescription'', JStr errorDescription)]))) (\<lambda>_.
        ret ()))))"

definition command_settle :: "string \<Rightarrow> string \<Rightarrow> string \<Rightarrow> (js_error + jsval) \<Rightarrow> jsval prog" where
  "command_settle stationId action mid outcome =
     (case outcome of
        Inr response \<Rightarrow>
          andthen (ignore_err (record_response stationId action mid (js_coalesce response (JObj [])))) (\<lambda>_. ret response)
      | Inl err \<Rightarrow>
          andthen (ask (\<lambda>w. err_message (host w) err)) (\<lambda>message.
          andthen (ignore_err (record_failure stationId action mid message)) (\<lambda>_. raise err)))"

text \<open>The reply of the station, an error or the timeout, as the host decides.\<close>

definition await_reply :: "string \<Rightarrow> (js_error + jsval) prog" where
  "await_reply mid w = (Inr (reply (host w) mid), w\<lparr>pending := map_delete mid (pending w)\<rparr>)"

definition sendCommand :: "string \<Rightarrow> string \<Rightarrow> jsval \<Rightarrow> string option \<Rightarrow> jsval prog" where
  "sendCommand stationId action payload requestedBy =
     andthen (command_begin stationId action payload requestedBy) (\<lambda>mid.
     andthen (await_reply mid) (\<lambda>outcome. command_settle stationId action mid outcome))"

section \<open>The commands\<close>

definition sendChangeAvailability :: "string \<Rightarrow> jsval \<Rightarrow> string option \<Rightarrow> jsval prog" where
  "sendChangeAvailability stationId params requestedBy = sendCommand stationId ''ChangeAvailability'' params requestedBy"

definition sendChangeConfiguration :: "string \<Rightarrow> jsval \<Rightarrow> string option \<Rightarrow> jsval prog" where
  "sendChangeConfiguration stationId params requestedBy = sendCommand stationId ''ChangeConfiguration'' params requestedBy"

definition sendClearCache :: "string \<Rightarrow> string option \<Rightarrow> jsval prog" where
  "sendClearCache stationId requestedBy = sendCommand stationId ''ClearCache'' (JObj []) requestedBy"

definition sendDataTransfer :: "string \<Rightarrow> jsval \<Rightarrow> string option \<Rightarrow> jsval prog" where
  "sendDataTransfer stationId params requestedBy = sendCommand stationId ''DataTransfer'' params requestedBy"

definition sendGetConfiguration :: "string \<Rightarrow> jsval \<Rightarrow> string option \<Rightarrow> jsval prog" where
  "sendGetConfiguration stationId params requestedBy = sendCommand stationId ''GetConfiguration'' params requestedBy"

definition sendRemoteStartTransaction :: "string \<Rightarrow> jsval \<Rightarrow> string option \<Rightarrow> jsval prog" where
  "sendRemoteStartTransaction stationId params requestedBy = sendCommand stationId ''RemoteStartTransaction'' params requestedBy"

definition sendRemoteStopTransaction :: "string \<Rightarrow> jsval \<Rightarrow> string option \<Rightarrow> jsval prog" where
  "sendRemoteStopTransaction stationId params requestedBy = sendCommand stationId ''RemoteStopTransaction'' params requestedBy"

definition sendReset :: "string \<Rightarrow> jsval \<Rightarrow> string option \<Rightarrow> jsval prog" where
  "sendReset stationId params requestedBy = sendCommand stationId ''Reset'' params requestedBy"

definition sendTriggerMessage :: "string \<Rightarrow> jsval \<Rightarrow> string option \<Rightarrow> jsval prog" where
  "sendTriggerMessage stationId params requestedBy = sendCommand stationId ''TriggerMessage'' params requestedBy"

definition sendUnlockConnector :: "string \<Rightarrow> jsval \<Rightarrow> string option \<Rightarrow> jsval prog" where
  "sendUnlockConnector stationId params requestedBy = sendCommand stationId ''UnlockConnector'' params requestedBy"

definition sendUpdateFirmware :: "string \<Rightarrow> jsval \<Rightarrow> string option \<Rightarrow> jsval prog" where
  "sendUpdateFirmware stationId params requestedBy = sendCommand stationId ''UpdateFirmware'' params requestedBy"

subsection \<open>The gateway (gateway.impl.ts)\<close>

definition startSession :: "string \<Rightarrow> jsval \<Rightarrow> jsval \<Rightarrow> jsval \<Rightarrow> string option \<Rightarrow> jsval prog" where
  "startSession stationId connectorId idTag chargingProfile requestedBy =
     sendRemoteStartTransaction stationId
       (JObj ([(''connectorId'', connectorId), (''idTag'', idTag)] @
         (if js_truthy chargingProfile then [(''chargingProfile'', chargingProfile)] else []))) requestedBy"

definition stopSession :: "string \<Rightarrow> jsval \<Rightarrow> string option \<Rightarrow> jsval prog" where
  "stopSession stationId transactionId requestedBy =
     sendRemoteStopTransaction stationId (JObj [(''transactionId'', transactionId)]) requestedBy"

definition resetStation :: "string \<Rightarrow> string \<Rightarrow> string option \<Rightarrow> jsval prog" where
  "resetStation stationId kind requestedBy = sendReset stationId (JObj [(''type'', JStr kind)]) requestedBy"

definition changeAvailability :: "string \<Rightarrow> jsval \<Rightarrow> string \<Rightarrow> string option \<Rightarrow> jsval prog" where
  "changeAvailability stationId connectorId kind requestedBy =
     sendChangeAvailability stationId (JObj [(''connectorId'', connectorId), (''type'', JStr kind)]) requestedBy"

text \<open>Absent retries are \<open>undefined\<close>.\<close>

definition gateway_updateFirmware :: "string \<Rightarrow> string \<Rightarrow> jsval \<Rightarrow> jsval \<Rightarrow> jsval \<Rightarrow> string option \<Rightarrow> jsval prog" where
  "gateway_updateFirmware stationId location retrieveDate retries retryInterval requestedBy =
     sendUpdateFirmware stationId
       (JObj [(''location'', JStr location), (''retrieveDate'', retrieveDate), (''retries'', retries), (''retryInterval'', retryInterval)])
       requestedBy"

subsection \<open>getDiagnostics.command.ts\<close>

text \<open>\<open>v ? new Date(v) : null\<close> as an argument: an invalid date is rejected.\<close>

definition date_or_null :: "jsval \<Rightarrow> int option option" where
  "date_or_null v = (if js_truthy v then map_option Some (js_new_date v) else Some None)"

definition diagnostics_begin :: "string \<Rightarrow> jsval \<Rightarrow> string option \<Rightarrow> string prog" where
  "diagnostics_begin stationId params requestedBy =
     andthen (open_socket stationId) (\<lambda>ws.
     andthen new_uuid (\<lambda>mid.
     andthen (ignore_err (db_transaction
       (andthen js_now (\<lambda>now.
        andthen (db_do (create_command (pending_row mid stationId ''GetDiagnostics'' params requestedBy now))) (\<lambda>_.
        andthen (arg (as_string_opt (js_get params ''location''))) (\<lambda>location.
        andthen (arg (date_or_null (js_get params ''startTime''))) (\<lambda>startTime.
        andthen (arg (date_or_null (js_get params ''stopTime''))) (\<lambda>stopTime.
        andthen (arg (as_int_opt (js_get params ''retries''))) (\<lambda>retries.
        andthen (arg (as_int_opt (js_get params ''retryInterval''))) (\<lambda>retryInterval.
        db_do (create_diagnostics \<lparr>dr_id = 0, dr_messageId = mid, dr_stationId = stationId, dr_status = DgIdle,
          dr_fileName = None, dr_uploadLocation = location, dr_startTime = startTime, dr_stopTime = stopTime,
          dr_retries = retries, dr_retryInterval = retryInterval, dr_requestedBy = requestedBy, dr_requestedAt = now,
          dr_completedAt = None\<rparr>))))))))))) (\<lambda>_.
     andthen (waitFor mid \<lparr>cc_call_station = stationId, cc_call_action = ''GetDiagnostics'', cc_call_kind = DiagnosticsCommand\<rparr>) (\<lambda>_.
     andthen (ws_send ws (serializeCall mid ''GetDiagnostics'' params)) (\<lambda>_. ret mid)))))"

definition diagnostics_settle :: "string \<Rightarrow> (js_error + jsval) \<Rightarrow> jsval prog" where
  "diagnostics_settle mid outcome =
     (case outcome of
        Inr response \<Rightarrow>
          andthen (ignore_err (db_transaction
            (andthen js_now (\<lambda>now.
             andthen (db_do (update_command mid (complete_command (js_coalesce response (JObj [])) now))) (\<lambda>_.
             andthen (arg (as_string_opt (js_get response ''fileName''))) (\<lambda>fileName.
             db_do (update_diagnostics (\<lambda>r. dr_messageId r = mid) (\<lambda>r. r\<lparr>dr_fileName := fileName\<rparr>)))))))) (\<lambda>_.
          ret response)
      | Inl err \<Rightarrow>
          andthen (ask (\<lambda>w. err_message (host w) err)) (\<lambda>message.
          andthen (ignore_err (andthen js_now (\<lambda>now. db_do (update_command mid (fail_command message now))))) (\<lambda>_.
          andthen (ignore_err (andthen js_now (\<lambda>now.
            db_do (update_diagnostics (\<lambda>r. dr_messageId r = mid) (\<lambda>r. r\<lparr>dr_completedAt := Some now\<rparr>))))) (\<lambda>_.
          raise err))))"

definition sendGetDiagnostics :: "string \<Rightarrow> jsval \<Rightarrow> string option \<Rightarrow> jsval prog" where
  "sendGetDiagnostics stationId params requestedBy =
     andthen (diagnostics_begin stationId params requestedBy) (\<lambda>mid.
     andthen (await_reply mid) (\<lambda>outcome. diagnostics_settle mid outcome))"

text \<open>The continuation of a settled call, by its kind.\<close>

definition resume :: "string \<Rightarrow> command_call \<Rightarrow> (js_error + jsval) \<Rightarrow> jsval prog" where
  "resume mid call outcome =
     (case cc_call_kind call of
        PlainCommand \<Rightarrow> command_settle (cc_call_station call) (cc_call_action call) mid outcome
      | DiagnosticsCommand \<Rightarrow> diagnostics_settle mid outcome)"

section \<open>ocppCommandResult.service.ts\<close>

definition bootstrapCleanup :: "nat prog" where
  "bootstrapCleanup =
     andthen js_now (\<lambda>now.
     db_do (update_commands (\<lambda>r. cr_status r = CmdPending)
       (\<lambda>r. r\<lparr>cr_status := CmdTimeout,
          cr_errorDescription := Some ''pending at server bootstrap (previous instance shutdown)'',
          cr_receivedAt := Some now\<rparr>)))"

definition sweepStalePending :: "nat prog" where
  "sweepStalePending =
     andthen js_now (\<lambda>t.
     andthen (ask (\<lambda>w. t - response_timeout (host w) - 60000)) (\<lambda>cutoff.
     andthen js_now (\<lambda>now.
     db_do (update_commands (\<lambda>r. cr_status r = CmdPending \<and> cr_sentAt r < cutoff)
       (\<lambda>r. r\<lparr>cr_status := CmdTimeout, cr_errorDescription := Some ''timeout detected by sweeper'',
          cr_receivedAt := Some now\<rparr>)))))"

subsection \<open>ocppCommandSweeper.scheduler.ts\<close>

definition set_sweeper :: "bool \<Rightarrow> unit prog" where
  "set_sweeper b w = (Inr (), w\<lparr>sweeper_timer := b\<rparr>)"

definition startOcppCommandSweeper :: "unit prog" where
  "startOcppCommandSweeper =
     andthen (ask sweeper_timer) (\<lambda>timer.
     if timer then ret ()
     else andthen (ignore_err bootstrapCleanup) (\<lambda>_. set_sweeper True))"

definition sweeper_tick :: "unit prog" where
  "sweeper_tick = andthen (ask sweeper_timer) (\<lambda>timer. only_if timer (ignore_err sweepStalePending))"

definition stopOcppCommandSweeper :: "unit prog" where
  "stopOcppCommandSweeper = set_sweeper False"

subsection \<open>Queries\<close>

definition command_status_of :: "string \<Rightarrow> OcppCommandStatus option" where
  "command_status_of s =
     (if s = ''pending'' then Some CmdPending else if s = ''completed'' then Some CmdCompleted
      else if s = ''error'' then Some CmdError else if s = ''timeout'' then Some CmdTimeout else None)"

record command_query =
  cq_page :: jsval
  cq_limit :: jsval
  cq_stationId :: "string option"
  cq_action :: "string option"
  cq_status :: "string option"
  cq_requestedBy :: "string option"
  cq_sentFrom :: "int option"
  cq_sentTo :: "int option"

text \<open>An absent or empty text leaves its filter out.\<close>

definition text_matches :: "string option \<Rightarrow> string option \<Rightarrow> bool" where
  "text_matches q v \<longleftrightarrow> (case q of None \<Rightarrow> True | Some t \<Rightarrow> t = [] \<or> v = Some t)"

definition command_matches :: "command_query \<Rightarrow> OcppCommandStatus option \<Rightarrow> OcppCommandResult \<Rightarrow> bool" where
  "command_matches q st r \<longleftrightarrow>
     text_matches (cq_stationId q) (cr_stationId r) \<and> text_matches (cq_action q) (Some (cr_action r)) \<and>
     (case st of None \<Rightarrow> True | Some s \<Rightarrow> cr_status r = s) \<and> text_matches (cq_requestedBy q) (cr_requestedBy r) \<and>
     (case cq_sentFrom q of None \<Rightarrow> True | Some t \<Rightarrow> t \<le> cr_sentAt r) \<and>
     (case cq_sentTo q of None \<Rightarrow> True | Some t \<Rightarrow> cr_sentAt r \<le> t)"

text \<open>\<open>orderBy: desc\<close>: rows with equal keys stay in table order.\<close>

definition sort_desc :: "('a \<Rightarrow> int) \<Rightarrow> 'a list \<Rightarrow> 'a list" where
  "sort_desc key xs = sort_key (\<lambda>x. - key x) xs"

record 'a paged =
  pr_items :: "'a list"
  pr_total :: nat
  pr_page :: int
  pr_limit :: int
  pr_totalPages :: int

definition paged :: "pagination \<Rightarrow> 'a list \<Rightarrow> 'a paged" where
  "paged pg xs = \<lparr>pr_items = page_of pg xs, pr_total = length xs, pr_page = pg_page pg, pr_limit = pg_limit pg,
     pr_totalPages = total_pages pg (length xs)\<rparr>"

definition list_commands :: "command_query \<Rightarrow> OcppCommandResult paged prog" where
  "list_commands q =
     (let pg = parsePagination (cq_page q) (cq_limit q) in
      andthen (case cq_status q of
          None \<Rightarrow> ret None
        | Some s \<Rightarrow> if s = [] then ret None else andthen (arg (command_status_of s)) (\<lambda>st. ret (Some st))) (\<lambda>st.
      andthen (db_read (\<lambda>d. sort_desc cr_sentAt (filter (command_matches q st) (commandResults d)))) (\<lambda>rows.
      ret (paged pg rows))))"

definition find_command :: "string \<Rightarrow> OcppCommandResult option prog" where
  "find_command mid = db_read (\<lambda>d. List.find (\<lambda>r. cr_messageId r = mid) (commandResults d))"

definition statsByStatus :: "rat \<Rightarrow> (OcppCommandStatus \<times> nat) list prog" where
  "statsByStatus days =
     andthen js_now (\<lambda>now.
     db_read (\<lambda>d.
       let rows = filter (\<lambda>r. \<lfloor>of_int now - days * 86400000\<rfloor> \<le> cr_sentAt r) (commandResults d) in
       List.map_filter (\<lambda>st. let n = length (filter (\<lambda>r. cr_status r = st) rows) in if n = 0 then None else Some (st, n))
         [CmdPending, CmdCompleted, CmdError, CmdTimeout]))"

section \<open>Periodic jobs\<close>

definition sessionTimeoutProcessor :: "unit prog" where
  "sessionTimeoutProcessor =
     andthen js_now (\<lambda>t.
     andthen js_now (\<lambda>now.
     andthen (db_do (update_transactions (\<lambda>r. tx_status r = TxPending \<and> tx_timeStart r < t - 5 * 60 * 1000)
       (\<lambda>r. r\<lparr>tx_status := TxFailed, tx_failReason := Some ''session_timeout'', tx_timeEnd := Some now\<rparr>))) (\<lambda>_.
     ret ())))"

definition delete_messages_before :: "int \<Rightarrow> nat db_op" where
  "delete_messages_before cutoff = on_ocppMessages (delete_rows (\<lambda>r. om_createdAt r < cutoff))"

definition ocppLogCleanupProcessor :: "unit prog" where
  "ocppLogCleanupProcessor =
     andthen js_now (\<lambda>now. andthen (db_do (delete_messages_before (now - 30 * 24 * 60 * 60 * 1000))) (\<lambda>_. ret ()))"

end
