(* ===== verification/RouterProps.thy ===== *)
theory RouterProps
  imports Router
begin

text \<open>
  What a charging station can rely on at the wire: every call is answered exactly once on its
  socket with its own message id, results are not answered, a rejected frame has no effect beyond
  the message log, and no frame breaks the contracts of the database.
\<close>

section \<open>The network side of a handler\<close>

lemma net_station:
  "conforms same_net (bootNotificationHandler s p)"
  "conforms same_net (heartbeatHandler s p)"
  "conforms same_net (statusNotificationHandler s p)"
  unfolding station_programs by (intro contract_intros)+

lemma net_transaction:
  "conforms same_net (authorizeHandler s p)"
  "conforms same_net (startTransactionHandler s p)"
  "conforms same_net (stopTransactionHandler s p)"
  "conforms same_net (meterValuesHandler s p)"
  unfolding transaction_programs Let_def by (intro contract_intros; simp add: same_net_def)+

lemma net_maintenance:
  "conforms same_net (firmwareStatusNotificationHandler s p)"
  "conforms same_net (diagnosticsStatusNotificationHandler s p)"
  "conforms same_net (dataTransferHandler s p)"
  unfolding maintenance_programs Let_def by (intro contract_intros)+

lemma net_handler: "find_handler action = Some h \<Longrightarrow> conforms same_net (h s p)"
  by (auto simp: find_handler_def bind_eq_Some_conv dest!: map_of_SomeD elim!: handlerMap_cases
      intro: net_station net_transaction net_maintenance)

lemma net_persist: "conforms same_net (persist s meta raw)"
  unfolding persist_def by (intro contract_intros)

section \<open>Replies\<close>

text \<open>The world after one send of \<open>raw\<close> on an open socket.\<close>

definition replied :: "nat \<Rightarrow> string \<Rightarrow> world \<Rightarrow> world \<Rightarrow> bool" where
  "replied ws raw w w' \<longleftrightarrow> same_net (w\<lparr>sent := sent w @ [(ws, raw)]\<rparr>) w'"

lemma ignore_err_Inr: "fst (ignore_err m w) = Inr ()"
  by (simp add: ignore_err_def catch_err_def andthen_def ret_def split: prod.splits sum.splits)

lemma sendAndLog_run:
  assumes "socks w ws = OPEN" "sendAndLog ws s raw meta w = (r, w')"
  shows "r = Inr () \<and> replied ws raw w w'"
proof -
  let ?w1 = "w\<lparr>sent := sent w @ [(ws, raw)]\<rparr>"
  from assms have log: "logOutbound s raw meta ?w1 = (r, w')"
    by (simp add: sendAndLog_def andthen_def ws_send_def)
  have "conforms same_net (logOutbound s raw meta)"
    unfolding logOutbound_def by (intro contract_intros net_persist)
  from conformsD [OF this log] have "same_net ?w1 w'" .
  moreover from log ignore_err_Inr [of "persist s (meta\<lparr>lm_inbound := False\<rparr>) raw" ?w1] have "r = Inr ()"
    by (simp add: logOutbound_def)
  ultimately show ?thesis by (simp add: replied_def)
qed

lemma reply_error_run:
  assumes "socks w ws = OPEN" "reply_error s ws mid action e w = (r, w')"
  shows "r = Inr () \<and> (\<exists>code desc. classifyOcppError (err_message (host w) e) = (code, desc) \<and>
    replied ws (serializeCallError mid code desc) w w')"
proof -
  obtain code desc where c: "classifyOcppError (err_message (host w) e) = (code, desc)"
    by (cases "classifyOcppError (err_message (host w) e)")
  with assms(2) have "sendAndLog ws s (serializeCallError mid code desc) (reply_meta 4 mid action) w = (r, w')"
    by (simp add: reply_error_def andthen_def ask_def)
  from sendAndLog_run [OF assms(1) this] c show ?thesis by auto
qed

lemma replied_after: "same_net w w1 \<Longrightarrow> replied ws raw w1 w' \<Longrightarrow> replied ws raw w w'"
  by (auto simp: replied_def same_net_def)

definition is_reply_to :: "jsval \<Rightarrow> string \<Rightarrow> bool" where
  "is_reply_to mid raw \<longleftrightarrow>
     (\<exists>p. raw = serializeCallResult mid p) \<or> (\<exists>code desc. raw = serializeCallError mid code desc)"

lemma handle_call_run:
  assumes op: "socks w ws = OPEN" and run: "handle_call s ws mid action payload w = (r, w')"
  shows "(r = Inr () \<and> (\<exists>raw. is_reply_to mid raw \<and> replied ws raw w w')) \<or> (\<exists>e. r = Inl e \<and> same_net w w')"
proof (cases "validate action payload")
  case (Some v)
  with run sendAndLog_run [OF op] show ?thesis by (fastforce simp: handle_call_def is_reply_to_def)
next
  case valid: None
  show ?thesis
  proof (cases "find_handler action")
    case None
    with valid run sendAndLog_run [OF op] show ?thesis by (fastforce simp: handle_call_def is_reply_to_def)
  next
    case (Some h)
    obtain q w1 where h: "h s payload w = (q, w1)" by (cases "h s payload w")
    from conformsD [OF net_handler [OF Some] h] have net: "same_net w w1" .
    show ?thesis
    proof (cases q)
      case (Inl e)
      with valid Some run h net show ?thesis by (auto simp: handle_call_def andthen_def)
    next
      case (Inr p)
      with valid Some run h
      have "sendAndLog ws s (serializeCallResult mid p) (reply_meta 3 mid action) w1 = (r, w')"
        by (simp add: handle_call_def andthen_def)
      from sendAndLog_run [OF _ this] net op replied_after [OF net] show ?thesis
        by (auto simp: is_reply_to_def same_net_def)
    qed
  qed
qed

text \<open>C14. Every call that arrives on an open socket is answered exactly once, on that socket, with a result or an
  error that carries its message id, whatever the handler and the database do; the registry and the waiting
  requests are untouched.\<close>

theorem call_gets_exactly_one_reply:
  assumes op: "socks w ws = OPEN" and parse: "parseOcppMessage raw = Inr (OcppCall mid action payload)"
    and run: "handle s ws raw w = (r, w')"
  shows "r = Inr () \<and> (\<exists>reply. is_reply_to mid reply \<and> sent w' = sent w @ [(ws, reply)]) \<and>
    conns w' = conns w \<and> pending w' = pending w \<and> settled w' = settled w"
proof -
  let ?log = "ignore_err (logInbound s (OcppCall mid action payload) raw)"
  obtain q w1 where log: "?log w = (q, w1)" by (cases "?log w")
  have "conforms same_net ?log" unfolding logInbound_def by (intro contract_intros net_persist)
  from conformsD [OF this log] have net: "same_net w w1" .
  with op have op1: "socks w1 ws = OPEN" by (simp add: same_net_def)
  obtain q2 w2 where call: "handle_call s ws mid action payload w1 = (q2, w2)"
    by (cases "handle_call s ws mid action payload w1")
  from run parse log ignore_err_Inr [of "logInbound s (OcppCall mid action payload) raw" w] call
  have fin: "(case q2 of Inl e \<Rightarrow> reply_error s ws mid action e w2 | Inr x \<Rightarrow> (Inr x, w2)) = (r, w')"
    by (cases q2) (auto simp: handle_def catch_err_def andthen_def dispatch_def)
  from handle_call_run [OF op1 call] have "r = Inr () \<and> (\<exists>reply. is_reply_to mid reply \<and> replied ws reply w1 w')"
  proof (elim disjE exE conjE)
    fix e assume "q2 = Inl e" and net2: "same_net w1 w2"
    with fin have "reply_error s ws mid action e w2 = (r, w')" by simp
    from reply_error_run [OF _ this] net2 op1 replied_after [OF net2] show ?thesis
      by (auto simp: is_reply_to_def same_net_def)
  qed (use fin in auto)
  with net show ?thesis by (auto simp: replied_def same_net_def)
qed


section \<open>Rejected frames\<close>

definition only_logged :: "db \<Rightarrow> db \<Rightarrow> bool" where
  "only_logged d d' \<longleftrightarrow> (\<exists>ms. d' = d\<lparr>ocppMessages := ms\<rparr>)"

lemma only_logged_refl: "only_logged d d"
  unfolding only_logged_def by (rule exI [of _ "ocppMessages d"]) simp

interpretation log_only: db_contract only_logged
  by unfold_locales (auto simp: only_logged_refl, auto simp: only_logged_def)

lemma only_logged_create: "conforms (on_db only_logged) (db_do (create_ocppMessage r))"
  by (rule log_only.conforms_op) (auto simp: create_ocppMessage_def op_Inr only_logged_def)

lemmas only_logged_send = log_only.conforms_sendAndLog [OF only_logged_create log_only.conforms_ws_send]
lemmas only_logged_persist = log_only.conforms_persist [OF only_logged_create]

text \<open>C35. A frame that does not parse, a call that lacks a required field and a call of an unknown action leave no
  trace but the message log: no handler runs and no other table changes.\<close>

theorem rejected_frame_changes_nothing:
  assumes run: "handle s ws raw w = (r, w')"
    and rejected: "case parseOcppMessage raw of
        Inl _ \<Rightarrow> True
      | Inr m \<Rightarrow> (case m of OcppCall _ action payload \<Rightarrow> validate action payload \<noteq> None \<or> find_handler action = None
                 | _ \<Rightarrow> True)"
  shows "only_logged (db w) (db w')"
proof -
  have reply: "conforms (on_db only_logged) (reply_error s ws mid action e)" for mid action e
    unfolding reply_error_def by (intro contract_intros only_logged_send)
  have "conforms (on_db only_logged) (handle s ws raw)"
  proof (cases "parseOcppMessage raw")
    case (Inl e)
    then show ?thesis by (simp add: handle_def reply)
  next
    case (Inr m)
    have "conforms (on_db only_logged) (dispatch s ws m)"
    proof (cases m)
      case (OcppCall mid action payload)
      with rejected Inr have "validate action payload \<noteq> None \<or> find_handler action = None" by simp
      then have "conforms (on_db only_logged) (handle_call s ws mid action payload)"
        unfolding handle_call_def by (cases "validate action payload") (auto intro: only_logged_send)
      with OcppCall show ?thesis by (simp add: dispatch_def)
    qed (auto simp: dispatch_def pending_resolve_def pending_reject_def intro: contract_intros log_only.conforms_settle)
    then show ?thesis
      using Inr by (auto simp: handle_def logInbound_def intro!: contract_intros reply only_logged_persist)
  qed
  from conformsD [OF this run] show ?thesis by (simp add: on_db_def)
qed

lemma classify_parse_errors:
  "classifyOcppError ''Invalid JSON'' = (''ProtocolError'', ''Invalid JSON format'')"
  "classifyOcppError ''Invalid OCPP message format'' = (''InternalError'', ''Internal server error'')"
  by code_simp+

text \<open>A text that is not JSON is answered with a \<open>ProtocolError\<close>, but JSON that is not an OCPP frame is
  answered with an \<open>InternalError\<close>; both answers carry the message id \<open>unknown\<close>.\<close>

theorem malformed_frame_reply:
  assumes op: "socks w ws = OPEN" and run: "handle s ws raw w = (r, w')"
    and bad: "case json_parse raw of None \<Rightarrow> True | Some v \<Rightarrow> (case v of JArr xs \<Rightarrow> length xs < 3 | _ \<Rightarrow> True)"
  shows "sent w' = sent w @ [(ws, if json_parse raw = None
      then serializeCallError (JStr ''unknown'') ''ProtocolError'' ''Invalid JSON format''
      else serializeCallError (JStr ''unknown'') ''InternalError'' ''Internal server error'')]"
proof -
  obtain e where e: "parseOcppMessage raw = Inl (PlainError e)"
      "e = (if json_parse raw = None then ''Invalid JSON'' else ''Invalid OCPP message format'')"
    using bad by (auto simp: parseOcppMessage_def split: option.splits jsval.splits)
  with run have "reply_error s ws (JStr ''unknown'') JUndefined (PlainError e) w = (r, w')" by (simp add: handle_def)
  from reply_error_run [OF op this] e(2) classify_parse_errors show ?thesis
    by (auto simp: replied_def same_net_def split: if_splits)
qed

section \<open>Witnesses\<close>

definition heartbeat_frame :: string where
  "heartbeat_frame = serializeCall ''m1'' ''Heartbeat'' (JObj [])"

lemma heartbeat_parses: "parseOcppMessage heartbeat_frame = Inr (OcppCall (JStr ''m1'') (JStr ''Heartbeat'') (JObj []))"
  unfolding heartbeat_frame_def by code_simp

theorem call_gets_exactly_one_reply_witness:
  "\<exists>reply. is_reply_to (JStr ''m1'') reply \<and>
     sent (snd (handle ''EN0000001'' 0 heartbeat_frame online_world)) = [(0, reply)]"
  using call_gets_exactly_one_reply [of online_world 0 heartbeat_frame "JStr ''m1''" "JStr ''Heartbeat''" "JObj []" "''EN0000001''"
      "fst (handle ''EN0000001'' 0 heartbeat_frame online_world)" "snd (handle ''EN0000001'' 0 heartbeat_frame online_world)"]
    heartbeat_parses
  by (simp add: online_world_def sample_world_def boot_world_def)

definition result_frame :: string where
  "result_frame = serializeCallResult (JStr ''m7'') (JObj [(''status'', JStr ''Accepted'')])"

lemma result_parses: "parseOcppMessage result_frame = Inr (OcppCallResult (JStr ''m7'') (JObj [(''status'', JStr ''Accepted'')]))"
  unfolding result_frame_def by code_simp


theorem rejected_frame_changes_nothing_witness:
  "only_logged sample_db (db (snd (handle ''EN0000001'' 0 ''bad'' online_world)))"
proof -
  have "parseOcppMessage ''bad'' = Inl (PlainError ''Invalid JSON'')" by code_simp
  with rejected_frame_changes_nothing [of "''EN0000001''" 0 "''bad''" online_world
      "fst (handle ''EN0000001'' 0 ''bad'' online_world)" "snd (handle ''EN0000001'' 0 ''bad'' online_world)"]
  show ?thesis by (simp add: online_world_def)
qed

theorem malformed_frame_reply_witness:
  "sent (snd (handle ''EN0000001'' 0 ''{}'' online_world))
    = [(0, serializeCallError (JStr ''unknown'') ''InternalError'' ''Internal server error'')]"
proof -
  have "json_parse ''{}'' = Some (JObj [])" by code_simp
  with malformed_frame_reply [of online_world 0 "''EN0000001''" "''{}''"
      "fst (handle ''EN0000001'' 0 ''{}'' online_world)" "snd (handle ''EN0000001'' 0 ''{}'' online_world)"]
  show ?thesis by (simp add: online_world_def sample_world_def boot_world_def)
qed

end
