(* ===== verification/CommandProps.thy ===== *)
theory CommandProps
  imports Commands RouterProps
begin

text \<open>
  Pagination covers a result list exactly, a command is refused without effect when its station is
  away and otherwise returns what the station answered, its outcome and its event are recorded
  together or not at all, and the sweeps touch exactly the records they name.
\<close>

section \<open>Pagination\<close>

lemma takeWhile_show_nat [simp]: "takeWhile is_digit (show_nat n) = show_nat n"
  by (rule takeWhile_eq_all_conv [THEN iffD2]) (auto dest: show_nat_digits)

lemma show_nat_head: "is_digit (hd (show_nat n))"
  using show_nat_digits [of "hd (show_nat n)" n] by simp

lemma digit_no_space: "is_digit c \<Longrightarrow> \<not> is_js_space c \<and> c \<noteq> CHR ''-'' \<and> c \<noteq> CHR ''+''"
  by (auto simp: is_digit_def is_js_space_def)

lemma parseInt10_show: "parseInt10 (show_nat n) = Some (int n)"
proof -
  obtain c cs where c: "show_nat n = c # cs" by (cases "show_nat n") (use show_nat_nonempty in auto)
  with show_nat_head [of n] have "is_digit c" by simp
  from digit_no_space [OF this] c have "dropWhile is_js_space (show_nat n) = show_nat n" by simp
  with c digit_no_space [OF \<open>is_digit c\<close>] show ?thesis
    using takeWhile_show_nat [of n] read_show_nat [of n] by (simp add: parseInt10_def Let_def)
qed

lemma json_number_int: "json_number (of_int i) = show_int i"
  by (simp add: json_number_def)

lemma parse_or_int: "1 \<le> i \<Longrightarrow> parse_or (js_int i) d = i"
  using parseInt10_show [of "nat i"]
  by (simp add: parse_or_def js_or_def js_int_def json_number_int show_int_def)

lemma page_bounds:
  "1 \<le> pg_page (parsePagination p l) \<and> 1 \<le> pg_limit (parsePagination p l) \<and> pg_limit (parsePagination p l) \<le> 100"
  by (simp add: parsePagination_def Let_def)

lemma pages_concat:
  assumes "1 \<le> k"
  shows "concat (map (\<lambda>i. take k (drop (i * k) xs)) [0..<n]) = take (n * k) xs"
proof (induction n)
  case (Suc n)
  have "take (n * k) xs @ take k (drop (n * k) xs) = take (n * k + k) xs"
    by (simp add: take_add)
  with Suc show ?case by (simp add: add.commute)
qed simp

lemma ceil_div_exact:
  assumes l: "1 \<le> l" "l \<le> 100" and n: "(n :: int) < 2 ^ 40" "0 \<le> n"
  shows "js_ceil (js_div (of_int n) (of_int l)) = (n + l - 1) div l"
proof -
  define k r where "k = n div l" and "r = n mod l"
  have nk: "n = l * k + r" "0 \<le> r" "r < l" using l by (simp_all add: k_def r_def)
  have "k \<le> n" using l n zdiv_mono2 [of n 1 l] by (simp add: k_def)
  then have k: "0 \<le> k" "k < 2 ^ 40" using l n by (auto simp: k_def pos_imp_zdiv_nonneg_iff)
  show ?thesis
  proof (cases "r = 0")
    case True
    then have "of_int n / of_int l = (of_int k :: rat)" using nk l by simp
    then have "js_div (of_int n) (of_int l) = of_int k"
      using js_double_of_int [of k] k by (simp add: js_div_def)
    moreover have "(n + l - 1) div l = k"
    proof -
      have "n + l - 1 = l * k + (l - 1)" using True nk(1) by simp
      moreover have "0 \<le> l - 1" "l - 1 < l" using l by auto
      then have "(l * k + (l - 1)) div l = k" using l by (simp only: div_mult_self4) simp
      ultimately show ?thesis by (simp only:)
    qed
    ultimately show ?thesis by (simp add: js_ceil_def)
  next
    case False
    let ?x = "of_int n / of_int l :: rat"
    have l0: "(0 :: rat) < of_int l" using l by simp
    have x: "?x = of_int k + of_int r / of_int l" using l0 by (simp add: nk(1) add_divide_distrib)
    have "1 \<le> r" "r \<le> l - 1" using False nk by auto
    then have "(1 :: rat) \<le> of_int r" "(of_int r :: rat) \<le> of_int l - 1" by (simp, linarith)
    then have frac: "1 / of_int l \<le> (of_int r / of_int l :: rat)" "(of_int r / of_int l :: rat) \<le> 1 - 1 / of_int l"
      using l0 by (simp_all add: divide_right_mono field_simps)
    have small: "(1 :: rat) / 100 \<le> 1 / of_int l" using l l0 by (simp add: frac_le)
    have "?x \<le> of_int n" using l0 l n by (simp add: divide_le_eq mult_le_cancel_left1)
    moreover have "(of_int n :: rat) < 2 ^ 40" using n by (metis of_int_less_iff of_int_numeral of_int_power)
    ultimately have "?x \<le> 2 ^ 40" by linarith
    then have "?x / 2 ^ 53 \<le> 2 ^ 40 / 2 ^ 53" by (rule divide_right_mono) simp
    moreover have "\<bar>js_double ?x - ?x\<bar> \<le> ?x / 2 ^ 53" using n l by (intro js_double_error) simp
    ultimately have "\<bar>js_double ?x - ?x\<bar> \<le> 1 / 2 ^ 13" by simp
    then have "?x - 1 / 2 ^ 13 \<le> js_double ?x" "js_double ?x \<le> ?x + 1 / 2 ^ 13"
      by (simp_all only: abs_le_iff) linarith+
    moreover have "(1 :: rat) / 2 ^ 13 < 1 / 100" by simp
    ultimately have "of_int k < js_double ?x" "js_double ?x \<le> of_int k + 1"
      using x frac small by linarith+
    then have "js_ceil (js_double ?x) = k + 1" unfolding js_ceil_def by (intro ceiling_unique) simp_all
    moreover have "(n + l - 1) div l = k + 1"
    proof -
      have "n + l - 1 = l * (k + 1) + (r - 1)" using nk(1) by (simp add: algebra_simps)
      moreover have "0 \<le> r - 1" "r - 1 < l" using \<open>1 \<le> r\<close> nk by auto
      then have "(l * (k + 1) + (r - 1)) div l = k + 1" using l by (simp only: div_mult_self4) simp
      ultimately show ?thesis by (simp only:)
    qed
    ultimately show ?thesis by (simp add: js_div_def)
  qed
qed

text \<open>Pagination is total and exact: the page is at least 1 and the limit between 1 and 100 for any query
  values, and reading the pages 1 to \<open>totalPages\<close> returns every row of the result once, in order.\<close>

theorem pages_cover_the_result:
  assumes "length xs < 2 ^ 40"
  shows "let n = total_pages (parsePagination JUndefined l) (length xs) in
    1 \<le> pg_limit (parsePagination p l) \<and> pg_limit (parsePagination p l) \<le> 100 \<and> 1 \<le> pg_page (parsePagination p l) \<and>
    concat (map (\<lambda>i. page_of (parsePagination (js_int (int i)) l) xs) [1..<Suc (nat n)]) = xs"
proof -
  define k where "k = pg_limit (parsePagination JUndefined l)"
  have k: "1 \<le> k" "k \<le> 100" using page_bounds [of JUndefined l] by (simp_all add: k_def)
  have lim: "pg_limit (parsePagination v l) = k" for v by (simp add: k_def parsePagination_def Let_def)
  define n where "n = total_pages (parsePagination JUndefined l) (length xs)"
  have n: "n = (int (length xs) + k - 1) div k"
    using ceil_div_exact [of k "int (length xs)"] k assms
    by (simp add: n_def total_pages_def lim)
  have page: "page_of (parsePagination (js_int (int i)) l) xs = take (nat k) (drop ((i - 1) * nat k) xs)" if "1 \<le> i" for i
  proof -
    have "parse_or (js_int (int i)) 1 = int i" using that by (intro parse_or_int) simp
    then have "pg_skip (parsePagination (js_int (int i)) l) = (int i - 1) * k"
      using that by (simp add: parsePagination_def Let_def k_def)
    moreover have "nat ((int i - 1) * k) = (i - 1) * nat k"
      using that k by (simp add: nat_mult_distrib of_nat_diff nat_diff_distrib)
    ultimately show ?thesis by (simp add: page_of_def lim)
  qed
  have "concat (map (\<lambda>i. page_of (parsePagination (js_int (int i)) l) xs) [1..<Suc (nat n)])
    = concat (map (\<lambda>i. take (nat k) (drop (i * nat k) xs)) [0..<nat n])"
  proof -
    have "[1..<Suc (nat n)] = map Suc [0..<nat n]" by (simp add: map_Suc_upt)
    moreover have "page_of (parsePagination (js_int (1 + int i)) l) xs = take (nat k) (drop (i * nat k) xs)" for i
      using page [of "Suc i"] by simp
    ultimately show ?thesis by (simp add: comp_def del: upt_Suc)
  qed
  also have "\<dots> = take (nat n * nat k) xs" using pages_concat [of "nat k" xs "nat n"] k by simp
  also have "\<dots> = xs"
  proof -
    have "int (length xs) \<le> n * k"
    proof -
      have "(int (length xs) + k - 1) mod k < k" using k by simp
      moreover have "(int (length xs) + k - 1) = n * k + (int (length xs) + k - 1) mod k"
        unfolding n by (simp add: div_mult_mod_eq)
      ultimately show ?thesis by linarith
    qed
    moreover have "0 \<le> n" using k n by (simp add: pos_imp_zdiv_nonneg_iff)
    ultimately have "length xs \<le> nat n * nat k" using k by (simp add: nat_mult_distrib [symmetric] nat_le_iff le_nat_iff)
    then show ?thesis by simp
  qed
  finally show ?thesis using page_bounds [of p l] by (simp only: n_def Let_def)
qed

theorem pages_cover_the_result_witness:
  "concat (map (\<lambda>i. page_of (parsePagination (js_int (int i)) (JStr ''2'')) [10, 20, 30 :: int])
     [1..<Suc (nat (total_pages (parsePagination JUndefined (JStr ''2'')) (length [10, 20, 30 :: int])))]) = [10, 20, 30]"
proof -
  have "length [10, 20, 30 :: int] < 2 ^ 40" by simp
  from pages_cover_the_result [OF this, of "JStr ''2''" JUndefined] show ?thesis by (simp only: Let_def)
qed

section \<open>Sending\<close>

lemma waitFor_run: "waitFor mid call w = (Inr (), w\<lparr>pending := map_set mid call (pending w)\<rparr>)"
  by (simp add: waitFor_def)

text \<open>A command to a station that is not connected is refused, and the refusal has no effect at all.\<close>

theorem command_refused_when_away:
  assumes "\<not> isConnected w s"
  shows "sendCommand s action payload requestedBy w = (Inl (PlainError (''Station '' @ s @ '' is not connected'')), w)"
  using assms
  by (simp add: sendCommand_def command_begin_def open_socket_def andthen_def ask_def from_option_def raise_def)

theorem command_refused_when_away_witness:
  "sendCommand ''EN0000001'' ''Reset'' (JObj []) None sample_world
    = (Inl (PlainError ''Station EN0000001 is not connected''), sample_world)"
  using command_refused_when_away [of sample_world "''EN0000001''"]
  by (simp add: isConnected_def sample_world_def boot_world_def)

lemma command_begin_run:
  assumes conn: "map_get (conns w) s = Some ws" "socks w ws = OPEN"
  obtains w' where "command_begin s action payload rb w = (Inr (uuid (host w) (tick w)), w')"
    "sent w' = sent w @ [(ws, serializeCall (uuid (host w) (tick w)) action payload)]"
    "host w' = host w" "settled w' = settled w"
    "map_of (pending w') = (map_of (pending w))(uuid (host w) (tick w) \<mapsto>
       \<lparr>cc_call_station = s, cc_call_action = action, cc_call_kind = PlainCommand\<rparr>)"
proof -
  let ?mid = "uuid (host w) (tick w)"
  let ?ins = "ignore_err (andthen js_now (\<lambda>now. db_do (create_command (pending_row ?mid s action payload rb now))))"
  let ?w1 = "w\<lparr>tick := tick w + 1\<rparr>"
  obtain q w2 where ins: "?ins ?w1 = (q, w2)" by (cases "?ins ?w1")
  have "conforms same_net ?ins" by (intro contract_intros)
  from conformsD [OF this ins] have net2: "same_net ?w1 w2" .
  let ?call = "\<lparr>cc_call_station = s, cc_call_action = action, cc_call_kind = PlainCommand\<rparr>"
  let ?w3 = "w2\<lparr>pending := map_set ?mid ?call (pending w2)\<rparr>"
  obtain p w4 where send: "sendAndLog ws s (serializeCall ?mid action payload) (reply_meta 2 (JStr ?mid) (JStr action)) ?w3 = (p, w4)"
    by (cases "sendAndLog ws s (serializeCall ?mid action payload) (reply_meta 2 (JStr ?mid) (JStr action)) ?w3")
  from sendAndLog_run [OF _ send] net2 conn have sent4: "p = Inr ()" "replied ws (serializeCall ?mid action payload) ?w3 w4"
    by (simp_all add: same_net_def)
  have "isConnected w s" using conn by (simp add: isConnected_def)
  with conn ins send sent4 ignore_err_Inr [of "andthen js_now (\<lambda>now. db_do (create_command (pending_row ?mid s action payload rb now)))" ?w1]
  have "command_begin s action payload rb w = (Inr ?mid, w4)"
    by (simp add: command_begin_def open_socket_def andthen_def [where w = w] andthen_def [where m = new_uuid]
        andthen_def [where m = ?ins] andthen_def [where m = "waitFor mid c" for mid c] andthen_def [where m = "sendAndLog a b c d" for a b c d]
        andthen_def [where m = "ask f" for f] ask_def from_option_def ret_def new_uuid_def waitFor_def)
  with sent4 net2 show thesis
    by (intro that [of w4]) (auto simp: replied_def same_net_def update_conv)
qed

lemma settle_keeps_outcome:
  "fst (command_settle s a mid outcome w) = outcome"
proof (cases outcome)
  case (Inr response)
  then show ?thesis
    using ignore_err_Inr [of "record_response s a mid (js_coalesce response (JObj []))" w]
    by (auto simp: command_settle_def andthen_def ret_def split: prod.splits)
next
  case (Inl err)
  then show ?thesis
    using ignore_err_Inr [of "record_failure s a mid (err_message (host w) err)" w]
    by (auto simp: command_settle_def andthen_def ask_def raise_def split: prod.splits)
qed

text \<open>C32. A command to a connected station sends exactly one call frame and returns exactly what the station
  answered: its payload, or its error, whatever happens to the record in the database.\<close>

theorem command_returns_the_reply:
  assumes conn: "map_of (conns w) s = Some ws" "socks w ws = OPEN"
  shows "let mid = uuid (host w) (tick w); run = sendCommand s action payload rb w in
    fst run = reply (host w) mid \<and> sent (snd run) = sent w @ [(ws, serializeCall mid action payload)]"
proof -
  let ?mid = "uuid (host w) (tick w)"
  obtain w1 where b: "command_begin s action payload rb w = (Inr ?mid, w1)"
    "sent w1 = sent w @ [(ws, serializeCall ?mid action payload)]" "host w1 = host w"
    using command_begin_run [OF conn] by metis
  let ?w2 = "w1\<lparr>pending := map_delete ?mid (pending w1)\<rparr>"
  have run: "sendCommand s action payload rb w = command_settle s action ?mid (reply (host w) ?mid) ?w2"
    using b by (simp add: sendCommand_def andthen_def await_reply_def)
  have "conforms same_net (command_settle s action ?mid (reply (host w) ?mid))"
    unfolding command_settle_def record_response_def record_failure_def
    by (intro contract_intros)
  then have "same_net ?w2 (snd (command_settle s action ?mid (reply (host w) ?mid) ?w2))"
    by (simp add: conforms_def)
  with run b settle_keeps_outcome show ?thesis by (simp add: Let_def same_net_def)
qed

theorem command_returns_the_reply_witness:
  "fst (sendCommand ''EN0000001'' ''Reset'' (JObj [(''type'', JStr ''Hard'')]) None online_world)
    = Inr (JObj [(''status'', JStr ''Accepted'')])"
  using command_returns_the_reply [of online_world "''EN0000001''" 0 "''Reset''" "JObj [(''type'', JStr ''Hard'')]" None]
  by (simp add: online_world_def quiet_host_def Let_def)

section \<open>Recording the outcome\<close>

definition command_recorded :: "string \<Rightarrow> (OcppCommandResult \<Rightarrow> OcppCommandResult) \<Rightarrow> csms_payload \<Rightarrow> db \<Rightarrow> db \<Rightarrow> bool" where
  "command_recorded mid f p d d' \<longleftrightarrow>
     (\<exists>r ev. List.find (\<lambda>r. cr_messageId r = mid) (commandResults d) = Some r \<and> command_ok (f r) \<and>
        commandResults d' = update_where (\<lambda>r. cr_messageId r = mid) f (commandResults d) \<and>
        outbox d' = outbox d @ [ev] \<and> ob_payload ev = p)"

lemma record_response_run:
  assumes "record_response s a mid obj w = (r, w')"
  shows "db w' = db w \<or> (\<exists>now. command_recorded mid (complete_command obj now)
    (OcppCommandResultReceivedP \<lparr>ocr_stationId = s, ocr_messageId = mid, ocr_action = a,
        ocr_status = result_status obj, ocr_responsePayload = obj\<rparr>) (db w) (db w'))"
  using transaction_run [OF assms [unfolded record_response_def]]
  by (elim disjE exE conjE)
    (auto simp: run_Inr writeOutbox_Inr Let_def update_command_def op_Inr command_event_def command_recorded_def)

lemma record_failure_run:
  assumes "record_failure s a mid m w = (r, w')"
  shows "db w' = db w \<or> (\<exists>now. command_recorded mid (fail_command m now)
    (OcppCommandResultReceivedP \<lparr>ocr_stationId = s, ocr_messageId = mid, ocr_action = a,
        ocr_status = command_status_text (final_status m),
        ocr_responsePayload = JObj [(''errorCode'', nullable_json (fst (split_error m))),
                                    (''errorDescription'', JStr (snd (split_error m)))]\<rparr>) (db w) (db w'))"
  using transaction_run [OF assms [unfolded record_failure_def]]
  by (elim disjE exE conjE)
    (auto simp: run_Inr writeOutbox_Inr Let_def update_command_def op_Inr command_event_def command_recorded_def
      split: prod.splits)

lemma ignore_err_db: "snd (ignore_err m w) = snd (m w)"
  by (simp add: ignore_err_def catch_err_def andthen_def ret_def split: prod.splits sum.splits)

text \<open>C31. The outcome of a command is recorded atomically: either the database is unchanged, or the record of this
  message id has the final status and exactly one event with the same outcome was appended; the caller gets
  the outcome in both cases.\<close>

theorem command_outcome_recorded_atomically:
  assumes run: "command_settle s a mid outcome w = (r, w')"
  shows "r = outcome \<and> (db w' = db w \<or>
    (\<exists>now. case outcome of
       Inr response \<Rightarrow> (let obj = js_coalesce response (JObj []) in
         command_recorded mid (complete_command obj now)
           (OcppCommandResultReceivedP \<lparr>ocr_stationId = s, ocr_messageId = mid, ocr_action = a,
              ocr_status = result_status obj, ocr_responsePayload = obj\<rparr>) (db w) (db w'))
     | Inl err \<Rightarrow> (let m = err_message (host w) err in
         command_recorded mid (fail_command m now)
           (OcppCommandResultReceivedP \<lparr>ocr_stationId = s, ocr_messageId = mid, ocr_action = a,
              ocr_status = command_status_text (final_status m),
              ocr_responsePayload = JObj [(''errorCode'', nullable_json (fst (split_error m))),
                                          (''errorDescription'', JStr (snd (split_error m)))]\<rparr>) (db w) (db w'))))"
proof (cases outcome)
  case (Inr response)
  obtain q w1 where rec: "record_response s a mid (js_coalesce response (JObj [])) w = (q, w1)"
    by (cases "record_response s a mid (js_coalesce response (JObj [])) w")
  from rec Inr run ignore_err_db [of "record_response s a mid (js_coalesce response (JObj []))" w] ignore_err_Inr [of "record_response s a mid (js_coalesce response (JObj []))" w]
  have "r = outcome" "w' = w1"
    by (auto simp: command_settle_def andthen_def ret_def split: prod.splits)
  with record_response_run [OF rec] Inr show ?thesis by (simp add: Let_def)
next
  case (Inl err)
  let ?m = "err_message (host w) err"
  obtain q w1 where rec: "record_failure s a mid ?m w = (q, w1)" by (cases "record_failure s a mid ?m w")
  from rec Inl run ignore_err_db [of "record_failure s a mid ?m" w] ignore_err_Inr [of "record_failure s a mid ?m" w]
  have "r = outcome" "w' = w1"
    by (auto simp: command_settle_def andthen_def ask_def raise_def split: prod.splits)
  with record_failure_run [OF rec] Inl show ?thesis by (simp add: Let_def)
qed

theorem command_outcome_recorded_atomically_witness:
  "fst (command_settle ''EN0000001'' ''Reset'' ''m1'' (Inr JNull) sample_world) = Inr JNull"
  using command_outcome_recorded_atomically [of "''EN0000001''" "''Reset''" "''m1''" "Inr JNull" sample_world
      "fst (command_settle ''EN0000001'' ''Reset'' ''m1'' (Inr JNull) sample_world)"
      "snd (command_settle ''EN0000001'' ''Reset'' ''m1'' (Inr JNull) sample_world)"] by simp

text \<open>The failure record always fits its columns in length of the description, is a timeout exactly when the message
  mentions one, and otherwise has the text before the first colon as error code.\<close>

theorem failure_record_classified:
  "let r' = fail_command message now r in
     cr_status r' \<in> {CmdTimeout, CmdError} \<and> (cr_status r' = CmdTimeout \<longleftrightarrow> js_includes (js_lower message) ''timeout'') \<and>
     (\<forall>d. cr_errorDescription r' = Some d \<longrightarrow> length d \<le> 500) \<and>
     (\<forall>code desc. \<not> is_timeout message \<and> message = code @ '':'' @ desc \<and> code \<noteq> [] \<and> CHR '':'' \<notin> set code \<longrightarrow>
        cr_errorCode r' = Some (js_trim code) \<and> cr_errorDescription r' = Some (take 500 (js_trim desc)))"
proof -
  have split: "split_error (code @ '':'' @ desc) = (Some (js_trim code), js_trim desc)"
    if "\<not> is_timeout (code @ '':'' @ desc)" "code \<noteq> []" "CHR '':'' \<notin> set code" for code desc
    using that js_indexOf_append [OF that(3), of desc] by (simp add: split_error_def)
  have "cr_errorCode r' = Some (js_trim code) \<and> cr_errorDescription r' = Some (take 500 (js_trim desc))"
    if "r' = fail_command message now r" "\<not> is_timeout message" "message = code @ '':'' @ desc" "code \<noteq> []"
      "CHR '':'' \<notin> set code" for code desc r'
    using split [of code desc] that by (simp add: fail_command_def)
  moreover have "cr_status (fail_command message now r) \<in> {CmdTimeout, CmdError}"
    "cr_status (fail_command message now r) = CmdTimeout \<longleftrightarrow> js_includes (js_lower message) ''timeout''"
    "\<forall>d. cr_errorDescription (fail_command message now r) = Some d \<longrightarrow> length d \<le> 500"
    by (simp_all add: fail_command_def final_status_def is_timeout_def split: prod.splits)
  ultimately show ?thesis unfolding Let_def by blast
qed

theorem failure_record_classified_witness:
  "cr_errorCode (fail_command ''SecurityError: bad key'' 5 (pending_row ''m1'' ''S'' ''Reset'' JNull None 0)) = Some ''SecurityError''"
proof -
  let ?m = "''SecurityError'' @ '':'' @ '' bad key''"
  let ?r = "pending_row ''m1'' ''S'' ''Reset'' JNull None 0"
  have "\<not> is_timeout ?m" by code_simp
  moreover have "js_trim ''SecurityError'' = ''SecurityError''" by code_simp
  moreover have "\<not> is_timeout ?m \<Longrightarrow> cr_errorCode (fail_command ?m 5 ?r) = Some (js_trim ''SecurityError'')"
    using failure_record_classified [of ?m 5 ?r] unfolding Let_def
    by (elim conjE) (drule spec [of _ "''SecurityError''"], drule spec [of _ "'' bad key''"], simp)
  ultimately show ?thesis by simp
qed

text \<open>A refusal of the station that only mentions a timeout is recorded as one.\<close>

lemma refusal_mistaken_for_timeout:
  "final_status ''GenericError: session timeout not configurable'' = CmdTimeout"
  by code_simp

section \<open>Sweeps and jobs\<close>

lemma update_commands_run:
  "db_do (update_commands P f) w = (Inr n, w') \<Longrightarrow>
     commandResults (db w') = update_where P f (commandResults (db w)) \<and>
     db w' = (db w)\<lparr>commandResults := commandResults (db w')\<rparr> \<and> n = length (filter P (commandResults (db w)))"
  by (auto simp: db_do_Inr update_commands_def op_Inr)

text \<open>The sweeper marks as timed out exactly the pending records that are older than the response timeout and a
  minute, leaves every other record and table alone, and reports their number.\<close>

theorem sweep_marks_exactly_the_stale:
  assumes "sweepStalePending w = (Inr n, w')"
  shows "let stale = (\<lambda>r. cr_status r = CmdPending \<and> cr_sentAt r < clock (host w) (tick w) - response_timeout (host w) - 60000) in
    list_all2 (\<lambda>r r'. if stale r then cr_status r' = CmdTimeout \<and> cr_messageId r' = cr_messageId r \<and> cr_receivedAt r' \<noteq> None else r' = r)
      (commandResults (db w)) (commandResults (db w')) \<and>
    n = length (filter stale (commandResults (db w))) \<and> db w' = (db w)\<lparr>commandResults := commandResults (db w')\<rparr>"
  using assms
  by (auto simp: sweepStalePending_def andthen_Inr ask_Inr js_now_Inr Let_def list_all2_conv_all_nth update_where_nth
      dest!: update_commands_run)

theorem sweep_marks_exactly_the_stale_witness:
  "\<exists>n w'. sweepStalePending sample_world = (Inr n, w') \<and> n = 0 \<and> commandResults (db w') = []"
proof -
  have run: "sweepStalePending sample_world = (Inr 0, snd (sweepStalePending sample_world))"
    by (simp add: sweepStalePending_def prog_defs Let_def update_commands_def lift_rows_def update_rows_def sample_db_def empty_db_def)
  from sweep_marks_exactly_the_stale [OF run] show ?thesis
    using run by (intro exI [of _ 0] exI [of _ "snd (sweepStalePending sample_world)"])
      (simp add: Let_def sample_db_def empty_db_def)
qed

text \<open>The server stopped while a command was waiting.\<close>

definition waiting_world :: world where
  "waiting_world = sample_world\<lparr>db := sample_db\<lparr>commandResults := [pending_row ''m1'' ''EN0000001'' ''Reset'' JNull None 0]\<rparr>\<rparr>"

text \<open>After the cleanup at start no record is pending.\<close>

theorem bootstrap_leaves_nothing_pending:
  assumes "bootstrapCleanup w = (Inr n, w')"
  shows "\<forall>r \<in> set (commandResults (db w')). cr_status r \<noteq> CmdPending"
  using assms
  by (auto simp: bootstrapCleanup_def andthen_Inr js_now_Inr set_update_where dest!: update_commands_run)

theorem bootstrap_leaves_nothing_pending_witness:
  "CmdPending \<notin> set (map cr_status (commandResults (db (snd (bootstrapCleanup waiting_world)))))"
proof -
  have "bootstrapCleanup waiting_world = (Inr 1, snd (bootstrapCleanup waiting_world))"
    by (simp add: bootstrapCleanup_def prog_defs Let_def update_commands_def lift_rows_def update_rows_def
        waiting_world_def pending_row_def command_ok_def fits_def fits_opt_def)
  from bootstrap_leaves_nothing_pending [OF this] show ?thesis by auto
qed

text \<open>The session timeout fails exactly the pending sessions older than five minutes and never touches an
  active or ended session.\<close>

theorem session_timeout_fails_only_pending:
  assumes "sessionTimeoutProcessor w = (r, w')"
  shows "transactions (db w') = transactions (db w) \<or>
    list_all2 (\<lambda>t t'. if tx_status t = TxPending \<and> tx_timeStart t < clock (host w) (tick w) - 300000
        then tx_status t' = TxFailed \<and> tx_failReason t' = Some ''session_timeout'' \<and> tx_id t' = tx_id t else t' = t)
      (transactions (db w)) (transactions (db w'))"
proof -
  have "transactions (db w') = transactions (db w) \<or> (\<exists>now. transactions (db w') =
    update_where (\<lambda>t. tx_status t = TxPending \<and> tx_timeStart t < clock (host w) (tick w) - 300000)
      (\<lambda>t. t\<lparr>tx_status := TxFailed, tx_failReason := Some ''session_timeout'', tx_timeEnd := Some now\<rparr>) (transactions (db w)))"
    using assms
    by (auto simp: sessionTimeoutProcessor_def andthen_def js_now_def db_do_def Let_def ret_def update_transactions_def
        on_transactions_def lift_rows_def update_rows_def split: if_splits sum.splits prod.splits)
  then show ?thesis
    by (elim disjE exE) (auto simp: list_all2_conv_all_nth update_where_nth)
qed

theorem session_timeout_fails_only_pending_witness:
  "transactions (db (snd (sessionTimeoutProcessor sample_world))) = transactions sample_db \<or>
   length (transactions (db (snd (sessionTimeoutProcessor sample_world)))) = 3"
  using session_timeout_fails_only_pending [of sample_world "fst (sessionTimeoutProcessor sample_world)"
      "snd (sessionTimeoutProcessor sample_world)"]
  by (auto simp: sample_db_def dest: list_all2_lengthD)

end
