(* ===== verification/SessionProps.thy ===== *)
theory SessionProps
  imports Contracts
begin

text \<open>
  What a charging session guarantees: the cost against exact arithmetic, the atomic effect of
  \<open>StartTransaction\<close> and \<open>StopTransaction\<close>, the decision of \<open>Authorize\<close>, and the meter values a
  report stores.
\<close>

section \<open>The cost of a session\<close>

definition energy_wh :: "int \<Rightarrow> int \<Rightarrow> int" where
  "energy_wh meterStart meterStop = max 0 (meterStop - meterStart)"

definition exact_cost :: "int \<Rightarrow> int \<Rightarrow> int \<Rightarrow> int" where
  "exact_cost unitPrice meterStart meterStop = energy_wh meterStart meterStop * unitPrice div 1000"

lemma total_kwh_alt:
  assumes "int32 a" "int32 b"
  shows "total_kwh a b = js_double (of_int (energy_wh a b) / 1000)"
proof -
  have "\<bar>b - a\<bar> < 2 ^ 53" using assms by (auto simp: int32_def)
  then have "js_sub (of_int b) (of_int a) = of_int (b - a)"
    using js_double_of_int [of "b - a"] by (simp add: js_sub_def)
  moreover have "max 0 (of_int (b - a)) = (of_int (energy_wh a b) :: rat)"
    by (simp add: energy_wh_def max_def)
  ultimately show ?thesis by (simp only: total_kwh_def js_div_def)
qed

text \<open>Two roundings move a product by less than a thousandth.\<close>

lemma two_roundings:
  fixes x u :: rat
  assumes "0 \<le> x" "0 \<le> u" "x * u \<le> 2 ^ 40"
  shows "\<bar>js_double (js_double x * u) - x * u\<bar> < 1 / 1000"
proof -
  define k where "k = js_double x"
  have k: "0 \<le> k" "\<bar>k - x\<bar> \<le> x / 2 ^ 53"
    using assms js_double_nonneg js_double_error by (auto simp: k_def)
  have "\<bar>k * u - x * u\<bar> = \<bar>k - x\<bar> * u" using assms by (simp add: left_diff_distrib [symmetric] abs_mult)
  also have "\<dots> \<le> x / 2 ^ 53 * u" using k assms by (intro mult_right_mono) auto
  also have "\<dots> \<le> 2 ^ 40 / 2 ^ 53" using assms by (simp add: divide_right_mono mult.commute)
  finally have one: "\<bar>k * u - x * u\<bar> \<le> 1 / 2 ^ 13" by simp
  moreover have "k * u - x * u \<le> \<bar>k * u - x * u\<bar>" by (rule abs_ge_self)
  moreover have "1 / 2 ^ 13 \<le> (1 :: rat)" by simp
  ultimately have "k * u \<le> 2 ^ 40 + 1" using assms(3) by linarith
  moreover have "0 \<le> k * u" using k assms by simp
  ultimately have "\<bar>js_double (k * u) - k * u\<bar> \<le> (2 ^ 40 + 1) / 2 ^ 53"
    using js_double_error [of "k * u"] by (meson divide_right_mono order_trans zero_le_numeral zero_le_power)
  with one have "\<bar>js_double (k * u) - x * u\<bar> \<le> 1 / 2 ^ 13 + (2 ^ 40 + 1) / 2 ^ 53" by linarith
  also have "\<dots> < 1 / 1000" by simp
  finally show ?thesis by (simp add: k_def)
qed

lemma floor_near:
  fixes y :: rat and n m :: int
  assumes near: "\<bar>y - of_int n / 1000\<bar> < 1 / 1000"
  shows "\<lfloor>y\<rfloor> \<in> {n div 1000 - 1, n div 1000}" and "\<not> 1000 dvd n \<Longrightarrow> \<lfloor>y\<rfloor> = n div 1000"
proof -
  define q r where "q = n div 1000" and "r = n mod 1000"
  have n: "n = 1000 * q + r" "0 \<le> r" "r < 1000" by (simp_all add: q_def r_def)
  have x: "of_int n / 1000 = (of_int q :: rat) + of_int r / 1000" by (simp add: n(1) add_divide_distrib)
  have r: "(0 :: rat) \<le> of_int r" "(of_int r :: rat) \<le> 999" using n(2,3) by linarith+
  from near have "- (1 / 1000) < y - of_int n / 1000" "y - of_int n / 1000 < 1 / 1000"
    by (simp_all only: abs_less_iff) linarith+
  then have lo: "of_int q - 1 / 1000 < y" and hi: "y < of_int q + 1" and
    up: "of_int q + of_int r / 1000 - 1 / 1000 < y"
    using r unfolding x by linarith+
  have "q - 1 \<le> \<lfloor>y\<rfloor>" using lo by (simp add: le_floor_iff)
  moreover have "\<lfloor>y\<rfloor> \<le> q" using hi by (simp add: floor_le_iff)
  ultimately show "\<lfloor>y\<rfloor> \<in> {n div 1000 - 1, n div 1000}" by (auto simp: q_def [symmetric])
  assume "\<not> 1000 dvd n"
  then have "r \<noteq> 0" by (simp add: r_def dvd_eq_mod_eq_0)
  with n(2) have "(1 :: rat) \<le> of_int r" by linarith
  then have "of_int q \<le> y" using up by linarith
  then have "q \<le> \<lfloor>y\<rfloor>" by (simp add: le_floor_iff)
  with \<open>\<lfloor>y\<rfloor> \<le> q\<close> show "\<lfloor>y\<rfloor> = n div 1000" by (simp add: q_def)
qed

lemma session_cost_near:
  assumes "int32 a" "int32 b" "0 \<le> u" "energy_wh a b * u \<le> 1000 * 2 ^ 40"
  shows "\<bar>js_mul (total_kwh a b) (of_int u) - of_int (energy_wh a b * u) / 1000\<bar> < 1 / 1000"
proof -
  let ?x = "of_int (energy_wh a b) / 1000 :: rat"
  have "of_int (energy_wh a b * u) \<le> (of_int (1000 * 2 ^ 40) :: rat)"
    using assms(4) by (simp only: of_int_le_iff)
  then have "?x * of_int u \<le> 2 ^ 40" by simp
  moreover have "0 \<le> ?x" "(0 :: rat) \<le> of_int u" using assms(3) by (simp_all add: energy_wh_def)
  ultimately have "\<bar>js_double (js_double ?x * of_int u) - ?x * of_int u\<bar> < 1 / 1000"
    by (intro two_roundings)
  then show ?thesis by (simp add: js_mul_def total_kwh_alt [OF assms(1,2)])
qed

text \<open>C39. The cost the code charges is the exact price of the energy, rounded down, or one dong less; it
  is exact whenever the price is not a whole number of dong.\<close>

theorem session_cost_exact_or_one_less:
  assumes "int32 meterStart" "int32 meterStop" "0 \<le> unitPrice"
    and "energy_wh meterStart meterStop * unitPrice \<le> 1000 * 2 ^ 40"
  shows "session_cost unitPrice meterStart meterStop
      \<in> {exact_cost unitPrice meterStart meterStop - 1, exact_cost unitPrice meterStart meterStop}
    \<and> (\<not> 1000 dvd energy_wh meterStart meterStop * unitPrice \<longrightarrow>
        session_cost unitPrice meterStart meterStop = exact_cost unitPrice meterStart meterStop)
    \<and> 0 \<le> session_cost unitPrice meterStart meterStop"
proof -
  have "0 \<le> total_kwh meterStart meterStop"
    using assms by (simp add: total_kwh_alt energy_wh_def js_double_nonneg)
  then have "0 \<le> js_mul (total_kwh meterStart meterStop) (of_int unitPrice)"
    using assms(3) by (simp add: js_mul_def js_double_nonneg)
  moreover note floor_near [OF session_cost_near [OF assms]]
  ultimately show ?thesis by (simp add: session_cost_def js_floor_def exact_cost_def)
qed

theorem session_cost_exact_or_one_less_witness:
  "session_cost 3500 1000 2500 \<in> {exact_cost 3500 1000 2500 - 1, exact_cost 3500 1000 2500}
    \<and> 0 \<le> session_cost 3500 1000 2500"
  using session_cost_exact_or_one_less [of 1000 2500 3500] by (simp add: int32_def energy_wh_def)

text \<open>The cost of eighteen watt-hours at 3500 dong is 62 although the exact price is 63: the product of
  the rounded kilowatt-hours falls just below the whole number and \<open>Math.floor\<close> drops it.\<close>

theorem session_cost_loses_a_dong:
  "session_cost 3500 0 18 = 62 \<and> exact_cost 3500 0 18 = 63"
  by (code_simp)

section \<open>Stopping a session\<close>

lemma stop_tx_announces: "stop_tx s p t w = (Inr x, w') \<Longrightarrow> outbox (db w') \<noteq> outbox (db w)"
  by (cases rule: db_transaction_cases [of "andthen (arg (as_int (js_get p ''meterStop''))) (\<lambda>meterStop.
        andthen (arg (js_new_date (js_get p ''timestamp''))) (\<lambda>timeEnd.
        andthen (arg (as_string_opt (js_get p ''reason''))) (\<lambda>reason.
        let unitPrice = unit_price_of t; cost = session_cost unitPrice (tx_meterStart t) meterStop in
        andthen (db_do (update_transaction (tx_id t) (close_tx meterStop timeEnd cost unitPrice reason))) (\<lambda>updated.
        andthen (writeOutbox (tx_event TransactionStopped (TransactionStoppedP
          (stopped_payload s (tx_meterStart t) meterStop reason updated)) (tx_id updated))) (\<lambda>_.
        ret ())))))" w, folded stop_tx_def])
    (auto simp: run_Inr writeOutbox_Inr Let_def store_defs op_Inr)

text \<open>The calls after the session transaction leave sessions and events alone.\<close>

definition same_sessions :: "db \<Rightarrow> db \<Rightarrow> bool" where
  "same_sessions d d' \<longleftrightarrow> transactions d' = transactions d \<and> outbox d' = outbox d"

interpretation sessions: db_contract same_sessions
  by unfold_locales (auto simp: same_sessions_def)

lemma same_sessions_data: "conforms (on_db same_sessions) (save_transaction_data i data)"
  unfolding save_transaction_data_def
  by (intro contract_intros sessions.conforms_op; auto simp: store_defs op_Inr same_sessions_def)

lemma same_sessions_goal: "conforms (on_db same_sessions) (enqueue_goal_check t)"
  unfolding enqueue_goal_check_def by (intro contract_intros; simp)

lemma same_sessions_charging: "conforms (on_db same_sessions) (mark_charging s c)"
  unfolding mark_charging_def
  by (intro contract_intros sessions.conforms_op; auto simp: store_defs op_Inr same_sessions_def)

lemma same_sessions_connectors: "conforms (on_db same_sessions) (ignore_err (db_do (update_connectors P f)))"
  by (intro contract_intros sessions.conforms_op; auto simp: store_defs op_Inr same_sessions_def)

lemma same_sessions_run: "conforms (on_db same_sessions) m \<Longrightarrow> m w = (r, w') \<Longrightarrow>
   transactions (db w') = transactions (db w) \<and> outbox (db w') = outbox (db w)"
  by (drule conformsD) (auto simp: on_db_def same_sessions_def)

lemma stop_handler_run:
  assumes run: "stopTransactionHandler s p w = (Inr resp, w')" and id: "js_get p ''transactionId'' = js_int n"
    and t: "find_ocpp_transaction s (\<lambda>i. i = Some n) (db w) = Some t"
  obtains w1 w2 where "db w1 = db w" "stop_tx s p t w1 = (Inr (), w2)"
    "transactions (db w') = transactions (db w2)" "outbox (db w') = outbox (db w2)" "resp = accepted_response"
proof -
  have "int_opt_filter (js_get p ''transactionId'') = Some (\<lambda>i. i = Some n)"
    by (simp add: id js_int_def)
  with run t obtain w1 w2 w3 w4 where runs: "stop_tx s p t w1 = (Inr (), w2)"
    "save_transaction_data (tx_id t) (js_get p ''transactionData'') w2 = (Inr (), w3)"
    "ignore_err (db_do (update_connectors (\<lambda>r. co_stationId r = s \<and> co_connectorId r = tx_connectorId t)
           (\<lambda>r. r\<lparr>co_currentStatus := CoAvailable\<rparr>))) w3 = (Inr (), w4)" "w' = w4" "resp = accepted_response" "db w1 = db w"
    by (auto simp: stopTransactionHandler_def andthen_Inr arg_Inr db_read_Inr ret_Inr)
  from same_sessions_run [OF same_sessions_data runs(2)] same_sessions_run [OF same_sessions_connectors runs(3)] runs
  show thesis by (intro that [of w1 w2]) simp_all
qed

lemma stop_effect:
  assumes run: "stopTransactionHandler s p w = (Inr resp, w')" and id: "js_get p ''transactionId'' = js_int n"
    and t: "find_ocpp_transaction s (\<lambda>i. i = Some n) (db w) = Some t"
  shows "\<exists>ms q ev. as_int (js_get p ''meterStop'') = Some ms \<and> resp = accepted_response \<and>
    q \<in> set (transactions (db w')) \<and> tx_id q = tx_id t \<and> tx_status q = TxStopped \<and> tx_meterEnd q = Some ms \<and>
    tx_costVnd q = Some (session_cost (unit_price_of t) (tx_meterStart t) ms) \<and>
    outbox (db w') = outbox (db w) @ [ev] \<and> ob_eventType ev = TransactionStopped \<and>
    (\<exists>e. ob_payload ev = TransactionStoppedP e \<and> tsp_transactionId e = tx_id q \<and> tsp_sessionId e = tx_sessionId q \<and>
       tsp_costVnd e = tx_costVnd q \<and> tsp_meterStop e = ms)"
proof -
  from stop_handler_run [OF assms] obtain w1 w2 where stop: "db w1 = db w" "stop_tx s p t w1 = (Inr (), w2)"
    and same: "transactions (db w') = transactions (db w2)" "outbox (db w') = outbox (db w2)"
    and resp: "resp = accepted_response" .
  from stop_tx_run [OF stop(2)] stop_tx_announces [OF stop(2)]
  obtain ms ts reason q ev where ms: "as_int (js_get p ''meterStop'') = Some ms"
    and q: "find_transaction (tx_id t) (db w1) = Some q"
    and eff: "transactions (db w2) = update_where (\<lambda>q. tx_id q = tx_id t)
        (close_tx ms ts (session_cost (unit_price_of t) (tx_meterStart t) ms) (unit_price_of t) reason) (transactions (db w1))"
      "ob_payload ev = TransactionStoppedP (stopped_payload s (tx_meterStart t) ms reason
        (close_tx ms ts (session_cost (unit_price_of t) (tx_meterStart t) ms) (unit_price_of t) reason q))"
    and out: "outbox (db w2) = outbox (db w1) @ [ev]" "ob_eventType ev = TransactionStopped"
    by (auto simp: Let_def)
  let ?q = "close_tx ms ts (session_cost (unit_price_of t) (tx_meterStart t) ms) (unit_price_of t) reason q"
  from q have q_in: "q \<in> set (transactions (db w1))" "tx_id q = tx_id t"
    by (auto simp: find_transaction_def dest: find_SomeD)
  then have "?q \<in> set (transactions (db w'))" unfolding same eff(1) by (auto simp: set_update_where)
  with ms resp out same stop(1) eff(2) q_in(2) show ?thesis
    by (intro exI [of _ ms] exI [of _ ?q] exI [of _ ev]) (auto simp: close_tx_def stopped_payload_def)
qed

text \<open>C27. A \<open>StopTransaction\<close> that is answered has closed the session and announced it in one step: the row of
  the session is stopped with the reported meter value and the computed cost, exactly one event is
  appended, and the event carries the identity, the cost and the meter values of the row.\<close>

theorem stop_closes_and_announces:
  assumes run: "stopTransactionHandler s p w = (Inr resp, w')" and id: "js_get p ''transactionId'' = js_int n"
    and t: "find_ocpp_transaction s (\<lambda>i. i = Some n) (db w) = Some t"
  shows "\<exists>ms q ev. as_int (js_get p ''meterStop'') = Some ms \<and> resp = accepted_response \<and>
    q \<in> set (transactions (db w')) \<and> tx_id q = tx_id t \<and> tx_status q = TxStopped \<and> tx_meterEnd q = Some ms \<and>
    tx_costVnd q = Some (session_cost (unit_price_of t) (tx_meterStart t) ms) \<and>
    outbox (db w') = outbox (db w) @ [ev] \<and> ob_eventType ev = TransactionStopped \<and>
    (\<exists>e. ob_payload ev = TransactionStoppedP e \<and> tsp_transactionId e = tx_id q \<and> tsp_sessionId e = tx_sessionId q \<and>
       tsp_costVnd e = tx_costVnd q \<and> tsp_meterStop e = ms)"
  using assms by (rule stop_effect)

lemma stop_sample_run:
  "fst (stopTransactionHandler ''EN0000001'' (stop_request 2 2500) sample_world) = Inr accepted_response"
  by code_simp

lemma split_run: "fst r = x \<Longrightarrow> r = (x, snd r)"
  by (metis prod.collapse)

lemma stop_sample_found:
  "find_ocpp_transaction ''EN0000001'' (\<lambda>i. i = Some 2) sample_db = Some (sample_tx 2 ''s2'' TxActive)"
  "find_ocpp_transaction ''EN0000001'' (\<lambda>i. i = Some 3) sample_db = Some (sample_tx 3 ''s3'' TxStopped)"
  by (simp_all add: find_ocpp_transaction_def sample_db_def sample_tx_def)

lemma stop_request_id: "js_get (stop_request i ms) ''transactionId'' = js_int i"
  by (simp add: stop_request_def)

theorem stop_closes_and_announces_witness:
  "\<exists>q ev. q \<in> set (transactions (db (snd (stopTransactionHandler ''EN0000001'' (stop_request 2 2500) sample_world)))) \<and>
     tx_id q = 2 \<and> tx_status q = TxStopped \<and>
     outbox (db (snd (stopTransactionHandler ''EN0000001'' (stop_request 2 2500) sample_world)))
       = outbox sample_db @ [ev]"
proof -
  have "find_ocpp_transaction ''EN0000001'' (\<lambda>i. i = Some 2) (db sample_world) = Some (sample_tx 2 ''s2'' TxActive)"
    by (simp add: stop_sample_found)
  from stop_closes_and_announces [OF split_run [OF stop_sample_run] stop_request_id this]
  show ?thesis by (auto simp: sample_tx_def)
qed

text \<open>The status of the session is not checked: a retransmitted \<open>StopTransaction\<close> announces the
  session a second time, as a new event.\<close>

lemma stop_retransmission_announced_again:
  assumes "stopTransactionHandler s p w = (Inr resp, w')" "js_get p ''transactionId'' = js_int n"
    and "find_ocpp_transaction s (\<lambda>i. i = Some n) (db w) = Some t" "tx_status t = TxStopped"
  shows "\<exists>ev. outbox (db w') = outbox (db w) @ [ev] \<and> ob_eventType ev = TransactionStopped"
  using stop_effect [OF assms(1-3)] by blast

section \<open>Starting a session\<close>

lemma create_transaction_outbox: "create_transaction t d = Inr (x, d') \<Longrightarrow> outbox d' = outbox d"
  by (auto simp: create_transaction_def op_Inr)

lemma update_transaction_outbox: "update_transaction i f d = Inr (x, d') \<Longrightarrow> outbox d' = outbox d"
  by (auto simp: update_transaction_def op_Inr)

lemma start_commits:
  "start_unplanned s p w = (Inr t, w') \<Longrightarrow> db w' \<noteq> db w"
  "start_planned s p q w = (Inr x, w') \<Longrightarrow> db w' \<noteq> db w"
proof -
  assume "start_unplanned s p w = (Inr t, w')"
  then have "outbox (db w') \<noteq> outbox (db w)"
    unfolding start_unplanned_def
    by (rule committed_run)
      (auto simp: run_Inr writeOutbox_Inr Let_def dest!: create_transaction_outbox update_transaction_outbox)
  then show "db w' \<noteq> db w" by auto
next
  assume "start_planned s p q w = (Inr x, w')"
  then have "outbox (db w') \<noteq> outbox (db w)"
    unfolding start_planned_def
    by (rule committed_run) (auto simp: run_Inr writeOutbox_Inr Let_def dest!: update_transaction_outbox)
  then show "db w' \<noteq> db w" by auto
qed


lemma start_sample_run:
  "fst (startTransactionHandler ''EN0000001'' (start_request ''s1'' 1000) sample_world) = Inr (start_response 1)"
  by code_simp


section \<open>Authorizing\<close>

text \<open>\<open>Authorize\<close> answers \<open>Accepted\<close> exactly for a token that is on file, is accepted and has not expired at the
  moment of the answer, and it changes nothing in the database.\<close>

theorem authorize_decides:
  assumes run: "authorizeHandler s p w = (r, w')"
  shows "db w' = db w \<and>
    (\<forall>resp. r = Inr resp \<longrightarrow> (\<exists>tag. js_get p ''idTag'' = JStr tag \<and>
       (js_get (js_get resp ''idTagInfo'') ''status'' = JStr ''Accepted'' \<longleftrightarrow>
          (\<exists>t. List.find (\<lambda>t. it_idTag t = tag) (idTokens (db w)) = Some t \<and> it_status t = IdAccepted \<and>
             (\<forall>e. it_expiryDate t = Some e \<longrightarrow> clock (host w) (tick w + 1) \<le> e)))))"
proof -
  have idle: "db w' = db w"
    using run by (auto simp: authorizeHandler_def andthen_def arg_def from_option_def raise_def ret_def db_read_def
        db_do_def js_now_def Let_def split: option.splits if_splits)
  have tag: "as_string v = Some x \<Longrightarrow> v = JStr x" for v x by (cases v) simp_all
  have accepted: "token_status_text st = ''Accepted'' \<longleftrightarrow> st = IdAccepted" for st by (cases st) simp_all
  show ?thesis
    using run idle
    by (auto simp: authorizeHandler_def run_Inr authorize_status_def accepted not_less dest!: tag split: option.splits if_splits)
qed

theorem authorize_decides_witness:
  "db (snd (authorizeHandler ''EN0000001'' (JObj [(''idTag'', JStr ''TAG1'')]) sample_world)) = sample_db"
  using authorize_decides [of "''EN0000001''" "JObj [(''idTag'', JStr ''TAG1'')]" sample_world
      "fst (authorizeHandler ''EN0000001'' (JObj [(''idTag'', JStr ''TAG1'')]) sample_world)"
      "snd (authorizeHandler ''EN0000001'' (JObj [(''idTag'', JStr ''TAG1'')]) sample_world)"] by simp

end
