(* ===== verification/Http.thy ===== *)
theory Http
  imports Commands
begin

text \<open>
  The HTTP side that the services share: requests and responses, the error handlers of
  \<open>packages/shared/src/middlewares\<close> and \<open>internal-api/index.ts\<close>, the numbers of a query string and the
  slices of a sorted table that the list endpoints return.  A controller is a program from a request to a
  response; an error it passes to \<open>next\<close> is thrown.  The body \<open>{success: true, data: x}\<close> is
  \<open>Data x\<close>, \<open>{success: false, error: {code, message}}\<close> is \<open>Refused code message\<close> and
  \<open>{error: {code, message}}\<close> is \<open>ApiRefused code message\<close>.
\<close>

section \<open>Requests and responses\<close>

record http_request =
  rq_params :: "(string \<times> string) list"
  rq_query :: "(string \<times> string) list"
  rq_headers :: "(string \<times> string) list"
  rq_body :: jsval
  rq_file :: "(string \<times> string) option"
  rq_username :: "string option"

datatype 'a body = Data 'a | Refused string string | ApiRefused string string

record 'a http_response =
  rs_status :: int
  rs_body :: 'a

type_synonym 'a answer = "'a body http_response"
type_synonym 'a controller = "http_request \<Rightarrow> 'a answer prog"

definition reply_data :: "int \<Rightarrow> 'a \<Rightarrow> 'a answer" where
  "reply_data status x = \<lparr>rs_status = status, rs_body = Data x\<rparr>"

definition refuse :: "int \<Rightarrow> string \<Rightarrow> string \<Rightarrow> 'a answer" where
  "refuse status code message = \<lparr>rs_status = status, rs_body = Refused code message\<rparr>"

definition param :: "http_request \<Rightarrow> string \<Rightarrow> string" where
  "param req k = (case map_get (rq_params req) k of None \<Rightarrow> ''undefined'' | Some v \<Rightarrow> v)"

text \<open>\<open>req.query.k ? String(req.query.k) : undefined\<close>\<close>

definition query_text :: "http_request \<Rightarrow> string \<Rightarrow> string option" where
  "query_text req k = (case map_get (rq_query req) k of None \<Rightarrow> None | Some v \<Rightarrow> if v = [] then None else Some v)"

text \<open>\<open>req.user?.username || 'unknown'\<close>\<close>

definition username :: "http_request \<Rightarrow> string" where
  "username req = (case rq_username req of None \<Rightarrow> ''unknown'' | Some u \<Rightarrow> if u = [] then ''unknown'' else u)"

section \<open>Error handlers\<close>

definition error_status :: "js_error \<Rightarrow> int" where
  "error_status e = (case e of AppErr a \<Rightarrow> ae_statusCode a | ZodErr _ \<Rightarrow> 400 | _ \<Rightarrow> 500)"

definition translated :: "host \<Rightarrow> app_error \<Rightarrow> string" where
  "translated h a = (case ae_messageKey a of None \<Rightarrow> ae_message a
     | Some k \<Rightarrow> if k = [] then ae_message a else translate h k)"

definition errorHandlerMiddleware :: "host \<Rightarrow> js_error \<Rightarrow> 'a answer" where
  "errorHandlerMiddleware h e =
     (case e of
        ZodErr m \<Rightarrow>
          (let t = translate h ''error:validationFailed'' in refuse 400 ''VALIDATION_ERROR'' (if t \<noteq> [] then t else m))
      | AppErr a \<Rightarrow> refuse (ae_statusCode a) (ae_code a) (translated h a)
      | _ \<Rightarrow> refuse 500 ''INTERNAL_ERROR'' (translate h ''error:internalServer''))"

definition appErrorHandler :: "host \<Rightarrow> js_error \<Rightarrow> string http_response" where
  "appErrorHandler h e =
     (case e of
        AppErr a \<Rightarrow> \<lparr>rs_status = ae_statusCode a, rs_body = translated h a\<rparr>
      | _ \<Rightarrow> \<lparr>rs_status = 500, rs_body = translate h ''error:internalServer''\<rparr>)"

text \<open>The handler of the internal router answers its own errors and passes the others on.\<close>

definition internalErrorHandler :: "host \<Rightarrow> js_error \<Rightarrow> 'a answer" where
  "internalErrorHandler h e =
     (case e of
        AppErr a \<Rightarrow> if ae_class a = InternalApiErr then \<lparr>rs_status = ae_statusCode a, rs_body = ApiRefused (ae_code a) (ae_message a)\<rparr>
                     else errorHandlerMiddleware h e
      | _ \<Rightarrow> errorHandlerMiddleware h e)"

definition respond :: "'a answer prog \<Rightarrow> 'a answer prog" where
  "respond m = catch_err m (\<lambda>e. ask (\<lambda>w. errorHandlerMiddleware (host w) e))"

definition respond_internal :: "'a answer prog \<Rightarrow> 'a answer prog" where
  "respond_internal m = catch_err m (\<lambda>e. ask (\<lambda>w. internalErrorHandler (host w) e))"

section \<open>Numbers of a query string\<close>

text \<open>\<open>Number(s)\<close> of a decimal text; \<open>None\<close> is \<open>NaN\<close>.  Hexadecimal texts and infinities are outside the model.\<close>

definition js_Number :: "string \<Rightarrow> rat option" where
  "js_Number s =
     (let t = js_trim s;
          (neg, u) = (case t of x # xs \<Rightarrow> if x = CHR ''-'' then (True, xs) else if x = CHR ''+'' then (False, xs) else (False, t)
                      | [] \<Rightarrow> (False, t));
          ds = takeWhile is_digit u; r = dropWhile is_digit u;
          (fs, r2) = (case r of x # xs \<Rightarrow> if x = CHR ''.'' then (takeWhile is_digit xs, dropWhile is_digit xs) else ([], r)
                      | [] \<Rightarrow> ([], r))
      in if t = [] then Some 0
         else if ds = [] \<and> fs = [] then None
         else (case parse_exponent r2 of
                 Some (e, []) \<Rightarrow>
                   (let m = of_nat (read_nat (ds @ fs)) * 10 powi (e - int (length fs)) :: rat
                    in Some (js_double (if neg then - m else m)))
               | _ \<Rightarrow> None))"

text \<open>\<open>Number(req.query.k) || d\<close>\<close>

definition number_or :: "http_request \<Rightarrow> string \<Rightarrow> rat \<Rightarrow> rat" where
  "number_or req k d =
     (case Option.bind (map_get (rq_query req) k) js_Number of None \<Rightarrow> d | Some n \<Rightarrow> if n = 0 then d else n)"

text \<open>\<open>req.query.k ? Number(req.query.k) : undefined\<close>, for the pagination, where \<open>NaN\<close> counts as absent.\<close>

definition query_number :: "http_request \<Rightarrow> string \<Rightarrow> jsval" where
  "query_number req k =
     (case Option.bind (query_text req k) js_Number of None \<Rightarrow> JUndefined | Some n \<Rightarrow> JNum n)"

text \<open>\<open>Number(req.params.id)\<close> as the key of a row: \<open>NaN\<close> and fractions are refused by the client.\<close>

definition id_arg :: "http_request \<Rightarrow> int prog" where
  "id_arg req = arg (Option.bind (js_Number (param req ''id'')) (\<lambda>n. as_int (JNum n)))"

section \<open>Slices\<close>

text \<open>\<open>findMany({skip, take})\<close> with numbers of the query: a negative \<open>take\<close> counts from the end, a negative \<open>skip\<close>
  and fractions are refused.\<close>

definition slice :: "rat \<Rightarrow> rat \<Rightarrow> 'a list \<Rightarrow> 'a list option" where
  "slice sk tk xs =
     (case (as_int (JNum sk), as_int (JNum tk)) of
        (Some s, Some t) \<Rightarrow>
          if s < 0 then None
          else if 0 \<le> t then Some (take (nat t) (drop (nat s) xs))
          else Some (rev (take (nat (- t)) (drop (nat s) (rev xs))))
      | _ \<Rightarrow> None)"

record 'a listing =
  li_items :: "'a list"
  li_total :: nat
  li_page :: rat
  li_limit :: rat
  li_totalPages :: int

definition listing :: "rat \<Rightarrow> rat \<Rightarrow> (db \<Rightarrow> 'a list) \<Rightarrow> 'a listing prog" where
  "listing page limit rows =
     andthen (db_read rows) (\<lambda>xs.
     andthen (arg (slice (js_mul (js_sub page 1) limit) limit xs)) (\<lambda>items.
     andthen (db_read (\<lambda>d. length (rows d))) (\<lambda>n.
     ret \<lparr>li_items = items, li_total = n, li_page = page, li_limit = limit,
       li_totalPages = js_ceil (js_div (of_nat n) limit)\<rparr>)))"

text \<open>Rows ordered by \<open>createdAt: desc\<close>: the time of the insertion is the database's default.\<close>

definition newest_first :: "'a list \<Rightarrow> 'a list" where
  "newest_first = rev"

text \<open>\<open>findMany\<close> and \<open>count\<close> with the limits of \<open>parsePagination\<close>.\<close>

definition paged_rows :: "jsval \<Rightarrow> jsval \<Rightarrow> (db \<Rightarrow> 'a list) \<Rightarrow> 'a paged prog" where
  "paged_rows page limit rows =
     andthen (db_read rows) (\<lambda>xs.
     andthen (db_read (\<lambda>d. length (rows d))) (\<lambda>n.
     let pg = parsePagination page limit in
     ret \<lparr>pr_items = page_of pg xs, pr_total = n, pr_page = pg_page pg, pr_limit = pg_limit pg,
       pr_totalPages = total_pages pg n\<rparr>))"

text \<open>\<open>contains\<close> with \<open>mode: insensitive\<close>\<close>

definition icontains :: "string \<Rightarrow> string option \<Rightarrow> bool" where
  "icontains k v = (case v of None \<Rightarrow> False | Some s \<Rightarrow> js_includes (js_lower s) (js_lower k))"

definition has_keyword :: "string option \<Rightarrow> string option list \<Rightarrow> bool" where
  "has_keyword q vs = (case q of None \<Rightarrow> True | Some k \<Rightarrow> k = [] \<or> list_ex (icontains k) vs)"

section \<open>Zod\<close>

text \<open>The checks of a schema: an optional field may be absent (\<open>undefined\<close>), and a field of the wrong type fails.\<close>

definition zod :: "bool \<Rightarrow> string \<Rightarrow> unit prog" where
  "zod ok message = (if ok then ret () else raise (ZodErr message))"

definition z_string :: "nat \<Rightarrow> nat \<Rightarrow> jsval \<Rightarrow> bool" where
  "z_string lo hi v = (case v of JStr s \<Rightarrow> lo \<le> length s \<and> length s \<le> hi | _ \<Rightarrow> False)"

definition z_text :: "jsval \<Rightarrow> bool" where
  "z_text v = (case v of JStr s \<Rightarrow> True | _ \<Rightarrow> False)"

definition z_optional :: "(jsval \<Rightarrow> bool) \<Rightarrow> jsval \<Rightarrow> bool" where
  "z_optional P v \<longleftrightarrow> v = JUndefined \<or> P v"

definition z_number :: "rat \<Rightarrow> rat \<Rightarrow> jsval \<Rightarrow> bool" where
  "z_number lo hi v = (case v of JNum n \<Rightarrow> lo \<le> n \<and> n \<le> hi | _ \<Rightarrow> False)"

definition z_positive_int :: "jsval \<Rightarrow> bool" where
  "z_positive_int v = (case as_int v of None \<Rightarrow> False | Some i \<Rightarrow> 0 < i)"

definition z_bool :: "jsval \<Rightarrow> bool" where
  "z_bool v = (case v of JBool b \<Rightarrow> True | _ \<Rightarrow> False)"

fun z_object :: "jsval \<Rightarrow> bool" where
  "z_object (JObj fs) = True"
| "z_object _ = False"

section \<open>Responses never throw\<close>

lemma respond_Inr: "\<exists>x. fst (respond m w) = Inr x" "\<exists>x. fst (respond_internal m w) = Inr x"
  by (simp_all add: respond_def respond_internal_def catch_err_def ask_def split: prod.splits sum.splits)

lemma errorHandler_status: "rs_status (errorHandlerMiddleware h e) = error_status e"
  by (simp add: errorHandlerMiddleware_def error_status_def refuse_def Let_def split: js_error.splits)

lemma internalHandler_status: "rs_status (internalErrorHandler h e) = error_status e"
  by (simp add: internalErrorHandler_def errorHandler_status error_status_def refuse_def split: js_error.splits)

context contract
begin

lemma conforms_respond [contract_intros]:
  "conforms R m \<Longrightarrow> conforms R (respond m)" "conforms R m \<Longrightarrow> conforms R (respond_internal m)"
  unfolding respond_def respond_internal_def by (intro conforms_catch conforms_ask; assumption)+

lemma conforms_listing [contract_intros]: "conforms R (listing page limit rows)"
  unfolding listing_def by (intro conforms_andthen conforms_db_read conforms_arg conforms_ret)

lemma conforms_paged_rows [contract_intros]: "conforms R (paged_rows page limit rows)"
  unfolding paged_rows_def by (intro conforms_andthen conforms_db_read conforms_let conforms_ret)

lemma conforms_zod [contract_intros]: "conforms R (zod ok message)"
  by (simp add: zod_def conforms_ret conforms_raise)

lemma conforms_id_arg [contract_intros]: "conforms R (id_arg req)"
  unfolding id_arg_def by (rule conforms_arg)

end

end
