(* ===== verification/AdminStore.thy ===== *)
theory AdminStore
  imports Http
begin

text \<open>
  The database calls of the administrative services: provisioning records, manufacturers, id tokens, charger
  settings, firmware and campaigns, and the deletion of a station.  A deletion follows the referential actions of
  the migrations: a station with connectors, sessions, messages or logs is restricted, its command records, campaign rows
  and provisioning record lose the reference; an id token that is deleted disappears from its sessions.
\<close>

section \<open>Provisioning records and manufacturers\<close>

definition unique_opt :: "'a option \<Rightarrow> 'a option \<Rightarrow> bool" where
  "unique_opt v u \<longleftrightarrow> v \<noteq> None \<and> v = u"

definition manufacturer_ref :: "int option \<Rightarrow> db \<Rightarrow> bool" where
  "manufacturer_ref i d \<longleftrightarrow> (case i of None \<Rightarrow> True | Some m \<Rightarrow> list_ex (\<lambda>r. ma_id r = m) (manufacturers d))"

definition provisioning_clash :: "ChargerProvisioning \<Rightarrow> ChargerProvisioning \<Rightarrow> bool" where
  "provisioning_clash q r \<longleftrightarrow> pv_id q = pv_id r \<or> pv_serialNumber q = pv_serialNumber r
     \<or> unique_opt (pv_clientId q) (pv_clientId r) \<or> unique_opt (pv_stationId q) (pv_stationId r)"

definition create_provisioning :: "ChargerProvisioning \<Rightarrow> ChargerProvisioning db_op" where
  "create_provisioning r = with_id TProvisioning (\<lambda>i.
     with_fk (\<lambda>d. station_ref (pv_stationId r) d \<and> manufacturer_ref (pv_manufacturerId r) d)
       (on_provisionings (insert_row provisioning_ok provisioning_clash (r\<lparr>pv_id := i\<rparr>))))"

text \<open>An update of a unique or referring column is checked against the other rows.\<close>

definition update_unique :: "('r \<Rightarrow> bool) \<Rightarrow> ('r \<Rightarrow> 'r \<Rightarrow> bool) \<Rightarrow> ('r \<Rightarrow> bool) \<Rightarrow> ('r \<Rightarrow> 'r) \<Rightarrow> 'r list \<Rightarrow>
    prisma_error + 'r \<times> 'r list" where
  "update_unique ok clash P f rows =
     (case List.find P rows of
        None \<Rightarrow> Inl RecordNotFound
      | Some r \<Rightarrow>
          if \<not> ok (f r) then Inl ValueTooLong
          else if list_ex (\<lambda>q. \<not> P q \<and> clash q (f r)) rows then Inl UniqueViolation
          else Inr (f r, update_where P f rows))"

lemma update_unique_Inr:
  "update_unique ok clash P f rows = Inr (x, rows') \<longleftrightarrow>
     (\<exists>r. List.find P rows = Some r \<and> ok (f r) \<and> x = f r \<and> (\<forall>q \<in> set rows. P q \<or> \<not> clash q (f r))) \<and>
     rows' = update_where P f rows"
  by (auto simp: update_unique_def list_ex_iff split: option.splits)

definition update_provisioning :: "(ChargerProvisioning \<Rightarrow> bool) \<Rightarrow> (ChargerProvisioning \<Rightarrow> ChargerProvisioning) \<Rightarrow>
    ChargerProvisioning db_op" where
  "update_provisioning P f d =
     (case List.find P (provisionings d) of
        Some r \<Rightarrow> with_fk (station_ref (pv_stationId (f r))) (on_provisionings (update_unique provisioning_ok provisioning_clash P f)) d
      | None \<Rightarrow> Inl RecordNotFound)"

lemma update_provisioning_Inr:
  "update_provisioning P f d = Inr (x, d') \<longleftrightarrow>
     (\<exists>r rows. List.find P (provisionings d) = Some r \<and> station_ref (pv_stationId (f r)) d \<and>
        update_unique provisioning_ok provisioning_clash P f (provisionings d) = Inr (x, rows) \<and>
        d' = d\<lparr>provisionings := rows\<rparr>)"
  by (auto simp: update_provisioning_def with_fk_Inr on_provisionings_def lift_rows_Inr split: option.splits)

definition delete_provisioning :: "(ChargerProvisioning \<Rightarrow> bool) \<Rightarrow> ChargerProvisioning db_op" where
  "delete_provisioning P = on_provisionings (delete_row P)"

definition upsert_station :: "string \<Rightarrow> (ChargingStation \<Rightarrow> ChargingStation) \<Rightarrow> ChargingStation \<Rightarrow> ChargingStation db_op" where
  "upsert_station i f r = on_stations (upsert_row station_ok (\<lambda>q r. st_id q = st_id r) (\<lambda>q. st_id q = i) f r)"

text \<open>\<open>stationIdSequence.upsert\<close> with an increment; the counter is a 32-bit column.\<close>

definition next_station_number :: "int db_op" where
  "next_station_number d =
     (let n = (case stationSeq d of None \<Rightarrow> 1000001 | Some k \<Rightarrow> k + 1)
      in if int32 n then Inr (n, d\<lparr>stationSeq := Some n\<rparr>) else Inl ValueTooLong)"

definition create_manufacturer :: "Manufacturer \<Rightarrow> Manufacturer db_op" where
  "create_manufacturer r = with_id TManufacturer (\<lambda>i.
     on_manufacturers (insert_row manufacturer_ok (\<lambda>q r. ma_id q = ma_id r \<or> ma_channelId q = ma_channelId r) (r\<lparr>ma_id := i\<rparr>)))"

definition update_manufacturer :: "int \<Rightarrow> (Manufacturer \<Rightarrow> Manufacturer) \<Rightarrow> Manufacturer db_op" where
  "update_manufacturer i f = on_manufacturers (update_row manufacturer_ok (\<lambda>r. ma_id r = i) f)"

section \<open>Id tokens and settings\<close>

definition create_idToken :: "IdToken \<Rightarrow> IdToken db_op" where
  "create_idToken r = on_idTokens (insert_row (\<lambda>r. fits 50 (it_idTag r)) (\<lambda>q r. it_idTag q = it_idTag r) r)"

definition update_idToken :: "string \<Rightarrow> (IdToken \<Rightarrow> IdToken) \<Rightarrow> IdToken db_op" where
  "update_idToken t f = on_idTokens (update_row (\<lambda>_. True) (\<lambda>r. it_idTag r = t) f)"

definition delete_idToken :: "string \<Rightarrow> IdToken db_op" where
  "delete_idToken t d =
     (case on_idTokens (delete_row (\<lambda>r. it_idTag r = t)) d of
        Inl e \<Rightarrow> Inl e
      | Inr (x, d') \<Rightarrow> Inr (x, d'\<lparr>transactions :=
          update_where (\<lambda>r. tx_idTag r = Some t) (\<lambda>r. r\<lparr>tx_idTag := None\<rparr>) (transactions d')\<rparr>))"

lemma delete_idToken_Inr:
  "delete_idToken t d = Inr (x, d') \<longleftrightarrow>
     List.find (\<lambda>r. it_idTag r = t) (idTokens d) = Some x \<and>
     d' = d\<lparr>idTokens := filter (\<lambda>r. it_idTag r \<noteq> t) (idTokens d),
            transactions := update_where (\<lambda>r. tx_idTag r = Some t) (\<lambda>r. r\<lparr>tx_idTag := None\<rparr>) (transactions d)\<rparr>"
  by (auto simp: delete_idToken_def on_idTokens_def lift_rows_Inr delete_row_Inr split: sum.splits prod.splits)
    (auto simp: lift_rows_def delete_row_def split: option.splits)

definition create_config :: "ChargerConfig \<Rightarrow> ChargerConfig db_op" where
  "create_config r = with_id TConfig (\<lambda>i. on_configs (insert_row config_ok
     (\<lambda>q r. cc_id q = cc_id r \<or> cc_stationId q = cc_stationId r \<and> cc_key q = cc_key r) (r\<lparr>cc_id := i\<rparr>)))"

definition update_config :: "int \<Rightarrow> (ChargerConfig \<Rightarrow> ChargerConfig) \<Rightarrow> ChargerConfig db_op" where
  "update_config i f = on_configs (update_row config_ok (\<lambda>r. cc_id r = i) f)"

definition delete_config :: "int \<Rightarrow> ChargerConfig db_op" where
  "delete_config i = on_configs (delete_row (\<lambda>r. cc_id r = i))"

definition update_faultLog :: "int \<Rightarrow> (FaultLog \<Rightarrow> FaultLog) \<Rightarrow> FaultLog db_op" where
  "update_faultLog i f = on_faultLogs (update_row faultLog_ok (\<lambda>r. fl_id r = i) f)"

section \<open>Firmware\<close>

definition create_firmware :: "Firmware \<Rightarrow> Firmware db_op" where
  "create_firmware r = with_id TFirmware (\<lambda>i. on_firmwares (insert_row firmware_ok
     (\<lambda>q r. fw_id q = fw_id r \<or> fw_filename q = fw_filename r \<or> fw_sha256 q = fw_sha256 r) (r\<lparr>fw_id := i\<rparr>)))"

definition update_firmware :: "int \<Rightarrow> (Firmware \<Rightarrow> Firmware) \<Rightarrow> Firmware db_op" where
  "update_firmware i f = on_firmwares (update_row firmware_ok (\<lambda>r. fw_id r = i) f)"

definition delete_firmware_row :: "int \<Rightarrow> Firmware db_op" where
  "delete_firmware_row i = with_fk (\<lambda>d. \<not> list_ex (\<lambda>c. ca_firmwareId c = i) (campaigns d))
     (on_firmwares (delete_row (\<lambda>r. fw_id r = i)))"

definition create_campaign :: "FirmwareCampaign \<Rightarrow> FirmwareCampaign db_op" where
  "create_campaign r = with_id TCampaign (\<lambda>i.
     with_fk (\<lambda>d. list_ex (\<lambda>f. fw_id f = ca_firmwareId r) (firmwares d))
       (on_campaigns (insert_row campaign_ok (\<lambda>q r. ca_id q = ca_id r) (r\<lparr>ca_id := i\<rparr>))))"

text \<open>\<open>createMany\<close>: all rows or none; a station may occur once in a campaign.\<close>

definition create_progresses :: "int \<Rightarrow> string list \<Rightarrow> int \<Rightarrow> nat db_op" where
  "create_progresses campaignId ss now d =
     (let i = seqs d TProgress;
          rows = map (\<lambda>(k, s). \<lparr>fp_id = i + 1 + int k, fp_campaignId = campaignId, fp_stationId = Some s, fp_status = FpQueued,
            fp_startedAt = None, fp_completedAt = None, fp_error = None, fp_updatedAt = now\<rparr>) (enumerate 0 ss)
      in if \<not> list_all (\<lambda>s. station_exists s d) ss then Inl ForeignKeyViolation
         else if \<not> distinct ss \<or> list_ex (\<lambda>r. fp_campaignId r = campaignId \<and> fp_stationId r \<in> Some ` set ss) (progresses d)
         then Inl UniqueViolation
         else Inr (length ss, d\<lparr>progresses := progresses d @ rows, seqs := (seqs d)(TProgress := i + int (length ss))\<rparr>))"

definition update_progresses :: "(FirmwareCampaignProgress \<Rightarrow> bool) \<Rightarrow> (FirmwareCampaignProgress \<Rightarrow> FirmwareCampaignProgress) \<Rightarrow>
    nat db_op" where
  "update_progresses P f = on_progresses (update_rows progress_ok P f)"

section \<open>Deleting a station\<close>

definition delete_station_row :: "string \<Rightarrow> ChargingStation db_op" where
  "delete_station_row i =
     with_fk (\<lambda>d. \<not> list_ex (\<lambda>r. co_stationId r = i) (connectors d) \<and> \<not> list_ex (\<lambda>r. tx_stationId r = i) (transactions d)
         \<and> \<not> list_ex (\<lambda>r. om_stationId r = i) (ocppMessages d) \<and> \<not> list_ex (\<lambda>r. dr_stationId r = i) (diagnostics d)
         \<and> \<not> list_ex (\<lambda>r. fl_stationId r = i) (faultLogs d) \<and> \<not> list_ex (\<lambda>r. ol_stationId r = i) (offlineLogs d))
       (\<lambda>d. case on_stations (delete_row (\<lambda>r. st_id r = i)) d of
              Inl e \<Rightarrow> Inl e
            | Inr (x, d') \<Rightarrow> Inr (x, d'
                \<lparr>commandResults := update_where (\<lambda>r. cr_stationId r = Some i) (\<lambda>r. r\<lparr>cr_stationId := None\<rparr>) (commandResults d'),
                 progresses := update_where (\<lambda>r. fp_stationId r = Some i) (\<lambda>r. r\<lparr>fp_stationId := None\<rparr>) (progresses d'),
                 provisionings := update_where (\<lambda>r. pv_stationId r = Some i) (\<lambda>r. r\<lparr>pv_stationId := None\<rparr>) (provisionings d')\<rparr>))"

text \<open>The \<open>deleteMany\<close> and \<open>updateMany\<close> calls on the rows of one station.\<close>

definition clear_station_rows :: "string \<Rightarrow> unit prog" where
  "clear_station_rows i =
     andthen (db_do (on_ocppMessages (delete_rows (\<lambda>r. om_stationId r = i)))) (\<lambda>_.
     andthen (db_do (on_offlineLogs (delete_rows (\<lambda>r. ol_stationId r = i)))) (\<lambda>_.
     andthen (db_do (on_faultLogs (delete_rows (\<lambda>r. fl_stationId r = i)))) (\<lambda>_.
     andthen (db_do (on_configs (delete_rows (\<lambda>r. cc_stationId r = i)))) (\<lambda>_.
     andthen (db_do (on_diagnostics (delete_rows (\<lambda>r. dr_stationId r = i)))) (\<lambda>_.
     andthen (db_do (on_connectors (delete_rows (\<lambda>r. co_stationId r = i)))) (\<lambda>_.
     andthen (db_do (update_progresses (\<lambda>r. fp_stationId r = Some i) (\<lambda>r. r\<lparr>fp_stationId := None\<rparr>))) (\<lambda>_.
     andthen (db_do (on_provisionings (update_rows provisioning_ok (\<lambda>r. pv_stationId r = Some i) (\<lambda>r. r\<lparr>pv_stationId := None\<rparr>)))) (\<lambda>_.
     ret ()))))))))"

lemmas admin_defs = create_provisioning_def delete_provisioning_def upsert_station_def
  create_manufacturer_def update_manufacturer_def create_idToken_def update_idToken_def
  create_config_def update_config_def delete_config_def update_faultLog_def create_firmware_def update_firmware_def
  delete_firmware_row_def create_campaign_def update_progresses_def

lemmas admin_Inr = update_unique_Inr update_provisioning_Inr delete_idToken_Inr

lemma next_station_number_Inr:
  "next_station_number d = Inr (n, d') \<longleftrightarrow>
     n = (case stationSeq d of None \<Rightarrow> 1000001 | Some k \<Rightarrow> k + 1) \<and> int32 n \<and> d' = d\<lparr>stationSeq := Some n\<rparr>"
  by (auto simp: next_station_number_def Let_def)

lemma map_Some_enumerate: "map (\<lambda>p. Some (snd p)) (enumerate k xs) = map Some xs"
  by (induction xs arbitrary: k) simp_all

lemma create_progresses_Inr:
  "create_progresses c ss now d = Inr (n, d') \<Longrightarrow>
     n = length ss \<and> distinct ss \<and> (\<forall>s \<in> set ss. station_exists s d) \<and>
     (\<exists>rows. d' = d\<lparr>progresses := progresses d @ rows, seqs := seqs d'\<rparr> \<and> map fp_stationId rows = map Some ss \<and>
        (\<forall>r \<in> set rows. fp_campaignId r = c \<and> fp_status r = FpQueued))"
  by (auto simp: create_progresses_def Let_def list_all_iff in_set_enumerate_eq split: if_splits
      intro!: exI [of _ "map (\<lambda>(k, s). \<lparr>fp_id = seqs d TProgress + 1 + int k, fp_campaignId = c, fp_stationId = Some s, fp_status = FpQueued,
            fp_startedAt = None, fp_completedAt = None, fp_error = None, fp_updatedAt = now\<rparr>) (enumerate 0 ss)"])
    (simp_all add: case_prod_unfold comp_def map_Some_enumerate)

end
