(* ===== verification/Provisioning.thy ===== *)
theory Provisioning
  imports AdminStore
begin

text \<open>
  Registration and provisioning of charging stations: \<open>services/provision.service.ts\<close>, its controller, the
  authentication of a manufacturer (\<open>middlewares/manufacturerAuth.middleware.ts\<close>) and the routes of the portal and of the
  internal API.  A charger that knows its serial number and its manufacturer's token receives a station id and
  a fresh OCPP password; the password is stored as a hash only.  Arguments that come unchecked from a
  request body are JSON values, checked where the database client checks them.
\<close>

definition the_default :: "'a \<Rightarrow> 'a option \<Rightarrow> 'a" where
  "the_default x v = (case v of None \<Rightarrow> x | Some y \<Rightarrow> y)"

text \<open>An optional field of an update.\<close>

definition keep_or :: "'a option \<Rightarrow> 'a option \<Rightarrow> 'a option" where
  "keep_or old new = (case new of None \<Rightarrow> old | Some x \<Rightarrow> Some x)"

section \<open>provision\<close>

record ProvisionResult =
  pr_station_id :: string
  pr_csms_server :: string
  pr_uri :: string
  pr_port :: int
  pr_password :: string

text \<open>The operand of \<open>||\<close>: an empty text counts as absent.\<close>

definition nonempty :: "string option \<Rightarrow> string option" where
  "nonempty v = (case v of None \<Rightarrow> None | Some s \<Rightarrow> if s = [] then None else Some s)"

definition find_serial :: "string \<Rightarrow> db \<Rightarrow> ChargerProvisioning option" where
  "find_serial sn d = List.find (\<lambda>r. pv_serialNumber r = sn) (provisionings d)"

definition unregistered :: app_error where
  "unregistered = NotFoundError ''unregistered charger'' ''station:provisionRejected''"

definition generateStationId :: "string prog" where
  "generateStationId =
     andthen (db_do next_station_number) (\<lambda>n. ret (''EN'' @ js_padStart 7 (CHR ''0'') (show_int n)))"

definition new_station :: "string \<Rightarrow> string \<Rightarrow> string option \<Rightarrow> string option \<Rightarrow> int option \<Rightarrow> rat \<Rightarrow> ChargingStation" where
  "new_station i serialNumber passwordHash modelName siteId kwh =
     \<lparr>st_id = i, st_modelName = modelName, st_vendorName = None, st_manufacturer = None, st_firmwareVersion = None,
      st_chargingKwh = kwh, st_firmwareStatus = None, st_diagnosticsStatus = None, st_serialNumber = Some serialNumber,
      st_passwordHash = passwordHash, st_status = StOffline, st_lastHeartbeatAt = None, st_siteId = siteId\<rparr>"

definition station_id_of :: "ChargerProvisioning \<Rightarrow> string prog" where
  "station_id_of r =
     (case nonempty (pv_stationId r) of
        Some s \<Rightarrow> ret s
      | None \<Rightarrow> (case nonempty (pv_clientId r) of Some s \<Rightarrow> ret s | None \<Rightarrow> generateStationId))"

definition model_or :: "string option \<Rightarrow> ChargingStation \<Rightarrow> ChargingStation" where
  "model_or m s = (case m of None \<Rightarrow> s | Some x \<Rightarrow> s\<lparr>st_modelName := Some x\<rparr>)"

definition store_credentials :: "ChargerProvisioning \<Rightarrow> string \<Rightarrow> string \<Rightarrow> string option \<Rightarrow> int \<Rightarrow> unit prog" where
  "store_credentials r stationId passwordHash resolvedModel now =
     db_transaction
       (andthen (db_do (upsert_station stationId (\<lambda>s. model_or resolvedModel (s\<lparr>st_passwordHash := Some passwordHash\<rparr>))
            (new_station stationId (pv_serialNumber r) (Some passwordHash) resolvedModel None (pv_chargingKwh r)))) (\<lambda>_.
        andthen (db_do (update_provisioning (\<lambda>q. pv_serialNumber q = pv_serialNumber r)
            (\<lambda>q. q\<lparr>pv_stationId := Some stationId, pv_status := PvProvisioned, pv_provisionedAt := Some now\<rparr>))) (\<lambda>_.
        ret ())))"

definition provision :: "string \<Rightarrow> string option \<Rightarrow> int option \<Rightarrow> ProvisionResult prog" where
  "provision serialNumber model manufacturerId =
     andthen (db_read (find_serial serialNumber)) (\<lambda>found.
     andthen (from_option (AppErr unregistered) found) (\<lambda>r.
     if manufacturerId \<noteq> None \<and> pv_manufacturerId r \<noteq> manufacturerId then raise (AppErr unregistered)
     else if pv_status r \<in> {PvRejected, PvRevoked}
     then raise (AppErr (ForbiddenError ''unregistered charger'' ''station:provisionRejected''))
     else
       andthen (station_id_of r) (\<lambda>stationId.
       andthen (random_password 32) (\<lambda>plainPassword.
       andthen (ask (\<lambda>w. bcrypt_hash (host w) plainPassword)) (\<lambda>passwordHash.
       andthen js_now (\<lambda>now.
       andthen (store_credentials r stationId passwordHash
          (case nonempty model of Some m \<Rightarrow> Some m | None \<Rightarrow> nonempty (pv_modelName r)) now) (\<lambda>_.
       andthen (only_if (pv_status r = PvProvisioned) (forceDisconnect stationId)) (\<lambda>_.
       andthen (ask (\<lambda>w. csms_url (host w))) (\<lambda>url.
       ret \<lparr>pr_station_id = stationId, pr_csms_server = url, pr_uri = ''/ws/'', pr_port = 443,
         pr_password = plainPassword\<rparr>)))))))))"

section \<open>register\<close>

definition station_of :: "db \<Rightarrow> ChargerProvisioning \<Rightarrow> ChargerProvisioning \<times> ChargingStation option" where
  "station_of d r = (r, Option.bind (pv_stationId r) (\<lambda>i. find_station i d))"

definition new_provisioning :: "string \<Rightarrow> string \<Rightarrow> string option \<Rightarrow> string option \<Rightarrow> int option \<Rightarrow> rat option \<Rightarrow> ChargerProvisioning" where
  "new_provisioning serialNumber registeredBy modelName clientId manufacturerId chargingKwh =
     \<lparr>pv_id = 0, pv_serialNumber = serialNumber, pv_modelName = modelName, pv_clientId = clientId,
      pv_stationId = clientId, pv_status = PvRegistered, pv_registeredBy = Some registeredBy, pv_provisionedAt = None,
      pv_rejectReason = None, pv_manufacturerId = manufacturerId,
      pv_chargingKwh = (case chargingKwh of None \<Rightarrow> 7 / 2 | Some k \<Rightarrow> decimal_round 2 k)\<rparr>"

text \<open>\<open>v ? {k: v} : {}\<close> for a column of the given type.\<close>

definition spread :: "(jsval \<Rightarrow> 'a option) \<Rightarrow> jsval \<Rightarrow> 'a option prog" where
  "spread conv v = (if js_truthy v then andthen (arg (conv v)) (\<lambda>x. ret (Some x)) else ret None)"

definition register_serial :: "jsval \<Rightarrow> string \<Rightarrow> jsval \<Rightarrow> jsval \<Rightarrow> jsval \<Rightarrow> jsval \<Rightarrow> rat option \<Rightarrow> ChargerProvisioning prog" where
  "register_serial serialNumber registeredBy modelName clientId siteId manufacturerId chargingKwh =
     andthen (arg (as_string serialNumber)) (\<lambda>sn.
     andthen (db_read (find_serial sn)) (\<lambda>existing.
     case existing of
       Some _ \<Rightarrow> raise (AppErr (conflict_default ''serial number already registered''))
     | None \<Rightarrow>
         if js_truthy clientId then
           andthen (arg (as_string clientId)) (\<lambda>cid.
           andthen (db_read (find_station cid)) (\<lambda>existingStation.
           if existingStation \<noteq> None
           then raise (AppErr (conflict_default (''charger id '' @ cid @ '' is already in use'')))
           else
             db_transaction
               (andthen (spread as_string modelName) (\<lambda>m.
                andthen (spread as_int siteId) (\<lambda>site.
                andthen (db_do (create_station (new_station cid sn None m site
                   (case chargingKwh of None \<Rightarrow> 7 / 2 | Some k \<Rightarrow> decimal_round 2 k)))) (\<lambda>_.
                andthen (spread as_int manufacturerId) (\<lambda>mf.
                db_do (create_provisioning (new_provisioning sn registeredBy m (Some cid) mf chargingKwh)))))))) )
         else
           andthen (spread as_string modelName) (\<lambda>m.
           andthen (spread as_int manufacturerId) (\<lambda>mf.
           db_do (create_provisioning (new_provisioning sn registeredBy m None mf chargingKwh))))))"

section \<open>Queries and changes\<close>

definition provisioning_status_of :: "string \<Rightarrow> ProvisioningStatus option" where
  "provisioning_status_of s =
     (if s = ''registered'' then Some PvRegistered else if s = ''provisioned'' then Some PvProvisioned
      else if s = ''rejected'' then Some PvRejected else if s = ''revoked'' then Some PvRevoked else None)"

text \<open>\<open>if (params.status) where.status = params.status\<close>: a text that is no value of the enumeration is refused.\<close>

definition enum_filter :: "(string \<Rightarrow> 'a option) \<Rightarrow> string option \<Rightarrow> ('a \<Rightarrow> bool) prog" where
  "enum_filter parse q =
     (case nonempty q of
        None \<Rightarrow> ret (\<lambda>_. True)
      | Some s \<Rightarrow> andthen (arg (parse s)) (\<lambda>v. ret (\<lambda>x. x = v)))"

definition list_provisionings :: "string option \<Rightarrow> string option \<Rightarrow> jsval \<Rightarrow> jsval \<Rightarrow>
    (ChargerProvisioning \<times> ChargingStation option) paged prog" where
  "list_provisionings status keyword page limit =
     andthen (enum_filter provisioning_status_of status) (\<lambda>by_status.
     paged_rows page limit (\<lambda>d. map (station_of d) (newest_first (filter (\<lambda>r. by_status (pv_status r) \<and>
       has_keyword keyword [Some (pv_serialNumber r), pv_stationId r, pv_registeredBy r]) (provisionings d)))))"

definition find_provisioning :: "int \<Rightarrow> (ChargerProvisioning \<times> ChargingStation option) prog" where
  "find_provisioning i =
     andthen (db_read (\<lambda>d. map_option (station_of d) (List.find (\<lambda>r. pv_id r = i) (provisionings d)))) (\<lambda>found.
     from_option (AppErr (not_found_default ''provisioning record not found'')) found)"

definition find_provisioning_by_station :: "string \<Rightarrow> ChargerProvisioning option prog" where
  "find_provisioning_by_station stationId =
     db_read (\<lambda>d. List.find (\<lambda>r. pv_stationId r = Some stationId) (provisionings d))"

text \<open>A field that is \<open>undefined\<close> leaves the column alone.\<close>

fun kwh_update :: "jsval \<Rightarrow> (rat \<Rightarrow> rat) option" where
  "kwh_update JUndefined = Some (\<lambda>x. x)"
| "kwh_update (JNum r) = Some (\<lambda>_. decimal_round 2 r)"
| "kwh_update _ = None"

fun text_update :: "jsval \<Rightarrow> (string \<Rightarrow> string) option" where
  "text_update JUndefined = Some (\<lambda>x. x)"
| "text_update (JStr s) = Some (\<lambda>_. s)"
| "text_update _ = None"

definition update_record :: "int \<Rightarrow> jsval \<Rightarrow> jsval \<Rightarrow> jsval \<Rightarrow> ChargerProvisioning prog" where
  "update_record i serialNumber rejectReason chargingKwh =
     andthen (find_provisioning i) (\<lambda>(r, _).
     if js_truthy serialNumber \<and> pv_status r = PvProvisioned
     then raise (AppErr (conflict_default ''the serial number of a provisioned record cannot change''))
     else
       andthen (arg (text_update serialNumber)) (\<lambda>fs.
       andthen (arg (string_update rejectReason)) (\<lambda>fr.
       andthen (arg (kwh_update chargingKwh)) (\<lambda>fk.
       db_do (update_provisioning (\<lambda>q. pv_id q = i)
         (\<lambda>q. q\<lparr>pv_serialNumber := fs (pv_serialNumber q), pv_rejectReason := fr (pv_rejectReason q),
               pv_chargingKwh := fk (pv_chargingKwh q)\<rparr>))))))"

definition revoke :: "int \<Rightarrow> ChargerProvisioning prog" where
  "revoke i =
     andthen (find_provisioning i) (\<lambda>_.
     db_do (update_provisioning (\<lambda>q. pv_id q = i) (\<lambda>q. q\<lparr>pv_status := PvRevoked\<rparr>)))"

definition delete_record :: "int \<Rightarrow> ChargerProvisioning prog" where
  "delete_record i = andthen (find_provisioning i) (\<lambda>_. db_do (delete_provisioning (\<lambda>q. pv_id q = i)))"

definition deleteByStationId :: "string \<Rightarrow> ChargerProvisioning prog" where
  "deleteByStationId stationId =
     andthen (find_provisioning_by_station stationId) (\<lambda>found.
     andthen (from_option (AppErr (not_found_default ''provisioning record not found'')) found) (\<lambda>_.
     db_do (delete_provisioning (\<lambda>q. pv_stationId q = Some stationId))))"

section \<open>bulkRegister\<close>

text \<open>A row of the upload: \<open>br_kwh\<close> is \<open>None\<close> where the field is absent and \<open>Some None\<close> for \<open>NaN\<close>.\<close>

record bulk_row =
  br_serialNumber :: string
  br_channelId :: "string option"
  br_kwh :: "rat option option"

record bulk_result =
  bk_total :: nat
  bk_registered :: nat
  bk_skipped :: nat
  bk_errors :: "(string \<times> string) list"

datatype bulk_outcome = BulkRegistered | BulkSkipped | BulkFailed string string

text \<open>The names every object inherits: \<open>in\<close> finds them in the cache, and their values are objects.\<close>

definition object_members :: "string list" where
  "object_members = [''constructor'', ''toString'', ''valueOf'', ''hasOwnProperty'', ''isPrototypeOf'',
     ''propertyIsEnumerable'', ''toLocaleString'', ''__proto__'', ''__defineGetter__'', ''__defineSetter__'',
     ''__lookupGetter__'', ''__lookupSetter__'']"

type_synonym channel_cache = "(string \<times> int option) list"

definition cached :: "int option \<Rightarrow> jsval" where
  "cached v = (case v of None \<Rightarrow> JUndefined | Some i \<Rightarrow> js_int i)"

definition bulk_channel :: "channel_cache \<Rightarrow> string option \<Rightarrow> (jsval \<times> channel_cache) prog" where
  "bulk_channel cache channelId =
     (case nonempty channelId of
        None \<Rightarrow> ret (JUndefined, cache)
      | Some c \<Rightarrow>
          (let ch = js_trim c in
           case map_get cache ch of
             Some v \<Rightarrow> ret (cached v, cache)
           | None \<Rightarrow>
               if ch \<in> set object_members then ret (JObj [], cache)
               else andthen (db_read (\<lambda>d. map_option ma_id (List.find (\<lambda>m. ma_channelId m = ch) (manufacturers d)))) (\<lambda>v.
                    ret (cached v, map_set ch v cache))))"

definition bulk_failure :: "channel_cache \<Rightarrow> string \<Rightarrow> js_error \<Rightarrow> (bulk_outcome \<times> channel_cache) prog" where
  "bulk_failure cache sn e = ask (\<lambda>w. (BulkFailed sn (err_message (host w) e), cache))"

definition bulk_register :: "string \<Rightarrow> string \<Rightarrow> jsval \<Rightarrow> rat option \<Rightarrow> channel_cache \<Rightarrow> (bulk_outcome \<times> channel_cache) prog" where
  "bulk_register registeredBy sn manufacturerId kwh cache =
     catch_err
       (andthen (register_serial (JStr sn) registeredBy JUndefined JUndefined JUndefined manufacturerId kwh) (\<lambda>_.
        ret (BulkRegistered, cache)))
       (bulk_failure cache sn)"

definition bulk_try :: "string \<Rightarrow> string \<Rightarrow> rat option option \<Rightarrow> jsval \<Rightarrow> channel_cache \<Rightarrow> (bulk_outcome \<times> channel_cache) prog" where
  "bulk_try registeredBy sn kwh manufacturerId cache =
     (case kwh of
        Some None \<Rightarrow> ret (BulkFailed sn ''chargingKwh is not valid'', cache)
      | Some (Some k) \<Rightarrow>
          if k < 0 then ret (BulkFailed sn ''chargingKwh is not valid'', cache)
          else bulk_register registeredBy sn manufacturerId (Some k) cache
      | None \<Rightarrow> bulk_register registeredBy sn manufacturerId None cache)"

definition bulk_step :: "string \<Rightarrow> channel_cache \<Rightarrow> bulk_row \<Rightarrow> (bulk_outcome \<times> channel_cache) prog" where
  "bulk_step registeredBy cache row =
     (let sn = js_trim (br_serialNumber row) in
      if sn = [] then ret (BulkSkipped, cache)
      else
        catch_err
          (andthen (bulk_channel cache (br_channelId row)) (\<lambda>(manufacturerId, cache').
           bulk_try registeredBy sn (br_kwh row) manufacturerId cache'))
          (bulk_failure cache sn))"

definition bulk_count :: "bulk_outcome \<Rightarrow> bulk_result \<Rightarrow> bulk_result" where
  "bulk_count out res =
     (case out of
        BulkRegistered \<Rightarrow> res\<lparr>bk_registered := bk_registered res + 1\<rparr>
      | BulkSkipped \<Rightarrow> res\<lparr>bk_skipped := bk_skipped res + 1\<rparr>
      | BulkFailed sn reason \<Rightarrow> res\<lparr>bk_skipped := bk_skipped res + 1, bk_errors := bk_errors res @ [(sn, reason)]\<rparr>)"

primrec bulk_rows :: "string \<Rightarrow> bulk_row list \<Rightarrow> channel_cache \<Rightarrow> bulk_result \<Rightarrow> bulk_result prog" where
  "bulk_rows registeredBy [] cache res = ret res"
| "bulk_rows registeredBy (row # rows) cache res =
     andthen (bulk_step registeredBy cache row) (\<lambda>(out, cache'). bulk_rows registeredBy rows cache' (bulk_count out res))"

definition bulkRegister :: "bulk_row list \<Rightarrow> string \<Rightarrow> bulk_result prog" where
  "bulkRegister rows registeredBy =
     bulk_rows registeredBy rows [] \<lparr>bk_total = length rows, bk_registered = 0, bk_skipped = 0, bk_errors = []\<rparr>"

section \<open>manufacturerAuth.middleware.ts\<close>

record 'a charger_reply =
  ch_code :: int
  ch_status :: string
  ch_message :: string
  ch_data :: "'a option"

definition charger_refusal :: "int \<Rightarrow> string \<Rightarrow> string \<Rightarrow> 'a charger_reply http_response" where
  "charger_refusal code status message =
     \<lparr>rs_status = code, rs_body = \<lparr>ch_code = code, ch_status = status, ch_message = message, ch_data = None\<rparr>\<rparr>"

definition find_channel :: "string \<Rightarrow> db \<Rightarrow> Manufacturer option" where
  "find_channel c d = List.find (\<lambda>m. ma_channelId m = c) (manufacturers d)"

text \<open>\<open>Inr m\<close> is \<open>req.manufacturer = m; next()\<close>.\<close>

definition manufacturerAuth :: "http_request \<Rightarrow> ('a charger_reply http_response + Manufacturer) prog" where
  "manufacturerAuth req =
     andthen (ask host) (\<lambda>h.
     case (nonempty (map_get (rq_headers req) ''x-token''), nonempty (map_get (rq_headers req) ''x-channel'')) of
       (Some xToken, Some xChannel) \<Rightarrow>
         catch_err
           (andthen (db_read (find_channel xChannel)) (\<lambda>found.
            ret (case found of
                   None \<Rightarrow> Inl (charger_refusal 401 ''Unauthorized'' (translate h ''provisioning:authFailed''))
                 | Some m \<Rightarrow>
                     if \<not> ma_isActive m
                     then Inl (charger_refusal 401 ''Unauthorized'' (translate h ''provisioning:authFailed''))
                     else if \<not> (ma_tokenHash m \<noteq> [] \<and> bcrypt_compare h xToken (ma_tokenHash m))
                     then Inl (charger_refusal 401 ''Unauthorized'' (translate h ''provisioning:authFailed''))
                     else Inr m)))
           (\<lambda>_. ret (Inl (charger_refusal 500 ''Internal Server Error'' ''internal server error'')))
     | _ \<Rightarrow> ret (Inl (charger_refusal 401 ''Unauthorized'' (translate h ''provisioning:authHeaderMissing''))))"

section \<open>provision.controller.ts\<close>

record charger_credentials =
  cred_clientId :: string
  cred_pwd :: string
  cred_wsUrl :: string

text \<open>The fields of a validated body.\<close>

definition text_of :: "jsval \<Rightarrow> string option" where
  "text_of v = (case v of JStr s \<Rightarrow> Some s | _ \<Rightarrow> None)"

definition number_of :: "jsval \<Rightarrow> rat option" where
  "number_of v = (case v of JNum n \<Rightarrow> Some n | _ \<Rightarrow> None)"

definition chargerAuth :: "int option \<Rightarrow> http_request \<Rightarrow> charger_credentials charger_reply http_response prog" where
  "chargerAuth manufacturerId req =
     andthen (ask host) (\<lambda>h.
     let origin = js_get (rq_body req) ''origin''; model = js_get (rq_body req) ''model'' in
     if \<not> (z_object (rq_body req) \<and> z_string 1 100 origin \<and> z_string 1 100 model)
     then ret (charger_refusal 400 ''Bad Request'' (translate h ''provisioning:invalidBody''))
     else
       catch_err
         (andthen (provision (the_default [] (text_of origin)) (text_of model) manufacturerId) (\<lambda>result.
          ret \<lparr>rs_status = 200, rs_body = \<lparr>ch_code = 200, ch_status = ''OK'',
            ch_message = translate h ''provisioning:provisionSuccess'',
            ch_data = Some \<lparr>cred_clientId = pr_station_id result, cred_pwd = pr_password result,
              cred_wsUrl = pr_csms_server result\<rparr>\<rparr>\<rparr>))
         (\<lambda>e. ret (case e of
            AppErr a \<Rightarrow>
              if ae_class a = ForbiddenErr
              then charger_refusal 401 ''Unauthorized'' (translate h ''provisioning:provisionRejected'')
              else if ae_class a = ConflictErr
              then charger_refusal 409 ''Conflict'' (translate h ''provisioning:alreadyProvisioned'')
              else if ae_class a = NotFoundErr
              then charger_refusal 404 ''Not Found'' (translate h ''provisioning:provisionRejected'')
              else charger_refusal 500 ''Internal Server Error'' ''internal server error''
          | _ \<Rightarrow> charger_refusal 500 ''Internal Server Error'' ''internal server error'')))"

text \<open>The charger's endpoint: the manufacturer is authenticated first.\<close>

definition charger_endpoint :: "http_request \<Rightarrow> charger_credentials charger_reply http_response prog" where
  "charger_endpoint req =
     andthen (manufacturerAuth req) (\<lambda>auth.
     case auth of Inl refusal \<Rightarrow> ret refusal | Inr m \<Rightarrow> chargerAuth (Some (ma_id m)) req)"

text \<open>A successful answer of this route is the result itself.\<close>

definition provision_route :: "http_request \<Rightarrow> ProvisionResult answer prog" where
  "provision_route req =
     respond (andthen (zod (z_object (rq_body req) \<and> z_string 1 100 (js_get (rq_body req) ''serial_number''))
         ''serial_number is required'') (\<lambda>_.
       andthen (provision (the_default [] (text_of (js_get (rq_body req) ''serial_number''))) None None) (\<lambda>result.
       ret (reply_data 200 result))))"

definition kwh_ok :: "jsval \<Rightarrow> bool" where
  "kwh_ok = z_optional (z_number 0 (js_double (999999 / 100)))"

definition register_route :: "http_request \<Rightarrow> ChargerProvisioning answer prog" where
  "register_route req =
     (let b = rq_body req in
      respond (andthen (zod (z_object b \<and> z_string 1 100 (js_get b ''serialNumber'')
          \<and> z_optional (z_string 0 100) (js_get b ''modelName'') \<and> z_optional (z_string 0 50) (js_get b ''clientId'')
          \<and> z_optional z_positive_int (js_get b ''siteId'') \<and> z_optional z_positive_int (js_get b ''manufacturerId'')
          \<and> kwh_ok (js_get b ''chargingKwh'')) ''invalid registration'') (\<lambda>_.
        andthen (register_serial (js_get b ''serialNumber'') (username req) (js_get b ''modelName'') (js_get b ''clientId'')
          (js_get b ''siteId'') (js_get b ''manufacturerId'') (number_of (js_get b ''chargingKwh''))) (\<lambda>r.
        ret (reply_data 201 r)))))"

definition list_route :: "http_request \<Rightarrow> (ChargerProvisioning \<times> ChargingStation option) paged answer prog" where
  "list_route req =
     respond (andthen (list_provisionings (map_get (rq_query req) ''status'') (map_get (rq_query req) ''keyword'')
         (JNum (number_or req ''page'' 1)) (JNum (number_or req ''limit'' 20))) (\<lambda>result. ret (reply_data 200 result)))"

definition update_route :: "http_request \<Rightarrow> ChargerProvisioning answer prog" where
  "update_route req =
     (let b = rq_body req in
      respond (andthen (zod (z_object b \<and> z_optional (z_string 1 100) (js_get b ''serialNumber'')
          \<and> z_optional z_text (js_get b ''rejectReason'') \<and> kwh_ok (js_get b ''chargingKwh'')) ''invalid update'') (\<lambda>_.
        andthen (id_arg req) (\<lambda>i.
        andthen (update_record i (js_get b ''serialNumber'') (js_get b ''rejectReason'') (js_get b ''chargingKwh'')) (\<lambda>r.
        ret (reply_data 200 r))))))"

definition find_route :: "http_request \<Rightarrow> (ChargerProvisioning \<times> ChargingStation option) answer prog" where
  "find_route req = respond (andthen (id_arg req) (\<lambda>i. andthen (find_provisioning i) (\<lambda>r. ret (reply_data 200 r))))"

definition revoke_route :: "http_request \<Rightarrow> ChargerProvisioning answer prog" where
  "revoke_route req = respond (andthen (id_arg req) (\<lambda>i. andthen (revoke i) (\<lambda>r. ret (reply_data 200 r))))"

definition delete_route :: "http_request \<Rightarrow> string answer prog" where
  "delete_route req = respond (andthen (id_arg req) (\<lambda>i. andthen (delete_record i) (\<lambda>_.
     ret (reply_data 200 ''provisioning record deleted''))))"

section \<open>The upload of the portal and the internal API\<close>

text \<open>A record of the parsed file (\<open>csv-parse\<close>): the columns by their names.\<close>

definition csv_row :: "(string \<times> string) list \<Rightarrow> bulk_row" where
  "csv_row r =
     (let kwhRaw = js_trim (the_default [] (map_get r ''chargingKwh'')) in
      \<lparr>br_serialNumber = the_default [] (map_get r ''serialNumber''),
       br_channelId = nonempty (map_get r ''manufacturerChannelId''),
       br_kwh = (if kwhRaw = [] then None else Some (js_Number kwhRaw))\<rparr>)"

text \<open>\<open>parse_csv\<close> is the CSV parser, a third-party package.\<close>

definition bulk_upload :: "(string \<Rightarrow> js_error + (string \<times> string) list list) \<Rightarrow> http_request \<Rightarrow> bulk_result answer prog" where
  "bulk_upload parse_csv req =
     (case rq_file req of
        None \<Rightarrow> ret (refuse 400 ''BAD_REQUEST'' ''a CSV file is required'')
      | Some (_, content) \<Rightarrow>
          respond (case parse_csv content of
             Inl e \<Rightarrow> raise e
           | Inr records \<Rightarrow>
               andthen (bulkRegister (filter (\<lambda>r. br_serialNumber r \<noteq> []) (map csv_row records)) (username req)) (\<lambda>result.
               ret (reply_data 200 result))))"

definition internal_list :: "http_request \<Rightarrow> (ChargerProvisioning \<times> ChargingStation option) paged answer prog" where
  "internal_list req =
     respond_internal (andthen (list_provisionings (query_text req ''status'') (query_text req ''keyword'')
         (query_number req ''page'') (query_number req ''limit'')) (\<lambda>result. ret (reply_data 200 result)))"

definition internal_register :: "http_request \<Rightarrow> ChargerProvisioning answer prog" where
  "internal_register req =
     (let b = rq_body req in
      respond_internal
        (if \<not> js_truthy (js_get b ''serialNumber'') then raise (AppErr (api_badRequest ''serialNumber is required''))
         else andthen (register_serial (js_get b ''serialNumber'') ''internal-api'' (js_get b ''modelName'')
             (js_get b ''clientId'') (js_get b ''siteId'') (js_get b ''manufacturerId'') None) (\<lambda>r.
           ret (reply_data 201 r))))"

definition internal_reject :: "http_request \<Rightarrow> ChargerProvisioning answer prog" where
  "internal_reject req =
     respond_internal
       (if js_Number (param req ''id'') = None then raise (AppErr (api_badRequest ''id must be a number''))
        else andthen (id_arg req) (\<lambda>i.
          let reason = js_get (rq_body req) ''rejectReason'' in
          andthen (update_record i JUndefined reason JUndefined) (\<lambda>_.
          andthen (arg (string_update (js_coalesce reason JNull))) (\<lambda>fr.
          andthen (db_do (update_provisioning (\<lambda>q. pv_id q = i)
            (\<lambda>q. q\<lparr>pv_status := PvRejected, pv_rejectReason := fr (pv_rejectReason q)\<rparr>))) (\<lambda>r.
          ret (reply_data 200 r))))))"

end
