(* ===== verification/Firmware.thy ===== *)
theory Firmware
  imports Provisioning
begin

text \<open>
  Firmware files and update campaigns: \<open>services/firmware.service.ts\<close>, \<open>services/firmwareCampaign.service.ts\<close>,
  their repository, controller and validator, and the routes of the internal API.  The file system is the
  field \<open>files\<close> of the world; a call to it can fail.  Starting a campaign stores the targets in one
  transaction; the dispatch that the service starts without waiting is \<open>dispatchAll\<close>.
\<close>

section \<open>The file system\<close>

definition fs_do :: "((string \<times> string) list \<Rightarrow> (string \<times> string) list) \<Rightarrow> unit prog" where
  "fs_do f w =
     (let w1 = w\<lparr>tick := tick w + 1\<rparr> in
      if fails (host w) (tick w) then (Inl FsErr, w1) else (Inr (), w1\<lparr>files := f (files w)\<rparr>))"

definition getAbsolutePath :: "host \<Rightarrow> string \<Rightarrow> string" where
  "getAbsolutePath h filename = firmware_dir h @ ''/'' @ filename"

section \<open>firmware.service.ts\<close>

definition is_name_char :: "char \<Rightarrow> bool" where
  "is_name_char c =
     (let n = of_char c :: nat in 65 \<le> n \<and> n \<le> 90 \<or> 97 \<le> n \<and> n \<le> 122 \<or> is_digit c \<or> c \<in> {CHR ''.'', CHR ''_'', CHR ''-''})"

definition sanitized :: "string \<Rightarrow> string" where
  "sanitized s = take 200 (map (\<lambda>c. if is_name_char c then c else CHR ''_'') s)"

definition stored_name :: "string \<Rightarrow> string \<Rightarrow> string" where
  "stored_name sha256 originalName = take 12 sha256 @ ''-'' @ sanitized originalName"

record upload_params =
  up_originalName :: string
  up_version :: string
  up_chargerModel :: "string option"
  up_chargerVendor :: "string option"
  up_uploadedBy :: string
  up_notes :: "string option"

definition firmware_row :: "upload_params \<Rightarrow> string \<Rightarrow> string \<Rightarrow> Firmware" where
  "firmware_row p buffer sha256 =
     \<lparr>fw_id = 0, fw_filename = stored_name sha256 (up_originalName p), fw_originalName = up_originalName p,
      fw_version = up_version p, fw_chargerModel = up_chargerModel p, fw_chargerVendor = up_chargerVendor p,
      fw_fileSize = int (length buffer), fw_sha256 = sha256, fw_uploadedBy = up_uploadedBy p, fw_isActive = True,
      fw_notes = up_notes p\<rparr>"

text \<open>A file whose row cannot be stored is removed again.\<close>

definition store_firmware :: "string \<Rightarrow> Firmware \<Rightarrow> string \<Rightarrow> Firmware prog" where
  "store_firmware path row buffer =
     andthen (fs_do (map_set path buffer)) (\<lambda>_.
     catch_err (db_do (create_firmware row)) (\<lambda>err.
       andthen (ignore_err (fs_do (map_delete path))) (\<lambda>_. raise err)))"

definition upload :: "string \<Rightarrow> upload_params \<Rightarrow> Firmware prog" where
  "upload buffer p =
     andthen (ask host) (\<lambda>h.
     if buffer = [] then raise (AppErr (BadRequestError ''an empty file cannot be uploaded'' ''firmware:emptyFile''))
     else if int (length buffer) > firmware_max_mb h * 1024 * 1024
     then raise (AppErr (BadRequestError (''the file is larger than '' @ show_int (firmware_max_mb h) @ ''MB'') ''firmware:fileTooLarge''))
     else
       let sha256 = sha256_hex h buffer in
       andthen (db_read (\<lambda>d. List.find (\<lambda>f. fw_sha256 f = sha256) (firmwares d))) (\<lambda>existing.
       case existing of
         Some e \<Rightarrow> raise (AppErr (ConflictError (''the binary is registered already (id='' @ show_int (fw_id e) @ '', version='' @
           fw_version e @ '')'') ''firmware:duplicateBinary''))
       | None \<Rightarrow>
           andthen (fs_do (\<lambda>fs. fs)) (\<lambda>_.
           store_firmware (getAbsolutePath h (stored_name sha256 (up_originalName p))) (firmware_row p buffer sha256) buffer)))"

definition find_firmware :: "int \<Rightarrow> Firmware prog" where
  "find_firmware i =
     andthen (db_read (\<lambda>d. List.find (\<lambda>f. fw_id f = i) (firmwares d))) (\<lambda>found.
     from_option (AppErr (NotFoundError ''firmware not found'' ''firmware:notFound'')) found)"

definition list_firmware :: "rat \<Rightarrow> rat \<Rightarrow> bool option \<Rightarrow> Firmware listing prog" where
  "list_firmware page limit isActive =
     listing page limit (\<lambda>d. newest_first (filter (\<lambda>f. case isActive of None \<Rightarrow> True | Some b \<Rightarrow> fw_isActive f = b) (firmwares d)))"

record firmware_data =
  fd_version :: "string option"
  fd_chargerModel :: "string option"
  fd_chargerVendor :: "string option"
  fd_isActive :: "bool option"
  fd_notes :: "string option"

definition apply_firmware_data :: "firmware_data \<Rightarrow> Firmware \<Rightarrow> Firmware" where
  "apply_firmware_data x f =
     f\<lparr>fw_version := the_default (fw_version f) (fd_version x), fw_chargerModel := keep_or (fw_chargerModel f) (fd_chargerModel x),
       fw_chargerVendor := keep_or (fw_chargerVendor f) (fd_chargerVendor x),
       fw_isActive := the_default (fw_isActive f) (fd_isActive x), fw_notes := keep_or (fw_notes f) (fd_notes x)\<rparr>"

definition change_firmware :: "int \<Rightarrow> firmware_data \<Rightarrow> Firmware prog" where
  "change_firmware i x = andthen (find_firmware i) (\<lambda>_. db_do (update_firmware i (apply_firmware_data x)))"

definition delete_firmware :: "int \<Rightarrow> unit prog" where
  "delete_firmware i =
     andthen (find_firmware i) (\<lambda>fw.
     andthen (db_read (\<lambda>d. length (filter (\<lambda>c. ca_firmwareId c = i) (campaigns d)))) (\<lambda>campaignCount.
     if 0 < campaignCount
     then raise (AppErr (ConflictError (''the firmware has '' @ show_nat campaignCount @ '' campaigns'') ''firmware:hasCampaigns''))
     else
       andthen (db_do (delete_firmware_row i)) (\<lambda>_.
       andthen (ask (\<lambda>w. getAbsolutePath (host w) (fw_filename fw))) (\<lambda>filePath.
       ignore_err (fs_do (map_delete filePath))))))"

definition uri_char :: "char \<Rightarrow> string" where
  "uri_char c =
     (let n = of_char c :: nat in
      if is_name_char c \<or> c \<in> {CHR ''~'', CHR ''!'', CHR ''*'', CHR ''('', CHR '')'', CHR 0x27} then [c]
      else [CHR ''%'', hex_char (n div 16), hex_char (n mod 16)])"

definition encodeURIComponent :: "string \<Rightarrow> string" where
  "encodeURIComponent s = concat (map uri_char s)"

definition buildDownloadUrl :: "host \<Rightarrow> string \<Rightarrow> string" where
  "buildDownloadUrl h filename =
     (let base = firmware_base_url h
      in (if js_endsWith base ''/'' then butlast base else base) @ ''/'' @ encodeURIComponent filename)"

section \<open>firmwareCampaign.service.ts\<close>

record CampaignTargetFilter =
  tf_stationIds :: "string list option"
  tf_model :: "string option"
  tf_vendor :: "string option"
  tf_siteId :: "int option"

definition empty_filter :: "CampaignTargetFilter \<Rightarrow> bool" where
  "empty_filter f \<longleftrightarrow> nonempty (tf_model f) = None \<and> nonempty (tf_vendor f) = None \<and> tf_siteId f \<in> {None, Some 0}"

definition target_matches :: "CampaignTargetFilter \<Rightarrow> ChargingStation \<Rightarrow> bool" where
  "target_matches f s \<longleftrightarrow>
     (case nonempty (tf_model f) of None \<Rightarrow> True | Some m \<Rightarrow> st_modelName s = Some m) \<and>
     (case nonempty (tf_vendor f) of None \<Rightarrow> True | Some v \<Rightarrow> st_vendorName s = Some v \<or> st_manufacturer s = Some v) \<and>
     (tf_siteId f \<in> {None, Some 0} \<or> st_siteId s = tf_siteId f)"

definition resolveTargets :: "CampaignTargetFilter \<Rightarrow> string list prog" where
  "resolveTargets f =
     (case tf_stationIds f of
        Some (s # ss) \<Rightarrow> ret (s # ss)
      | _ \<Rightarrow>
          if empty_filter f then raise (AppErr (BadRequestError ''targetFilter is empty'' ''firmwareCampaign:emptyFilter''))
          else db_read (\<lambda>d. map st_id (filter (target_matches f) (stations d))))"

text \<open>The campaign and the targets that \<open>dispatchAll\<close> is started for.\<close>

definition start_campaign :: "int \<Rightarrow> CampaignTargetFilter \<Rightarrow> string \<Rightarrow> string option \<Rightarrow> (FirmwareCampaign \<times> string \<times> string list) prog" where
  "start_campaign firmwareId targetFilter startedBy notes =
     andthen (find_firmware firmwareId) (\<lambda>firmware.
     if \<not> fw_isActive firmware
     then raise (AppErr (ConflictError ''a campaign needs an active firmware'' ''firmware:inactive''))
     else
       andthen (resolveTargets targetFilter) (\<lambda>stationIds.
       if stationIds = [] then raise (AppErr (BadRequestError ''no stations match the filter'' ''firmwareCampaign:noTargets''))
       else
         andthen (db_transaction
           (andthen (db_do (create_campaign \<lparr>ca_id = 0, ca_firmwareId = firmwareId, ca_status = FcRunning,
              ca_startedBy = startedBy, ca_notes = notes, ca_completedAt = None\<rparr>)) (\<lambda>c.
            andthen js_now (\<lambda>now.
            andthen (db_do (create_progresses (ca_id c) stationIds now)) (\<lambda>_. ret c))))) (\<lambda>campaign.
         ret (campaign, fw_filename firmware, stationIds))))"

definition target_row :: "int \<Rightarrow> string \<Rightarrow> FirmwareCampaignProgress \<Rightarrow> bool" where
  "target_row campaignId stationId r \<longleftrightarrow> fp_campaignId r = campaignId \<and> fp_stationId r = Some stationId"

definition mark_send_error :: "int \<Rightarrow> string \<Rightarrow> string \<Rightarrow> unit prog" where
  "mark_send_error campaignId stationId error =
     ignore_err
       (andthen js_now (\<lambda>startedAt.
        andthen js_now (\<lambda>completedAt.
        db_do (update_progresses (target_row campaignId stationId)
          (\<lambda>r. r\<lparr>fp_status := FpSendError, fp_error := Some error, fp_startedAt := Some startedAt,
                fp_completedAt := Some completedAt, fp_updatedAt := completedAt\<rparr>)))))"

definition mark_sent :: "int \<Rightarrow> string \<Rightarrow> unit prog" where
  "mark_sent campaignId stationId =
     ignore_err
       (andthen js_now (\<lambda>startedAt.
        db_do (update_progresses (target_row campaignId stationId)
          (\<lambda>r. r\<lparr>fp_status := FpSent, fp_startedAt := Some startedAt, fp_updatedAt := startedAt\<rparr>))))"

definition dispatch_one :: "int \<Rightarrow> string \<Rightarrow> string \<Rightarrow> string \<Rightarrow> string \<Rightarrow> unit prog" where
  "dispatch_one campaignId downloadUrl retrieveDate startedBy stationId =
     andthen (ask (\<lambda>w. isConnected w stationId)) (\<lambda>up.
     if \<not> up then mark_send_error campaignId stationId ''station offline''
     else
       catch_err
         (andthen (gateway_updateFirmware stationId downloadUrl (JStr retrieveDate) JUndefined JUndefined (Some startedBy)) (\<lambda>_.
          mark_sent campaignId stationId))
         (\<lambda>err. andthen (ask (\<lambda>w. err_message (host w) err)) (\<lambda>msg.
            mark_send_error campaignId stationId (take 500 msg))))"

definition dispatchAll :: "int \<Rightarrow> string \<Rightarrow> string list \<Rightarrow> string \<Rightarrow> unit prog" where
  "dispatchAll campaignId firmwareFilename stationIds startedBy =
     andthen (ask (\<lambda>w. buildDownloadUrl (host w) firmwareFilename)) (\<lambda>downloadUrl.
     andthen js_now (\<lambda>now.
     for_each stationIds (dispatch_one campaignId downloadUrl (date_iso now) startedBy)))"

record campaign_detail =
  cd_campaign :: FirmwareCampaign
  cd_firmware :: "Firmware option"
  cd_progress :: "FirmwareCampaignProgress list"

definition find_campaign :: "int \<Rightarrow> campaign_detail prog" where
  "find_campaign i =
     andthen (db_read id) (\<lambda>d.
     andthen (from_option (AppErr (NotFoundError ''campaign not found'' ''firmwareCampaign:notFound''))
        (List.find (\<lambda>c. ca_id c = i) (campaigns d))) (\<lambda>c.
     ret \<lparr>cd_campaign = c, cd_firmware = List.find (\<lambda>f. fw_id f = ca_firmwareId c) (firmwares d),
       cd_progress = filter (\<lambda>r. fp_campaignId r = i) (progresses d)\<rparr>))"

definition campaign_status_of :: "string \<Rightarrow> FirmwareCampaignStatus option" where
  "campaign_status_of s =
     (if s = ''running'' then Some FcRunning else if s = ''completed'' then Some FcCompleted
      else if s = ''cancelled'' then Some FcCancelled else None)"

definition list_campaigns :: "rat \<Rightarrow> rat \<Rightarrow> string option \<Rightarrow> jsval \<Rightarrow> campaign_detail listing prog" where
  "list_campaigns page limit status firmwareId =
     andthen (enum_filter campaign_status_of status) (\<lambda>by_status.
     andthen (if js_truthy firmwareId then arg (int_filter firmwareId) else ret (\<lambda>_. True)) (\<lambda>by_firmware.
     listing page limit (\<lambda>d. map (\<lambda>c. \<lparr>cd_campaign = c, cd_firmware = List.find (\<lambda>f. fw_id f = ca_firmwareId c) (firmwares d),
         cd_progress = filter (\<lambda>r. fp_campaignId r = ca_id c) (progresses d)\<rparr>)
       (newest_first (filter (\<lambda>c. by_status (ca_status c) \<and> by_firmware (ca_firmwareId c))
         (campaigns d))))))"

fun campaign_status_text :: "FirmwareCampaignStatus \<Rightarrow> string" where
  "campaign_status_text FcRunning = ''running''"
| "campaign_status_text FcCompleted = ''completed''"
| "campaign_status_text FcCancelled = ''cancelled''"

definition cancel_campaign :: "int \<Rightarrow> unit prog" where
  "cancel_campaign i =
     andthen (find_campaign i) (\<lambda>c.
     if ca_status (cd_campaign c) \<noteq> FcRunning
     then raise (AppErr (ConflictError (''a campaign that is '' @ campaign_status_text (ca_status (cd_campaign c)) @
       '' cannot be cancelled'') ''firmwareCampaign:notRunning''))
     else
       andthen js_now (\<lambda>now.
       andthen (db_do (update_campaign i (\<lambda>r. r\<lparr>ca_status := FcCancelled, ca_completedAt := Some now\<rparr>))) (\<lambda>_. ret ())))"

end
