(* ===== verification/Manufacturers.thy ===== *)
theory Manufacturers
  imports Provisioning
begin

text \<open>
  Manufacturers and their tokens: \<open>services/manufacturer.service.ts\<close>, its repository, controller and
  validator, and the routes of the internal API.  Only the hash of a token is stored; the token itself is in the answer
  that created it.
\<close>

section \<open>manufacturer.validator.ts\<close>

text \<open>\<open>[A-Za-z0-9_-]+\<close>\<close>

definition is_token_char :: "char \<Rightarrow> bool" where
  "is_token_char c =
     (let n = of_char c :: nat in 65 \<le> n \<and> n \<le> 90 \<or> 97 \<le> n \<and> n \<le> 122 \<or> is_digit c \<or> c = CHR ''_'' \<or> c = CHR ''-'')"

definition z_token :: "nat \<Rightarrow> nat \<Rightarrow> jsval \<Rightarrow> bool" where
  "z_token lo hi v = (z_string lo hi v \<and> (case v of JStr s \<Rightarrow> s \<noteq> [] \<and> list_all is_token_char s | _ \<Rightarrow> False))"

definition createManufacturerSchema :: "jsval \<Rightarrow> bool" where
  "createManufacturerSchema b \<longleftrightarrow> z_object b \<and> z_token 1 50 (js_get b ''channelId'') \<and> z_string 1 100 (js_get b ''name'')
     \<and> z_optional (z_token 16 128) (js_get b ''plainToken'')"

definition updateManufacturerSchema :: "jsval \<Rightarrow> bool" where
  "updateManufacturerSchema b \<longleftrightarrow> z_object b \<and> z_optional (z_string 1 100) (js_get b ''name'')
     \<and> z_optional z_bool (js_get b ''isActive'')"

definition regenerateTokenSchema :: "jsval \<Rightarrow> bool" where
  "regenerateTokenSchema b \<longleftrightarrow> z_object b \<and> z_optional (z_token 16 128) (js_get b ''plainToken'')"

section \<open>manufacturer.service.ts\<close>

record issued_token =
  is_plainToken :: string
  is_imported :: bool

definition find_manufacturer :: "int \<Rightarrow> Manufacturer prog" where
  "find_manufacturer i =
     andthen (db_read (\<lambda>d. List.find (\<lambda>m. ma_id m = i) (manufacturers d))) (\<lambda>found.
     from_option (AppErr (NotFoundError ''manufacturer not found'' ''manufacturer:notFound'')) found)"

text \<open>\<open>plainToken ?? generateRandomToken()\<close> and its hash; \<open>bcrypt\<close> refuses what is not a text.\<close>

definition issue_token :: "jsval \<Rightarrow> (issued_token \<times> string) prog" where
  "issue_token plainToken =
     andthen (if js_coalesce plainToken JNull = JNull then andthen (random_bytes_hex 32) (\<lambda>t. ret (JStr t))
              else ret plainToken) (\<lambda>t.
     andthen (from_option (PlainError ''data must be a string or Buffer'') (as_string t)) (\<lambda>plain.
     ask (\<lambda>w. (\<lparr>is_plainToken = plain, is_imported = js_truthy plainToken\<rparr>, bcrypt_hash (host w) plain))))"

definition create_with_token :: "jsval \<Rightarrow> jsval \<Rightarrow> jsval \<Rightarrow> (Manufacturer \<times> issued_token) prog" where
  "create_with_token channelId name plainToken =
     andthen (arg (as_string channelId)) (\<lambda>c.
     andthen (db_read (find_channel c)) (\<lambda>existing.
     if existing \<noteq> None
     then raise (AppErr (ConflictError (''channelId '' @ sq @ c @ sq @ '' is already in use'') ''manufacturer:channelInUse''))
     else
       andthen (issue_token plainToken) (\<lambda>(tok, tokenHash).
       andthen (arg (as_string name)) (\<lambda>n.
       andthen (db_do (create_manufacturer \<lparr>ma_id = 0, ma_channelId = c, ma_name = n, ma_tokenHash = tokenHash,
         ma_isActive = True\<rparr>)) (\<lambda>m. ret (m, tok))))))"

definition regenerateToken :: "int \<Rightarrow> jsval \<Rightarrow> issued_token prog" where
  "regenerateToken i plainTokenInput =
     andthen (find_manufacturer i) (\<lambda>_.
     andthen (issue_token plainTokenInput) (\<lambda>(tok, tokenHash).
     andthen (db_do (update_manufacturer i (\<lambda>m. m\<lparr>ma_tokenHash := tokenHash\<rparr>))) (\<lambda>_. ret tok)))"

definition findAll_manufacturers :: "rat \<Rightarrow> rat \<Rightarrow> Manufacturer listing prog" where
  "findAll_manufacturers page limit = listing page limit (\<lambda>d. newest_first (manufacturers d))"

definition bool_of :: "jsval \<Rightarrow> bool option" where
  "bool_of v = (case v of JBool b \<Rightarrow> Some b | _ \<Rightarrow> None)"

definition change_manufacturer :: "int \<Rightarrow> string option \<Rightarrow> bool option \<Rightarrow> Manufacturer prog" where
  "change_manufacturer i name isActive =
     andthen (find_manufacturer i) (\<lambda>_.
     db_do (update_manufacturer i (\<lambda>m. m\<lparr>ma_name := the_default (ma_name m) name,
       ma_isActive := the_default (ma_isActive m) isActive\<rparr>)))"

definition deactivate :: "int \<Rightarrow> Manufacturer prog" where
  "deactivate i =
     andthen (find_manufacturer i) (\<lambda>_. db_do (update_manufacturer i (\<lambda>m. m\<lparr>ma_isActive := False\<rparr>)))"

section \<open>manufacturer.controller.ts\<close>

record safe_manufacturer =
  sm_id :: int
  sm_channelId :: string
  sm_name :: string
  sm_isActive :: bool

definition omitTokenHash :: "Manufacturer \<Rightarrow> safe_manufacturer" where
  "omitTokenHash m = \<lparr>sm_id = ma_id m, sm_channelId = ma_channelId m, sm_name = ma_name m, sm_isActive = ma_isActive m\<rparr>"

definition bad_manufacturer_request :: "'a answer" where
  "bad_manufacturer_request = refuse 400 ''BAD_REQUEST'' ''the request is not valid''"

definition manufacturer_list_route :: "http_request \<Rightarrow> (safe_manufacturer list \<times> Manufacturer listing) answer prog" where
  "manufacturer_list_route req =
     respond (andthen (findAll_manufacturers (number_or req ''page'' 1) (number_or req ''limit'' 20)) (\<lambda>result.
       ret (reply_data 200 (map omitTokenHash (li_items result), result\<lparr>li_items := []\<rparr>))))"

definition manufacturer_create_route :: "http_request \<Rightarrow> (safe_manufacturer \<times> issued_token) answer prog" where
  "manufacturer_create_route req =
     (let b = rq_body req in
      if \<not> createManufacturerSchema b then ret bad_manufacturer_request
      else respond (andthen (create_with_token (js_get b ''channelId'') (js_get b ''name'') (js_get b ''plainToken'')) (\<lambda>(m, tok).
        ret (reply_data 201 (omitTokenHash m, tok)))))"

definition manufacturer_find_route :: "http_request \<Rightarrow> safe_manufacturer answer prog" where
  "manufacturer_find_route req =
     respond (andthen (id_arg req) (\<lambda>i. andthen (find_manufacturer i) (\<lambda>m. ret (reply_data 200 (omitTokenHash m)))))"

definition manufacturer_update_route :: "http_request \<Rightarrow> safe_manufacturer answer prog" where
  "manufacturer_update_route req =
     (let b = rq_body req in
      if \<not> updateManufacturerSchema b then ret bad_manufacturer_request
      else respond (andthen (id_arg req) (\<lambda>i.
        andthen (change_manufacturer i (text_of (js_get b ''name'')) (bool_of (js_get b ''isActive''))) (\<lambda>m.
        ret (reply_data 200 (omitTokenHash m))))))"

definition regenerate_route :: "http_request \<Rightarrow> issued_token answer prog" where
  "regenerate_route req =
     (let b = js_coalesce (rq_body req) (JObj []) in
      if \<not> regenerateTokenSchema b then ret bad_manufacturer_request
      else respond (andthen (id_arg req) (\<lambda>i. andthen (regenerateToken i (js_get b ''plainToken'')) (\<lambda>tok.
        ret (reply_data 200 tok)))))"

definition deactivate_route :: "http_request \<Rightarrow> safe_manufacturer answer prog" where
  "deactivate_route req =
     respond (andthen (id_arg req) (\<lambda>i. andthen (deactivate i) (\<lambda>m. ret (reply_data 200 (omitTokenHash m)))))"

section \<open>The internal API\<close>

definition internal_manufacturers :: "http_request \<Rightarrow> Manufacturer listing answer prog" where
  "internal_manufacturers req =
     respond_internal (andthen (findAll_manufacturers (number_or req ''page'' 1) (min (number_or req ''limit'' 20) 100)) (\<lambda>result.
       ret (reply_data 200 result)))"

text \<open>This route answers with the stored row, hash included.\<close>

definition internal_create_manufacturer :: "http_request \<Rightarrow> (Manufacturer \<times> issued_token) answer prog" where
  "internal_create_manufacturer req =
     (let b = rq_body req in
      respond_internal
        (if \<not> js_truthy (js_get b ''channelId'') then raise (AppErr (api_badRequest ''channelId is required''))
         else if \<not> js_truthy (js_get b ''name'') then raise (AppErr (api_badRequest ''name is required''))
         else andthen (create_with_token (js_get b ''channelId'') (js_get b ''name'') (js_get b ''plainToken'')) (\<lambda>result.
           ret (reply_data 201 result))))"

end
