(* ===== verification/FirmwareApi.thy ===== *)
theory FirmwareApi
  imports Firmware Manufacturers
begin

text \<open>
  The HTTP side of the firmware: \<open>controllers/firmware.controller.ts\<close>, \<open>validators/firmware.validator.ts\<close> and
  \<open>internal-api/routes/firmware.routes.ts\<close>.  A message of the validator is the text \<open>invalid\<close>; the routes that start a
  campaign return what the service stored, and the dispatch runs afterwards.
\<close>

section \<open>firmware.validator.ts\<close>

definition uploadFirmwareSchema :: "jsval \<Rightarrow> bool" where
  "uploadFirmwareSchema b \<longleftrightarrow> z_object b \<and> z_string 1 50 (js_get b ''version'') \<and> z_optional (z_string 0 100) (js_get b ''chargerModel'')
     \<and> z_optional (z_string 0 100) (js_get b ''chargerVendor'') \<and> z_optional (z_string 0 1000) (js_get b ''notes'')"

definition updateFirmwareSchema :: "jsval \<Rightarrow> bool" where
  "updateFirmwareSchema b \<longleftrightarrow> z_object b \<and> z_optional (z_string 1 50) (js_get b ''version'')
     \<and> z_optional (z_string 0 100) (js_get b ''chargerModel'') \<and> z_optional (z_string 0 100) (js_get b ''chargerVendor'')
     \<and> z_optional z_bool (js_get b ''isActive'') \<and> z_optional (z_string 0 1000) (js_get b ''notes'')"

fun z_station_ids :: "jsval \<Rightarrow> bool" where
  "z_station_ids (JArr vs) = (length vs \<le> 1000 \<and> list_all (z_string 1 50) vs)"
| "z_station_ids _ = False"

fun station_ids_of :: "jsval \<Rightarrow> string list option" where
  "station_ids_of (JArr vs) = Some (List.map_filter text_of vs)"
| "station_ids_of _ = None"

definition target_filter_of :: "jsval \<Rightarrow> CampaignTargetFilter" where
  "target_filter_of f =
     \<lparr>tf_stationIds = station_ids_of (js_get f ''stationIds''), tf_model = text_of (js_get f ''model''),
      tf_vendor = text_of (js_get f ''vendor''), tf_siteId = as_int (js_get f ''siteId'')\<rparr>"

definition targetFilterSchema :: "jsval \<Rightarrow> bool" where
  "targetFilterSchema f \<longleftrightarrow> z_object f \<and> z_optional z_station_ids (js_get f ''stationIds'')
     \<and> z_optional (z_string 0 100) (js_get f ''model'') \<and> z_optional (z_string 0 100) (js_get f ''vendor'')
     \<and> z_optional z_positive_int (js_get f ''siteId'')
     \<and> (tf_stationIds (target_filter_of f) \<notin> {None, Some []} \<or> \<not> empty_filter (target_filter_of f))"

definition startCampaignSchema :: "jsval \<Rightarrow> jsval \<Rightarrow> bool" where
  "startCampaignSchema targetFilter notes \<longleftrightarrow> targetFilterSchema targetFilter \<and> z_optional (z_string 0 1000) notes"

section \<open>firmware.controller.ts\<close>

text \<open>\<open>req.user?.username ?? 'unknown'\<close>\<close>

definition uploader :: "http_request \<Rightarrow> string" where
  "uploader req = the_default ''unknown'' (rq_username req)"

definition upload_params_of :: "jsval \<Rightarrow> string \<Rightarrow> string \<Rightarrow> upload_params" where
  "upload_params_of b originalName uploadedBy =
     \<lparr>up_originalName = originalName, up_version = the_default [] (text_of (js_get b ''version'')),
      up_chargerModel = text_of (js_get b ''chargerModel''), up_chargerVendor = text_of (js_get b ''chargerVendor''),
      up_uploadedBy = uploadedBy, up_notes = text_of (js_get b ''notes'')\<rparr>"

definition firmware_upload_route :: "http_request \<Rightarrow> Firmware answer prog" where
  "firmware_upload_route req =
     respond
       (case rq_file req of
          None \<Rightarrow> raise (AppErr (BadRequestError ''the upload file is missing'' ''firmware:fileMissing''))
        | Some (originalName, buffer) \<Rightarrow>
            if \<not> uploadFirmwareSchema (rq_body req) then ret (refuse 400 ''VALIDATION_ERROR'' ''invalid'')
            else andthen (upload buffer (upload_params_of (rq_body req) originalName (uploader req))) (\<lambda>fw.
              ret (reply_data 201 fw)))"

text \<open>\<open>isActive\<close> of a query: absent, or the comparison with \<open>'true'\<close>.\<close>

definition active_query :: "http_request \<Rightarrow> bool option" where
  "active_query req = map_option (\<lambda>v. v = ''true'') (map_get (rq_query req) ''isActive'')"

definition firmware_list_route :: "http_request \<Rightarrow> Firmware listing answer prog" where
  "firmware_list_route req =
     respond (andthen (list_firmware (number_or req ''page'' 1) (min (number_or req ''limit'' 20) 100) (active_query req)) (\<lambda>result.
       ret (reply_data 200 result)))"

definition firmware_find_route :: "http_request \<Rightarrow> Firmware answer prog" where
  "firmware_find_route req = respond (andthen (id_arg req) (\<lambda>i. andthen (find_firmware i) (\<lambda>fw. ret (reply_data 200 fw))))"

definition firmware_data_of :: "jsval \<Rightarrow> firmware_data" where
  "firmware_data_of b =
     \<lparr>fd_version = text_of (js_get b ''version''), fd_chargerModel = text_of (js_get b ''chargerModel''),
      fd_chargerVendor = text_of (js_get b ''chargerVendor''), fd_isActive = bool_of (js_get b ''isActive''),
      fd_notes = text_of (js_get b ''notes'')\<rparr>"

definition firmware_update_route :: "http_request \<Rightarrow> Firmware answer prog" where
  "firmware_update_route req =
     (if \<not> updateFirmwareSchema (rq_body req) then ret (refuse 400 ''VALIDATION_ERROR'' ''invalid'')
      else respond (andthen (id_arg req) (\<lambda>i. andthen (change_firmware i (firmware_data_of (rq_body req))) (\<lambda>fw.
        ret (reply_data 200 fw)))))"

definition firmware_delete_route :: "http_request \<Rightarrow> int answer prog" where
  "firmware_delete_route req =
     respond (andthen (id_arg req) (\<lambda>i. andthen (delete_firmware i) (\<lambda>_. ret (reply_data 200 i))))"

record download =
  dl_length :: int
  dl_disposition :: string
  dl_sha256 :: string
  dl_content :: string

definition bad_filename :: "string \<Rightarrow> bool" where
  "bad_filename s \<longleftrightarrow> s = [] \<or> js_includes s ''/'' \<or> js_includes s ''..'' \<or> js_includes s [CHR 0x5C]"

definition firmware_download :: "http_request \<Rightarrow> download answer prog" where
  "firmware_download req =
     (let filename = param req ''filename'' in
      respond
        (if bad_filename filename then raise (AppErr (BadRequestError ''invalid file name'' ''firmware:invalidFilename''))
         else
           andthen (db_read (\<lambda>d. List.find (\<lambda>f. fw_filename f = filename) (firmwares d))) (\<lambda>found.
           andthen (from_option (AppErr (NotFoundError ''firmware not found'' ''firmware:notFound'')) found) (\<lambda>fw.
           andthen (ask (\<lambda>w. map_get (files w) (getAbsolutePath (host w) (fw_filename fw)))) (\<lambda>content.
           andthen (from_option (AppErr (NotFoundError ''the firmware file is not on disk'' ''firmware:fileMissing'')) content) (\<lambda>c.
           ret (reply_data 200 \<lparr>dl_length = fw_fileSize fw,
             dl_disposition = ''attachment; filename='' @ [CHR 0x22] @ fw_originalName fw @ [CHR 0x22],
             dl_sha256 = fw_sha256 fw, dl_content = c\<rparr>)))))))"

record started_campaign =
  sc_campaign :: FirmwareCampaign
  sc_totalTargets :: nat

definition started :: "FirmwareCampaign \<times> string \<times> string list \<Rightarrow> started_campaign" where
  "started r = (case r of (c, _, stationIds) \<Rightarrow> \<lparr>sc_campaign = c, sc_totalTargets = length stationIds\<rparr>)"

definition campaign_start_route :: "http_request \<Rightarrow> started_campaign answer prog" where
  "campaign_start_route req =
     (let b = rq_body req in
      if \<not> (z_object b \<and> startCampaignSchema (js_get b ''targetFilter'') (js_get b ''notes''))
      then ret (refuse 400 ''VALIDATION_ERROR'' ''invalid'')
      else respond (andthen (id_arg req) (\<lambda>i.
        andthen (start_campaign i (target_filter_of (js_get b ''targetFilter'')) (uploader req) (text_of (js_get b ''notes''))) (\<lambda>r.
        ret (reply_data 201 (started r))))))"

definition campaign_list_route :: "http_request \<Rightarrow> campaign_detail listing answer prog" where
  "campaign_list_route req =
     respond (andthen (list_campaigns (number_or req ''page'' 1) (min (number_or req ''limit'' 20) 100) (query_text req ''status'')
       (query_number req ''firmwareId'')) (\<lambda>result. ret (reply_data 200 result)))"

definition campaign_find_route :: "http_request \<Rightarrow> campaign_detail answer prog" where
  "campaign_find_route req = respond (andthen (id_arg req) (\<lambda>i. andthen (find_campaign i) (\<lambda>c. ret (reply_data 200 c))))"

definition campaign_cancel_route :: "http_request \<Rightarrow> int answer prog" where
  "campaign_cancel_route req =
     respond (andthen (id_arg req) (\<lambda>i. andthen (cancel_campaign i) (\<lambda>_. ret (reply_data 200 i))))"

section \<open>internal-api/routes/firmware.routes.ts\<close>

definition internal_upload :: "http_request \<Rightarrow> Firmware answer prog" where
  "internal_upload req =
     respond_internal
       (case rq_file req of
          None \<Rightarrow> raise (AppErr (api_badRequest ''file is required (multipart/form-data field: file)''))
        | Some (originalName, buffer) \<Rightarrow>
            if \<not> uploadFirmwareSchema (rq_body req) then raise (AppErr (api_badRequest ''invalid''))
            else andthen (upload buffer (upload_params_of (rq_body req) originalName ''internal-api'')) (\<lambda>fw.
              ret (reply_data 201 fw)))"

definition internal_firmware_list :: "http_request \<Rightarrow> Firmware listing answer prog" where
  "internal_firmware_list req =
     respond_internal (andthen (list_firmware (number_or req ''page'' 1) (min (number_or req ''limit'' 20) 100) (active_query req))
       (\<lambda>result. ret (reply_data 200 result)))"

definition internal_campaign_start :: "http_request \<Rightarrow> started_campaign answer prog" where
  "internal_campaign_start req =
     (let b = rq_body req in
      respond_internal
        (if \<not> js_truthy (js_get b ''firmwareId'') then raise (AppErr (api_badRequest ''firmwareId is required''))
         else if \<not> startCampaignSchema (js_get b ''targetFilter'') (js_get b ''notes'')
         then raise (AppErr (api_badRequest ''invalid''))
         else andthen (arg (as_int (js_get b ''firmwareId''))) (\<lambda>i.
           andthen (start_campaign i (target_filter_of (js_get b ''targetFilter'')) ''internal-api'' (text_of (js_get b ''notes''))) (\<lambda>r.
           ret (reply_data 201 (started r))))))"

definition internal_campaign_find :: "http_request \<Rightarrow> campaign_detail answer prog" where
  "internal_campaign_find req =
     respond_internal (andthen (id_arg req) (\<lambda>i. andthen (find_campaign i) (\<lambda>c. ret (reply_data 200 c))))"

definition internal_campaign_cancel :: "http_request \<Rightarrow> int answer prog" where
  "internal_campaign_cancel req =
     respond_internal (andthen (id_arg req) (\<lambda>i. andthen (cancel_campaign i) (\<lambda>_. ret (reply_data 200 i))))"

record sent_update =
  su_sent_stationId :: string
  su_sent_location :: string
  su_sent_result :: jsval

text \<open>
  The router is mounted at \<open>/stations\<close> and its path has no \<open>:stationId\<close>, so \<open>stationId\<close> is \<open>undefined\<close> for every request the
  server routes here; the parameter is what the code reads.
\<close>

definition internal_update_firmware :: "http_request \<Rightarrow> sent_update answer prog" where
  "internal_update_firmware req =
     (let b = rq_body req in
      respond_internal
        (andthen (arg (map_get (rq_params req) ''stationId'')) (\<lambda>stationId.
         andthen (db_read (find_station stationId)) (\<lambda>station.
         if station = None then raise (AppErr (api_stationNotFound stationId))
         else
           andthen (ask (\<lambda>w. isConnected w stationId)) (\<lambda>up.
           if \<not> up then raise (AppErr (api_stationOffline stationId))
           else
             andthen (if js_truthy (js_get b ''firmwareId'')
                then andthen (arg (as_int (js_get b ''firmwareId''))) (\<lambda>i.
                     andthen (find_firmware i) (\<lambda>fw. ask (\<lambda>w. buildDownloadUrl (host w) (fw_filename fw))))
                else if js_truthy (js_get b ''location'') then ret (js_text (js_get b ''location''))
                else raise (AppErr (api_badRequest ''firmwareId or location is required''))) (\<lambda>location.
             andthen (if js_nullish (js_get b ''retrieveDate'') then andthen js_now (\<lambda>now. ret (JStr (date_iso now)))
                      else ret (js_get b ''retrieveDate'')) (\<lambda>retrieveDate.
             andthen (gateway_updateFirmware stationId location retrieveDate (js_coalesce (js_get b ''retries'') (JNum 3))
                JUndefined (Some ''internal-api'')) (\<lambda>result.
             ret (reply_data 202 \<lparr>su_sent_stationId = stationId, su_sent_location = location, su_sent_result = result\<rparr>)))))))))"

end
