(* ===== verification/StationService.thy ===== *)
theory StationService
  imports Provisioning
begin

text \<open>
  The stations of the portal: \<open>services/station.service.ts\<close> and \<open>controllers/station.controller.ts\<close>.  A station may
  be deleted only while it has no session at all; the rows that hang on it go with it in one transaction.
\<close>

section \<open>Lists\<close>

definition station_status_of :: "string \<Rightarrow> StationStatus option" where
  "station_status_of s =
     (if s = ''Online'' then Some StOnline else if s = ''Offline'' then Some StOffline
      else if s = ''Faulted'' then Some StFaulted else if s = ''Inspecting'' then Some StInspecting
      else if s = ''CommunicationFault'' then Some StCommunicationFault else if s = ''Unknown'' then Some StUnknown else None)"

record station_item =
  si_station :: ChargingStation
  si_connectors :: "Connector list"
  si_isConnected :: bool
  si_todayKwh :: rat

definition connectors_of :: "string \<Rightarrow> db \<Rightarrow> Connector list" where
  "connectors_of s d = filter (\<lambda>c. co_stationId c = s) (connectors d)"

text \<open>\<open>Math.round(Math.max(0, (sum of ends - sum of starts) / 1000) * 100) / 100\<close>\<close>

definition meter_sum :: "string \<Rightarrow> int \<Rightarrow> db \<Rightarrow> rat" where
  "meter_sum s from d =
     (let ts = filter (\<lambda>t. tx_stationId t = s \<and> tx_status t = TxStopped \<and> from \<le> tx_timeStart t) (transactions d)
      in of_int (sum_list (List.map_filter tx_meterEnd ts) - sum_list (map tx_meterStart ts)))"

definition today_kwh :: "string \<Rightarrow> int \<Rightarrow> db \<Rightarrow> rat" where
  "today_kwh s from d =
     js_div (of_int (js_round (js_mul (max 0 (js_div (meter_sum s from d) 1000)) 100))) 100"

definition list_stations :: "string option \<Rightarrow> string option \<Rightarrow> jsval \<Rightarrow> jsval \<Rightarrow> station_item paged prog" where
  "list_stations status keyword page limit =
     andthen (enum_filter station_status_of status) (\<lambda>by_status.
     andthen (paged_rows page limit (\<lambda>d. newest_first (filter (\<lambda>s. by_status (st_status s) \<and>
         has_keyword keyword [Some (st_id s), st_vendorName s, st_manufacturer s, st_serialNumber s, st_firmwareVersion s])
         (stations d)))) (\<lambda>found.
     andthen js_now (\<lambda>now.
     andthen (ask (\<lambda>w. day_start (host w) now)) (\<lambda>todayStart.
     andthen (db_read id) (\<lambda>d.
     ask (\<lambda>w. \<lparr>pr_items = map (\<lambda>s. \<lparr>si_station = s, si_connectors = connectors_of (st_id s) d,
         si_isConnected = isConnected w (st_id s), si_todayKwh = today_kwh (st_id s) todayStart d\<rparr>) (pr_items found),
       pr_total = pr_total found, pr_page = pr_page found, pr_limit = pr_limit found,
       pr_totalPages = pr_totalPages found\<rparr>))))))"

record station_detail =
  sd_station :: ChargingStation
  sd_connectors :: "Connector list"
  sd_provisioning :: "ChargerProvisioning option"
  sd_faultLogs :: "FaultLog list"
  sd_isConnected :: bool

definition station_not_found :: app_error where
  "station_not_found = NotFoundError ''charging station not found'' ''station:notFound''"

definition station_by_id :: "string \<Rightarrow> station_detail prog" where
  "station_by_id i =
     andthen (db_read id) (\<lambda>d.
     andthen (from_option (AppErr station_not_found) (find_station i d)) (\<lambda>s.
     ask (\<lambda>w. \<lparr>sd_station = s, sd_connectors = connectors_of i d,
       sd_provisioning = List.find (\<lambda>r. pv_stationId r = Some i) (provisionings d),
       sd_faultLogs = take 10 (newest_first (filter (\<lambda>l. fl_stationId l = i) (faultLogs d))),
       sd_isConnected = isConnected w i\<rparr>)))"

section \<open>Changes\<close>

text \<open>The validated fields of a request; \<open>su_siteId\<close> may be \<open>null\<close> in an update.\<close>

record station_data =
  su_siteId :: jsval
  su_manufacturer :: "string option"
  su_serialNumber :: "string option"
  su_modelName :: "string option"
  su_firmwareVersion :: "string option"
  su_chargingKwh :: "rat option"

fun int_update :: "jsval \<Rightarrow> (int option \<Rightarrow> int option) option" where
  "int_update JUndefined = Some (\<lambda>x. x)"
| "int_update JNull = Some (\<lambda>_. None)"
| "int_update (JNum r) = (if r = of_int \<lfloor>r\<rfloor> then Some (\<lambda>_. Some \<lfloor>r\<rfloor>) else None)"
| "int_update _ = None"

definition apply_data :: "station_data \<Rightarrow> (int option \<Rightarrow> int option) \<Rightarrow> ChargingStation \<Rightarrow> ChargingStation" where
  "apply_data x site s =
     s\<lparr>st_siteId := site (st_siteId s), st_manufacturer := keep_or (st_manufacturer s) (su_manufacturer x),
       st_serialNumber := keep_or (st_serialNumber s) (su_serialNumber x),
       st_modelName := keep_or (st_modelName s) (su_modelName x),
       st_firmwareVersion := keep_or (st_firmwareVersion s) (su_firmwareVersion x),
       st_chargingKwh := (case su_chargingKwh x of None \<Rightarrow> st_chargingKwh s | Some k \<Rightarrow> decimal_round 2 k)\<rparr>"

definition blank_station :: "string \<Rightarrow> ChargingStation" where
  "blank_station i = (new_station i [] None None None (7 / 2))\<lparr>st_serialNumber := None\<rparr>"

definition create_new_station :: "string \<Rightarrow> station_data \<Rightarrow> ChargingStation prog" where
  "create_new_station i x =
     andthen (db_read (find_station i)) (\<lambda>existing.
     if existing \<noteq> None then raise (AppErr (conflict_default ''the charger id already exists''))
     else
       andthen (arg (int_update (su_siteId x))) (\<lambda>site.
       db_do (create_station (apply_data x site (blank_station i)))))"

definition change_station :: "string \<Rightarrow> station_data \<Rightarrow> ChargingStation prog" where
  "change_station i x =
     andthen (station_by_id i) (\<lambda>_.
     andthen (arg (int_update (su_siteId x))) (\<lambda>site.
     db_do (update_station i (apply_data x site))))"

text \<open>Open sessions and past sessions both forbid the deletion.\<close>

definition delete_station :: "string \<Rightarrow> unit prog" where
  "delete_station i =
     andthen (station_by_id i) (\<lambda>_.
     andthen (db_read (\<lambda>d. List.find (\<lambda>t. tx_stationId t = i \<and> is_open_tx t) (transactions d))) (\<lambda>activeSession.
     if activeSession \<noteq> None
     then raise (AppErr (ConflictError ''a charging session is in progress'' ''station:activeSession''))
     else
       andthen (db_read (\<lambda>d. length (filter (\<lambda>t. tx_stationId t = i) (transactions d)))) (\<lambda>txCount.
       if 0 < txCount
       then raise (AppErr (ConflictError ''the station has a charging history'' ''station:hasTransactionHistory''))
       else db_transaction (andthen (clear_station_rows i) (\<lambda>_. andthen (db_do (delete_station_row i)) (\<lambda>_. ret ()))))))"

definition updateOnBoot :: "string \<Rightarrow> string \<Rightarrow> string \<Rightarrow> string option \<Rightarrow> unit prog" where
  "updateOnBoot stationId modelName vendorName firmwareVersion =
     andthen js_now (\<lambda>now.
     andthen (db_do (upsert_station stationId
       (\<lambda>s. s\<lparr>st_modelName := Some modelName, st_vendorName := Some vendorName,
             st_firmwareVersion := keep_or (st_firmwareVersion s) firmwareVersion, st_status := StOnline,
             st_lastHeartbeatAt := Some now\<rparr>)
       ((blank_station stationId)\<lparr>st_modelName := Some modelName, st_vendorName := Some vendorName,
             st_firmwareVersion := firmwareVersion, st_status := StOnline\<rparr>))) (\<lambda>_. ret ()))"

section \<open>Faults and passwords\<close>

definition fault_type_of :: "string \<Rightarrow> FaultType option" where
  "fault_type_of s =
     (if s = ''ConnectorFault'' then Some FtConnectorFault else if s = ''CommunicationError'' then Some FtCommunicationError
      else if s = ''PowerFault'' then Some FtPowerFault else if s = ''Other'' then Some FtOther else None)"

definition addFaultLog :: "string \<Rightarrow> string \<Rightarrow> string option \<Rightarrow> string \<Rightarrow> FaultLog prog" where
  "addFaultLog stationId faultType description reportedBy =
     andthen (station_by_id stationId) (\<lambda>_.
     andthen (arg (fault_type_of faultType)) (\<lambda>ft.
     andthen js_now (\<lambda>now.
     db_do (create_faultLog \<lparr>fl_id = 0, fl_stationId = stationId, fl_faultType = ft, fl_description = description,
       fl_resolvedAt = None, fl_reportedBy = Some reportedBy, fl_status = FsReceived, fl_createdAt = now\<rparr>))))"

text \<open>The rows to skip come from the clamped limit, the rows to take from the limit as given.\<close>

definition getFaultLogs :: "string \<Rightarrow> rat \<Rightarrow> rat \<Rightarrow> FaultLog listing prog" where
  "getFaultLogs stationId page limit =
     (let rows = (\<lambda>d. newest_first (filter (\<lambda>l. fl_stationId l = stationId) (faultLogs d))) in
      andthen (db_read rows) (\<lambda>xs.
      andthen (arg (slice (of_int (pg_skip (parsePagination (JNum page) (JNum limit)))) limit xs)) (\<lambda>items.
      andthen (db_read (\<lambda>d. length (rows d))) (\<lambda>n.
      ret \<lparr>li_items = items, li_total = n, li_page = page, li_limit = limit,
        li_totalPages = js_ceil (js_div (of_nat n) limit)\<rparr>))))"

definition resetPassword :: "string \<Rightarrow> string prog" where
  "resetPassword stationId =
     andthen (station_by_id stationId) (\<lambda>_.
     andthen (random_password 32) (\<lambda>plainPassword.
     andthen (ask (\<lambda>w. bcrypt_hash (host w) plainPassword)) (\<lambda>passwordHash.
     andthen (db_do (update_station stationId (\<lambda>s. s\<lparr>st_passwordHash := Some passwordHash\<rparr>))) (\<lambda>_.
     ret plainPassword))))"

section \<open>findBySerial\<close>

record found_station =
  fs_stationId :: string
  fs_serialNumber :: string
  fs_modelName :: "string option"
  fs_status :: StationStatus
  fs_siteId :: "int option"
  fs_isConnected :: bool
  fs_connectors :: "(int \<times> ConnectorStatus) list"

definition findBySerial :: "string \<Rightarrow> found_station prog" where
  "findBySerial serial =
     (let unknown = AppErr (NotFoundError ''unregistered charger'' ''station:notFound'') in
      andthen (db_read (\<lambda>d. filter (\<lambda>r. pv_serialNumber r = serial) (provisionings d))) (\<lambda>exact.
      andthen (if exact = [] then db_read (\<lambda>d. filter (\<lambda>r. js_endsWith (pv_serialNumber r) serial) (provisionings d))
               else ret exact) (\<lambda>matches.
      case matches of
        [] \<Rightarrow> raise unknown
      | p # rest \<Rightarrow>
          if rest \<noteq> [] then raise (AppErr (BadRequestError ''several chargers match the serial number'' ''station:ambiguousSerial''))
          else if pv_status p \<in> {PvRevoked, PvRejected}
          then raise (AppErr (ForbiddenError ''the charger is suspended'' ''station:revoked''))
          else
            andthen (from_option unknown (nonempty (pv_stationId p))) (\<lambda>sid.
            andthen (db_read id) (\<lambda>d.
            andthen (from_option unknown (find_station sid d)) (\<lambda>s.
            ask (\<lambda>w. \<lparr>fs_stationId = st_id s, fs_serialNumber = pv_serialNumber p,
              fs_modelName = (case st_modelName s of None \<Rightarrow> pv_modelName p | Some m \<Rightarrow> Some m), fs_status = st_status s,
              fs_siteId = st_siteId s, fs_isConnected = isConnected w (st_id s),
              fs_connectors = map (\<lambda>c. (co_connectorId c, co_currentStatus c)) (connectors_of (st_id s) d)\<rparr>)))))))"

definition getOnlineStations :: "(ChargingStation \<times> Connector list) list prog" where
  "getOnlineStations =
     andthen (ask getConnectedStationIds) (\<lambda>connectedIds.
     if connectedIds = [] then ret []
     else db_read (\<lambda>d. map (\<lambda>s. (s, connectors_of (st_id s) d)) (filter (\<lambda>s. st_id s \<in> set connectedIds) (stations d))))"

section \<open>station.controller.ts\<close>

text \<open>\<open>/^EN\d{7}$/\<close> and \<open>z.coerce.number()\<close>\<close>

definition z_station_id :: "jsval \<Rightarrow> bool" where
  "z_station_id v = (case v of JStr s \<Rightarrow> length s = 9 \<and> take 2 s = ''EN'' \<and> list_all is_digit (drop 2 s) | _ \<Rightarrow> False)"

definition coerce_number :: "jsval \<Rightarrow> rat option" where
  "coerce_number v =
     (case v of JNum n \<Rightarrow> Some n | JStr s \<Rightarrow> js_Number s | JBool b \<Rightarrow> Some (if b then 1 else 0) | JNull \<Rightarrow> Some 0
      | JArr _ \<Rightarrow> js_Number (js_text v) | _ \<Rightarrow> None)"

definition coerced :: "jsval \<Rightarrow> jsval" where
  "coerced v = (case coerce_number v of None \<Rightarrow> JUndefined | Some n \<Rightarrow> JNum n)"

definition z_site :: "jsval \<Rightarrow> bool" where
  "z_site v = (v = JUndefined \<or> z_positive_int (coerced v))"

definition station_fields_ok :: "jsval \<Rightarrow> bool" where
  "station_fields_ok b \<longleftrightarrow> z_object b \<and> z_optional z_text (js_get b ''manufacturer'') \<and> z_optional z_text (js_get b ''serialNumber'')
     \<and> z_optional z_text (js_get b ''firmwareVersion'') \<and> kwh_ok (js_get b ''chargingKwh'')"

definition station_fields :: "jsval \<Rightarrow> jsval \<Rightarrow> string option \<Rightarrow> station_data" where
  "station_fields b site modelName =
     \<lparr>su_siteId = site, su_manufacturer = text_of (js_get b ''manufacturer''), su_serialNumber = text_of (js_get b ''serialNumber''),
      su_modelName = modelName, su_firmwareVersion = text_of (js_get b ''firmwareVersion''),
      su_chargingKwh = number_of (js_get b ''chargingKwh'')\<rparr>"

definition station_list_route :: "http_request \<Rightarrow> station_item paged answer prog" where
  "station_list_route req =
     respond (andthen (list_stations (map_get (rq_query req) ''status'') (map_get (rq_query req) ''keyword'')
       (js_opt_str (map_get (rq_query req) ''page'')) (js_opt_str (map_get (rq_query req) ''limit''))) (\<lambda>result.
       ret (reply_data 200 result)))"

definition station_find_route :: "http_request \<Rightarrow> station_detail answer prog" where
  "station_find_route req = respond (andthen (station_by_id (param req ''id'')) (\<lambda>s. ret (reply_data 200 s)))"

definition station_create_route :: "http_request \<Rightarrow> ChargingStation answer prog" where
  "station_create_route req =
     (let b = rq_body req in
      respond (andthen (zod (station_fields_ok b \<and> z_station_id (js_get b ''id'') \<and> z_site (js_get b ''siteId''))
          ''Station ID must be EN + 7 digits'') (\<lambda>_.
        andthen (create_new_station (the_default [] (text_of (js_get b ''id'')))
          (station_fields b (coerced (js_get b ''siteId'')) None)) (\<lambda>s.
        ret (reply_data 201 s)))))"

definition station_update_route :: "http_request \<Rightarrow> ChargingStation answer prog" where
  "station_update_route req =
     (let b = rq_body req; site = js_get b ''siteId'' in
      respond (andthen (zod (station_fields_ok b \<and> z_optional z_text (js_get b ''modelName'') \<and> (site = JNull \<or> z_site site))
          ''invalid update'') (\<lambda>_.
        andthen (change_station (param req ''id'')
          (station_fields b (if site = JNull then JNull else coerced site) (text_of (js_get b ''modelName'')))) (\<lambda>s.
        ret (reply_data 200 s)))))"

text \<open>The provisioning record is deleted before the station, whose deletion may be refused.\<close>

definition station_delete_route :: "http_request \<Rightarrow> string answer prog" where
  "station_delete_route req =
     respond
       (andthen (find_provisioning_by_station (param req ''id'')) (\<lambda>provisioning.
        andthen (case provisioning of None \<Rightarrow> ret ()
                 | Some _ \<Rightarrow> andthen (deleteByStationId (param req ''id'')) (\<lambda>_. ret ())) (\<lambda>_.
        andthen (delete_station (param req ''id'')) (\<lambda>_.
        ret (reply_data 200 ''the charger is deactivated'')))))"

definition fault_route :: "http_request \<Rightarrow> FaultLog answer prog" where
  "fault_route req =
     (let b = rq_body req; ft = js_get b ''faultType'' in
      respond (andthen (zod (z_object b \<and> (case ft of JStr s \<Rightarrow> fault_type_of s \<noteq> None | _ \<Rightarrow> False)
          \<and> z_optional z_text (js_get b ''description'')) ''invalid fault'') (\<lambda>_.
        andthen (addFaultLog (param req ''id'') (the_default [] (text_of ft)) (text_of (js_get b ''description'')) (username req)) (\<lambda>l.
        ret (reply_data 201 l)))))"

definition fault_list_route :: "http_request \<Rightarrow> FaultLog listing answer prog" where
  "fault_list_route req =
     respond (andthen (getFaultLogs (param req ''id'') (number_or req ''page'' 1) (number_or req ''limit'' 20)) (\<lambda>result.
       ret (reply_data 200 result)))"

definition password_route :: "http_request \<Rightarrow> string answer prog" where
  "password_route req = respond (andthen (resetPassword (param req ''id'')) (\<lambda>password. ret (reply_data 200 password)))"

definition online_route :: "http_request \<Rightarrow> ((ChargingStation \<times> Connector list) list \<times> nat) answer prog" where
  "online_route req = respond (andthen getOnlineStations (\<lambda>xs. ret (reply_data 200 (xs, length xs))))"

end
