(* ===== verification/Settings.thy ===== *)
theory Settings
  imports StationService
begin

text \<open>
  The remaining administrative services and routes: charger settings (\<open>services/chargerConfig.service.ts\<close>), fault logs
  (\<open>services/faultLog.service.ts\<close>, \<open>routes/portal/cs/faultLogs.routes.ts\<close>), the message log
  (\<open>services/ocppMessage.service.ts\<close>), command results (\<open>controllers/ocppCommand.controller.ts\<close>), the lists of
  \<open>routes/portal/cs/stations.routes.ts\<close> and the id tokens of the internal API.  A body that the code does not validate is a
  JSON value, refused where the database client refuses it.
\<close>

section \<open>Enumerations in a body\<close>

text \<open>A value of an enumeration: \<open>undefined\<close> leaves the column alone, any other non-member is refused.\<close>

fun enum_update :: "(string \<Rightarrow> 'a option) \<Rightarrow> jsval \<Rightarrow> ('a \<Rightarrow> 'a) option" where
  "enum_update parse JUndefined = Some (\<lambda>x. x)"
| "enum_update parse (JStr s) = map_option (\<lambda>v _. v) (parse s)"
| "enum_update parse _ = None"

definition required :: "string \<Rightarrow> 'a answer" where
  "required what = refuse 400 ''BAD_REQUEST'' (what @ '' is required'')"

section \<open>chargerConfig.service.ts\<close>

definition config_status_of :: "string \<Rightarrow> ChargerConfigStatus option" where
  "config_status_of s = (if s = ''normal'' then Some CcNormal else if s = ''error'' then Some CcError else None)"

definition list_configs :: "string option \<Rightarrow> jsval \<Rightarrow> jsval \<Rightarrow> ChargerConfig paged prog" where
  "list_configs stationId page limit =
     paged_rows page limit (\<lambda>d. newest_first (filter (\<lambda>c.
       case nonempty stationId of None \<Rightarrow> True | Some s \<Rightarrow> cc_stationId c = s) (configs d)))"

definition create_new_config :: "jsval \<Rightarrow> jsval \<Rightarrow> jsval \<Rightarrow> jsval \<Rightarrow> jsval \<Rightarrow> ChargerConfig prog" where
  "create_new_config stationId key v status errorDesc =
     andthen (arg (as_string stationId)) (\<lambda>s.
     andthen (arg (as_string key)) (\<lambda>k.
     andthen (db_read (\<lambda>d. List.find (\<lambda>c. cc_stationId c = s \<and> cc_key c = k) (configs d))) (\<lambda>existing.
     if existing \<noteq> None then raise (AppErr (conflict_default (''the setting exists already: '' @ k)))
     else
       andthen (arg (as_string_opt v)) (\<lambda>value.
       andthen (arg (enum_update config_status_of status)) (\<lambda>st.
       andthen (arg (as_string_opt errorDesc)) (\<lambda>desc.
       db_do (create_config \<lparr>cc_id = 0, cc_stationId = s, cc_key = k, cc_value = value, cc_status = st CcNormal,
         cc_errorDesc = desc\<rparr>)))))))"

definition find_config :: "int \<Rightarrow> ChargerConfig prog" where
  "find_config i =
     andthen (db_read (\<lambda>d. List.find (\<lambda>c. cc_id c = i) (configs d))) (\<lambda>existing.
     from_option (AppErr (not_found_default ''setting not found'')) existing)"

definition change_config :: "int \<Rightarrow> jsval \<Rightarrow> jsval \<Rightarrow> jsval \<Rightarrow> ChargerConfig prog" where
  "change_config i v status errorDesc =
     andthen (find_config i) (\<lambda>_.
     andthen (arg (string_update v)) (\<lambda>value.
     andthen (arg (enum_update config_status_of status)) (\<lambda>st.
     andthen (arg (string_update errorDesc)) (\<lambda>desc.
     db_do (update_config i (\<lambda>c. c\<lparr>cc_value := value (cc_value c), cc_status := st (cc_status c),
       cc_errorDesc := desc (cc_errorDesc c)\<rparr>))))))"

definition remove_config :: "int \<Rightarrow> ChargerConfig prog" where
  "remove_config i = andthen (find_config i) (\<lambda>_. db_do (delete_config i))"

definition config_list_route :: "http_request \<Rightarrow> ChargerConfig paged answer prog" where
  "config_list_route req =
     respond (andthen (list_configs (map_get (rq_query req) ''stationId'') (JNum (number_or req ''page'' 1))
       (JNum (number_or req ''limit'' 20))) (\<lambda>result. ret (reply_data 200 result)))"

definition config_create_route :: "http_request \<Rightarrow> ChargerConfig answer prog" where
  "config_create_route req =
     (let b = rq_body req in
      if \<not> js_truthy (js_get b ''stationId'') \<or> \<not> js_truthy (js_get b ''key'') then ret (required ''stationId and key'')
      else respond (andthen (create_new_config (js_get b ''stationId'') (js_get b ''key'') (js_get b ''value'')
        (js_get b ''status'') (js_get b ''errorDesc'')) (\<lambda>c. ret (reply_data 201 c))))"

definition config_update_route :: "http_request \<Rightarrow> ChargerConfig answer prog" where
  "config_update_route req =
     (let b = rq_body req in
      respond (andthen (id_arg req) (\<lambda>i.
        andthen (change_config i (js_get b ''value'') (js_get b ''status'') (js_get b ''errorDesc'')) (\<lambda>c.
        ret (reply_data 200 c)))))"

definition config_delete_route :: "http_request \<Rightarrow> string answer prog" where
  "config_delete_route req =
     respond (andthen (id_arg req) (\<lambda>i. andthen (remove_config i) (\<lambda>_. ret (reply_data 200 ''the setting is deleted''))))"

section \<open>faultLog.service.ts and the fault routes\<close>

definition list_faults :: "string option \<Rightarrow> bool option \<Rightarrow> jsval \<Rightarrow> jsval \<Rightarrow> (FaultLog \<times> ChargingStation option) paged prog" where
  "list_faults stationId resolved page limit =
     paged_rows page limit (\<lambda>d. map (\<lambda>l. (l, find_station (fl_stationId l) d)) (newest_first (filter (\<lambda>l.
       (case nonempty stationId of None \<Rightarrow> True | Some s \<Rightarrow> fl_stationId l = s) \<and>
       (case resolved of None \<Rightarrow> True | Some b \<Rightarrow> (fl_resolvedAt l \<noteq> None) = b)) (faultLogs d))))"

text \<open>\<open>reportedBy: undefined\<close> leaves the reporter; the status of the fault stays as it is.\<close>

definition resolve_fault :: "int \<Rightarrow> string option \<Rightarrow> FaultLog prog" where
  "resolve_fault i resolvedBy =
     andthen js_now (\<lambda>now.
     db_do (update_faultLog i (\<lambda>l. l\<lparr>fl_resolvedAt := Some now, fl_reportedBy := keep_or (fl_reportedBy l) resolvedBy\<rparr>)))"

definition fault_status_of :: "string \<Rightarrow> FaultStatus option" where
  "fault_status_of s =
     (if s = ''Received'' then Some FsReceived else if s = ''InProgress'' then Some FsInProgress
      else if s = ''Resolved'' then Some FsResolved else None)"

fun fault_type_text :: "FaultType \<Rightarrow> string" where
  "fault_type_text FtConnectorFault = ''ConnectorFault''"
| "fault_type_text FtCommunicationError = ''CommunicationError''"
| "fault_type_text FtPowerFault = ''PowerFault''"
| "fault_type_text FtOther = ''Other''"

definition date_bound :: "(int \<Rightarrow> int \<Rightarrow> bool) \<Rightarrow> string option \<Rightarrow> (int \<Rightarrow> bool) prog" where
  "date_bound le q =
     (case nonempty q of
        None \<Rightarrow> ret (\<lambda>_. True)
      | Some s \<Rightarrow> andthen (arg (js_new_date (JStr s))) (\<lambda>t. ret (le t)))"

definition fault_keyword :: "string option \<Rightarrow> FaultLog \<Rightarrow> bool" where
  "fault_keyword q l =
     (case nonempty q of
        None \<Rightarrow> True
      | Some kw \<Rightarrow> icontains kw (fl_description l) \<or> js_includes (js_lower (fault_type_text (fl_faultType l))) (js_lower kw))"

definition fault_station_filter :: "http_request \<Rightarrow> (FaultLog \<Rightarrow> bool) prog" where
  "fault_station_filter req =
     (if query_text req ''partnerId'' \<noteq> None then ret (\<lambda>_. True)
      else case query_text req ''siteId'' of
        Some s \<Rightarrow>
          andthen (arg (Option.bind (js_Number s) (\<lambda>n. as_int (JNum n)))) (\<lambda>site.
          andthen (db_read (\<lambda>d. map st_id (filter (\<lambda>r. st_siteId r = Some site) (stations d)))) (\<lambda>stationIds.
          ret (\<lambda>l. fl_stationId l \<in> set stationIds)))
      | None \<Rightarrow> (case query_text req ''stationId'' of None \<Rightarrow> ret (\<lambda>_. True) | Some s \<Rightarrow> ret (\<lambda>l. fl_stationId l = s)))"

definition portal_fault_list :: "http_request \<Rightarrow> (FaultLog \<times> ChargingStation option) listing answer prog" where
  "portal_fault_list req =
     respond
       (andthen (fault_station_filter req) (\<lambda>by_station.
        andthen (enum_filter fault_status_of (map_get (rq_query req) ''status'')) (\<lambda>by_status.
        andthen (date_bound (\<le>) (map_get (rq_query req) ''startDate'')) (\<lambda>after.
        andthen (date_bound (\<ge>) (map_get (rq_query req) ''endDate'')) (\<lambda>before.
        andthen (listing (number_or req ''page'' 1) (number_or req ''limit'' 20)
          (\<lambda>d. map (\<lambda>l. (l, find_station (fl_stationId l) d)) (newest_first (filter (\<lambda>l. fault_keyword (map_get (rq_query req) ''keyword'') l
             \<and> by_status (fl_status l) \<and> after (fl_createdAt l) \<and> before (fl_createdAt l) \<and> by_station l) (faultLogs d))))) (\<lambda>result.
        ret (reply_data 200 result)))))))"

definition portal_fault_create :: "http_request \<Rightarrow> FaultLog answer prog" where
  "portal_fault_create req =
     (let b = rq_body req in
      if \<not> js_truthy (js_get b ''stationId'') then ret (required ''stationId'')
      else respond
        (andthen (arg (as_string (js_get b ''stationId''))) (\<lambda>s.
         andthen (arg (Option.bind (as_string (js_or (js_get b ''faultType'') (JStr ''ConnectorFault''))) fault_type_of)) (\<lambda>ft.
         andthen (arg (as_string_opt (js_get b ''description''))) (\<lambda>desc.
         andthen (arg (as_string (js_or (js_get b ''reportedBy'') (JStr (username req))))) (\<lambda>by.
         andthen js_now (\<lambda>now.
         andthen (db_do (create_faultLog \<lparr>fl_id = 0, fl_stationId = s, fl_faultType = ft, fl_description = desc,
           fl_resolvedAt = None, fl_reportedBy = Some by, fl_status = FsReceived, fl_createdAt = now\<rparr>)) (\<lambda>l.
         ret (reply_data 201 l)))))))))"

definition portal_fault_status :: "http_request \<Rightarrow> FaultLog answer prog" where
  "portal_fault_status req =
     (let status = js_get (rq_body req) ''status'' in
      if \<not> js_truthy status then ret (required ''status'')
      else respond
        (andthen (if status = JStr ''Resolved'' then andthen js_now (\<lambda>now. ret (Some now)) else ret None) (\<lambda>resolvedAt.
         andthen (id_arg req) (\<lambda>i.
         andthen (arg (Option.bind (as_string status) fault_status_of)) (\<lambda>st.
         andthen (db_do (update_faultLog i (\<lambda>l. l\<lparr>fl_status := st, fl_resolvedAt := keep_or (fl_resolvedAt l) resolvedAt\<rparr>))) (\<lambda>l.
         ret (reply_data 200 l)))))))"

section \<open>ocppMessage.service.ts\<close>

definition log_message :: "OcppMessageRow \<Rightarrow> unit prog" where
  "log_message r = ignore_err (db_do (create_ocppMessage r))"

definition list_messages :: "string option \<Rightarrow> string option \<Rightarrow> string option \<Rightarrow> string option \<Rightarrow> jsval \<Rightarrow> jsval \<Rightarrow> OcppMessageRow paged prog" where
  "list_messages stationId action startDate endDate page limit =
     andthen (date_bound (\<le>) startDate) (\<lambda>after.
     andthen (date_bound (\<ge>) endDate) (\<lambda>before.
     paged_rows page limit (\<lambda>d. sort_desc om_createdAt (filter (\<lambda>r. text_matches stationId (Some (om_stationId r)) \<and>
       text_matches action (om_action r) \<and> after (om_createdAt r) \<and> before (om_createdAt r)) (ocppMessages d)))))"

definition deleteOlderThan :: "rat \<Rightarrow> nat prog" where
  "deleteOlderThan days =
     andthen js_now (\<lambda>now. db_do (delete_messages_before \<lfloor>of_int now - days * 24 * 60 * 60 * 1000\<rfloor>))"

section \<open>ocppCommand.controller.ts\<close>

definition optional_date :: "string option \<Rightarrow> int option prog" where
  "optional_date q =
     (case nonempty q of None \<Rightarrow> ret None | Some s \<Rightarrow> andthen (arg (js_new_date (JStr s))) (\<lambda>t. ret (Some t)))"

definition command_list_route :: "http_request \<Rightarrow> OcppCommandResult paged answer prog" where
  "command_list_route req =
     respond
       (andthen (optional_date (map_get (rq_query req) ''sentFrom'')) (\<lambda>sentFrom.
        andthen (optional_date (map_get (rq_query req) ''sentTo'')) (\<lambda>sentTo.
        andthen (list_commands \<lparr>cq_page = query_number req ''page'', cq_limit = query_number req ''limit'',
          cq_stationId = query_text req ''stationId'', cq_action = query_text req ''action'', cq_status = query_text req ''status'',
          cq_requestedBy = query_text req ''requestedBy'', cq_sentFrom = sentFrom, cq_sentTo = sentTo\<rparr>) (\<lambda>result.
        ret (reply_data 200 result)))))"

definition command_find_route :: "http_request \<Rightarrow> OcppCommandResult answer prog" where
  "command_find_route req =
     respond
       (andthen (id_arg req) (\<lambda>i.
        andthen (db_read (\<lambda>d. List.find (\<lambda>r. cr_id r = i) (commandResults d))) (\<lambda>item.
        andthen (from_option (AppErr (NotFoundError ''command result not found'' ''ocppCommand:notFound'')) item) (\<lambda>r.
        ret (reply_data 200 r)))))"

text \<open>\<open>Math.max(1, Math.min(90, Number(days)))\<close>; \<open>NaN\<close> makes the date of the query invalid.\<close>

definition command_stats_route :: "http_request \<Rightarrow> (rat \<times> (OcppCommandStatus \<times> nat) list) answer prog" where
  "command_stats_route req =
     respond
       (andthen (case query_text req ''days'' of
            None \<Rightarrow> ret 7
          | Some s \<Rightarrow> andthen (arg (js_Number s)) (\<lambda>n. ret (max 1 (min 90 n)))) (\<lambda>days.
        andthen (statsByStatus days) (\<lambda>counts. ret (reply_data 200 (days, counts)))))"

section \<open>stations.routes.ts\<close>

text \<open>\<open>resolvedAt\<close> of an offline log is never written, so without dates every row is listed.\<close>

definition offline_route :: "http_request \<Rightarrow> (OfflineLog \<times> ChargingStation option) listing answer prog" where
  "offline_route req =
     respond
       (andthen (date_bound (\<le>) (map_get (rq_query req) ''dateFrom'')) (\<lambda>after.
        andthen (date_bound (\<ge>) (map_get (rq_query req) ''dateTo'')) (\<lambda>before.
        andthen (listing (number_or req ''page'' 1) (number_or req ''limit'' 20)
          (\<lambda>d. map (\<lambda>l. (l, find_station (ol_stationId l) d))
             (sort_desc ol_loggedAt (filter (\<lambda>l. after (ol_loggedAt l) \<and> before (ol_loggedAt l)) (offlineLogs d))))) (\<lambda>result.
        ret (reply_data 200 result)))))"

record facets =
  fc_modelNames :: "string list"
  fc_vendors :: "string list"
  fc_sites :: "int list"

definition js_set :: "'a list \<Rightarrow> 'a list" where
  "js_set xs = rev (remdups (rev xs))"

primrec insert_by :: "('a \<Rightarrow> 'a \<Rightarrow> bool) \<Rightarrow> 'a \<Rightarrow> 'a list \<Rightarrow> 'a list" where
  "insert_by le x [] = [x]"
| "insert_by le x (y # ys) = (if le x y then x # y # ys else y # insert_by le x ys)"

definition sort_by :: "('a \<Rightarrow> 'a \<Rightarrow> bool) \<Rightarrow> 'a list \<Rightarrow> 'a list" where
  "sort_by le xs = foldr (insert_by le) xs []"

text \<open>\<open>le\<close> is \<open>localeCompare\<close> of the runtime's locale.\<close>

definition facets_route :: "(string \<Rightarrow> string \<Rightarrow> bool) \<Rightarrow> http_request \<Rightarrow> facets answer prog" where
  "facets_route le req =
     respond
       (andthen (db_read (\<lambda>d. js_set (List.map_filter st_modelName (stations d)))) (\<lambda>modelRows.
        andthen (db_read (\<lambda>d. js_set (List.map_filter st_vendorName (stations d)))) (\<lambda>vendorNameRows.
        andthen (db_read (\<lambda>d. js_set (List.map_filter st_manufacturer (stations d)))) (\<lambda>manufacturerRows.
        andthen (db_read (\<lambda>d. js_set (List.map_filter st_siteId (stations d)))) (\<lambda>siteIdRows.
        ret (reply_data 200 \<lparr>fc_modelNames = sort_by le modelRows, fc_vendors = sort_by le (js_set (vendorNameRows @ manufacturerRows)),
          fc_sites = sort siteIdRows\<rparr>))))))"

definition transactions_route :: "http_request \<Rightarrow> Transaction listing answer prog" where
  "transactions_route req =
     respond (andthen (listing (number_or req ''page'' 1) (number_or req ''limit'' 20)
         (\<lambda>d. sort_desc tx_timeStart (filter (\<lambda>t. tx_stationId t = param req ''id'') (transactions d)))) (\<lambda>result.
       ret (reply_data 200 result)))"

section \<open>internal-api/routes/idTokens.routes.ts\<close>

definition token_status_of :: "string \<Rightarrow> IdTokenStatus option" where
  "token_status_of s =
     (if s = ''Accepted'' then Some IdAccepted else if s = ''Blocked'' then Some IdBlocked else if s = ''Expired'' then Some IdExpired
      else if s = ''Invalid'' then Some IdInvalid else if s = ''ConcurrentTx'' then Some IdConcurrentTx else None)"

definition token_types :: "(string \<times> IdTokenType) list" where
  "token_types = [(''Local'', ItLocal), (''ISO14443'', ItISO14443), (''ISO15693'', ItISO15693), (''KeyCode'', ItKeyCode),
     (''eMAID'', ItEMAID), (''Central'', ItCentral), (''MacAddress'', ItMacAddress), (''NoAuthorization'', ItNoAuthorization)]"

definition token_list_route :: "http_request \<Rightarrow> IdToken paged answer prog" where
  "token_list_route req =
     respond_internal
       (andthen (enum_filter token_status_of (query_text req ''status'')) (\<lambda>by_status.
        andthen (paged_rows (query_number req ''page'') (query_number req ''limit'')
          (\<lambda>d. newest_first (filter (\<lambda>t. by_status (it_status t) \<and> has_keyword (query_text req ''keyword'') [Some (it_idTag t)]) (idTokens d))))
          (\<lambda>result. ret (reply_data 200 result))))"

definition find_token :: "string \<Rightarrow> IdToken prog" where
  "find_token idTag =
     andthen (db_read (\<lambda>d. List.find (\<lambda>t. it_idTag t = idTag) (idTokens d))) (\<lambda>found.
     from_option (AppErr (api_notFound (''IdToken not found: '' @ idTag))) found)"

definition token_find_route :: "http_request \<Rightarrow> IdToken answer prog" where
  "token_find_route req = respond_internal (andthen (find_token (param req ''idTag'')) (\<lambda>t. ret (reply_data 200 t)))"

definition token_create_route :: "http_request \<Rightarrow> IdToken answer prog" where
  "token_create_route req =
     (let b = rq_body req in
      respond_internal
        (if \<not> js_truthy (js_get b ''idTag'') then raise (AppErr (api_badRequest ''idTag is required''))
         else
           andthen (arg (as_string (js_get b ''idTag''))) (\<lambda>tag.
           andthen (arg (Option.bind (as_string (js_coalesce (js_get b ''status'') (JStr ''Accepted''))) token_status_of)) (\<lambda>st.
           andthen (arg (as_int_opt (js_get b ''userId''))) (\<lambda>user.
           andthen (db_do (create_idToken \<lparr>it_idTag = tag,
              it_type = the_default ItLocal (Option.bind (text_of (js_get b ''type'')) (map_get token_types)),
              it_status = st, it_expiryDate = None, it_userId = user\<rparr>)) (\<lambda>t.
           ret (reply_data 201 t)))))))"

definition token_update_route :: "http_request \<Rightarrow> IdToken answer prog" where
  "token_update_route req =
     (let b = rq_body req; idTag = param req ''idTag'' in
      respond_internal
        (andthen (find_token idTag) (\<lambda>_.
         andthen (arg (enum_update token_status_of (js_get b ''status''))) (\<lambda>st.
         andthen (arg (enum_update (map_get token_types) (js_get b ''type''))) (\<lambda>ty.
         andthen (arg (int_update (js_get b ''userId''))) (\<lambda>user.
         andthen (db_do (update_idToken idTag (\<lambda>t. t\<lparr>it_status := st (it_status t), it_type := ty (it_type t),
           it_userId := user (it_userId t)\<rparr>))) (\<lambda>t. ret (reply_data 200 t))))))))"

definition delete_token :: "string \<Rightarrow> unit prog" where
  "delete_token idTag =
     andthen (find_token idTag) (\<lambda>_.
     andthen (db_read (\<lambda>d. List.find (\<lambda>t. tx_idTag t = Some idTag \<and> is_open_tx t) (transactions d))) (\<lambda>activeSession.
     if activeSession \<noteq> None then raise (AppErr (api_conflict ''IdToken has an active charging session''))
     else andthen (db_do (delete_idToken idTag)) (\<lambda>_. ret ())))"

definition token_delete_route :: "http_request \<Rightarrow> string answer prog" where
  "token_delete_route req =
     respond_internal (andthen (delete_token (param req ''idTag'')) (\<lambda>_. ret (reply_data 200 (param req ''idTag''))))"

end
