(* ===== verification/InternalApi.thy ===== *)
theory InternalApi
  imports FirmwareApi Settings
begin

text \<open>
  The internal API (\<open>packages/core/src/internal-api\<close>): service tokens, idempotency keys, and the routes for sessions,
  commands, stations and diagnostics.  A session request waits for the reply of its station; the other
  commands answer 202 at once and go on in the event loop.  Redis entries are texts in \<open>kv\<close>; their expiry is
  the step \<open>expire_key\<close> of the environment.
\<close>

section \<open>auth.middleware.ts\<close>

definition loadTokens :: "host \<Rightarrow> string + string list" where
  "loadTokens h =
     (case api_token_env h of
        None \<Rightarrow> Inl ''CSMS_INTERNAL_API_TOKEN must be configured before starting the server.''
      | Some raw \<Rightarrow>
          if js_trim raw = [] then Inl ''CSMS_INTERNAL_API_TOKEN must be configured before starting the server.''
          else
            (let tokens = filter (\<lambda>t. 32 \<le> length t) (map js_trim (js_split (CHR '','') raw))
             in if tokens = [] then Inl ''CSMS_INTERNAL_API_TOKEN: all tokens are shorter than 32 characters.''
                else Inr (js_set tokens)))"

definition timingSafeEqual_str :: "string \<Rightarrow> string \<Rightarrow> bool" where
  "timingSafeEqual_str a b \<longleftrightarrow> length a = length b \<and> list_all (\<lambda>(x, y). x = y) (zip a b)"

definition error_json :: "app_error \<Rightarrow> jsval http_response" where
  "error_json e = \<lparr>rs_status = ae_statusCode e,
     rs_body = JObj [(''error'', JObj [(''code'', JStr (ae_code e)), (''message'', JStr (ae_message e))])]\<rparr>"

text \<open>\<open>None\<close> is \<open>next()\<close>.\<close>

definition internalAuthMiddleware :: "string list \<Rightarrow> http_request \<Rightarrow> jsval http_response option" where
  "internalAuthMiddleware tokens req =
     (case map_get (rq_headers req) ''authorization'' of
        None \<Rightarrow> Some (error_json (api_unauthorized ''Authorization header is required: Bearer <token>''))
      | Some authHeader \<Rightarrow>
          if \<not> js_startsWith authHeader ''Bearer ''
          then Some (error_json (api_unauthorized ''Authorization header is required: Bearer <token>''))
          else if list_ex (timingSafeEqual_str (drop 7 authHeader)) tokens then None
          else Some (error_json (api_unauthorized ''Invalid Bearer token'')))"

section \<open>idempotency.middleware.ts\<close>

definition IN_PROGRESS_MARKER :: string where
  "IN_PROGRESS_MARKER = ''__IN_PROGRESS__''"

definition redisKey :: "string \<Rightarrow> string" where
  "redisKey key = ''idempotency:internal:'' @ key"

datatype cached_response = Miss | InProgress | Completed jsval jsval

definition read_cached :: "string option \<Rightarrow> cached_response" where
  "read_cached raw =
     (case raw of
        None \<Rightarrow> Miss
      | Some s \<Rightarrow>
          if s = [] then Miss
          else if s = IN_PROGRESS_MARKER then InProgress
          else (case json_parse s of None \<Rightarrow> Miss | Some v \<Rightarrow> if v = JNull then Miss else Completed (js_get v ''status'') (js_get v ''body'')))"

definition getCached :: "string \<Rightarrow> cached_response prog" where
  "getCached key =
     catch_err
       (andthen (redis_do (\<lambda>w. (map_get (kv w) (redisKey key), w))) (\<lambda>raw. ret (read_cached raw)))
       (\<lambda>_. ret Miss)"

definition setInProgress :: "string \<Rightarrow> unit prog" where
  "setInProgress key =
     ignore_err (redis_do (\<lambda>w. ((), case map_get (kv w) (redisKey key) of
       None \<Rightarrow> w\<lparr>kv := map_set (redisKey key) IN_PROGRESS_MARKER (kv w)\<rparr> | Some _ \<Rightarrow> w)))"

definition setCompleted :: "string \<Rightarrow> int \<Rightarrow> jsval \<Rightarrow> unit prog" where
  "setCompleted key status body =
     ignore_err (redis_do (\<lambda>w. ((), w\<lparr>kv := map_set (redisKey key)
       (json_stringify (JObj [(''status'', js_int status), (''body'', body)])) (kv w)\<rparr>)))"

definition expire_key :: "string \<Rightarrow> world \<Rightarrow> world" where
  "expire_key key w = w\<lparr>kv := map_delete key (kv w)\<rparr>"

text \<open>The flag is the header \<open>X-Idempotent-Replayed\<close>.\<close>

definition idempotencyMiddleware :: "(http_request \<Rightarrow> jsval http_response prog) \<Rightarrow> http_request \<Rightarrow> (bool \<times> jsval http_response) prog" where
  "idempotencyMiddleware handler req =
     (case nonempty (map_get (rq_headers req) ''idempotency-key'') of
        None \<Rightarrow> andthen (handler req) (\<lambda>r. ret (False, r))
      | Some key \<Rightarrow>
          andthen (getCached key) (\<lambda>cached.
          case cached of
            InProgress \<Rightarrow> ret (False, error_json (api_duplicateRequest key))
          | Completed status body \<Rightarrow>
              andthen (from_option (PlainError ''invalid status code'') (as_int status)) (\<lambda>st.
              ret (True, \<lparr>rs_status = st, rs_body = body\<rparr>))
          | Miss \<Rightarrow>
              andthen (setInProgress key) (\<lambda>_.
              andthen (handler req) (\<lambda>r.
              andthen (only_if (rs_status r < 500) (setCompleted key (rs_status r) (rs_body r))) (\<lambda>_.
              ret (False, r))))))"

section \<open>index.ts\<close>

text \<open>The body of an answer as JSON; \<open>render\<close> prints the data of the route.\<close>

definition to_json :: "('a \<Rightarrow> jsval) \<Rightarrow> 'a answer \<Rightarrow> jsval http_response" where
  "to_json render a =
     \<lparr>rs_status = rs_status a, rs_body = (case rs_body a of
        Data x \<Rightarrow> JObj [(''success'', JBool True), (''data'', render x)]
      | Refused code message \<Rightarrow> JObj [(''success'', JBool False), (''error'', JObj [(''code'', JStr code), (''message'', JStr message)])]
      | ApiRefused code message \<Rightarrow> JObj [(''error'', JObj [(''code'', JStr code), (''message'', JStr message)])])\<rparr>"

definition internal_api :: "string list \<Rightarrow> ('a \<Rightarrow> jsval) \<Rightarrow> 'a controller \<Rightarrow> http_request \<Rightarrow> (bool \<times> jsval http_response) prog" where
  "internal_api tokens render route req =
     (case internalAuthMiddleware tokens req of
        Some refusal \<Rightarrow> ret (False, refusal)
      | None \<Rightarrow> idempotencyMiddleware (\<lambda>r. andthen (route r) (\<lambda>a. ret (to_json render a))) req)"

section \<open>Stations that are there and connected\<close>

definition assertStationExists :: "string \<Rightarrow> ChargingStation prog" where
  "assertStationExists stationId =
     andthen (db_read (find_station stationId)) (from_option (AppErr (api_stationNotFound stationId)))"

definition assertStationOnline :: "string \<Rightarrow> unit prog" where
  "assertStationOnline stationId =
     andthen (assertStationExists stationId) (\<lambda>_.
     andthen (ask (\<lambda>w. isConnected w stationId)) (\<lambda>up.
     if up then ret () else raise (AppErr (api_stationOffline stationId))))"

text \<open>\<open>v.k\<close> where \<open>v\<close> may be \<open>null\<close>.\<close>

definition js_member :: "jsval \<Rightarrow> string \<Rightarrow> jsval prog" where
  "js_member v k =
     (if js_nullish v then raise (PlainError (''Cannot read properties of null (reading '' @ sq @ k @ sq @ '')''))
      else ret (js_get v k))"

section \<open>routes/sessions.routes.ts\<close>

definition mapOcppError :: "host \<Rightarrow> string \<Rightarrow> string \<Rightarrow> js_error \<Rightarrow> js_error" where
  "mapOcppError h stationId action err =
     (let message = js_lower (err_message h err) in
      if js_includes message ''timeout'' then AppErr (api_ocppTimeout stationId action)
      else if js_includes message ''rejected'' \<or> js_includes message ''not connected''
      then AppErr (api_ocppRejected stationId action)
      else err)"

definition session_call :: "string \<Rightarrow> string \<Rightarrow> jsval prog \<Rightarrow> jsval prog" where
  "session_call stationId action send =
     andthen (catch_err send (\<lambda>err. andthen (ask (\<lambda>w. mapOcppError (host w) stationId action err)) raise)) (\<lambda>result.
     andthen (js_member result ''status'') (\<lambda>status.
     if status = JStr ''Rejected'' then raise (AppErr (api_ocppRejected stationId action)) else ret status))"

record session_started =
  ss_stationId :: string
  ss_connectorId :: jsval
  ss_idTag :: jsval
  ss_status :: jsval

definition session_start :: "http_request \<Rightarrow> session_started answer prog" where
  "session_start req =
     (let b = rq_body req; connectorId = js_coalesce (js_get b ''connectorId'') (JNum 1);
          idTag = js_get b ''idTag''; chargingProfile = js_get b ''chargingProfile'' in
      respond_internal
        (if \<not> js_truthy (js_get b ''stationId'') then raise (AppErr (api_badRequest ''stationId is required''))
         else if \<not> js_truthy idTag then raise (AppErr (api_badRequest ''idTag is required''))
         else
           andthen (arg (as_string (js_get b ''stationId''))) (\<lambda>stationId.
           andthen (assertStationOnline stationId) (\<lambda>_.
           andthen (session_call stationId ''RemoteStartTransaction'' (sendRemoteStartTransaction stationId
              (JObj ([(''connectorId'', connectorId), (''idTag'', idTag)] @
                (if js_truthy chargingProfile then [(''chargingProfile'', chargingProfile)] else [])))
              (Some ''internal-api''))) (\<lambda>status.
           ret (reply_data 200 \<lparr>ss_stationId = stationId, ss_connectorId = connectorId, ss_idTag = idTag, ss_status = status\<rparr>))))))"

fun tx_status_text :: "TransactionStatus \<Rightarrow> string" where
  "tx_status_text TxPending = ''Pending''"
| "tx_status_text TxActive = ''Active''"
| "tx_status_text TxStopped = ''Stopped''"
| "tx_status_text TxFailed = ''Failed''"

record session_stopped =
  sp_sessionId :: int
  sp_stationId :: string
  sp_ocppTransactionId :: int
  sp_status :: jsval

definition session_stop :: "http_request \<Rightarrow> session_stopped answer prog" where
  "session_stop req =
     (let sessionId = param req ''sessionId''; session = ''Session '' @ sq @ sessionId @ sq in
      respond_internal
        (andthen (arg (Option.bind (js_Number sessionId) (\<lambda>n. as_int (JNum n)))) (\<lambda>i.
         andthen (db_read (find_transaction i)) (\<lambda>found.
         andthen (from_option (AppErr (api_badRequest (session @ '' not found''))) found) (\<lambda>t.
         if \<not> is_open_tx t
         then raise (AppErr (api_badRequest (session @ '' is not active (status: '' @ tx_status_text (tx_status t) @ '')'')))
         else
           andthen (assertStationOnline (tx_stationId t)) (\<lambda>_.
           andthen (from_option (AppErr (api_badRequest (session @ '' has no OCPP transaction ID (not yet started)'')))
              (case tx_ocppTransactionId t of None \<Rightarrow> None | Some k \<Rightarrow> if k = 0 then None else Some k)) (\<lambda>k.
           andthen (session_call (tx_stationId t) ''RemoteStopTransaction'' (sendRemoteStopTransaction (tx_stationId t)
              (JObj [(''transactionId'', js_int k)]) (Some ''internal-api''))) (\<lambda>status.
           ret (reply_data 200 \<lparr>sp_sessionId = i, sp_stationId = tx_stationId t, sp_ocppTransactionId = k,
             sp_status = status\<rparr>)))))))))"

section \<open>routes/commands.routes.ts\<close>

record command_sent =
  cs_messageId :: string
  cs_action :: string
  cs_status :: string
  cs_sentAt :: int

text \<open>The command starts, its failure is only logged, and the answer goes out with a message id of its own.\<close>

definition sendAsyncCommandResponse :: "string \<Rightarrow> string \<Rightarrow> jsval \<Rightarrow> command_sent answer prog" where
  "sendAsyncCommandResponse stationId action payload =
     andthen (ignore_err (command_begin stationId action payload (Some ''internal-api''))) (\<lambda>_.
     andthen new_uuid (\<lambda>messageId.
     andthen js_now (\<lambda>sentAt.
     ret (reply_data 202 \<lparr>cs_messageId = messageId, cs_action = action, cs_status = ''sent'', cs_sentAt = sentAt\<rparr>))))"

text \<open>\<open>Number(v)\<close> in a message: \<open>NaN\<close> is sent as \<open>null\<close>.\<close>

definition number_json :: "jsval \<Rightarrow> jsval" where
  "number_json v = (case coerce_number v of None \<Rightarrow> JNull | Some n \<Rightarrow> JNum n)"

definition command_route :: "(jsval \<Rightarrow> (string \<times> jsval) prog) \<Rightarrow> http_request \<Rightarrow> command_sent answer prog" where
  "command_route build req =
     respond_internal
       (andthen (assertStationOnline (param req ''stationId'')) (\<lambda>_.
        andthen (build (rq_body req)) (\<lambda>(action, payload).
        sendAsyncCommandResponse (param req ''stationId'') action payload)))"

definition reset_call :: "jsval \<Rightarrow> (string \<times> jsval) prog" where
  "reset_call b = ret (''Reset'', JObj [(''type'', JStr (if js_get b ''type'' = JStr ''Hard'' then ''Hard'' else ''Soft''))])"

definition change_availability_call :: "jsval \<Rightarrow> (string \<times> jsval) prog" where
  "change_availability_call b = ret (''ChangeAvailability'',
     JObj [(''connectorId'', number_json (js_coalesce (js_get b ''connectorId'') (JNum 0))),
       (''type'', JStr (if js_get b ''type'' = JStr ''Inoperative'' then ''Inoperative'' else ''Operative''))])"

definition change_configuration_call :: "jsval \<Rightarrow> (string \<times> jsval) prog" where
  "change_configuration_call b =
     (if \<not> js_truthy (js_get b ''key'') \<or> js_get b ''value'' = JUndefined
      then raise (AppErr (api_badRequest ''key and value are required''))
      else ret (''ChangeConfiguration'', JObj [(''key'', js_get b ''key''), (''value'', JStr (js_text (js_get b ''value'')))]))"

definition get_configuration_call :: "jsval \<Rightarrow> (string \<times> jsval) prog" where
  "get_configuration_call b = ret (''GetConfiguration'',
     JObj [(''key'', case js_get b ''key'' of JArr vs \<Rightarrow> JArr vs | _ \<Rightarrow> JUndefined)])"

definition clear_cache_call :: "jsval \<Rightarrow> (string \<times> jsval) prog" where
  "clear_cache_call b = ret (''ClearCache'', JObj [])"

definition unlock_connector_call :: "jsval \<Rightarrow> (string \<times> jsval) prog" where
  "unlock_connector_call b = ret (''UnlockConnector'',
     JObj [(''connectorId'', number_json (js_coalesce (js_get b ''connectorId'') (JNum 1)))])"

definition validMessages :: "string list" where
  "validMessages = [''BootNotification'', ''DiagnosticsStatusNotification'', ''FirmwareStatusNotification'', ''Heartbeat'',
     ''MeterValues'', ''StatusNotification'']"

definition trigger_message_call :: "jsval \<Rightarrow> (string \<times> jsval) prog" where
  "trigger_message_call b =
     (let requestedMessage = js_get b ''requestedMessage'' in
      if requestedMessage \<notin> JStr ` set validMessages
      then raise (AppErr (api_badRequest (''requestedMessage must be one of: '' @ js_join '', '' validMessages)))
      else ret (''TriggerMessage'', JObj [(''requestedMessage'', requestedMessage),
        (''connectorId'', if js_get b ''connectorId'' = JUndefined then JUndefined else number_json (js_get b ''connectorId''))]))"

definition data_transfer_call :: "jsval \<Rightarrow> (string \<times> jsval) prog" where
  "data_transfer_call b =
     (if \<not> js_truthy (js_get b ''vendorId'') then raise (AppErr (api_badRequest ''vendorId is required''))
      else ret (''DataTransfer'', JObj [(''vendorId'', js_get b ''vendorId''), (''messageId'', js_get b ''messageId''),
        (''data'', js_get b ''data'')]))"

text \<open>The routes by the last part of their path.\<close>

definition command_calls :: "(string \<times> (jsval \<Rightarrow> (string \<times> jsval) prog)) list" where
  "command_calls = [(''reset'', reset_call), (''change-availability'', change_availability_call),
     (''change-configuration'', change_configuration_call), (''get-configuration'', get_configuration_call),
     (''clear-cache'', clear_cache_call), (''unlock-connector'', unlock_connector_call),
     (''trigger-message'', trigger_message_call), (''data-transfer'', data_transfer_call)]"

section \<open>routes/stations.routes.ts\<close>

definition internal_stations :: "http_request \<Rightarrow> station_item paged answer prog" where
  "internal_stations req =
     respond_internal (andthen (list_stations (query_text req ''status'') (query_text req ''keyword'')
       (query_number req ''page'') (query_number req ''limit'')) (\<lambda>result. ret (reply_data 200 result)))"

definition internal_by_serial :: "http_request \<Rightarrow> found_station answer prog" where
  "internal_by_serial req = respond_internal (andthen (findBySerial (param req ''serial'')) (\<lambda>s. ret (reply_data 200 s)))"

definition internal_station :: "http_request \<Rightarrow> station_detail answer prog" where
  "internal_station req =
     respond_internal
       (catch_err (andthen (station_by_id (param req ''stationId'')) (\<lambda>s. ret (reply_data 200 s)))
         (\<lambda>err. raise (case err of
            AppErr a \<Rightarrow> if ae_statusCode a = 404 then AppErr (api_stationNotFound (param req ''stationId'')) else err
          | _ \<Rightarrow> err)))"

record connection_state =
  cn_stationId :: string
  cn_isConnected :: bool
  cn_lastHeartbeatAt :: "int option"

definition internal_connection :: "http_request \<Rightarrow> connection_state answer prog" where
  "internal_connection req =
     (let stationId = param req ''stationId'' in
      respond_internal
        (andthen (assertStationExists stationId) (\<lambda>s.
         andthen (ask (\<lambda>w. isConnected w stationId)) (\<lambda>up.
         ret (reply_data 200 \<lparr>cn_stationId = stationId, cn_isConnected = up, cn_lastHeartbeatAt = st_lastHeartbeatAt s\<rparr>)))))"

definition internal_connectors :: "http_request \<Rightarrow> Connector list answer prog" where
  "internal_connectors req =
     respond_internal
       (andthen (assertStationExists (param req ''stationId'')) (\<lambda>_.
        andthen (db_read (\<lambda>d. sort_key co_connectorId (connectors_of (param req ''stationId'') d))) (\<lambda>cs.
        ret (reply_data 200 cs))))"

definition internal_messages :: "http_request \<Rightarrow> OcppMessageRow paged answer prog" where
  "internal_messages req =
     respond_internal
       (andthen (assertStationExists (param req ''stationId'')) (\<lambda>_.
        andthen (list_messages (Some (param req ''stationId'')) (query_text req ''action'') (query_text req ''startDate'')
          (query_text req ''endDate'') (query_number req ''page'') (query_number req ''limit'')) (\<lambda>result.
        ret (reply_data 200 result))))"

definition internal_command_results :: "http_request \<Rightarrow> OcppCommandResult paged answer prog" where
  "internal_command_results req =
     respond_internal
       (andthen (assertStationExists (param req ''stationId'')) (\<lambda>_.
        let pg = parsePagination (query_number req ''page'') (query_number req ''limit'') in
        andthen (optional_date (query_text req ''sentFrom'')) (\<lambda>sentFrom.
        andthen (optional_date (query_text req ''sentTo'')) (\<lambda>sentTo.
        andthen (list_commands \<lparr>cq_page = js_int (pg_page pg), cq_limit = js_int (pg_limit pg),
          cq_stationId = Some (param req ''stationId''), cq_action = query_text req ''action'', cq_status = query_text req ''status'',
          cq_requestedBy = None, cq_sentFrom = sentFrom, cq_sentTo = sentTo\<rparr>) (\<lambda>result.
        ret (reply_data 200 result))))))"

section \<open>routes/diagnostics.routes.ts\<close>

definition diagnostics_request :: "http_request \<Rightarrow> jsval answer prog" where
  "diagnostics_request req =
     (let b = rq_body req; stationId = param req ''stationId'' in
      respond_internal
        (andthen (assertStationOnline stationId) (\<lambda>_.
         if \<not> js_truthy (js_get b ''location'') then raise (AppErr (api_badRequest ''location (upload URL) is required''))
         else
           andthen (sendGetDiagnostics stationId (JObj [(''location'', js_get b ''location''), (''startTime'', js_get b ''startTime''),
             (''stopTime'', js_get b ''stopTime''), (''retries'', js_get b ''retries''), (''retryInterval'', js_get b ''retryInterval'')])
             (Some ''internal-api'')) (\<lambda>result.
           andthen (js_member result ''fileName'') (\<lambda>fileName.
           ret (reply_data 202 (JObj [(''stationId'', JStr stationId), (''status'', JStr ''sent''), (''fileName'', fileName)])))))))"

definition diagnostics_list :: "http_request \<Rightarrow> DiagnosticsRequest listing answer prog" where
  "diagnostics_list req =
     respond_internal
       (andthen (assertStationExists (param req ''stationId'')) (\<lambda>_.
        andthen (listing (number_or req ''page'' 1) (min (number_or req ''limit'' 20) 100)
          (\<lambda>d. sort_desc dr_requestedAt (filter (\<lambda>r. dr_stationId r = param req ''stationId'') (diagnostics d)))) (\<lambda>result.
        ret (reply_data 200 result))))"

definition station_config_list :: "http_request \<Rightarrow> ChargerConfig paged answer prog" where
  "station_config_list req =
     respond_internal
       (andthen (assertStationExists (param req ''stationId'')) (\<lambda>_.
        andthen (list_configs (Some (param req ''stationId'')) (query_number req ''page'') (query_number req ''limit'')) (\<lambda>result.
        ret (reply_data 200 result))))"

definition station_config_put :: "http_request \<Rightarrow> ChargerConfig answer prog" where
  "station_config_put req =
     (let b = rq_body req; stationId = param req ''stationId''; key = param req ''key'' in
      respond_internal
        (andthen (assertStationExists stationId) (\<lambda>_.
         if js_get b ''value'' = JUndefined \<and> js_get b ''status'' = JUndefined
         then raise (AppErr (api_badRequest ''value or status is required''))
         else
           andthen (db_read (\<lambda>d. List.find (\<lambda>c. cc_stationId c = stationId \<and> cc_key c = key) (configs d))) (\<lambda>existing.
           andthen (case existing of
              Some c \<Rightarrow> change_config (cc_id c) (js_get b ''value'') (js_get b ''status'') (js_get b ''errorDesc'')
            | None \<Rightarrow> create_new_config (JStr stationId) (JStr key) (js_get b ''value'') (js_get b ''status'')
                (js_get b ''errorDesc'')) (\<lambda>result.
           ret (reply_data 200 result))))))"

end
