(* ===== verification/Background.thy ===== *)
theory Background
  imports Http
begin

text \<open>
  Two contracts of the events that do not serve a charging session: \<open>background\<close>, the database keeps its sessions and
  connectors and gets no fault event, and \<open>appending\<close>, the outbox only gets fresh rows with fresh ids, and the Redis
  streams and the flag of the relay stay as they are.  They are proved here once for the sockets, the commands and the periodic jobs.
\<close>

section \<open>Events that do not touch sessions\<close>

definition background :: "db \<Rightarrow> db \<Rightarrow> bool" where
  "background d d' \<longleftrightarrow> transactions d' = transactions d \<and> connectors d' = connectors d \<and> outbox_grows d d' \<and>
     (\<exists>new. map ob_payload (outbox d') = map ob_payload (outbox d) @ new \<and> (\<forall>p \<in> set new. no_fault_event p))"

lemma background_refl: "background d d"
  by (simp add: background_def outbox_log.db_refl)

lemma background_trans: "background d1 d2 \<Longrightarrow> background d2 d3 \<Longrightarrow> background d1 d3"
  unfolding background_def by (auto intro: outbox_log.db_trans)

interpretation background: db_contract background
  by unfold_locales (auto intro: background_refl background_trans)

lemma background_frame:
  "transactions d' = transactions d \<Longrightarrow> connectors d' = connectors d \<Longrightarrow> outbox d' = outbox d \<Longrightarrow> background d d'"
  by (simp add: background_def outbox_grows_frame)

lemma background_rows:
  "transactions d' = transactions d \<Longrightarrow> connectors d' = connectors d \<Longrightarrow>
   map event_key (outbox d') = map event_key (outbox d) \<Longrightarrow> background d d'"
proof -
  assume a: "transactions d' = transactions d" "connectors d' = connectors d"
    "map event_key (outbox d') = map event_key (outbox d)"
  have "map ob_payload es = map (\<lambda>(_, _, _, _, _, p, _). p) (map event_key es)" for es
    by (simp add: event_key_def)
  with a(3) have "map ob_payload (outbox d') = map ob_payload (outbox d)" by metis
  with a show ?thesis by (simp add: background_def outbox_grows_def)
qed

lemma background_event:
  "transactions d' = transactions d \<Longrightarrow> connectors d' = connectors d \<Longrightarrow> outbox d' = outbox d @ [e] \<Longrightarrow>
   no_fault_event (ob_payload e) \<Longrightarrow> background d d'"
  by (simp add: background_def outbox_grows_def)

lemma background_writeOutbox [contract_intros]:
  "no_fault_event (in_payload inp) \<Longrightarrow> conforms (on_db background) (writeOutbox inp)"
  unfolding writeOutbox_def
  by (intro contract_intros background.conforms_op; auto simp: store_defs op_Inr intro: background_event)

text \<open>A step on the part of the world outside the database.\<close>

lemma background_net:
  "conforms (on_db background) (register s ws)"
  "conforms (on_db background) (unregister s)"
  "conforms (on_db background) (ws_close ws)"
  "conforms (on_db background) (ws_terminate ws)"
  "conforms (on_db background) (ws_send ws raw)"
  "conforms (on_db background) (waitFor mid call)"
  "conforms (on_db background) (settle mid out)"
  "conforms (on_db background) (await_reply mid)"
  "conforms (on_db background) (set_sweeper b)"
  by (rule background.conforms_same_db,
      simp add: register_def unregister_def ws_close_def ws_terminate_def ws_send_def waitFor_def settle_def await_reply_def set_sweeper_def
        andthen_def ask_def only_if_def ret_def split: option.splits)+

lemmas socket_programs = on_connection_def verifyClient_def verifyOcppBasicAuth_def on_close_def on_error_def terminate_replaced_def
  forceDisconnect_def sendRawCall_def offline_tx_def writeOfflineLog_def pending_timeout_def

lemmas command_programs = command_begin_def open_socket_def sendAndLog_def logOutbound_def persist_def diagnostics_begin_def
  resume_def command_settle_def record_response_def record_failure_def diagnostics_settle_def bootstrapCleanup_def
  sweepStalePending_def startOcppCommandSweeper_def sweeper_tick_def ocppLogCleanupProcessor_def delete_messages_before_def

lemma background_sockets:
  "conforms (on_db background) (on_connection url ws)"
  "conforms (on_db background) (verifyClient url authHeader)"
  "conforms (on_db background) (on_close s ws code reason)"
  "conforms (on_db background) (on_error s ws)"
  "conforms (on_db background) (terminate_replaced ws)"
  "conforms (on_db background) (forceDisconnect s)"
  "conforms (on_db background) (sendRawCall s action payload)"
  "conforms (on_db background) (pending_timeout mid)"
  unfolding socket_programs Let_def
  by (intro contract_intros background_net background.conforms_op;
      auto simp: store_defs op_Inr no_fault_simps intro: background_frame)+

lemma background_commands:
  "conforms (on_db background) (command_begin s action payload requestedBy)"
  "conforms (on_db background) (diagnostics_begin s payload requestedBy)"
  "conforms (on_db background) (startOcppCommandSweeper)"
  "conforms (on_db background) (sweeper_tick)"
  "conforms (on_db background) (ocppLogCleanupProcessor)"
  unfolding command_programs Let_def
  by (intro contract_intros background_net background.conforms_op;
      auto simp: store_defs op_Inr no_fault_simps intro: background_frame)+

lemma background_resume: "conforms (on_db background) (resume mid call outcome)"
  unfolding command_programs command_event_def Let_def
  by (cases "cc_call_kind call"; cases outcome;
      simp only: command_kind.simps sum.simps;
      intro contract_intros background.conforms_op;
      auto simp: store_defs op_Inr no_fault_simps intro: background_frame)

lemma background_relay: "conforms (on_db background) (relay_interval)"
proof -
  have op: "conforms (on_db background) (db_do (update_outbox i f))" if "\<And>e. event_key (f e) = event_key e" for i f
    by (rule background.conforms_op)
      (auto simp: store_defs op_Inr map_update_where [of event_key f, OF that] intro!: background_rows)
  have event: "conforms (on_db background) (relay_event ev)" for ev
    unfolding relay_event_def deliver_def delivery_failed_def publishEventToStream_def moveToDeadLetter_def
      mark_published_def mark_dead_def mark_failed_def Let_def
    by (intro contract_intros op) (simp_all add: event_key_def)
  have pass: "conforms (on_db background) (catch_err relay_pass (\<lambda>_. ret ()))"
    unfolding relay_pass_def by (intro contract_intros event)
  show ?thesis
  proof (rule conformsI)
    fix w r w' assume "relay_interval w = (r, w')"
    with conformsD [OF pass, of "w\<lparr>relay_running := True\<rparr>"] show "on_db background w w'"
      by (auto simp: relay_interval_def relay_tick_def on_db_def background_refl split: if_splits prod.splits)
  qed
qed

section \<open>Events that only append\<close>

text \<open>A row as \<open>writeOutbox\<close> leaves it: not attempted yet, and its payload is one of the interface its event type names.\<close>

definition fresh_row :: "OutboxEvent \<Rightarrow> bool" where
  "fresh_row e \<longleftrightarrow> ob_publishedAt e = None \<and> ob_attempts e = 0 \<and> payload_type (ob_payload e) = ob_eventType e"

definition appends :: "db \<Rightarrow> db \<Rightarrow> bool" where
  "appends d d' \<longleftrightarrow> (\<exists>new. outbox d' = outbox d @ new \<and> (\<forall>e \<in> set new. fresh_row e)) \<and>
     (distinct (map ob_id (outbox d)) \<longrightarrow> distinct (map ob_id (outbox d'))) \<and>
     (distinct (map ob_eventId (outbox d)) \<longrightarrow> distinct (map ob_eventId (outbox d')))"

definition appending :: "world \<Rightarrow> world \<Rightarrow> bool" where
  "appending w w' \<longleftrightarrow> stream w' = stream w \<and> dlq w' = dlq w \<and> relay_running w' = relay_running w \<and> appends (db w) (db w')"

lemma appends_refl: "appends d d"
  by (simp add: appends_def)

lemma appends_trans: "appends d1 d2 \<Longrightarrow> appends d2 d3 \<Longrightarrow> appends d1 d3"
  by (auto simp: appends_def)

lemma appends_same: "outbox d' = outbox d \<Longrightarrow> appends d d'"
  by (simp add: appends_def)

interpretation appending: contract appending
  by unfold_locales (auto simp: appending_def appends_refl intro: appends_trans)

lemma appending_db_do:
  assumes "\<And>d x d'. g d = Inr (x, d') \<Longrightarrow> appends d d'"
  shows "conforms appending (db_do g)"
  by (rule appending.conforms_db_do) (use assms in \<open>auto simp: appending_def\<close>)

lemma appending_redis [contract_intros]:
  assumes "\<And>w. stream (snd (f w)) = stream w \<and> dlq (snd (f w)) = dlq w \<and> relay_running (snd (f w)) = relay_running w \<and>
    db (snd (f w)) = db w"
  shows "conforms appending (redis_do f)"
proof (rule conformsI)
  fix w r w' assume run: "redis_do f w = (r, w')"
  obtain x w2 where f: "f (w\<lparr>tick := tick w + 1\<rparr>) = (x, w2)" by (cases "f (w\<lparr>tick := tick w + 1\<rparr>)")
  with assms [of "w\<lparr>tick := tick w + 1\<rparr>"] run show "appending w w'"
    by (auto simp: redis_do_def Let_def appending_def appends_refl split: if_splits)
qed

lemma appending_writeOutbox [contract_intros]:
  "payload_type (in_payload inp) = in_eventType inp \<Longrightarrow> conforms appending (writeOutbox inp)"
  unfolding writeOutbox_def
  by (intro contract_intros appending_db_do) (auto simp: store_defs op_Inr appends_def fresh_row_def image_iff)

lemma appending_net:
  "conforms appending (register s ws)"
  "conforms appending (unregister s)"
  "conforms appending (ws_close ws)"
  "conforms appending (ws_terminate ws)"
  "conforms appending (ws_send ws raw)"
  "conforms appending (waitFor mid call)"
  "conforms appending (settle mid out)"
  "conforms appending (await_reply mid)"
  "conforms appending (set_sweeper b)"
  by (simp add: conforms_def appending_def appends_refl await_reply_def set_sweeper_def register_def unregister_def ws_close_def ws_terminate_def ws_send_def
      waitFor_def settle_def andthen_def ask_def only_if_def ret_def split: option.splits)+

lemma appending_station:
  "conforms appending (bootNotificationHandler s p)"
  "conforms appending (heartbeatHandler s p)"
  "conforms appending (statusNotificationHandler s p)"
  unfolding station_programs stop_open_of_station_def
  by (intro contract_intros appending_db_do; auto simp: store_defs op_Inr tx_event_def connector_event_def intro!: appends_same)+

lemma appending_transaction:
  "conforms appending (authorizeHandler s p)"
  "conforms appending (startTransactionHandler s p)"
  "conforms appending (stopTransactionHandler s p)"
  "conforms appending (meterValuesHandler s p)"
  unfolding transaction_programs Let_def
  by (intro contract_intros appending_db_do; auto simp: store_defs op_Inr tx_event_def connector_event_def intro!: appends_same)+

lemma appending_maintenance:
  "conforms appending (firmwareStatusNotificationHandler s p)"
  "conforms appending (diagnosticsStatusNotificationHandler s p)"
  "conforms appending (dataTransferHandler s p)"
  unfolding maintenance_programs Let_def
  by (intro contract_intros appending_db_do; auto simp: store_defs op_Inr tx_event_def connector_event_def intro!: appends_same)+

lemma appending_frame: "conforms appending (handle s ws raw)"
  by (rule appending.conforms_handle_frame [OF appending_net(5,7)], rule appending_db_do)
    (auto simp: store_defs op_Inr intro!: appends_same
      intro: appending_station appending_transaction appending_maintenance elim: handlerMap_cases)

lemma appending_sockets:
  "conforms appending (on_connection url ws)"
  "conforms appending (verifyClient url authHeader)"
  "conforms appending (on_close s ws code reason)"
  "conforms appending (on_error s ws)"
  "conforms appending (terminate_replaced ws)"
  "conforms appending (forceDisconnect s)"
  "conforms appending (sendRawCall s action payload)"
  "conforms appending (pending_timeout mid)"
  unfolding socket_programs Let_def
  by (intro contract_intros appending_net appending_db_do; auto simp: store_defs op_Inr tx_event_def connector_event_def intro!: appends_same)+

lemma appending_commands:
  "conforms appending (command_begin s action payload requestedBy)"
  "conforms appending (diagnostics_begin s payload requestedBy)"
  "conforms appending (startOcppCommandSweeper)"
  "conforms appending (sweeper_tick)"
  "conforms appending (ocppLogCleanupProcessor)"
  "conforms appending (sessionTimeoutProcessor)"
  unfolding command_programs sessionTimeoutProcessor_def Let_def
  by (intro contract_intros appending_net appending_db_do; auto simp: store_defs op_Inr tx_event_def connector_event_def intro!: appends_same)+

lemma appending_resume: "conforms appending (resume mid call outcome)"
  unfolding command_programs command_event_def Let_def
  by (cases "cc_call_kind call"; cases outcome; simp only: command_kind.simps sum.simps;
      intro contract_intros appending_db_do; auto simp: store_defs op_Inr intro!: appends_same)

end
