(* ===== verification/Admin.thy ===== *)
theory Admin
  imports InternalApi Background
begin

text \<open>
  The administrative requests as events of the server: every route of the portal and of the internal API, and the
  dispatch of a campaign.  All of them but the deletion of a station and of an id token keep the contract
  \<open>administrative\<close>: sessions and connectors stay as they are, no fault is announced, and the outbox only grows.
\<close>

section \<open>Requests\<close>

definition discard :: "'a prog \<Rightarrow> unit prog" where
  "discard m = andthen m (\<lambda>_. ret ())"

text \<open>A request of the internal API passes its middlewares with the tokens and the rendering of the server.\<close>

inductive administers :: "unit prog \<Rightarrow> bool" where
  charger: "administers (discard (charger_endpoint req))"
| upload_chargers: "administers (discard (bulk_upload parse_csv req))"
| facets: "administers (discard (facets_route le req))"
| resolve: "administers (discard (resolve_fault i by))"
| boot_record: "administers (updateOnBoot s model vendor version)"
| message_log: "administers (log_message r)"
| message_cleanup: "administers (discard (deleteOlderThan days))"
| dispatch: "administers (dispatchAll i filename targets startedBy)"
| health: "administers (discard js_now)"
| unrouted: "administers (discard (idempotencyMiddleware (\<lambda>_. ret x) req))"
| command: "(path, build) \<in> set command_calls \<Longrightarrow> administers (discard (internal_api tokens render (command_route build) req))"
| "administers (discard (list_route req))"
| "administers (discard (register_route req))"
| "administers (discard (update_route req))"
| "administers (discard (find_route req))"
| "administers (discard (revoke_route req))"
| "administers (discard (delete_route req))"
| "administers (discard (provision_route req))"
| "administers (discard (manufacturer_list_route req))"
| "administers (discard (manufacturer_create_route req))"
| "administers (discard (manufacturer_find_route req))"
| "administers (discard (manufacturer_update_route req))"
| "administers (discard (regenerate_route req))"
| "administers (discard (deactivate_route req))"
| "administers (discard (station_list_route req))"
| "administers (discard (station_find_route req))"
| "administers (discard (station_create_route req))"
| "administers (discard (station_update_route req))"
| "administers (discard (fault_route req))"
| "administers (discard (fault_list_route req))"
| "administers (discard (password_route req))"
| "administers (discard (online_route req))"
| "administers (discard (firmware_upload_route req))"
| "administers (discard (firmware_list_route req))"
| "administers (discard (firmware_find_route req))"
| "administers (discard (firmware_update_route req))"
| "administers (discard (firmware_delete_route req))"
| "administers (discard (firmware_download req))"
| "administers (discard (campaign_start_route req))"
| "administers (discard (campaign_list_route req))"
| "administers (discard (campaign_find_route req))"
| "administers (discard (campaign_cancel_route req))"
| "administers (discard (config_list_route req))"
| "administers (discard (config_create_route req))"
| "administers (discard (config_update_route req))"
| "administers (discard (config_delete_route req))"
| "administers (discard (portal_fault_list req))"
| "administers (discard (portal_fault_create req))"
| "administers (discard (portal_fault_status req))"
| "administers (discard (command_list_route req))"
| "administers (discard (command_find_route req))"
| "administers (discard (command_stats_route req))"
| "administers (discard (offline_route req))"
| "administers (discard (transactions_route req))"
| "administers (discard (internal_api tokens render internal_list req))"
| "administers (discard (internal_api tokens render internal_register req))"
| "administers (discard (internal_api tokens render internal_reject req))"
| "administers (discard (internal_api tokens render internal_manufacturers req))"
| "administers (discard (internal_api tokens render internal_create_manufacturer req))"
| "administers (discard (internal_api tokens render internal_upload req))"
| "administers (discard (internal_api tokens render internal_firmware_list req))"
| "administers (discard (internal_api tokens render internal_campaign_start req))"
| "administers (discard (internal_api tokens render internal_campaign_find req))"
| "administers (discard (internal_api tokens render internal_campaign_cancel req))"
| "administers (discard (internal_api tokens render internal_update_firmware req))"
| "administers (discard (internal_api tokens render token_list_route req))"
| "administers (discard (internal_api tokens render token_find_route req))"
| "administers (discard (internal_api tokens render token_create_route req))"
| "administers (discard (internal_api tokens render token_update_route req))"
| "administers (discard (internal_api tokens render session_start req))"
| "administers (discard (internal_api tokens render session_stop req))"
| "administers (discard (internal_api tokens render internal_stations req))"
| "administers (discard (internal_api tokens render internal_by_serial req))"
| "administers (discard (internal_api tokens render internal_station req))"
| "administers (discard (internal_api tokens render internal_connection req))"
| "administers (discard (internal_api tokens render internal_connectors req))"
| "administers (discard (internal_api tokens render internal_messages req))"
| "administers (discard (internal_api tokens render internal_command_results req))"
| "administers (discard (internal_api tokens render diagnostics_request req))"
| "administers (discard (internal_api tokens render diagnostics_list req))"
| "administers (discard (internal_api tokens render station_config_list req))"
| "administers (discard (internal_api tokens render station_config_put req))"

section \<open>The middlewares keep every contract\<close>

definition off_stream :: "(world \<Rightarrow> 'a \<times> world) \<Rightarrow> bool" where
  "off_stream f \<longleftrightarrow> (\<forall>w. stream (snd (f w)) = stream w \<and> dlq (snd (f w)) = dlq w \<and> relay_running (snd (f w)) = relay_running w \<and>
     db (snd (f w)) = db w)"

context contract
begin

lemma conforms_internal:
  assumes "\<And>f :: world \<Rightarrow> string option \<times> world. off_stream f \<Longrightarrow> conforms R (redis_do f)"
    and "\<And>f :: world \<Rightarrow> unit \<times> world. off_stream f \<Longrightarrow> conforms R (redis_do f)"
    and "\<And>req. conforms R (route req)"
  shows "conforms R (internal_api tokens render route req)"
  unfolding internal_api_def idempotencyMiddleware_def getCached_def setInProgress_def setCompleted_def
  by (cases "internalAuthMiddleware tokens req")
    (auto intro!: contract_intros assms simp: off_stream_def split: cached_response.splits option.splits)

end

section \<open>The contract\<close>

definition administrative :: "world \<Rightarrow> world \<Rightarrow> bool" where
  "administrative w w' \<longleftrightarrow> on_db background w w' \<and> appending w w'"

interpretation administrative: contract administrative
  by unfold_locales (auto simp: administrative_def appending_def on_db_def background_refl appends_refl
      intro: background_trans appends_trans)

lemma administrative_conj: "conforms administrative m \<longleftrightarrow> conforms (on_db background) m \<and> conforms appending m"
  by (auto simp: conforms_def administrative_def)

text \<open>A database call on the tables of the administration.\<close>

definition same_core :: "db \<Rightarrow> db \<Rightarrow> bool" where
  "same_core d d' \<longleftrightarrow> transactions d' = transactions d \<and> connectors d' = connectors d \<and> outbox d' = outbox d"

lemma admin_do: "(\<And>d x d'. g d = Inr (x, d') \<Longrightarrow> same_core d d') \<Longrightarrow> conforms administrative (db_do g)"
  by (auto simp: administrative_conj same_core_def intro!: background.conforms_op appending_db_do background_frame appends_same)

lemma admin_redis [contract_intros]: "off_stream f \<Longrightarrow> conforms administrative (redis_do f)"
  unfolding administrative_conj off_stream_def by (intro conjI background.conforms_redis appending_redis) auto

lemma admin_files [contract_intros]: "conforms administrative (fs_do f)"
  by (simp add: administrative_def conforms_def fs_do_def Let_def on_db_def appending_def background_refl appends_refl)

lemma admin_net:
  "conforms administrative (forceDisconnect s)"
  "conforms administrative (command_begin s action payload requestedBy)"
  "conforms administrative (diagnostics_begin s payload requestedBy)"
  "conforms administrative (await_reply mid)"
  "conforms administrative (resume mid call outcome)"
  by (simp_all add: administrative_conj background_sockets background_commands background_net background_resume
      appending_sockets appending_commands appending_net appending_resume)

lemma admin_settle:
  "conforms administrative (command_settle s action mid outcome)"
  "conforms administrative (diagnostics_settle mid outcome)"
proof -
  show "conforms administrative (command_settle s action mid outcome)"
    using admin_net(5) [of mid "\<lparr>cc_call_station = s, cc_call_action = action, cc_call_kind = PlainCommand\<rparr>" outcome]
    by (simp add: resume_def)
  show "conforms administrative (diagnostics_settle mid outcome)"
    using admin_net(5) [of mid "\<lparr>cc_call_station = s, cc_call_action = action, cc_call_kind = DiagnosticsCommand\<rparr>" outcome]
    by (simp add: resume_def)
qed

lemma admin_send [contract_intros]:
  "conforms administrative (sendCommand s action payload requestedBy)"
  "conforms administrative (sendGetDiagnostics s payload requestedBy)"
  unfolding sendCommand_def sendGetDiagnostics_def by (intro contract_intros admin_net admin_settle)+

lemmas admin_ops = admin_defs store_defs op_Inr admin_Inr next_station_number_Inr with_fk_Inr same_core_def

lemma admin_create_progresses [contract_intros]: "conforms administrative (db_do (create_progresses c ss now))"
  by (rule admin_do) (auto simp: create_progresses_def Let_def same_core_def split: if_splits)

lemma admin_stations [contract_intros]: "conforms administrative (db_do next_station_number)"
  by (rule admin_do) (auto simp: next_station_number_Inr same_core_def)

lemma admin_enum_filter [contract_intros]: "conforms administrative (enum_filter parse q)"
  unfolding enum_filter_def by (intro contract_intros)

section \<open>The routes\<close>

lemma admin_discard: "conforms administrative m \<Longrightarrow> conforms administrative (discard m)"
  unfolding discard_def by (intro contract_intros)

lemma admin_internal:
  "(\<And>req. conforms administrative (route req)) \<Longrightarrow> conforms administrative (internal_api tokens render route req)"
  by (rule administrative.conforms_internal) (auto intro: admin_redis)

lemma admin_provision [contract_intros]:
  "conforms administrative (provision sn model m)"
  "conforms administrative (register_serial v by vm cid site mv kwh)"
  unfolding provision_def register_serial_def station_id_of_def generateStationId_def store_credentials_def spread_def Let_def
  by (intro contract_intros admin_net admin_do; auto simp: admin_ops split: option.splits)+

lemma admin_provision_records [contract_intros]:
  "conforms administrative (list_provisionings st q page limit)"
  "conforms administrative (find_provisioning i)"
  unfolding list_provisionings_def find_provisioning_def Let_def
  by (intro contract_intros admin_do; auto simp: admin_ops split: option.splits)+

lemma admin_provision_changes [contract_intros]:
  "conforms administrative (update_record i sn reason kwh)"
  "conforms administrative (revoke i)"
  "conforms administrative (delete_record i)"
  unfolding update_record_def revoke_def delete_record_def Let_def
  by (intro contract_intros admin_do; auto simp: admin_ops split: option.splits)+

lemma admin_bulk_step [contract_intros]: "conforms administrative (bulk_step by cache row)"
  unfolding bulk_step_def bulk_try_def bulk_register_def bulk_channel_def bulk_failure_def Let_def
  by (intro contract_intros; auto intro!: contract_intros split: option.splits)

lemma admin_bulk_rows [contract_intros]: "conforms administrative (bulk_rows by rows cache res)"
  by (induction rows arbitrary: cache res) (auto intro!: contract_intros)

lemma admin_provision_routes:
  "conforms administrative (list_route req)"
  "conforms administrative (register_route req)"
  "conforms administrative (update_route req)"
  "conforms administrative (find_route req)"
  "conforms administrative (revoke_route req)"
  "conforms administrative (delete_route req)"
  "conforms administrative (provision_route req)"
  "conforms administrative (internal_list req)"
  "conforms administrative (internal_register req)"
  "conforms administrative (internal_reject req)"
  unfolding list_route_def register_route_def update_route_def find_route_def revoke_route_def delete_route_def provision_route_def internal_list_def internal_register_def internal_reject_def Let_def
  by (intro contract_intros admin_do; auto simp: admin_ops split: option.splits)+

lemma admin_charger: "conforms administrative (charger_endpoint req)" "conforms administrative (bulk_upload parse_csv req)"
  unfolding charger_endpoint_def manufacturerAuth_def chargerAuth_def bulk_upload_def bulkRegister_def Let_def
  by (intro contract_intros; auto intro!: contract_intros split: option.splits)+

lemma admin_manufacturer [contract_intros]:
  "conforms administrative (find_manufacturer i)"
  "conforms administrative (issue_token t)"
  "conforms administrative (findAll_manufacturers page limit)"
  unfolding find_manufacturer_def issue_token_def findAll_manufacturers_def Let_def
  by (intro contract_intros admin_do; auto simp: admin_ops split: option.splits)+

lemma admin_manufacturer_changes [contract_intros]:
  "conforms administrative (create_with_token v1 v2 v3)"
  "conforms administrative (regenerateToken i v3)"
  "conforms administrative (change_manufacturer i n a)"
  "conforms administrative (deactivate i)"
  unfolding create_with_token_def regenerateToken_def change_manufacturer_def deactivate_def Let_def
  by (intro contract_intros admin_do; auto simp: admin_ops split: option.splits)+

lemma admin_manufacturer_routes:
  "conforms administrative (manufacturer_list_route req)"
  "conforms administrative (manufacturer_create_route req)"
  "conforms administrative (manufacturer_find_route req)"
  "conforms administrative (manufacturer_update_route req)"
  "conforms administrative (regenerate_route req)"
  "conforms administrative (deactivate_route req)"
  "conforms administrative (internal_manufacturers req)"
  "conforms administrative (internal_create_manufacturer req)"
  unfolding manufacturer_list_route_def manufacturer_create_route_def manufacturer_find_route_def manufacturer_update_route_def regenerate_route_def deactivate_route_def internal_manufacturers_def internal_create_manufacturer_def Let_def
  by (intro contract_intros admin_do; auto simp: admin_ops split: option.splits)+

lemma admin_station [contract_intros]:
  "conforms administrative (station_by_id s)"
  "conforms administrative (list_stations st q v1 v2)"
  "conforms administrative (findBySerial s)"
  "conforms administrative (getOnlineStations)"
  unfolding station_by_id_def list_stations_def findBySerial_def getOnlineStations_def Let_def
  by (intro contract_intros admin_do; auto simp: admin_ops split: option.splits)+

lemma admin_station_changes [contract_intros]:
  "conforms administrative (create_new_station s x)"
  "conforms administrative (change_station s x)"
  "conforms administrative (updateOnBoot s model vendor version)"
  "conforms administrative (addFaultLog s ft desc by)"
  "conforms administrative (getFaultLogs s page limit)"
  "conforms administrative (resetPassword s)"
  unfolding create_new_station_def change_station_def updateOnBoot_def addFaultLog_def getFaultLogs_def resetPassword_def Let_def
  by (intro contract_intros admin_do; auto simp: admin_ops split: option.splits)+

lemma admin_station_routes:
  "conforms administrative (station_list_route req)"
  "conforms administrative (station_find_route req)"
  "conforms administrative (station_create_route req)"
  "conforms administrative (station_update_route req)"
  "conforms administrative (fault_route req)"
  "conforms administrative (fault_list_route req)"
  "conforms administrative (password_route req)"
  "conforms administrative (online_route req)"
  "conforms administrative (internal_stations req)"
  "conforms administrative (internal_by_serial req)"
  "conforms administrative (internal_station req)"
  unfolding station_list_route_def station_find_route_def station_create_route_def station_update_route_def fault_route_def fault_list_route_def password_route_def online_route_def internal_stations_def internal_by_serial_def internal_station_def Let_def
  by (intro contract_intros admin_do; auto simp: admin_ops split: option.splits)+

lemma admin_firmware [contract_intros]:
  "conforms administrative (find_firmware i)"
  "conforms administrative (list_firmware page limit a)"
  "conforms administrative (resolveTargets f)"
  "conforms administrative (find_campaign i)"
  "conforms administrative (list_campaigns page limit st v1)"
  unfolding find_firmware_def list_firmware_def resolveTargets_def find_campaign_def list_campaigns_def Let_def
  by (intro contract_intros admin_do; auto simp: admin_ops split: option.splits)+

lemma admin_firmware_changes [contract_intros]:
  "conforms administrative (upload b p)"
  "conforms administrative (change_firmware i x)"
  "conforms administrative (delete_firmware i)"
  "conforms administrative (start_campaign i f who n)"
  "conforms administrative (cancel_campaign i)"
  unfolding upload_def change_firmware_def delete_firmware_def start_campaign_def cancel_campaign_def store_firmware_def Let_def
  by (intro contract_intros admin_do; auto simp: admin_ops split: option.splits)+

lemma admin_dispatch [contract_intros]:
  "conforms administrative (gateway_updateFirmware s l v1 v2 v3 by)"
  "conforms administrative (mark_send_error i s msg)"
  "conforms administrative (mark_sent i s)"
  unfolding gateway_updateFirmware_def mark_send_error_def mark_sent_def sendUpdateFirmware_def Let_def
  by (intro contract_intros admin_do; auto simp: admin_ops split: option.splits)+

lemma admin_dispatch_all [contract_intros]: "conforms administrative (dispatchAll c f ss by)"
  unfolding dispatchAll_def dispatch_one_def by (intro contract_intros)

lemma admin_firmware_routes:
  "conforms administrative (firmware_upload_route req)"
  "conforms administrative (firmware_list_route req)"
  "conforms administrative (firmware_find_route req)"
  "conforms administrative (firmware_update_route req)"
  "conforms administrative (firmware_delete_route req)"
  "conforms administrative (firmware_download req)"
  unfolding firmware_upload_route_def firmware_list_route_def firmware_find_route_def firmware_update_route_def firmware_delete_route_def firmware_download_def Let_def
  by (intro contract_intros admin_do; auto simp: admin_ops split: option.splits)+

lemma admin_campaign_routes:
  "conforms administrative (campaign_start_route req)"
  "conforms administrative (campaign_list_route req)"
  "conforms administrative (campaign_find_route req)"
  "conforms administrative (campaign_cancel_route req)"
  unfolding campaign_start_route_def campaign_list_route_def campaign_find_route_def campaign_cancel_route_def Let_def
  by (intro contract_intros admin_do; auto simp: admin_ops split: option.splits)+

lemma admin_internal_firmware_routes:
  "conforms administrative (internal_upload req)"
  "conforms administrative (internal_firmware_list req)"
  "conforms administrative (internal_campaign_start req)"
  "conforms administrative (internal_campaign_find req)"
  "conforms administrative (internal_campaign_cancel req)"
  "conforms administrative (internal_update_firmware req)"
  unfolding internal_upload_def internal_firmware_list_def internal_campaign_start_def internal_campaign_find_def internal_campaign_cancel_def internal_update_firmware_def Let_def
  by (intro contract_intros admin_do; auto simp: admin_ops split: option.splits)+

lemma admin_settings [contract_intros]:
  "conforms administrative (list_configs s v1 v2)"
  "conforms administrative (find_config i)"
  "conforms administrative (date_bound le q)"
  "conforms administrative (optional_date q)"
  "conforms administrative (list_commands cq)"
  "conforms administrative (statsByStatus days)"
  "conforms administrative (find_token tag)"
  unfolding list_configs_def find_config_def date_bound_def optional_date_def list_commands_def statsByStatus_def find_token_def Let_def
  by (intro contract_intros admin_do; auto simp: admin_ops split: option.splits)+

lemma admin_settings_changes [contract_intros]:
  "conforms administrative (create_new_config v1 v2 v3 v4 v5)"
  "conforms administrative (change_config i v3 v4 v5)"
  "conforms administrative (remove_config i)"
  "conforms administrative (resolve_fault i by)"
  "conforms administrative (log_message r)"
  "conforms administrative (deleteOlderThan days)"
  "conforms administrative (list_messages s a d1 d2 v1 v2)"
  unfolding create_new_config_def change_config_def remove_config_def resolve_fault_def log_message_def deleteOlderThan_def list_messages_def delete_messages_before_def Let_def
  by (intro contract_intros admin_do; auto simp: admin_ops split: option.splits)+

lemma admin_settings_routes:
  "conforms administrative (config_list_route req)"
  "conforms administrative (config_create_route req)"
  "conforms administrative (config_update_route req)"
  "conforms administrative (config_delete_route req)"
  "conforms administrative (command_list_route req)"
  "conforms administrative (command_find_route req)"
  "conforms administrative (command_stats_route req)"
  "conforms administrative (offline_route req)"
  "conforms administrative (transactions_route req)"
  "conforms administrative (facets_route le req)"
  unfolding config_list_route_def config_create_route_def config_update_route_def config_delete_route_def command_list_route_def command_find_route_def command_stats_route_def offline_route_def transactions_route_def facets_route_def Let_def
  by (intro contract_intros admin_do; auto simp: admin_ops split: option.splits)+

lemma admin_fault_station_filter [contract_intros]: "conforms administrative (fault_station_filter req)"
  unfolding fault_station_filter_def by (intro contract_intros)

lemma admin_fault_routes:
  "conforms administrative (portal_fault_list req)"
  "conforms administrative (portal_fault_create req)"
  "conforms administrative (portal_fault_status req)"
  unfolding portal_fault_list_def portal_fault_create_def portal_fault_status_def Let_def
  by (intro contract_intros admin_do; auto simp: admin_ops split: option.splits)+

lemma admin_token_routes:
  "conforms administrative (token_list_route req)"
  "conforms administrative (token_find_route req)"
  "conforms administrative (token_create_route req)"
  "conforms administrative (token_update_route req)"
  unfolding token_list_route_def token_find_route_def token_create_route_def token_update_route_def Let_def
  by (intro contract_intros admin_do; auto simp: admin_ops split: option.splits)+

lemma admin_online [contract_intros]:
  "conforms administrative (assertStationExists s)"
  unfolding assertStationExists_def Let_def
  by (intro contract_intros admin_do; auto simp: admin_ops split: option.splits)+

lemma admin_online2 [contract_intros]:
  "conforms administrative (assertStationOnline s)"
  "conforms administrative (js_member v k)"
  "conforms administrative (sendAsyncCommandResponse s a p)"
  unfolding assertStationOnline_def js_member_def sendAsyncCommandResponse_def Let_def
  by (intro contract_intros admin_net admin_do; auto simp: admin_ops split: option.splits)+

lemma admin_session_call [contract_intros]: "conforms administrative send \<Longrightarrow> conforms administrative (session_call s a send)"
  unfolding session_call_def by (intro contract_intros)

lemma admin_call: "(path, build) \<in> set command_calls \<Longrightarrow> conforms administrative (build b)"
  by (auto simp: command_calls_def reset_call_def change_availability_call_def change_configuration_call_def get_configuration_call_def
      clear_cache_call_def unlock_connector_call_def trigger_message_call_def data_transfer_call_def Let_def
      intro!: contract_intros)

lemma admin_command_route: "(path, build) \<in> set command_calls \<Longrightarrow> conforms administrative (command_route build req)"
  unfolding command_route_def by (intro contract_intros admin_call)

lemma admin_session_routes:
  "conforms administrative (session_start req)"
  "conforms administrative (session_stop req)"
  "conforms administrative (diagnostics_request req)"
  unfolding session_start_def session_stop_def diagnostics_request_def sendRemoteStartTransaction_def sendRemoteStopTransaction_def Let_def
  by (intro contract_intros)+

lemma admin_internal_station_routes:
  "conforms administrative (internal_connection req)"
  "conforms administrative (internal_connectors req)"
  "conforms administrative (internal_messages req)"
  "conforms administrative (internal_command_results req)"
  "conforms administrative (diagnostics_list req)"
  "conforms administrative (station_config_list req)"
  "conforms administrative (station_config_put req)"
  unfolding internal_connection_def internal_connectors_def internal_messages_def internal_command_results_def diagnostics_list_def station_config_list_def station_config_put_def Let_def
  by (intro contract_intros admin_do; auto simp: admin_ops split: option.splits)+

lemmas admin_routes = admin_provision_routes admin_charger admin_manufacturer_routes admin_station_routes admin_firmware_routes
  admin_campaign_routes admin_internal_firmware_routes admin_settings_routes admin_fault_routes admin_token_routes
  admin_session_routes admin_internal_station_routes admin_command_route

lemma admin_unrouted: "conforms administrative (idempotencyMiddleware (\<lambda>_. ret x) req)"
  unfolding idempotencyMiddleware_def getCached_def setInProgress_def setCompleted_def
  by (auto intro!: contract_intros admin_redis simp: off_stream_def split: cached_response.splits option.splits)

lemma administers_contract: "administers m \<Longrightarrow> conforms administrative m"
  by (induction rule: administers.induct)
    (intro admin_discard admin_internal admin_unrouted admin_routes contract_intros; assumption?)+

end
