(* ===== verification/System.thy ===== *)
theory System
  imports Admin
begin

text \<open>
  The server as a whole: the events its loop runs, one at a time, as a step relation on worlds, and the
  worlds it can reach.  The database contracts of every event are proved here once: all but the
  inbound frames, the session timeout and two deletions are \<open>background\<close> events.  Deleting an id token clears it in its
  sessions; deleting a station removes its connectors, so it is a step of \<open>runs\<close> and not of \<open>serves\<close>.
\<close>

section \<open>Steps\<close>

text \<open>
  A crash or an exit, and the next start: the memory of the process is gone, its sockets are closed and its timers do not run;
  the database, Redis and the files are as they were.
\<close>

definition restarted :: "world \<Rightarrow> world" where
  "restarted w = (boot_world (host w) (db w))
     \<lparr>tick := tick w, sent := sent w, stream := stream w, dlq := dlq w, kv := kv w, jobs := jobs w, files := files w\<rparr>"

lemma restarted_simps [simp]:
  "db (restarted w) = db w" "stream (restarted w) = stream w" "dlq (restarted w) = dlq w" "relay_running (restarted w) = False"
  "relay_timer (restarted w) = False" "host (restarted w) = host w" "conns (restarted w) = []" "pending (restarted w) = []"
  by (simp_all add: restarted_def boot_world_def)

text \<open>The \<open>finally\<close> of the queue processors is left out: a job that throws is retried as a new step.\<close>

inductive serves :: "world \<Rightarrow> world \<Rightarrow> bool" where
  inbound: "handle s ws raw w = (r, w') \<Longrightarrow> serves w w'"
| connect: "on_connection url ws (w\<lparr>socks := (socks w)(ws := OPEN)\<rparr>) = (r, w') \<Longrightarrow> serves w w'"
| upgrade: "verifyClient url authHeader w = (r, w') \<Longrightarrow> serves w w'"
| socket_closed: "on_close s ws code reason (w\<lparr>socks := (socks w)(ws := CLOSED)\<rparr>) = (r, w') \<Longrightarrow> serves w w'"
| socket_error: "on_error s ws w = (r, w') \<Longrightarrow> serves w w'"
| replaced: "terminate_replaced ws w = (r, w') \<Longrightarrow> serves w w'"
| disconnect: "forceDisconnect s w = (r, w') \<Longrightarrow> serves w w'"
| raw_call: "sendRawCall s action payload w = (r, w') \<Longrightarrow> serves w w'"
| command: "command_begin s action payload requestedBy w = (r, w') \<Longrightarrow> serves w w'"
| diagnostics: "diagnostics_begin s payload requestedBy w = (r, w') \<Longrightarrow> serves w w'"
| reply_timeout: "pending_timeout mid w = (r, w') \<Longrightarrow> serves w w'"
| settled_call: "settled w = (mid, call, outcome) # rest \<Longrightarrow> resume mid call outcome (w\<lparr>settled := rest\<rparr>) = (r, w') \<Longrightarrow> serves w w'"
| sweeper_start: "startOcppCommandSweeper w = (r, w') \<Longrightarrow> serves w w'"
| sweeper_stop: "stopOcppCommandSweeper w = (r, w') \<Longrightarrow> serves w w'"
| sweep: "sweeper_tick w = (r, w') \<Longrightarrow> serves w w'"
| session_timeout: "sessionTimeoutProcessor w = (r, w') \<Longrightarrow> serves w w'"
| log_cleanup: "ocppLogCleanupProcessor w = (r, w') \<Longrightarrow> serves w w'"
| relay_start: "startOutboxRelay w = (r, w') \<Longrightarrow> serves w w'"
| relay_stop: "stopOutboxRelay w = (r, w') \<Longrightarrow> serves w w'"
| relay: "relay_interval w = (r, w') \<Longrightarrow> serves w w'"
| admin: "administers m \<Longrightarrow> m w = (r, w') \<Longrightarrow> serves w w'"
| token_deleted: "internal_api tokens render token_delete_route req w = (r, w') \<Longrightarrow> serves w w'"
| key_expired: "serves w (expire_key key w)"
| environment: "serves w (w\<lparr>host := h\<rparr>)"
| workers: "serves w (w\<lparr>core_workers := b\<rparr>)"
| restart: "serves w (restarted w)"

definition runs :: "world \<Rightarrow> world \<Rightarrow> bool" where
  "runs w w' \<longleftrightarrow> serves w w' \<or> (\<exists>req. w' = snd (station_delete_route req w))"

definition reaches :: "world \<Rightarrow> world \<Rightarrow> bool" where
  "reaches = runs\<^sup>*\<^sup>*"

text \<open>The worlds reached without the deletion of a station.\<close>

definition reaches_undeleted :: "world \<Rightarrow> world \<Rightarrow> bool" where
  "reaches_undeleted = serves\<^sup>*\<^sup>*"

lemma reaches_refl [intro]: "reaches w w"
  by (simp add: reaches_def)

lemma reaches_step [intro]: "reaches w w1 \<Longrightarrow> serves w1 w2 \<Longrightarrow> reaches w w2"
  unfolding reaches_def by (erule rtranclp.rtrancl_into_rtrancl) (simp add: runs_def)

lemma reaches_frame: "reaches w (snd (handle s ws raw w))"
  by (rule reaches_step [OF reaches_refl inbound [OF surjective_pairing]])

lemma reaches_undeleted_step: "serves w w' \<Longrightarrow> reaches_undeleted w w'"
  by (simp add: reaches_undeleted_def)

context contract
begin

lemma reaches_conforms:
  assumes "P\<^sup>*\<^sup>* w w'" "\<And>w w'. P w w' \<Longrightarrow> R w w'"
  shows "R w w'"
  using assms(1)
proof induction
  case base
  show ?case by (rule refl)
next
  case (step w1 w2)
  from trans [OF step.IH assms(2) [OF step.hyps(2)]] show ?case .
qed

end

section \<open>The steps by their contracts\<close>

lemma serves_cases:
  assumes "serves w w'"
  shows "on_db background w w' \<or> (\<exists>s ws raw. w' = snd (handle s ws raw w)) \<or> w' = snd (sessionTimeoutProcessor w) \<or>
    (\<exists>tokens render req. w' = snd (internal_api tokens render token_delete_route req w))"
  using assms
proof cases
  case (connect url ws r)
  from conformsD [OF background_sockets(1) connect] show ?thesis by (simp add: on_db_def)
next
  case (socket_closed s ws code reason r)
  from conformsD [OF background_sockets(3) socket_closed] show ?thesis by (simp add: on_db_def)
next
  case (settled_call mid call outcome rest r)
  from conformsD [OF background_resume settled_call(2)] show ?thesis by (simp add: on_db_def)
next
  case (inbound s ws raw r)
  then have "w' = snd (handle s ws raw w)" by simp
  then show ?thesis by blast
next
  case (session_timeout r)
  then have "w' = snd (sessionTimeoutProcessor w)" by simp
  then show ?thesis by blast
next
  case (admin m r)
  from conformsD [OF administers_contract [OF admin(1)] admin(2)] show ?thesis by (simp add: administrative_def)
next
  case (token_deleted tokens render req r)
  then have "w' = snd (internal_api tokens render token_delete_route req w)" by simp
  then show ?thesis by blast
qed (auto simp: on_db_def background_refl startOutboxRelay_def stopOutboxRelay_def stopOcppCommandSweeper_def
      set_sweeper_def expire_key_def
    dest: conformsD [OF background_sockets(2)] conformsD [OF background_sockets(4)] conformsD [OF background_sockets(5)]
      conformsD [OF background_sockets(6)] conformsD [OF background_sockets(7)] conformsD [OF background_sockets(8)]
      conformsD [OF background_commands(1)] conformsD [OF background_commands(2)] conformsD [OF background_commands(3)]
      conformsD [OF background_commands(4)] conformsD [OF background_commands(5)] conformsD [OF background_relay])

text \<open>A deleted station takes its connectors and logs with it, never a session.\<close>

definition keeps_sessions :: "db \<Rightarrow> db \<Rightarrow> bool" where
  "keeps_sessions d d' \<longleftrightarrow> transactions d' = transactions d \<and> outbox d' = outbox d"

interpretation keeps_sessions: db_contract keeps_sessions
  by unfold_locales (auto simp: keeps_sessions_def)

lemma delete_station_row_rows:
  "delete_station_row i d = Inr (x, d') \<Longrightarrow> transactions d' = transactions d \<and> outbox d' = outbox d"
  by (auto simp: delete_station_row_def op_Inr split: sum.splits prod.splits)

lemma station_deletion_keeps: "conforms (on_db keeps_sessions) (station_delete_route req)"
  unfolding station_delete_route_def find_provisioning_by_station_def deleteByStationId_def delete_station_def clear_station_rows_def
    station_by_id_def
  by (intro contract_intros keeps_sessions.conforms_op;
      auto simp: keeps_sessions_def admin_defs store_defs op_Inr dest: delete_station_row_rows)

context contract
begin

lemma conforms_token_route: "(\<And>t. conforms R (db_do (delete_idToken t))) \<Longrightarrow> conforms R (token_delete_route req)"
  unfolding token_delete_route_def delete_token_def find_token_def by (intro contract_intros)

end

context db_contract
begin

lemma conforms_internal_db: "(\<And>req. conforms (on_db rel) (route req)) \<Longrightarrow> conforms (on_db rel) (internal_api tokens render route req)"
  by (rule conforms_internal) (auto simp: off_stream_def intro: conforms_redis)

lemma conforms_token_deletion:
  assumes "\<And>t d x d'. delete_idToken t d = Inr (x, d') \<Longrightarrow> rel d d'"
  shows "conforms (on_db rel) (internal_api tokens render token_delete_route req)"
  by (intro conforms_internal_db conforms_token_route conforms_op) (rule assms)

lemma serves_keeps:
  assumes "serves w w'"
    and bg: "\<And>d d'. background d d' \<Longrightarrow> rel d d'"
    and frames: "\<And>s ws raw. conforms (on_db rel) (handle s ws raw)"
    and timeout: "conforms (on_db rel) sessionTimeoutProcessor"
    and token: "\<And>t d x d'. delete_idToken t d = Inr (x, d') \<Longrightarrow> rel d d'"
  shows "on_db rel w w'"
proof -
  have "conforms (on_db rel) (internal_api tokens render token_delete_route req)" for tokens render req
    by (rule conforms_token_deletion) (rule token)
  with serves_cases [OF assms(1)] bg frames timeout show ?thesis unfolding conforms_def on_db_def by blast
qed

lemma reaches_undeleted_keeps:
  assumes "reaches_undeleted w w'"
    and "\<And>d d'. background d d' \<Longrightarrow> rel d d'" "\<And>s ws raw. conforms (on_db rel) (handle s ws raw)"
      "conforms (on_db rel) sessionTimeoutProcessor" "\<And>t d x d'. delete_idToken t d = Inr (x, d') \<Longrightarrow> rel d d'"
  shows "rel (db w) (db w')"
proof -
  have "on_db rel w1 w2" if "serves w1 w2" for w1 w2
    by (rule serves_keeps [OF that]) (use assms(2-) in auto)
  from reaches_conforms [OF assms(1) [unfolded reaches_undeleted_def] this] show ?thesis by (simp add: on_db_def)
qed

lemma reaches_keeps:
  assumes "reaches w w'"
    and bg: "\<And>d d'. background d d' \<Longrightarrow> rel d d'" and frames: "\<And>s ws raw. conforms (on_db rel) (handle s ws raw)"
    and timeout: "conforms (on_db rel) sessionTimeoutProcessor"
    and token: "\<And>t d x d'. delete_idToken t d = Inr (x, d') \<Longrightarrow> rel d d'"
    and deletion: "\<And>d d'. keeps_sessions d d' \<Longrightarrow> rel d d'"
  shows "rel (db w) (db w')"
proof -
  have "on_db rel w1 w2" if "runs w1 w2" for w1 w2
    using that unfolding runs_def
  proof (elim disjE exE)
    assume "serves w1 w2"
    then show ?thesis by (rule serves_keeps) (use assms(2-) in auto)
  next
    fix req assume "w2 = snd (station_delete_route req w1)"
    with station_deletion_keeps deletion show ?thesis unfolding conforms_def on_db_def by blast
  qed
  from reaches_conforms [OF assms(1) [unfolded reaches_def] this] show ?thesis by (simp add: on_db_def)
qed

end

section \<open>What background events and the session timeout keep\<close>

lemma background_payloads: "background d d' \<Longrightarrow> e \<in> set (outbox d) \<Longrightarrow> \<exists>e' \<in> set (outbox d'). ob_payload e' = ob_payload e"
proof -
  assume bg: "background d d'" and e: "e \<in> set (outbox d)"
  from bg obtain new where "map ob_payload (outbox d') = map ob_payload (outbox d) @ new" by (auto simp: background_def)
  from arg_cong [OF this, of set] e have "ob_payload e \<in> ob_payload ` set (outbox d')" by auto
  then show ?thesis by auto
qed

lemma background_keeps:
  "background d d' \<Longrightarrow> outbox_grows d d'"
  "background d d' \<Longrightarrow> tx_evolves d d'"
  "background d d' \<Longrightarrow> keeps ledger_ok d d'"
  "background d d' \<Longrightarrow> keeps started_ok d d'"
proof -
  assume bg: "background d d'"
  then have tx: "transactions d' = transactions d" by (simp add: background_def)
  show "outbox_grows d d'" using bg by (simp add: background_def)
  show "tx_evolves d d'" by (rule tx_evolves_frame [OF tx])
  show "keeps ledger_ok d d'"
    unfolding keeps_def ledger_ok_def tx using background_payloads [OF bg] by metis
  show "keeps started_ok d d'"
    unfolding keeps_def started_ok_def tx_ids_ok_def tx using background_payloads [OF bg] by metis
qed

lemma announced_fault_payloads: "announced_fault s c es = fold (fault_step s c) (map ob_payload es) None"
  by (simp add: announced_fault_def fold_map comp_def)

lemma background_faults: "background d d' \<Longrightarrow> keeps faults_ok d d'"
proof -
  assume bg: "background d d'"
  have quiet: "fold (fault_step s c) ps st = st" if "\<forall>p \<in> set ps. no_fault_event p" for s c ps st
    using that by (induction ps) (simp_all add: fault_step_other)
  have "announced_fault s c (outbox d') = announced_fault s c (outbox d)" for s c
    using bg quiet by (auto simp: background_def announced_fault_payloads)
  with bg connector_fault_frame [of d' d] show ?thesis by (simp add: keeps_def faults_ok_def background_def)
qed

lemma session_timeout_keeps:
  "conforms (on_db outbox_grows) sessionTimeoutProcessor"
  "conforms (on_db tx_evolves) sessionTimeoutProcessor"
  "conforms (on_db (keeps ledger_ok)) sessionTimeoutProcessor"
  "conforms (on_db (keeps started_ok)) sessionTimeoutProcessor"
  "conforms (on_db (keeps faults_ok)) sessionTimeoutProcessor"
  unfolding sessionTimeoutProcessor_def
  by (intro contract_intros outbox_log.conforms_op tx_log.conforms_op ledger.conforms_op started.conforms_op faults.conforms_op;
      auto simp: store_defs op_Inr tx_step_def is_open_tx_def keeps_start_def
        intro: outbox_grows_frame tx_evolves_update ledger_update started_update faults_same)+

section \<open>What the two deletions keep\<close>

lemma token_deletion_rows:
  "delete_idToken t d = Inr (x, d') \<Longrightarrow> connectors d' = connectors d \<and> outbox d' = outbox d \<and>
     transactions d' = update_where (\<lambda>r. tx_idTag r = Some t) (\<lambda>r. r\<lparr>tx_idTag := None\<rparr>) (transactions d)"
  by (simp add: delete_idToken_Inr)

lemma token_deletion_keeps:
  assumes "delete_idToken t d = Inr (x, d')"
  shows "outbox_grows d d'" "tx_evolves d d'" "keeps ledger_ok d d'" "keeps started_ok d d'" "keeps faults_ok d d'"
proof -
  note rows = token_deletion_rows [OF assms]
  show "outbox_grows d d'" "keeps faults_ok d d'" using rows by (auto intro: outbox_grows_frame faults_same)
  show "tx_evolves d d'"
    using rows by (intro tx_evolves_update [of _ "\<lambda>r. tx_idTag r = Some t" "\<lambda>r. r\<lparr>tx_idTag := None\<rparr>"]) (auto simp: tx_step_def is_open_tx_def)
  show "keeps ledger_ok d d'" "keeps started_ok d d'"
    using rows by (auto intro: ledger_update [of _ "\<lambda>r. tx_idTag r = Some t" "\<lambda>r. r\<lparr>tx_idTag := None\<rparr>"]
        started_update [of _ "\<lambda>r. tx_idTag r = Some t" "\<lambda>r. r\<lparr>tx_idTag := None\<rparr>"] simp: keeps_start_def)
qed

lemma station_deletion_contracts:
  "keeps_sessions d d' \<Longrightarrow> outbox_grows d d'" "keeps_sessions d d' \<Longrightarrow> tx_evolves d d'"
  "keeps_sessions d d' \<Longrightarrow> keeps ledger_ok d d'" "keeps_sessions d d' \<Longrightarrow> keeps started_ok d d'"
  by (auto simp: keeps_sessions_def intro: outbox_grows_frame tx_evolves_frame ledger_same started_same)

end
