(* ===== verification/SessionSpec.thy ===== *)
theory SessionSpec
  imports System
begin

text \<open>
  The abstract specification of charging sessions, a machine over a map from session ids to a station and a phase, and the
  proof that the server refines it: whatever the server does, its table of sessions moves as the machine does.
\<close>

section \<open>The machine\<close>

datatype phase = Waiting | Charging | Ended

text \<open>The phases in the order a session goes through them.\<close>

fun phase_rank :: "phase \<Rightarrow> nat" where
  "phase_rank Waiting = 0"
| "phase_rank Charging = 1"
| "phase_rank Ended = 2"

lemma phase_rank_inject: "phase_rank p = phase_rank q \<longleftrightarrow> p = q"
  by (cases p; cases q) simp_all

instantiation phase :: linorder
begin

definition less_eq_phase :: "phase \<Rightarrow> phase \<Rightarrow> bool" where
  "less_eq_phase p q \<longleftrightarrow> phase_rank p \<le> phase_rank q"

definition less_phase :: "phase \<Rightarrow> phase \<Rightarrow> bool" where
  "less_phase p q \<longleftrightarrow> phase_rank p < phase_rank q"

instance
  by intro_classes (auto simp: less_eq_phase_def less_phase_def phase_rank_inject [symmetric])

end

lemma phase_order [simp]: "Waiting \<le> p" "p \<le> Ended" "Ended \<le> p \<longleftrightarrow> p = Ended" "p \<le> Waiting \<longleftrightarrow> p = Waiting"
  by (cases p; simp add: less_eq_phase_def)+

type_synonym sessions = "int \<rightharpoonup> string \<times> phase"

text \<open>A session appears for a station, a waiting one begins to charge, and one that is not over ends; nothing else happens.\<close>

inductive session_move :: "sessions \<Rightarrow> sessions \<Rightarrow> bool" where
  appear: "m i = None \<Longrightarrow> session_move m (m(i \<mapsto> (s, p)))"
| begin_charging: "m i = Some (s, Waiting) \<Longrightarrow> session_move m (m(i \<mapsto> (s, Charging)))"
| finish: "m i = Some (s, p) \<Longrightarrow> p \<noteq> Ended \<Longrightarrow> session_move m (m(i \<mapsto> (s, Ended)))"

inductive_cases session_moveE: "session_move m m'"

text \<open>What the machine guarantees: a session stays with its station, and its phase never goes back.\<close>

lemma session_move_keeps:
  assumes "session_move m m'" "m i = Some (s, p)"
  shows "\<exists>p'. m' i = Some (s, p') \<and> p \<le> p'"
  using assms by (cases rule: session_moveE) auto

lemma session_moves_keep:
  assumes "session_move\<^sup>*\<^sup>* m m'" "m i = Some (s, p)"
  shows "\<exists>p'. m' i = Some (s, p') \<and> p \<le> p'"
  using assms
proof induction
  case (step m1 m2)
  from step.IH [OF step.prems] obtain p1 where "m1 i = Some (s, p1)" "p \<le> p1" by blast
  with session_move_keeps [OF step.hyps(2)] show ?case by (meson order_trans)
qed auto

section \<open>The refinement\<close>

definition phase_of :: "Transaction \<Rightarrow> phase" where
  "phase_of t = (if tx_status t = TxPending then Waiting else if tx_status t = TxActive then Charging else Ended)"

definition entry :: "Transaction \<Rightarrow> int \<times> string \<times> phase" where
  "entry t = (tx_id t, tx_stationId t, phase_of t)"

definition sessions_of :: "Transaction list \<Rightarrow> sessions" where
  "sessions_of ts = map_of (map entry ts)"

lemma sessions_of_None: "sessions_of ts i = None \<longleftrightarrow> i \<notin> tx_id ` set ts"
  by (auto simp: sessions_of_def map_of_eq_None_iff entry_def image_image)

lemma sessions_of_append: "sessions_of (ts @ us) = sessions_of us ++ sessions_of ts"
  by (simp add: sessions_of_def)

lemma sessions_of_Cons: "sessions_of (t # ts) = (sessions_of ts)(tx_id t \<mapsto> (tx_stationId t, phase_of t))"
  by (simp add: sessions_of_def entry_def)

text \<open>One row that steps is at most one move.\<close>

lemma row_moves:
  assumes "tx_step t t'" "m (tx_id t) = Some (tx_stationId t, phase_of t)"
  shows "session_move\<^sup>*\<^sup>* m (m(tx_id t \<mapsto> (tx_stationId t', phase_of t')))"
proof -
  have s: "tx_stationId t' = tx_stationId t" using assms(1) by (simp add: tx_step_def)
  consider "phase_of t' = phase_of t" | "phase_of t = Waiting" "phase_of t' = Charging" | "phase_of t \<noteq> Ended" "phase_of t' = Ended"
    using assms(1) by (cases "tx_status t"; cases "tx_status t'") (auto simp: tx_step_def phase_of_def is_open_tx_def)
  then show ?thesis
  proof cases
    case 1
    with assms(2) s have "m(tx_id t \<mapsto> (tx_stationId t', phase_of t')) = m" by (simp add: fun_upd_idem)
    then show ?thesis by simp
  qed (use assms(2) s in \<open>auto intro: r_into_rtranclp session_move.intros\<close>)
qed

lemma replace_row:
  assumes "tx_id t' = tx_id t" "tx_id t \<notin> tx_id ` set pre"
  shows "sessions_of (pre @ t' # ts) = (sessions_of (pre @ t # ts))(tx_id t \<mapsto> (tx_stationId t', phase_of t'))"
  using assms sessions_of_None [of pre "tx_id t"]
  by (auto simp: sessions_of_append sessions_of_Cons map_add_def fun_eq_iff split: option.splits)

lemma rows_move:
  assumes "list_all2 tx_step ts rows" "distinct (map tx_id (pre @ ts))"
  shows "session_move\<^sup>*\<^sup>* (sessions_of (pre @ ts)) (sessions_of (pre @ rows))"
  using assms
proof (induction arbitrary: pre)
  case (Cons t ts t' rows)
  have id: "tx_id t' = tx_id t" using Cons.hyps(1) by (simp add: tx_step_def)
  from Cons.prems have fresh: "tx_id t \<notin> tx_id ` set pre" by auto
  have "sessions_of (pre @ t # ts) (tx_id t) = Some (tx_stationId t, phase_of t)"
    using fresh sessions_of_None [of pre "tx_id t"] by (simp add: sessions_of_append sessions_of_Cons map_add_def)
  from row_moves [OF Cons.hyps(1), of "sessions_of (pre @ t # ts)", OF this]
  have "session_move\<^sup>*\<^sup>* (sessions_of (pre @ t # ts)) (sessions_of (pre @ t' # ts))"
    by (simp only: replace_row [OF id fresh])
  moreover have "session_move\<^sup>*\<^sup>* (sessions_of (pre @ t' # ts)) (sessions_of (pre @ t' # rows))"
    using Cons.IH [of "pre @ [t']"] Cons.prems id by simp
  ultimately show ?case by simp
qed simp

lemma new_rows_move:
  assumes "distinct (map tx_id (ts @ new))"
  shows "session_move\<^sup>*\<^sup>* (sessions_of ts) (sessions_of (ts @ new))"
  using assms
proof (induction new rule: rev_induct)
  case (snoc t new)
  then have "tx_id t \<notin> tx_id ` set (ts @ new)" by auto
  then have none: "sessions_of (ts @ new) (tx_id t) = None" by (simp add: sessions_of_None)
  have "sessions_of (ts @ new @ [t]) = (sessions_of (ts @ new))(tx_id t \<mapsto> (tx_stationId t, phase_of t))"
    using none by (auto simp: sessions_of_append [of "ts @ new" "[t]", simplified] sessions_of_Cons sessions_of_def [of "[]"]
        map_add_def fun_eq_iff split: option.splits)
  then have "session_move (sessions_of (ts @ new)) (sessions_of (ts @ new @ [t]))"
    using session_move.appear [of "sessions_of (ts @ new)" "tx_id t", OF none] by simp
  moreover have "session_move\<^sup>*\<^sup>* (sessions_of ts) (sessions_of (ts @ new))" using snoc by simp
  ultimately show ?case by simp
qed simp

lemma evolution_moves:
  assumes "tx_evolves d d'" "tx_ids_ok d"
  shows "session_move\<^sup>*\<^sup>* (sessions_of (transactions d)) (sessions_of (transactions d'))"
proof -
  from assms obtain rows new where d': "tx_ids_ok d'" "transactions d' = rows @ new" "list_all2 tx_step (transactions d) rows"
    by (auto simp: tx_evolves_def)
  have "session_move\<^sup>*\<^sup>* (sessions_of (transactions d)) (sessions_of rows)"
    using rows_move [OF d'(3), of "[]"] assms(2) by (simp add: tx_ids_ok_def)
  also have "session_move\<^sup>*\<^sup>* (sessions_of rows) (sessions_of (rows @ new))"
    using d' by (intro new_rows_move) (simp add: tx_ids_ok_def)
  finally show ?thesis by (simp add: d'(2))
qed

end
