(* ===== verification/HandlerSteps.thy ===== *)
theory HandlerSteps
  imports System
begin

text \<open>
  The handlers of \<open>StartTransaction\<close>, \<open>StopTransaction\<close> and \<open>StatusNotification\<close> one \<open>await\<close> at a time.  The server does not
  wait for one frame to be handled before it takes the next, so between two calls of a handler other frames, of the same
  station too, requests and jobs run.  A handler in progress is the \<open>await\<close> it stands at with the local variables that live
  across it (\<open>handler_await\<close>): above all the rows it has read, which may no longer be what the table has.  \<open>handler_step\<close> lets
  the awaited call answer and runs the code up to the next \<open>await\<close>; a database transaction is one call.  Run without
  interruption, the steps are the handlers of \<open>TransactionHandlers\<close> and \<open>StationHandlers\<close>.
\<close>

section \<open>A handler and its awaits\<close>

datatype handler_await =
  StartFind string jsval
| StartCreate string jsval
| StartStation string jsval Transaction
| StartActivate string jsval Transaction
| StartGoal string jsval Transaction
| StartConnector string jsval Transaction
| StopFind string jsval
| StopClose string jsval Transaction
| StopData string jsval Transaction
| StopConnector string jsval Transaction
| StatusEnter string jsval
| StatusOffline string jsval StationStatus
| StatusOfflineLog string jsval StationStatus "ChargingStation option"
| StatusReport string jsval int "int option" bool
| StatusStuck string jsval int
| StatusStop string jsval "Transaction list"
| StatusFault string jsval
| Handled "js_error + jsval"

text \<open>An awaited call that throws ends the handler; one in a \<open>try\<close> or with a \<open>catch\<close> goes on.\<close>

definition awaiting :: "'a prog \<Rightarrow> ('a \<Rightarrow> handler_await) \<Rightarrow> world \<Rightarrow> handler_await \<times> world" where
  "awaiting m k w = (case m w of (Inl e, w1) \<Rightarrow> (Handled (Inl e), w1) | (Inr x, w1) \<Rightarrow> (k x, w1))"

definition attempting :: "'a prog \<Rightarrow> ('a \<Rightarrow> handler_await) \<Rightarrow> handler_await \<Rightarrow> world \<Rightarrow> handler_await \<times> world" where
  "attempting m k h w = (case m w of (Inl e, w1) \<Rightarrow> (h, w1) | (Inr x, w1) \<Rightarrow> (k x, w1))"

fun handler_step :: "handler_await \<Rightarrow> world \<Rightarrow> handler_await \<times> world" where
  "handler_step (StartFind s p) =
     awaiting (andthen (arg (string_filter (js_get p ''idTag''))) (\<lambda>P. db_read (find_pending s P)))
       (\<lambda>transaction. case transaction of None \<Rightarrow> StartCreate s p | Some t \<Rightarrow> StartStation s p t)"
| "handler_step (StartCreate s p) =
     awaiting (start_unplanned s p) (\<lambda>newTx. Handled (Inr (start_response (tx_id newTx))))"
| "handler_step (StartStation s p t) = awaiting (db_read (find_station s)) (\<lambda>_. StartActivate s p t)"
| "handler_step (StartActivate s p t) = awaiting (start_planned s p t) (\<lambda>_. StartGoal s p t)"
| "handler_step (StartGoal s p t) = awaiting (enqueue_goal_check t) (\<lambda>_. StartConnector s p t)"
| "handler_step (StartConnector s p t) =
     awaiting (mark_charging s (js_get p ''connectorId'')) (\<lambda>_. Handled (Inr (start_response (tx_id t))))"
| "handler_step (StopFind s p) =
     awaiting (andthen (arg (int_opt_filter (js_get p ''transactionId''))) (\<lambda>P. db_read (find_ocpp_transaction s P)))
       (\<lambda>transaction. case transaction of None \<Rightarrow> Handled (Inr accepted_response) | Some t \<Rightarrow> StopClose s p t)"
| "handler_step (StopClose s p t) = awaiting (stop_tx s p t) (\<lambda>_. StopData s p t)"
| "handler_step (StopData s p t) =
     awaiting (save_transaction_data (tx_id t) (js_get p ''transactionData'')) (\<lambda>_. StopConnector s p t)"
| "handler_step (StopConnector s p t) =
     awaiting (ignore_err (db_do (update_connectors
         (\<lambda>r. co_stationId r = s \<and> co_connectorId r = tx_connectorId t) (\<lambda>r. r\<lparr>co_currentStatus := CoAvailable\<rparr>))))
       (\<lambda>_. Handled (Inr accepted_response))"
| "handler_step (StatusEnter s p) = (\<lambda>w.
     case date_or_now (js_get p ''timestamp'') w of
       (Inl e, w1) \<Rightarrow> (Handled (Inl e), w1)
     | (Inr stamp, w1) \<Rightarrow>
         if js_get p ''connectorId'' = JNum 0 then
           (let stationStatus = (if js_get p ''status'' = JStr ''Faulted'' then StFaulted else StOnline) in
            awaiting (ignore_err (db_do (update_station s (\<lambda>r. r\<lparr>st_status := stationStatus\<rparr>))))
              (\<lambda>_. if stationStatus \<in> set OFFLINE_STATUSES then StatusOffline s p stationStatus else StatusFault s p) w1)
         else
           awaiting (andthen (arg (as_int (js_get p ''connectorId''))) (\<lambda>c.
               andthen (db_read (find_connector s c)) (\<lambda>prev. ret (c, prev))))
             (\<lambda>(c, prev). StatusReport s p c stamp (Option.bind prev co_errorCode \<noteq> None)) w1)"
| "handler_step (StatusOffline s p st) =
     attempting (db_read (find_station s)) (\<lambda>station. StatusOfflineLog s p st station) (StatusFault s p)"
| "handler_step (StatusOfflineLog s p st station) =
     attempting (andthen js_now (\<lambda>now.
         db_do (create_offlineLog \<lparr>ol_stationId = s, ol_siteId = Option.bind station st_siteId,
           ol_partnerId = None, ol_status = st, ol_loggedAt = now\<rparr>)))
       (\<lambda>_. StatusFault s p) (StatusFault s p)"
| "handler_step (StatusReport s p c stamp wasInFault) =
     awaiting (db_transaction (connector_status_tx s c p stamp wasInFault))
       (\<lambda>_. if js_get p ''status'' = JStr ''Available'' then StatusStuck s p c else StatusFault s p)"
| "handler_step (StatusStuck s p c) =
     awaiting (db_read (\<lambda>d. filter (\<lambda>t. tx_stationId t = s \<and> tx_connectorId t = c \<and> is_open_tx t) (transactions d)))
       (\<lambda>stuckTxs. if stuckTxs \<noteq> [] then StatusStop s p stuckTxs else StatusFault s p)"
| "handler_step (StatusStop s p stuckTxs) =
     awaiting (andthen js_now (\<lambda>now. db_do (update_transactions (\<lambda>t. tx_id t \<in> set (map tx_id stuckTxs))
         (\<lambda>t. t\<lparr>tx_status := TxStopped, tx_timeEnd := Some now, tx_failReason := Some ''StatusNotification:Available''\<rparr>))))
       (\<lambda>_. StatusFault s p)"
| "handler_step (StatusFault s p) =
     awaiting (only_if (js_get p ''status'' = JStr ''Faulted'')
         (ignore_err (andthen js_now (\<lambda>now.
            db_do (create_faultLog \<lparr>fl_id = 0, fl_stationId = s, fl_faultType = FtCommunicationError,
              fl_description = Some (fault_description p), fl_resolvedAt = None, fl_reportedBy = None,
              fl_status = FsReceived, fl_createdAt = now\<rparr>)))))
       (\<lambda>_. Handled (Inr (JObj [])))"
| "handler_step (Handled r) = (\<lambda>w. (Handled r, w))"

fun station_in :: "handler_await \<Rightarrow> string option" where
  "station_in (StartFind s p) = Some s"
| "station_in (StartCreate s p) = Some s"
| "station_in (StartStation s p t) = Some s"
| "station_in (StartActivate s p t) = Some s"
| "station_in (StartGoal s p t) = Some s"
| "station_in (StartConnector s p t) = Some s"
| "station_in (StopFind s p) = Some s"
| "station_in (StopClose s p t) = Some s"
| "station_in (StopData s p t) = Some s"
| "station_in (StopConnector s p t) = Some s"
| "station_in (StatusEnter s p) = Some s"
| "station_in (StatusOffline s p st) = Some s"
| "station_in (StatusOfflineLog s p st x) = Some s"
| "station_in (StatusReport s p c stamp b) = Some s"
| "station_in (StatusStuck s p c) = Some s"
| "station_in (StatusStop s p txs) = Some s"
| "station_in (StatusFault s p) = Some s"
| "station_in (Handled r) = None"

fun outcome_of :: "handler_await \<Rightarrow> (js_error + jsval) option" where
  "outcome_of (Handled r) = Some r"
| "outcome_of h = None"

abbreviation handled :: "handler_await \<Rightarrow> bool" where
  "handled h \<equiv> outcome_of h \<noteq> None"

text \<open>How many answers a handler still waits for, at most.\<close>

fun answers_left :: "handler_await \<Rightarrow> nat" where
  "answers_left (StartFind s p) = 5"
| "answers_left (StartStation s p t) = 4"
| "answers_left (StartActivate s p t) = 3"
| "answers_left (StartGoal s p t) = 2"
| "answers_left (StartConnector s p t) = 1"
| "answers_left (StartCreate s p) = 1"
| "answers_left (StopFind s p) = 4"
| "answers_left (StopClose s p t) = 3"
| "answers_left (StopData s p t) = 2"
| "answers_left (StopConnector s p t) = 1"
| "answers_left (StatusEnter s p) = 5"
| "answers_left (StatusReport s p c stamp b) = 4"
| "answers_left (StatusStuck s p c) = 3"
| "answers_left (StatusOffline s p st) = 3"
| "answers_left (StatusStop s p txs) = 2"
| "answers_left (StatusOfflineLog s p st x) = 2"
| "answers_left (StatusFault s p) = 1"
| "answers_left (Handled r) = 0"

lemma handler_step_progress:
  assumes "handler_step h w = (h', w')" "\<not> handled h"
  shows "answers_left h' < answers_left h"
  using assms
  by (cases h) (auto simp: awaiting_def attempting_def Let_def split: prod.splits sum.splits option.splits if_splits)

lemma handler_step_less: "outcome_of h = None \<Longrightarrow> answers_left (fst (handler_step h w)) < answers_left h"
  by (rule handler_step_progress [OF surjective_pairing]) simp

text \<open>A handler that nothing interrupts.\<close>

function finish_handler :: "handler_await \<Rightarrow> jsval prog" where
  "finish_handler h w =
     (case outcome_of h of Some r \<Rightarrow> (r, w) | None \<Rightarrow> (case handler_step h w of (h', w') \<Rightarrow> finish_handler h' w'))"
  by pat_completeness auto
termination
  by (relation "measure (\<lambda>x. answers_left (fst x))") (auto intro: handler_step_less)

declare finish_handler.simps [simp del]

lemma finish_Handled [simp]: "finish_handler (Handled r) w = (r, w)"
  by (simp add: finish_handler.simps)

lemma finish_step: "\<not> handled h \<Longrightarrow> finish_handler h w = (case handler_step h w of (h', w') \<Rightarrow> finish_handler h' w')"
  by (subst finish_handler.simps) simp

text \<open>What is left of a handler after an await is the rest of its program.\<close>

lemma finish_awaiting:
  assumes "\<not> handled h" "handler_step h = awaiting m k"
  shows "finish_handler h = andthen m (\<lambda>x. finish_handler (k x))"
  using assms(1) by (auto simp: finish_step assms(2) awaiting_def andthen_def fun_eq_iff split: prod.splits sum.splits)

lemma finish_attempting:
  assumes "\<not> handled h" "handler_step h = attempting m (\<lambda>_. g) g"
  shows "finish_handler h = andthen (ignore_err m) (\<lambda>_. finish_handler g)"
  using assms(1)
  by (auto simp: finish_step assms(2) attempting_def andthen_def ignore_err_def catch_err_def ret_def fun_eq_iff split: prod.splits sum.splits)

lemma finish_result: "finish_handler (Handled (Inr x)) = ret x"
  by (simp add: fun_eq_iff ret_def)

lemma andthen_assoc: "andthen (andthen m f) g = andthen m (\<lambda>x. andthen (f x) g)"
  by (auto simp: andthen_def fun_eq_iff split: prod.splits sum.splits)

lemma andthen_ret_left: "andthen (ret x) f = f x"
  by (simp add: andthen_def ret_def fun_eq_iff)

lemma only_if_then: "andthen (only_if b m) k = (if b then andthen m k else k ())"
  by (simp add: only_if_def andthen_ret_left)

lemma finish_start_parts:
  "finish_handler (StartCreate s p) = andthen (start_unplanned s p) (\<lambda>newTx. ret (start_response (tx_id newTx)))"
  "finish_handler (StartStation s p t) =
     andthen (db_read (find_station s)) (\<lambda>_.
     andthen (start_planned s p t) (\<lambda>_.
     andthen (enqueue_goal_check t) (\<lambda>_.
     andthen (mark_charging s (js_get p ''connectorId'')) (\<lambda>_.
     ret (start_response (tx_id t))))))"
  by (simp_all add: finish_awaiting finish_result)

lemma finish_start: "finish_handler (StartFind s p) = startTransactionHandler s p"
proof -
  have "finish_handler (case r of None \<Rightarrow> StartCreate s p | Some t \<Rightarrow> StartStation s p t) =
    (case r of None \<Rightarrow> finish_handler (StartCreate s p) | Some t \<Rightarrow> finish_handler (StartStation s p t))" for r
    by (cases r) simp_all
  then show ?thesis
    by (simp add: finish_awaiting [of "StartFind s p"] finish_start_parts andthen_assoc startTransactionHandler_def cong: option.case_cong)
qed

lemma finish_stop_close:
  "finish_handler (StopClose s p t) =
     andthen (stop_tx s p t) (\<lambda>_.
     andthen (save_transaction_data (tx_id t) (js_get p ''transactionData'')) (\<lambda>_.
     andthen (ignore_err (db_do (update_connectors
       (\<lambda>r. co_stationId r = s \<and> co_connectorId r = tx_connectorId t)
       (\<lambda>r. r\<lparr>co_currentStatus := CoAvailable\<rparr>)))) (\<lambda>_.
     ret accepted_response)))"
  by (simp add: finish_awaiting finish_result)

lemma finish_stop: "finish_handler (StopFind s p) = stopTransactionHandler s p"
proof -
  have "finish_handler (case r of None \<Rightarrow> Handled (Inr accepted_response) | Some t \<Rightarrow> StopClose s p t) =
    (case r of None \<Rightarrow> ret accepted_response | Some t \<Rightarrow> finish_handler (StopClose s p t))" for r
    by (cases r) (simp_all add: finish_result)
  then show ?thesis
    by (simp add: finish_awaiting [of "StopFind s p"] finish_stop_close andthen_assoc stopTransactionHandler_def cong: option.case_cong)
qed

lemma finish_if: "finish_handler (if b then h else g) = (if b then finish_handler h else finish_handler g)"
  by simp

lemma finish_fault:
  "finish_handler (StatusFault s p) =
     andthen (only_if (js_get p ''status'' = JStr ''Faulted'')
       (ignore_err (andthen js_now (\<lambda>now.
          db_do (create_faultLog \<lparr>fl_id = 0, fl_stationId = s, fl_faultType = FtCommunicationError,
            fl_description = Some (fault_description p), fl_resolvedAt = None, fl_reportedBy = None,
            fl_status = FsReceived, fl_createdAt = now\<rparr>))))) (\<lambda>_. ret (JObj []))"
  by (simp add: finish_awaiting finish_result)

lemma finish_offline:
  "finish_handler (StatusOffline s p st) = andthen (writeOfflineLog s st) (\<lambda>_. finish_handler (StatusFault s p))"
proof -
  note log = finish_attempting [of "StatusOfflineLog s p st x" _ "StatusFault s p" for x, OF _ handler_step.simps(13)]
  show ?thesis
    by (auto simp: finish_step [of "StatusOffline s p st"] attempting_def log writeOfflineLog_def ignore_err_def catch_err_def andthen_def
        ret_def fun_eq_iff split: prod.splits sum.splits)
qed

lemma finish_report:
  "finish_handler (StatusReport s p c stamp was) =
     andthen (db_transaction (connector_status_tx s c p stamp was)) (\<lambda>_.
     andthen (only_if (js_get p ''status'' = JStr ''Available'') (stop_stuck_on_available s c)) (\<lambda>_.
     finish_handler (StatusFault s p)))"
  by (simp add: finish_awaiting [of "StatusReport s p c stamp was"] finish_awaiting [of "StatusStuck s p c"]
      finish_awaiting [of "StatusStop s p x" for x] finish_if stop_stuck_on_available_def only_if_then andthen_assoc andthen_ret_left
      cong: if_cong)

lemma finish_status: "finish_handler (StatusEnter s p) = statusNotificationHandler s p"
proof
  fix w
  let ?station = "js_get p ''connectorId'' = JNum 0"
  have station: "(case awaiting (ignore_err (db_do (update_station s (\<lambda>r. r\<lparr>st_status := st\<rparr>))))
        (\<lambda>_. if st \<in> set OFFLINE_STATUSES then StatusOffline s p st else StatusFault s p) w1 of (h, w2) \<Rightarrow> finish_handler h w2)
    = andthen (ignore_err (db_do (update_station s (\<lambda>r. r\<lparr>st_status := st\<rparr>)))) (\<lambda>_.
      andthen (only_if (st \<in> set OFFLINE_STATUSES) (writeOfflineLog s st)) (\<lambda>_. finish_handler (StatusFault s p))) w1" for st w1
    by (auto simp: awaiting_def andthen_def finish_offline only_if_def ret_def split: prod.splits sum.splits)
  have connector: "(case awaiting (andthen (arg (as_int (js_get p ''connectorId''))) (\<lambda>c.
        andthen (db_read (find_connector s c)) (\<lambda>prev. ret (c, prev))))
        (\<lambda>(c, prev). StatusReport s p c stamp (Option.bind prev co_errorCode \<noteq> None)) w1 of (h, w2) \<Rightarrow> finish_handler h w2)
    = andthen (connector_status_branch s p stamp) (\<lambda>_. finish_handler (StatusFault s p)) w1" for stamp w1
    by (auto simp: awaiting_def connector_status_branch_def finish_report andthen_def ret_def split: prod.splits sum.splits)
  obtain r w1 where stamp: "date_or_now (js_get p ''timestamp'') w = (r, w1)" by fastforce
  show "finish_handler (StatusEnter s p) w = statusNotificationHandler s p w"
  proof (cases r)
    case (Inl e)
    with stamp show ?thesis by (simp add: finish_step [of "StatusEnter s p"] statusNotificationHandler_def andthen_def [of "date_or_now x" for x])
  next
    case (Inr t)
    with stamp have "statusNotificationHandler s p w =
      andthen (if ?station then station_status_branch s (js_get p ''status'') else connector_status_branch s p t)
        (\<lambda>_. finish_handler (StatusFault s p)) w1"
      by (simp add: statusNotificationHandler_def finish_fault andthen_def [of "date_or_now x" for x])
    with Inr stamp show ?thesis
      by (cases ?station)
        (simp_all add: finish_step [of "StatusEnter s p"] station connector station_status_branch_def Let_def andthen_assoc del: not_None_eq)
  qed
qed


section \<open>What one step keeps\<close>

lemma on_dbD: "conforms (on_db rel) m \<Longrightarrow> m w = (r, w') \<Longrightarrow> rel (db w) (db w')"
  by (drule (1) conformsD) (simp add: on_db_def)

text \<open>A contract on the database holds of a step if it holds of the awaited call; two calls depend on what the handler has read.\<close>

context db_contract
begin

lemma step_awaiting: "conforms (on_db rel) m \<Longrightarrow> rel (db w) (db (snd (awaiting m k w)))"
  by (auto simp: awaiting_def on_db_def dest: conformsD split: prod.splits sum.splits)

lemma step_attempting: "conforms (on_db rel) m \<Longrightarrow> rel (db w) (db (snd (attempting m k h w)))"
  by (auto simp: attempting_def on_db_def dest: conformsD split: prod.splits sum.splits)

lemma handler_step_rel:
  assumes frame: "\<And>d d'. transactions d' = transactions d \<Longrightarrow> connectors d' = connectors d \<Longrightarrow> outbox d' = outbox d \<Longrightarrow> rel d d'"
    and free: "\<And>d d' s c. station_in h = Some s \<Longrightarrow> transactions d' = transactions d \<Longrightarrow> outbox d' = outbox d \<Longrightarrow>
      connectors d' = update_where (\<lambda>r. co_stationId r = s \<and> co_connectorId r = c) (\<lambda>r. r\<lparr>co_currentStatus := CoAvailable\<rparr>) (connectors d) \<Longrightarrow>
      rel d d'"
    and stuck: "\<And>d d' ids now. outbox d' = outbox d \<Longrightarrow> connectors d' = connectors d \<Longrightarrow>
      transactions d' = update_where (\<lambda>t. tx_id t \<in> ids)
        (\<lambda>t. t\<lparr>tx_status := TxStopped, tx_timeEnd := Some now, tx_failReason := Some ''StatusNotification:Available''\<rparr>) (transactions d) \<Longrightarrow>
      rel d d'"
    and "\<And>s p. conforms (on_db rel) (start_unplanned s p)" "\<And>t. conforms (on_db rel) (enqueue_goal_check t)"
      "\<And>s p t. h = StartConnector s p t \<Longrightarrow> conforms (on_db rel) (mark_charging s (js_get p ''connectorId''))"
      "\<And>s p t. conforms (on_db rel) (stop_tx s p t)" "\<And>i data. conforms (on_db rel) (save_transaction_data i data)"
    and planned: "\<And>s p t r w'. h = StartActivate s p t \<Longrightarrow> start_planned s p t w = (r, w') \<Longrightarrow> rel (db w) (db w')"
    and report: "\<And>s p c stamp b r w'. h = StatusReport s p c stamp b \<Longrightarrow>
      db_transaction (connector_status_tx s c p stamp b) w = (r, w') \<Longrightarrow> rel (db w) (db w')"
  shows "rel (db w) (db (snd (handler_step h w)))"
proof (cases h)
  case (StartActivate s p t)
  with planned [OF StartActivate] show ?thesis by (auto simp: awaiting_def split: prod.splits sum.splits)
next
  case (StatusReport s p c stamp b)
  with report [OF StatusReport] show ?thesis by (auto simp: awaiting_def split: prod.splits sum.splits)
next
  case (StatusEnter s p)
  obtain r w1 where now: "date_or_now (js_get p ''timestamp'') w = (r, w1)" by fastforce
  then have "db w1 = db w"
    by (auto simp: date_or_now_def js_now_def arg_def from_option_def ret_def raise_def andthen_def split: if_splits option.splits)
  moreover have "rel (db w1) (db (snd (awaiting (ignore_err (db_do (update_station s f))) k w1)))" for f k
    by (intro step_awaiting conforms_ignore conforms_op) (auto simp: update_station_def op_Inr intro: frame)
  moreover have "rel (db w1) (db (snd (awaiting (andthen (arg x) (\<lambda>c. andthen (db_read (find_connector s c)) (\<lambda>prev. ret (c, prev)))) k w1)))"
    for x k by (intro step_awaiting contract_intros)
  ultimately show ?thesis
    using frame [of "db w" "db w"] by (auto simp: StatusEnter now Let_def split: sum.splits)
qed (auto intro!: step_awaiting step_attempting contract_intros conforms_op assms(4-8)
    simp: store_defs op_Inr intro: frame free stuck)

end

text \<open>The rows of the sessions stay, with their ids, stations and connectors, whatever happens to their status.\<close>

definition same_session :: "Transaction \<Rightarrow> Transaction \<Rightarrow> bool" where
  "same_session t t' \<longleftrightarrow> tx_id t' = tx_id t \<and> tx_sessionId t' = tx_sessionId t \<and> tx_stationId t' = tx_stationId t \<and>
     tx_connectorId t' = tx_connectorId t"

definition tx_kept :: "db \<Rightarrow> db \<Rightarrow> bool" where
  "tx_kept d d' \<longleftrightarrow> (tx_ids_ok d \<longrightarrow> tx_ids_ok d' \<and>
     (\<forall>t \<in> set (transactions d). \<exists>t' \<in> set (transactions d'). same_session t t'))"

lemma same_session_refl [simp]: "same_session t t"
  by (simp add: same_session_def)

lemma same_session_trans: "same_session t1 t2 \<Longrightarrow> same_session t2 t3 \<Longrightarrow> same_session t1 t3"
  by (simp add: same_session_def)

interpretation kept: db_contract tx_kept
  by unfold_locales (auto simp: tx_kept_def, metis same_session_refl, metis same_session_trans)

lemma evolves_kept: "tx_evolves d d' \<Longrightarrow> tx_kept d d'"
  unfolding tx_kept_def tx_evolves_def
  by (fastforce simp: list_all2_conv_all_nth in_set_conv_nth tx_step_def same_session_def nth_append)

lemma kept_update:
  assumes "transactions d' = update_where P f (transactions d)" "\<And>t. same_session t (f t)"
  shows "tx_kept d d'"
proof -
  have "map tx_id (transactions d') = map tx_id (transactions d)"
    unfolding assms(1) by (rule map_update_where) (use assms(2) in \<open>simp add: same_session_def\<close>)
  moreover have "\<exists>t' \<in> set (transactions d'). same_session t t'" if "t \<in> set (transactions d)" for t
    using that assms(2) unfolding assms(1) set_update_where by (cases "P t") (blast intro: same_session_refl)+
  ultimately show ?thesis by (simp add: tx_kept_def tx_ids_ok_def)
qed

text \<open>The pending session a \<open>StartTransaction\<close> has picked up and not activated yet.\<close>

fun picked :: "handler_await \<Rightarrow> Transaction option" where
  "picked (StartStation s p t) = Some t"
| "picked (StartActivate s p t) = Some t"
| "picked h = None"

definition picked_ok :: "db \<Rightarrow> handler_await \<Rightarrow> bool" where
  "picked_ok d h \<longleftrightarrow> (case picked h of None \<Rightarrow> True | Some t \<Rightarrow> \<exists>q \<in> set (transactions d). same_session t q)"

lemma picked_ok_kept: "picked_ok d h \<Longrightarrow> tx_kept d d' \<Longrightarrow> tx_ids_ok d \<Longrightarrow> picked_ok d' h"
  unfolding picked_ok_def tx_kept_def by (cases "picked h") (simp_all, meson same_session_trans)

lemma picked_by_step:
  assumes "picked (fst (handler_step h w)) = Some t"
  shows "picked h = Some t \<or> (t \<in> set (transactions (db w)) \<and> tx_status t = TxPending)"
  using assms
  by (cases h)
    (auto simp: awaiting_def attempting_def andthen_def arg_def from_option_def ret_def raise_def db_read_def db_do_def Let_def
      dest: find_pending_Some split: prod.splits sum.splits option.splits if_splits)

text \<open>The table of events only grows, and the sessions stay.\<close>

lemma step_outbox_grows: "outbox_grows (db w) (db (snd (handler_step h w)))"
proof (rule outbox_log.handler_step_rel)
  show "conforms (on_db outbox_grows) (start_unplanned s p)" "conforms (on_db outbox_grows) (stop_tx s p t)"
    "conforms (on_db outbox_grows) (enqueue_goal_check t)" "conforms (on_db outbox_grows) (save_transaction_data i data)"
    "conforms (on_db outbox_grows) (mark_charging s c)" for s p t i data c
    unfolding transaction_programs Let_def
    by (intro contract_intros outbox_log.conforms_op; auto simp: store_defs op_Inr intro!: outbox_grows_frame)+
  have "conforms (on_db outbox_grows) (start_planned s p t)" for s p t
    unfolding transaction_programs by (intro contract_intros outbox_log.conforms_op; auto simp: store_defs op_Inr intro!: outbox_grows_frame)
  then show "start_planned s p t w = (r, w') \<Longrightarrow> outbox_grows (db w) (db w')" for s p t r w'
    by (rule on_dbD)
  have "conforms (on_db outbox_grows) (db_transaction (connector_status_tx s c p stamp b))" for s c p stamp b
    unfolding connector_status_tx_def Let_def
    by (intro contract_intros outbox_log.conforms_op; auto simp: store_defs op_Inr intro!: outbox_grows_frame)
  then show "db_transaction (connector_status_tx s c p stamp b) w = (r, w') \<Longrightarrow> outbox_grows (db w) (db w')" for s c p stamp b r w'
    by (rule on_dbD)
qed (auto intro: outbox_grows_frame)

lemma step_evolves:
  assumes "\<And>s p t. h \<noteq> StartActivate s p t"
  shows "tx_evolves (db w) (db (snd (handler_step h w)))"
proof (rule tx_log.handler_step_rel)
  show "conforms (on_db tx_evolves) (stop_tx s p t)" "conforms (on_db tx_evolves) (save_transaction_data i data)" for s p t i data
    unfolding transaction_programs Let_def
    by (intro contract_intros tx_log.conforms_op;
        auto simp: store_defs op_Inr stops_are_steps intro: tx_evolves_frame tx_evolves_update)+
  have "conforms (on_db tx_evolves) (db_transaction (connector_status_tx s c p stamp b))" for s c p stamp b
    unfolding connector_status_tx_def Let_def
    by (intro contract_intros tx_log.conforms_op; auto simp: store_defs op_Inr intro!: tx_evolves_frame)
  then show "db_transaction (connector_status_tx s c p stamp b) w = (r, w') \<Longrightarrow> tx_evolves (db w) (db w')" for s c p stamp b r w'
    by (rule on_dbD)
  show "tx_evolves d d'" if "transactions d' = update_where (\<lambda>t. tx_id t \<in> ids)
        (\<lambda>t. t\<lparr>tx_status := TxStopped, tx_timeEnd := Some now, tx_failReason := Some ''StatusNotification:Available''\<rparr>) (transactions d)"
    for d d' ids now
    by (rule tx_evolves_update [OF that]) (simp add: stops_are_steps)
qed (use assms in \<open>auto intro: tx_evolves_frame tx_evolves_start_unplanned tx_evolves_rest\<close>)

lemma step_kept: "tx_kept (db w) (db (snd (handler_step h w)))"
proof (cases "\<exists>s p t. h = StartActivate s p t")
  case True
  then obtain s p t where h: "h = StartActivate s p t" by blast
  obtain r w' where run: "start_planned s p t w = (r, w')" by fastforce
  from start_planned_run [OF run] have "tx_kept (db w) (db w')"
  proof (elim disjE exE conjE)
    fix ms ts assume "transactions (db w') = update_where (\<lambda>q. tx_id q = tx_id t) (activate (tx_id t) ms ts) (transactions (db w))"
    then show ?thesis by (rule kept_update) (simp add: same_session_def activate_def)
  qed (simp add: tx_kept_def, metis same_session_refl)
  with h run show ?thesis by (auto simp: awaiting_def split: sum.splits)
qed (simp add: evolves_kept step_evolves)

text \<open>Costs and active sessions stay announced.\<close>

lemma step_ledger: "keeps ledger_ok (db w) (db (snd (handler_step h w)))"
proof (rule ledger.handler_step_rel)
  show "keeps ledger_ok (db w) (db w')" if run: "start_planned s p t w = (r, w')" for s p t r w'
    using start_planned_run [OF run]
  proof (elim disjE exE conjE)
    fix ms ts ev
    assume "transactions (db w') = update_where (\<lambda>q. tx_id q = tx_id t) (activate (tx_id t) ms ts) (transactions (db w))"
      "outbox (db w') = outbox (db w) @ [ev]"
    then show ?thesis by (auto simp: activate_def intro: ledger_update)
  qed (simp add: keeps_def)
  have "conforms (on_db (keeps ledger_ok)) (db_transaction (connector_status_tx s c p stamp b))" for s c p stamp b
    unfolding connector_status_tx_def Let_def
    by (intro contract_intros ledger.conforms_op; auto simp: store_defs op_Inr intro: ledger_same)
  then show "db_transaction (connector_status_tx s c p stamp b) w = (r, w') \<Longrightarrow> keeps ledger_ok (db w) (db w')" for s c p stamp b r w'
    by (rule on_dbD)
qed (auto intro: ledger_same ledger_update ledger_rest ledger_stop_tx)

lemma step_started:
  assumes "picked_ok (db w) h"
  shows "keeps started_ok (db w) (db (snd (handler_step h w)))"
proof (rule started.handler_step_rel)
  show "conforms (on_db (keeps started_ok)) (stop_tx s p t)" "conforms (on_db (keeps started_ok)) (save_transaction_data i data)" for s p t i data
    unfolding transaction_programs Let_def
    by (intro contract_intros started.conforms_op; auto simp: store_defs op_Inr intro: started_same started_update)+
  show "keeps started_ok (db w) (db w')" if "h = StartActivate s p t" "start_planned s p t w = (r, w')" for s p t r w'
    using started_planned [OF that(2)] assms that(1) by (auto simp: picked_ok_def same_session_def)
  have "conforms (on_db (keeps started_ok)) (db_transaction (connector_status_tx s c p stamp b))" for s c p stamp b
    unfolding connector_status_tx_def Let_def
    by (intro contract_intros started.conforms_op; auto simp: store_defs op_Inr intro: started_same)
  then show "db_transaction (connector_status_tx s c p stamp b) w = (r, w') \<Longrightarrow> keeps started_ok (db w) (db w')" for s c p stamp b r w'
    by (rule on_dbD)
  show "keeps started_ok d d'" if "outbox d' = outbox d" "transactions d' = update_where (\<lambda>t. tx_id t \<in> ids)
        (\<lambda>t. t\<lparr>tx_status := TxStopped, tx_timeEnd := Some now, tx_failReason := Some ''StatusNotification:Available''\<rparr>) (transactions d)"
    for d d' ids now
    by (rule started_update [OF that(2)]) (simp_all add: that(1))
qed (auto intro: started_same started_rest started_unplanned)

end
