(* ===== verification/HandlerOverlap.thy ===== *)
theory HandlerOverlap
  imports HandlerSteps
begin

text \<open>
  The handlers of theory \<open>HandlerSteps\<close> interleaved with each other and with everything else the server does: what their
  overlap cannot break, for any stations and for stations that wait for their answers, and two runs that show what it can.
\<close>

section \<open>Handlers that overlap\<close>

text \<open>
  The world and the handlers in progress.  A frame of any other action is handled as a whole (\<open>frame\<close>), and so may be one of these
  three; by \<open>serves_cases\<close> everything else the process does leaves sessions and faults to the frames, except the session timeout and the
  deletion of a token (\<open>besides_frames\<close>) or of a station.  A handler begins when its frame arrives, a call answers, a handler that
  is through leaves, and a crash ends them all.  In an \<open>orderly\<close> run a station sends its next frame after the answer to
  the last one, as OCPP asks of it, and no station is deleted.
\<close>

type_synonym handling = "world \<times> handler_await list"

fun arrival :: "handler_await \<Rightarrow> bool" where
  "arrival (StartFind s p) = True"
| "arrival (StopFind s p) = True"
| "arrival (StatusEnter s p) = True"
| "arrival h = False"

definition besides_frames :: "world \<Rightarrow> world \<Rightarrow> bool" where
  "besides_frames w w' \<longleftrightarrow> on_db background w w' \<or> w' = snd (sessionTimeoutProcessor w) \<or>
     (\<exists>tokens render req. w' = snd (internal_api tokens render token_delete_route req w))"

inductive overlaps :: "bool \<Rightarrow> handling \<Rightarrow> handling \<Rightarrow> bool" for orderly where
  frame: "\<not> (orderly \<and> Some s \<in> station_in ` set hs) \<Longrightarrow> overlaps orderly (w, hs) (snd (handle s ws raw w), hs)"
| elsewhere: "besides_frames w w' \<Longrightarrow> overlaps orderly (w, hs) (w', hs)"
| deletion: "\<not> orderly \<Longrightarrow> overlaps orderly (w, hs) (snd (station_delete_route req w), hs)"
| arrives: "arrival h \<Longrightarrow> \<not> (orderly \<and> station_in h \<in> station_in ` set hs) \<Longrightarrow> overlaps orderly (w, hs) (w, hs @ [h])"
| answers: "handler_step h w = (h', w') \<Longrightarrow> overlaps orderly (w, hs @ h # gs) (w', hs @ h' # gs)"
| leaves: "overlaps orderly (w, hs @ Handled r # gs) (w, hs @ gs)"
| crash: "overlaps orderly (w, hs) (restarted w, [])"

abbreviation overlapping :: "bool \<Rightarrow> handling \<Rightarrow> handling \<Rightarrow> bool" where
  "overlapping orderly \<equiv> (overlaps orderly)\<^sup>*\<^sup>*"

text \<open>The events of \<open>runs\<close>, in which every frame is handled as a whole, are among them.\<close>

lemma runs_overlap:
  assumes "runs w w'"
  shows "overlaps False (w, hs) (w', hs)"
proof -
  consider "besides_frames w w'" | s ws raw where "w' = snd (handle s ws raw w)" | req where "w' = snd (station_delete_route req w)"
    using assms serves_cases [of w w'] unfolding runs_def besides_frames_def by blast
  then show ?thesis
    by cases (auto intro: overlaps.intros)
qed

lemma reaches_overlap: "reaches w w' \<Longrightarrow> overlapping False (w, hs) (w', hs)"
  unfolding reaches_def
  by (induction rule: rtranclp_induct) (auto intro: rtranclp.rtrancl_into_rtrancl runs_overlap)

text \<open>A contract that events and steps keep, and an invariant of the handlers.\<close>

context db_contract
begin

lemma besides_frames_rel:
  assumes "besides_frames w w'" "\<And>d d'. background d d' \<Longrightarrow> rel d d'" "conforms (on_db rel) sessionTimeoutProcessor"
    "\<And>t d x d'. delete_idToken t d = Inr (x, d') \<Longrightarrow> rel d d'"
  shows "rel (db w) (db w')"
  using assms(1-3) conforms_token_deletion [OF assms(4)] unfolding besides_frames_def
  by (auto simp: conforms_def on_db_def)

end

lemma besides_frames_keep:
  assumes "besides_frames w w'"
  shows "outbox_grows (db w) (db w')" "tx_evolves (db w) (db w')" "keeps ledger_ok (db w) (db w')" "keeps started_ok (db w) (db w')"
    "keeps faults_ok (db w) (db w')"
proof -
  show "outbox_grows (db w) (db w')"
    by (rule outbox_log.besides_frames_rel [OF assms background_keeps(1) session_timeout_keeps(1) token_deletion_keeps(1)])
  show "tx_evolves (db w) (db w')"
    by (rule tx_log.besides_frames_rel [OF assms background_keeps(2) session_timeout_keeps(2) token_deletion_keeps(2)])
  show "keeps ledger_ok (db w) (db w')"
    by (rule ledger.besides_frames_rel [OF assms background_keeps(3) session_timeout_keeps(3) token_deletion_keeps(3)])
  show "keeps started_ok (db w) (db w')"
    by (rule started.besides_frames_rel [OF assms background_keeps(4) session_timeout_keeps(4) token_deletion_keeps(4)])
  show "keeps faults_ok (db w) (db w')"
    by (rule faults.besides_frames_rel [OF assms background_faults session_timeout_keeps(5) token_deletion_keeps(5)])
qed

definition session_safe :: "db \<Rightarrow> db \<Rightarrow> bool" where
  "session_safe d d' \<longleftrightarrow> outbox_grows d d' \<and> tx_kept d d' \<and> keeps ledger_ok d d' \<and> keeps started_ok d d'"

interpretation session_safe: db_contract session_safe
proof
  show "session_safe d d" for d
    by (simp add: session_safe_def outbox_log.db_refl kept.db_refl ledger.db_refl started.db_refl)
  show "session_safe d1 d3" if "session_safe d1 d2" "session_safe d2 d3" for d1 d2 d3
    using that unfolding session_safe_def
    by (meson outbox_log.db_trans kept.db_trans ledger.db_trans started.db_trans)
qed

lemma handle_session_safe: "session_safe (db w) (db (snd (handle s ws raw w)))"
  using handle_outbox_grows handle_tx_evolves handle_ledger handle_started
  by (simp add: session_safe_def conforms_def on_db_def evolves_kept)

lemma deletion_session_safe: "session_safe (db w) (db (snd (station_delete_route req w)))"
  using station_deletion_keeps station_deletion_contracts
  by (simp add: session_safe_def conforms_def on_db_def evolves_kept)

lemma overlap_safe:
  assumes "overlaps orderly (w, hs) (w', hs')" "list_all (picked_ok (db w)) hs" "tx_ids_ok (db w)"
  shows "session_safe (db w) (db w') \<and> list_all (picked_ok (db w')) hs'"
proof -
  have others: "session_safe (db w) (db w') \<and> list_all (picked_ok (db w')) hs" if "session_safe (db w) (db w')"
    using that assms(2,3) by (auto simp: session_safe_def list_all_iff intro: picked_ok_kept)
  show ?thesis
    using assms(1)
  proof cases
    case (frame s ws raw)
    with others handle_session_safe show ?thesis by blast
  next
    case elsewhere
    from besides_frames_keep [OF elsewhere(2)] have "session_safe (db w) (db w')" by (simp add: session_safe_def evolves_kept)
    with others elsewhere(1) show ?thesis by blast
  next
    case (deletion req)
    with others deletion_session_safe show ?thesis by blast
  next
    case (arrives h)
    then have "picked_ok (db w) h" by (cases h) (simp_all add: picked_ok_def)
    with arrives assms(2) session_safe.db_refl show ?thesis by simp
  next
    case (answers h h' as gs)
    have h: "picked_ok (db w) h" using answers(1) assms(2) by simp
    have w': "w' = snd (handler_step h w)" and h': "h' = fst (handler_step h w)" using answers(3) by simp_all
    have safe: "session_safe (db w) (db w')"
      unfolding session_safe_def w' using step_outbox_grows step_kept step_ledger step_started [OF h] by blast
    have "picked_ok (db w) h'"
    proof (cases "picked h'")
      case (Some t)
      with picked_by_step [of h w t] h h' show ?thesis by (auto simp: picked_ok_def intro: same_session_refl)
    qed (simp add: picked_ok_def)
    with others [OF safe] safe assms(3) answers(1,2) show ?thesis by (auto simp: session_safe_def intro: picked_ok_kept)
  next
    case (leaves r as gs)
    with assms(2) session_safe.db_refl show ?thesis by simp
  next
    case crash
    then show ?thesis by (simp add: session_safe.db_refl)
  qed
qed

lemma overlapping_safe:
  assumes "overlapping orderly (w, []) (w', hs')" "tx_ids_ok (db w)"
  shows "session_safe (db w) (db w') \<and> list_all (picked_ok (db w')) hs'"
  using assms(1)
proof (induction "(w', hs')" arbitrary: w' hs' rule: rtranclp_induct)
  case base
  show ?case by (simp add: session_safe.db_refl)
next
  case (step y)
  obtain w1 hs1 where y: "y = (w1, hs1)" by fastforce
  from step.hyps(3) [OF y] have "session_safe (db w) (db w1)" "list_all (picked_ok (db w1)) hs1" by simp_all
  moreover from this assms(2) have "tx_ids_ok (db w1)" by (simp add: session_safe_def tx_kept_def)
  ultimately show ?case using overlap_safe [OF step.hyps(2) [unfolded y]] session_safe.db_trans by blast
qed

text \<open>C5. What the announcements promise survives every overlap: however the calls of \<open>StartTransaction\<close>, \<open>StopTransaction\<close> and
  \<open>StatusNotification\<close> handlers, of one station or of several, interleave with each other, with other frames, requests, jobs and crashes, no
  session is lost or mixed up with another, the event log only grows, every cost on record has its TransactionStopped
  event and every active session its TransactionStarted event.\<close>

theorem overlapping_handlers_keep_their_word:
  assumes "overlapping False (w, []) (w', hs)" "ledger_ok (db w)" "started_ok (db w)"
  shows "ledger_ok (db w') \<and> started_ok (db w') \<and> prefix (map event_key (outbox (db w))) (map event_key (outbox (db w'))) \<and>
    list_all (\<lambda>t. list_ex (same_session t) (transactions (db w'))) (transactions (db w))"
proof -
  have ids: "tx_ids_ok (db w)" using assms(3) by (simp add: started_ok_def)
  from overlapping_safe [OF assms(1) ids] assms(2,3) ids show ?thesis
    by (auto simp: session_safe_def keeps_def outbox_grows_def tx_kept_def list_all_iff list_ex_iff)
qed

section \<open>What ends stays ended\<close>

definition ended :: "db \<Rightarrow> int \<Rightarrow> bool" where
  "ended d i \<longleftrightarrow> tx_ids_ok d \<and> (\<exists>t \<in> set (transactions d). tx_id t = i \<and> \<not> is_open_tx t)"

definition in_hand :: "handler_await list \<Rightarrow> int set" where
  "in_hand hs = {i. \<exists>h \<in> set hs. \<exists>t. picked h = Some t \<and> tx_id t = i}"

lemma in_hand_simps [simp]:
  "in_hand [] = {}" "in_hand (hs @ gs) = in_hand hs \<union> in_hand gs"
  "in_hand (h # hs) = (case picked h of None \<Rightarrow> {} | Some t \<Rightarrow> {tx_id t}) \<union> in_hand hs"
  by (auto simp: in_hand_def split: option.splits)

lemma evolves_ended: "tx_evolves d d' \<Longrightarrow> ended d i \<Longrightarrow> ended d' i"
  unfolding ended_def tx_evolves_def
  by (fastforce simp: list_all2_conv_all_nth in_set_conv_nth tx_step_def nth_append)

lemma activation_ended:
  assumes "start_planned s p t w = (r, w')" "tx_id t \<noteq> i" "ended (db w) i"
  shows "ended (db w') i"
  using start_planned_run [OF assms(1)]
proof (elim disjE exE conjE)
  fix ms ts assume rows: "transactions (db w') = update_where (\<lambda>q. tx_id q = tx_id t) (activate (tx_id t) ms ts) (transactions (db w))"
  then have "tx_kept (db w) (db w')" by (rule kept_update) (simp add: same_session_def activate_def)
  with rows assms(2,3) show ?thesis by (auto simp: ended_def tx_kept_def set_update_where)
qed (use assms(3) in simp)

lemma step_ended:
  assumes "ended (db w) i" "i \<notin> in_hand [h]"
  shows "ended (db (snd (handler_step h w))) i \<and> i \<notin> in_hand [fst (handler_step h w)]"
proof
  show "ended (db (snd (handler_step h w))) i"
  proof (cases "\<exists>s p t. h = StartActivate s p t")
    case True
    then obtain s p t where h: "h = StartActivate s p t" by blast
    obtain r w' where run: "start_planned s p t w = (r, w')" by fastforce
    from h assms(2) have "tx_id t \<noteq> i" by auto
    from activation_ended [OF run this assms(1)] h run show ?thesis by (auto simp: awaiting_def split: sum.splits)
  next
    case False
    then show ?thesis using evolves_ended [OF step_evolves assms(1)] by blast
  qed
  show "i \<notin> in_hand [fst (handler_step h w)]"
  proof (cases "picked (fst (handler_step h w))")
    case (Some t)
    from picked_by_step [OF Some] show ?thesis
    proof
      assume "picked h = Some t"
      with assms(2) Some show ?thesis by simp
    next
      assume t: "t \<in> set (transactions (db w)) \<and> tx_status t = TxPending"
      have "tx_id t \<noteq> i"
      proof
        assume "tx_id t = i"
        with assms(1) t have "\<not> is_open_tx t" by (auto simp: ended_def tx_ids_ok_def dest: distinct_map_eq)
        with t show False by (simp add: is_open_tx_def)
      qed
      with Some show ?thesis by simp
    qed
  qed simp
qed

lemma overlap_ended:
  assumes "overlaps orderly (w, hs) (w', hs')" "ended (db w) i" "i \<notin> in_hand hs"
  shows "ended (db w') i \<and> i \<notin> in_hand hs'"
  using assms(1)
proof cases
  case (frame s ws raw)
  from on_dbD [OF handle_tx_evolves surjective_pairing] have "tx_evolves (db w) (db w')" by (simp add: frame)
  with frame assms(2,3) show ?thesis by (auto intro: evolves_ended)
next
  case elsewhere
  from evolves_ended [OF besides_frames_keep(2) [OF elsewhere(2)]] elsewhere(1) assms(2,3) show ?thesis by blast
next
  case (deletion req)
  from on_dbD [OF station_deletion_keeps surjective_pairing] station_deletion_contracts(2)
  have "tx_evolves (db w) (db w')" by (simp add: deletion)
  with deletion assms(2,3) show ?thesis by (auto intro: evolves_ended)
next
  case (arrives h)
  then have "picked h = None" by (cases h) simp_all
  with arrives assms(2,3) show ?thesis by simp
next
  case (answers h h' as gs)
  from step_ended [of w i h] answers assms(2,3) show ?thesis by auto
qed (use assms(2,3) in auto)

text \<open>C6. A session that has ended and that no \<open>StartTransaction\<close> in progress has picked up stays ended for ever: not even
  overlapping handlers, of one station or of several, open it again, whatever else the server does.\<close>

theorem ended_sessions_stay_ended:
  assumes "overlapping False (w, hs) (w', hs')" "tx_ids_ok (db w)"
    and "t \<in> set (transactions (db w))" "\<not> is_open_tx t" "tx_id t \<notin> in_hand hs"
  shows "list_ex (\<lambda>t'. tx_id t' = tx_id t \<and> \<not> is_open_tx t') (transactions (db w'))"
proof -
  have "ended (db w') (tx_id t) \<and> tx_id t \<notin> in_hand hs'"
    using assms(1)
  proof (induction "(w', hs')" arbitrary: w' hs' rule: rtranclp_induct)
    case base
    from assms(2-5) show ?case by (auto simp: ended_def)
  next
    case (step y)
    obtain w1 hs1 where "y = (w1, hs1)" by fastforce
    with step.hyps(2,3) overlap_ended show ?case by blast
  qed
  then show ?thesis by (auto simp: ended_def list_ex_iff)
qed

section \<open>Fault events in an orderly run\<close>

text \<open>The connectors of a station change only by the frames of that station.\<close>

definition rows_of_station :: "string \<Rightarrow> db \<Rightarrow> Connector list" where
  "rows_of_station s d = filter (\<lambda>r. co_stationId r = s) (connectors d)"

definition same_connectors :: "string \<Rightarrow> db \<Rightarrow> db \<Rightarrow> bool" where
  "same_connectors s d d' \<longleftrightarrow> rows_of_station s d' = rows_of_station s d"

interpretation same_connectors: db_contract "same_connectors s" for s
  by unfold_locales (auto simp: same_connectors_def)

lemma same_connectors_frame: "connectors d' = connectors d \<Longrightarrow> same_connectors s d d'"
  by (simp add: same_connectors_def rows_of_station_def)

lemma find_filter: "List.find P (filter Q xs) = List.find (\<lambda>x. Q x \<and> P x) xs"
  by (induction xs) auto

lemma same_connectors_fault: "same_connectors s d d' \<Longrightarrow> connector_fault s c d' = connector_fault s c d"
proof -
  have "find_connector s c d = List.find (\<lambda>r. co_connectorId r = c) (rows_of_station s d)" for d
    by (simp add: find_connector_def rows_of_station_def find_filter)
  then show "same_connectors s d d' \<Longrightarrow> ?thesis" by (simp add: connector_fault_def same_connectors_def)
qed

lemma filter_update_where:
  "(\<And>r. P r \<Longrightarrow> \<not> Q r \<and> \<not> Q (f r)) \<Longrightarrow> filter Q (update_where P f xs) = filter Q xs"
  by (induction xs) auto

lemma same_connectors_update:
  assumes "connectors d' = update_where P f (connectors d)" "\<And>r. P r \<Longrightarrow> co_stationId r \<noteq> s \<and> co_stationId (f r) \<noteq> s"
  shows "same_connectors s d d'"
  unfolding same_connectors_def rows_of_station_def assms(1)
  by (rule filter_update_where) (rule assms(2))

lemma same_connectors_insert:
  "connectors d' = connectors d @ [r] \<Longrightarrow> co_stationId r \<noteq> s \<Longrightarrow> same_connectors s d d'"
  by (simp add: same_connectors_def rows_of_station_def)

lemma same_connectors_upsert:
  assumes "upsert_connector s' c f r d = Inr (x, d')" "s' \<noteq> s" "co_stationId r = s'" "\<And>q. co_stationId q = s' \<Longrightarrow> co_stationId (f q) = s'"
  shows "same_connectors s d d'"
proof -
  consider "connectors d' = connectors d @ [r]"
    | "connectors d' = update_where (\<lambda>q. co_stationId q = s' \<and> co_connectorId q = c) f (connectors d)"
    using assms(1) by (auto simp: upsert_connector_def op_Inr)
  then show ?thesis
    by cases (use assms(2-4) in \<open>auto intro: same_connectors_insert same_connectors_update\<close>)
qed

lemma same_connectors_outbox [contract_intros]: "conforms (on_db (same_connectors s)) (writeOutbox inp)"
  unfolding writeOutbox_def
  by (intro contract_intros same_connectors.conforms_op; auto simp: store_defs op_Inr intro: same_connectors_frame)

lemma same_connectors_station:
  "conforms (on_db (same_connectors s)) (bootNotificationHandler s' p)"
  "conforms (on_db (same_connectors s)) (heartbeatHandler s' p)"
  unfolding station_programs stop_open_of_station_def
  by (intro contract_intros same_connectors.conforms_op; auto simp: store_defs op_Inr intro: same_connectors_frame)+

lemma same_connectors_report:
  "s' \<noteq> s \<Longrightarrow> conforms (on_db (same_connectors s)) (db_transaction (connector_status_tx s' c p stamp b))"
  unfolding connector_status_tx_def Let_def
  by (intro contract_intros same_connectors.conforms_op) (auto intro: same_connectors_upsert)

lemma same_connectors_status: "s' \<noteq> s \<Longrightarrow> conforms (on_db (same_connectors s)) (statusNotificationHandler s' p)"
  unfolding statusNotificationHandler_def station_status_branch_def connector_status_branch_def stop_stuck_on_available_def
    writeOfflineLog_def date_or_now_def Let_def
  by (intro contract_intros same_connectors_report same_connectors.conforms_op; auto simp: store_defs op_Inr intro: same_connectors_frame)

lemma same_connectors_transaction:
  "conforms (on_db (same_connectors s)) (authorizeHandler s' p)"
  "conforms (on_db (same_connectors s)) (start_unplanned s' p)"
  "conforms (on_db (same_connectors s)) (start_planned s' p t)"
  "conforms (on_db (same_connectors s)) (enqueue_goal_check t)"
  "conforms (on_db (same_connectors s)) (stop_tx s' p t)"
  "conforms (on_db (same_connectors s)) (save_transaction_data i data)"
  "conforms (on_db (same_connectors s)) (meterValuesHandler s' p)"
  unfolding transaction_programs Let_def
  by (intro contract_intros same_connectors.conforms_op; auto simp: store_defs op_Inr intro: same_connectors_frame)+

lemma same_connectors_charging: "s' \<noteq> s \<Longrightarrow> conforms (on_db (same_connectors s)) (mark_charging s' c)"
  unfolding mark_charging_def
  by (intro contract_intros same_connectors.conforms_op) (auto simp: new_connector_def intro: same_connectors_upsert)

lemma same_connectors_start: "s' \<noteq> s \<Longrightarrow> conforms (on_db (same_connectors s)) (startTransactionHandler s' p)"
  by (rule same_connectors.conforms_start)
    (auto intro: same_connectors_transaction same_connectors_charging on_dbD [OF same_connectors_transaction(3)])

lemma same_connectors_stop: "s' \<noteq> s \<Longrightarrow> conforms (on_db (same_connectors s)) (stopTransactionHandler s' p)"
  unfolding stopTransactionHandler_def
  by (intro contract_intros same_connectors_transaction same_connectors.conforms_op;
      auto simp: store_defs op_Inr intro: same_connectors_update)

lemma same_connectors_maintenance:
  "conforms (on_db (same_connectors s)) (firmwareStatusNotificationHandler s' p)"
  "conforms (on_db (same_connectors s)) (diagnosticsStatusNotificationHandler s' p)"
  "conforms (on_db (same_connectors s)) (dataTransferHandler s' p)"
  unfolding maintenance_programs Let_def
  by (intro contract_intros same_connectors.conforms_op; auto simp: store_defs op_Inr intro: same_connectors_frame)+

lemma handle_same_connectors: "s' \<noteq> s \<Longrightarrow> conforms (on_db (same_connectors s)) (handle s' ws raw)"
  by (rule same_connectors.conforms_handle, rule same_connectors.conforms_op)
    (auto simp: store_defs op_Inr intro: same_connectors_frame same_connectors_station same_connectors_status same_connectors_transaction
      same_connectors_start same_connectors_stop same_connectors_maintenance elim: handlerMap_cases)

lemma deletion_free_connectors:
  assumes "besides_frames w w'"
  shows "same_connectors s (db w) (db w')"
proof -
  have "conforms (on_db (same_connectors s)) sessionTimeoutProcessor"
    unfolding sessionTimeoutProcessor_def
    by (intro contract_intros same_connectors.conforms_op; auto simp: store_defs op_Inr intro: same_connectors_frame)
  then show ?thesis
    by (rule same_connectors.besides_frames_rel [OF assms, rotated])
      (auto simp: background_def intro: same_connectors_frame dest: token_deletion_rows)
qed

lemma step_same_connectors:
  assumes "station_in h = Some s'" "s' \<noteq> s"
  shows "same_connectors s (db w) (db (snd (handler_step h w)))"
proof (rule same_connectors.handler_step_rel)
  show "same_connectors s d d'" if "station_in h = Some s1"
    "connectors d' = update_where (\<lambda>r. co_stationId r = s1 \<and> co_connectorId r = c) (\<lambda>r. r\<lparr>co_currentStatus := CoAvailable\<rparr>) (connectors d)"
    for d d' s1 c
    by (rule same_connectors_update [OF that(2)]) (use assms that(1) in auto)
  show "conforms (on_db (same_connectors s)) (mark_charging s1 (js_get p ''connectorId''))" if "h = StartConnector s1 p t" for s1 p t
    using assms that by (intro same_connectors_charging) simp
  show "same_connectors s (db w) (db w')" if "h = StatusReport s1 p c stamp b" "db_transaction (connector_status_tx s1 c p stamp b) w = (r, w')"
    for s1 p c stamp b r w'
    using assms that by (auto intro: on_dbD [OF same_connectors_report])
qed (auto intro: same_connectors_frame same_connectors_transaction on_dbD [OF same_connectors_transaction(3)])

text \<open>A status report in progress knows whether the connector has a fault, as long as nothing else changes the connector.\<close>

fun fault_known :: "db \<Rightarrow> handler_await \<Rightarrow> bool" where
  "fault_known d (StatusReport s p c stamp b) \<longleftrightarrow> b = (connector_fault s c d \<noteq> None)"
| "fault_known d h \<longleftrightarrow> True"

lemma fault_known_same:
  assumes "fault_known d h" "station_in h = Some s" "same_connectors s d d'"
  shows "fault_known d' h"
proof -
  have "connector_fault s c d' = connector_fault s c d" for c
    using same_connectors_fault [OF assms(3)] .
  with assms(1,2) show ?thesis by (cases h) auto
qed

lemma fault_known_step: "fault_known (db w) h \<Longrightarrow> handler_step h w = (h', w') \<Longrightarrow> fault_known (db w') h'"
  by (cases h)
    (auto simp: awaiting_def attempting_def andthen_def arg_def from_option_def ret_def raise_def db_read_def db_do_def Let_def
      date_or_now_def js_now_def connector_fault_def split: prod.splits sum.splits option.splits if_splits)

lemma step_faults:
  assumes "fault_known (db w) h"
  shows "keeps faults_ok (db w) (db (snd (handler_step h w)))"
proof (rule faults.handler_step_rel)
  show "conforms (on_db (keeps faults_ok)) (stop_tx s p t)" "conforms (on_db (keeps faults_ok)) (save_transaction_data i data)" for s p t i data
    unfolding stop_tx_def save_transaction_data_def Let_def
    by (intro contract_intros faults.conforms_op; auto simp: store_defs op_Inr no_fault_simps intro: faults_same)+
  show "keeps faults_ok (db w) (db w')" if "h = StatusReport s p c stamp b" "db_transaction (connector_status_tx s c p stamp b) w = (r, w')"
    for s p c stamp b r w'
    using faults_connector_tx assms that by simp
  show "keeps faults_ok d d'" if "outbox d' = outbox d"
    "connectors d' = update_where (\<lambda>r. co_stationId r = s \<and> co_connectorId r = c) (\<lambda>r. r\<lparr>co_currentStatus := CoAvailable\<rparr>) (connectors d)"
    for d d' s c
    by (rule faults_update [OF that(2,1)]) simp
qed (auto intro: faults_same faults_other faults_mark_charging on_dbD [OF faults_other(5)])

definition stations_busy :: "handler_await list \<Rightarrow> string list" where
  "stations_busy hs = List.map_filter station_in hs"

lemma stations_busy_simps [simp]:
  "stations_busy [] = []" "stations_busy (hs @ gs) = stations_busy hs @ stations_busy gs"
  "stations_busy (h # hs) = (case station_in h of None \<Rightarrow> stations_busy hs | Some s \<Rightarrow> s # stations_busy hs)"
  by (simp_all add: stations_busy_def map_filter_def split: option.splits)

lemma set_stations_busy: "s \<in> set (stations_busy hs) \<longleftrightarrow> Some s \<in> station_in ` set hs"
  by (induction hs) (auto split: option.splits)

lemma station_in_step: "handler_step h w = (h', w') \<Longrightarrow> station_in h' = station_in h \<or> station_in h' = None"
  by (cases h) (auto simp: awaiting_def attempting_def Let_def split: prod.splits sum.splits option.splits if_splits)

definition orderly_ok :: "handling \<Rightarrow> bool" where
  "orderly_ok = (\<lambda>(w, hs). faults_ok (db w) \<and> distinct (stations_busy hs) \<and> list_all (fault_known (db w)) hs)"

lemma frame_orderly:
  assumes "orderly_ok (w, hs)" "keeps faults_ok (db w) (db w')"
    and "\<And>h s. h \<in> set hs \<Longrightarrow> station_in h = Some s \<Longrightarrow> same_connectors s (db w) (db w')"
  shows "orderly_ok (w', hs)"
proof -
  have "fault_known (db w') h" if "h \<in> set hs" "fault_known (db w) h" for h
    using fault_known_same [OF that(2)] assms(3) [OF that(1)] that(2) by (cases "station_in h") (cases h, simp_all)
  with assms(1,2) show ?thesis by (auto simp: orderly_ok_def keeps_def list_all_iff)
qed

lemma overlap_orderly:
  assumes "overlaps True (w, hs) (w', hs')" "orderly_ok (w, hs)"
  shows "orderly_ok (w', hs')"
  using assms(1)
proof cases
  case (frame s ws raw)
  have "same_connectors s' (db w) (db w')" if "h \<in> set hs" "station_in h = Some s'" for h s'
  proof -
    from frame that have "s \<noteq> s'" by (metis image_eqI)
    then show ?thesis using on_dbD [OF handle_same_connectors surjective_pairing] frame by simp
  qed
  moreover have "keeps faults_ok (db w) (db w')"
    using on_dbD [OF handle_faults surjective_pairing] frame by simp
  ultimately show ?thesis using frame_orderly [OF assms(2)] frame by simp
next
  case elsewhere
  with frame_orderly [OF assms(2) besides_frames_keep(5) [OF elsewhere(2)] deletion_free_connectors [OF elsewhere(2)]] show ?thesis
    by simp
next
  case (arrives h)
  then have "fault_known (db w) h" by (cases h) simp_all
  with arrives assms(2) show ?thesis by (auto simp: orderly_ok_def set_stations_busy split: option.splits)
next
  case (answers h h' as gs)
  have known: "list_all (fault_known (db w)) (as @ h # gs)" and ok: "faults_ok (db w)" and busy: "distinct (stations_busy (as @ h # gs))"
    using assms(2) answers(1) by (simp_all add: orderly_ok_def)
  have w': "w' = snd (handler_step h w)" using answers(3) by simp
  have "keeps faults_ok (db w) (db w')" unfolding w' using known by (intro step_faults) simp
  then have "faults_ok (db w')" using ok by (simp add: keeps_def)
  moreover have "fault_known (db w') g" if g: "g \<in> set as \<union> set gs" for g
  proof (cases "station_in g")
    case None
    then show ?thesis by (cases g) simp_all
  next
    case (Some s)
    with g have s: "s \<in> set (stations_busy as) \<union> set (stations_busy gs)" by (auto simp: set_stations_busy intro: rev_image_eqI)
    have "same_connectors s (db w) (db w')"
    proof (cases "station_in h")
      case None
      then have "w' = w" unfolding w' by (cases h) simp_all
      then show ?thesis by (simp add: same_connectors.db_refl)
    next
      case (Some s')
      with busy s have "s' \<noteq> s" by auto
      from step_same_connectors [OF Some this] show ?thesis by (simp add: w')
    qed
    with known g show ?thesis by (auto simp: list_all_iff intro: fault_known_same [OF _ Some])
  qed
  moreover have "fault_known (db w') h'" using known by (intro fault_known_step [OF _ answers(3)]) simp
  moreover have "distinct (stations_busy (as @ h' # gs))"
    using busy station_in_step [OF answers(3)] by (auto split: option.splits)
  ultimately show ?thesis using answers(2) by (auto simp: orderly_ok_def list_all_iff)
next
  case (leaves r as gs)
  with assms(2) show ?thesis by (simp add: orderly_ok_def)
next
  case crash
  with assms(2) show ?thesis by (simp add: orderly_ok_def)
qed simp

text \<open>C12. In an orderly run, where each station waits for the answer to a frame before it sends the next and none is deleted, the fault
  events tell the truth at every moment: the last fault event of a connector says the error code its row has, while the handlers
  of different stations, and everything else, interleave call by call.\<close>

theorem orderly_stations_have_true_faults:
  assumes "overlapping True (w, []) (w', hs)" "faults_ok (db w)"
  shows "announced_fault s c (outbox (db w')) = connector_fault s c (db w')"
proof -
  have "orderly_ok (w', hs)"
    using assms(1)
  proof (induction "(w', hs)" arbitrary: w' hs rule: rtranclp_induct)
    case base
    from assms(2) show ?case by (simp add: orderly_ok_def)
  next
    case (step y)
    obtain w1 hs1 where "y = (w1, hs1)" by fastforce
    with step.hyps(2,3) overlap_orderly show ?case by blast
  qed
  then show ?thesis by (simp add: orderly_ok_def faults_ok_def)
qed

section \<open>Sample runs\<close>

text \<open>A handler that begins and gets its first \<open>n\<close> answers at once.\<close>

fun run_answers :: "nat \<Rightarrow> handler_await \<times> world \<Rightarrow> handler_await \<times> world" where
  "run_answers 0 st = st"
| "run_answers (Suc n) (h, w) = run_answers n (handler_step h w)"

lemma answers_overlap: "run_answers n (h, w) = (h', w') \<Longrightarrow> overlapping orderly (w, hs @ h # gs) (w', hs @ h' # gs)"
proof (induction n arbitrary: h w)
  case (Suc n)
  obtain h1 w1 where step: "handler_step h w = (h1, w1)" by fastforce
  with Suc have "overlapping orderly (w1, hs @ h1 # gs) (w', hs @ h' # gs)" by simp
  with overlaps.answers [OF step] show ?case by (rule converse_rtranclp_into_rtranclp)
qed simp

lemma begins_overlap:
  assumes "arrival h" "run_answers n (h, w) = (h', w')"
  shows "overlapping orderly (w, []) (w', [h'])"
  using overlaps.arrives [OF assms(1), of orderly "[]" w] answers_overlap [OF assms(2), of orderly "[]" "[]"]
  by (auto intro: converse_rtranclp_into_rtranclp)

definition late_world :: "Transaction list \<Rightarrow> world" where
  "late_world txs = boot_world (quiet_host\<lparr>clock := (\<lambda>n. 1700000400000 + int n)\<rparr>) (empty_db\<lparr>stations := [sample_station], transactions := txs\<rparr>)"

lemma late_db [simp]:
  "transactions (db (late_world txs)) = txs" "outbox (db (late_world txs)) = []" "connectors (db (late_world txs)) = []"
  by (simp_all add: late_world_def boot_world_def empty_db_def)

text \<open>A \<open>StartTransaction\<close> that has picked up its session, the timeout of that session, and the rest of the handler.\<close>

definition picked_run :: "handler_await \<times> world" where
  "picked_run = run_answers 2 (StartFind ''EN0000001'' (start_request ''s1'' 1000), late_world [sample_tx 1 ''s1'' TxPending])"

definition timed_out_world :: world where
  "timed_out_world = snd (sessionTimeoutProcessor (snd picked_run))"

definition reopened_run :: "handler_await \<times> world" where
  "reopened_run = run_answers 1 (fst picked_run, timed_out_world)"

lemma reopened_evaluated:
  "map tx_status (transactions (db timed_out_world)) = [TxFailed]"
  "map tx_status (transactions (db (snd reopened_run))) = [TxActive]"
  by code_simp+

text \<open>The session timeout closes the session a \<open>StartTransaction\<close> in progress has picked up, and the handler opens it again: its
  update has no condition on the status.  The condition on \<open>in_hand\<close> above is needed, in an orderly run too.\<close>

lemma timed_out_session_reopens:
  "\<exists>w h w'. overlapping True (late_world [sample_tx 1 ''s1'' TxPending], []) (w, [h]) \<and> map tx_status (transactions (db w)) = [TxFailed] \<and>
     overlaps True (w, [h]) w' \<and> map tx_status (transactions (db (fst w'))) = [TxActive]"
proof -
  obtain h w1 where run: "picked_run = (h, w1)" by fastforce
  obtain h' w' where again: "reopened_run = (h', w')" by fastforce
  have "overlapping True (late_world [sample_tx 1 ''s1'' TxPending], []) (w1, [h])"
    by (rule begins_overlap [OF _ run [unfolded picked_run_def]]) simp
  moreover have "overlaps True (w1, [h]) (timed_out_world, [h])"
    by (rule overlaps.elsewhere) (simp add: besides_frames_def timed_out_world_def run)
  moreover have "overlaps True (timed_out_world, [h]) (w', [h'])"
    using overlaps.answers [of h timed_out_world h' w' True "[]" "[]"] again by (simp add: reopened_run_def run)
  ultimately show ?thesis
    using reopened_evaluated [unfolded again snd_conv]
    by (intro exI [of _ timed_out_world] exI [of _ h] exI [of _ "(w', [h'])"]) (simp add: rtranclp.rtrancl_into_rtrancl)
qed

theorem overlapping_handlers_keep_their_word_witness:
  "ledger_ok (db (snd picked_run)) \<and> started_ok (db (snd picked_run)) \<and>
     prefix (map event_key []) (map event_key (outbox (db (snd picked_run)))) \<and>
     list_all (\<lambda>t. list_ex (same_session t) (transactions (db (snd picked_run)))) [sample_tx 1 ''s1'' TxPending]"
proof -
  have "overlapping False (late_world [sample_tx 1 ''s1'' TxPending], []) (snd picked_run, [fst picked_run])"
    by (rule begins_overlap [OF _ surjective_pairing [of picked_run, unfolded picked_run_def], folded picked_run_def]) simp
  from overlapping_handlers_keep_their_word [OF this] show ?thesis
    by (simp add: ledger_ok_def started_ok_def tx_ids_ok_def sample_tx_def)
qed

text \<open>A \<open>StartTransaction\<close> for a session that is over.\<close>

definition refound_run :: "handler_await \<times> world" where
  "refound_run = run_answers 1 (StartFind ''EN0000001'' (start_request ''s3'' 1000), late_world [sample_tx 3 ''s3'' TxStopped])"

theorem ended_sessions_stay_ended_witness:
  "list_ex (\<lambda>t'. tx_id t' = 3 \<and> \<not> is_open_tx t') (transactions (db (snd refound_run)))"
proof -
  have "overlapping False (late_world [sample_tx 3 ''s3'' TxStopped], []) (snd refound_run, [fst refound_run])"
    by (rule begins_overlap [OF _ surjective_pairing [of refound_run, unfolded refound_run_def], folded refound_run_def]) simp
  from ended_sessions_stay_ended [OF this, of "sample_tx 3 ''s3'' TxStopped"] show ?thesis
    by (simp add: tx_ids_ok_def sample_tx_def is_open_tx_def)
qed

text \<open>Two reports of one connector, a fault and its end, that both read the connector before either wrote it.\<close>

definition status_report :: "string \<Rightarrow> string \<Rightarrow> jsval" where
  "status_report status errorCode = JObj [(''connectorId'', JNum 1), (''status'', JStr status), (''errorCode'', JStr errorCode),
     (''timestamp'', JStr ''2024-01-01T09:00:00Z'')]"

definition fault_read :: "handler_await \<times> world" where
  "fault_read = run_answers 1 (StatusEnter ''EN0000001'' (status_report ''Faulted'' ''GroundFailure''), late_world [])"

definition end_read :: "handler_await \<times> world" where
  "end_read = run_answers 1 (StatusEnter ''EN0000001'' (status_report ''Preparing'' ''NoError''), snd fault_read)"

definition fault_told :: "handler_await \<times> world" where
  "fault_told = run_answers 1 (fst fault_read, snd end_read)"

definition end_told :: "handler_await \<times> world" where
  "end_told = run_answers 1 (fst end_read, snd fault_told)"

lemma reports_evaluated:
  "announced_fault ''EN0000001'' 1 (outbox (db (snd end_told))) = Some ''GroundFailure''"
  "connector_fault ''EN0000001'' 1 (db (snd end_told)) = None"
  by code_simp+

text \<open>The second report does not know of the fault, so no event says that it is over: consumers of the stream keep a fault
  that the connector does not have.\<close>

lemma overlapping_reports_lose_the_end:
  "faults_ok (db (late_world [])) \<and> (\<exists>w hs. overlapping False (late_world [], []) (w, hs) \<and> \<not> faults_ok (db w))"
proof
  show "faults_ok (db (late_world []))"
    by (simp add: faults_ok_def announced_fault_def connector_fault_def find_connector_def)
  let ?f = "StatusEnter ''EN0000001'' (status_report ''Faulted'' ''GroundFailure'')"
  let ?e = "StatusEnter ''EN0000001'' (status_report ''Preparing'' ''NoError'')"
  have read: "overlapping False (late_world [], []) (snd fault_read, [fst fault_read])"
    by (rule begins_overlap [of ?f 1]) (simp_all add: fault_read_def)
  have "overlaps False (snd fault_read, [fst fault_read]) (snd fault_read, [fst fault_read] @ [?e])"
    by (rule overlaps.arrives) simp_all
  with read have "overlapping False (late_world [], []) (snd fault_read, [fst fault_read] @ [?e])"
    by (rule rtranclp.rtrancl_into_rtrancl)
  moreover have "overlapping False (snd fault_read, [fst fault_read] @ [?e]) (snd end_read, [fst fault_read] @ [fst end_read])"
    by (rule answers_overlap [of 1]) (simp add: end_read_def)
  moreover have "overlapping False (snd end_read, [] @ fst fault_read # [fst end_read]) (snd fault_told, [] @ fst fault_told # [fst end_read])"
    by (rule answers_overlap [of 1]) (simp add: fault_told_def)
  moreover have "overlapping False (snd fault_told, [fst fault_told] @ [fst end_read]) (snd end_told, [fst fault_told] @ [fst end_told])"
    by (rule answers_overlap [of 1]) (simp add: end_told_def)
  ultimately have "overlapping False (late_world [], []) (snd end_told, [fst fault_told, fst end_told])"
    unfolding append_Cons append_Nil by (meson rtranclp_trans)
  moreover have "\<not> faults_ok (db (snd end_told))"
    unfolding faults_ok_def using reports_evaluated by (metis option.distinct(1))
  ultimately show "\<exists>w hs. overlapping False (late_world [], []) (w, hs) \<and> \<not> faults_ok (db w)" by blast
qed

theorem orderly_stations_have_true_faults_witness:
  "announced_fault ''EN0000001'' 1 (outbox (db (snd fault_read))) = connector_fault ''EN0000001'' 1 (db (snd fault_read))"
proof -
  have "overlapping True (late_world [], []) (snd fault_read, [fst fault_read])"
    by (rule begins_overlap [OF _ surjective_pairing [of fault_read, unfolded fault_read_def], folded fault_read_def]) simp
  then show ?thesis
    by (rule orderly_stations_have_true_faults) (simp add: faults_ok_def announced_fault_def connector_fault_def find_connector_def)
qed

end
