(* ===== verification/ApiProps.thy ===== *)
theory ApiProps
  imports Admin
begin

text \<open>
  What the middlewares of the internal API guarantee: only a configured token gets through, and a request repeated
  with the same idempotency key is answered from the cache without running its handler.
\<close>

section \<open>Tokens\<close>

lemma timingSafeEqual_iff: "timingSafeEqual_str a b \<longleftrightarrow> a = b"
  unfolding timingSafeEqual_str_def
proof (induction a arbitrary: b)
  case (Cons x xs)
  then show ?case by (cases b) auto
qed auto

lemma js_startsWith_iff: "js_startsWith s p \<longleftrightarrow> (\<exists>t. s = p @ t)"
  by (auto simp: js_startsWith_def prefix_def)

lemma internalAuth_None:
  "internalAuthMiddleware tokens req = None \<longleftrightarrow>
     (\<exists>tok \<in> set tokens. map_get (rq_headers req) ''authorization'' = Some (''Bearer '' @ tok))"
  by (auto simp: internalAuthMiddleware_def list_ex_iff timingSafeEqual_iff js_startsWith_iff split: option.splits)

lemma internalAuth_Some:
  "internalAuthMiddleware tokens req = Some rs \<Longrightarrow> \<exists>m. rs = error_json (api_unauthorized m)"
  by (auto simp: internalAuthMiddleware_def split: option.splits if_splits)

lemma loadTokens_length: "loadTokens h = Inr tokens \<Longrightarrow> tok \<in> set tokens \<Longrightarrow> 32 \<le> length tok"
  by (auto simp: loadTokens_def Let_def js_set_def split: option.splits if_splits)

text \<open>A request of the internal API reaches its route only with a bearer token that was configured, and such a token has at
  least 32 characters; every other request is answered 401 and leaves the whole world as it was.\<close>

theorem unauthorized_requests_do_nothing:
  assumes "loadTokens h = Inr tokens"
  shows "if \<exists>tok \<in> set tokens. 32 \<le> length tok \<and> map_get (rq_headers req) ''authorization'' = Some (''Bearer '' @ tok)
    then internal_api tokens render route req w = idempotencyMiddleware (\<lambda>r. andthen (route r) (\<lambda>a. ret (to_json render a))) req w
    else \<exists>m. internal_api tokens render route req w = (Inr (False, error_json (api_unauthorized m)), w)"
  using internalAuth_None [of tokens req] internalAuth_Some [of tokens req] loadTokens_length [OF assms]
  by (cases "internalAuthMiddleware tokens req") (auto simp: internal_api_def ret_def)

definition idle_world :: world where
  "idle_world = boot_world quiet_host empty_db"

definition anonymous :: http_request where
  "anonymous = \<lparr>rq_params = [], rq_query = [], rq_headers = [(''authorization'', ''Bearer guess'')], rq_body = JNull,
     rq_file = None, rq_username = None\<rparr>"

theorem unauthorized_requests_do_nothing_witness:
  "\<exists>m. internal_api [''0123456789abcdef0123456789abcdef''] id (\<lambda>_. raise FsErr) anonymous idle_world =
     (Inr (False, error_json (api_unauthorized m)), idle_world)"
proof -
  have "loadTokens quiet_host = Inr [''0123456789abcdef0123456789abcdef'']"
    by (simp add: loadTokens_def quiet_host_def js_set_def) code_simp
  from unauthorized_requests_do_nothing [OF this, of anonymous id "\<lambda>_. raise FsErr" idle_world]
  show ?thesis by (simp add: anonymous_def)
qed

section \<open>Idempotency keys\<close>

lemma read_completed:
  assumes "json_plain body" "\<bar>st\<bar> < 2 ^ 53"
  shows "read_cached (Some (json_stringify (JObj [(''status'', js_int st), (''body'', body)]))) = Completed (js_int st) body"
proof -
  let ?v = "JObj [(''status'', js_int st), (''body'', body)]"
  have plain: "json_plain ?v" using assms by (simp add: js_int_def)
  then obtain c cs where cs: "json_stringify ?v = c # cs" by (rule stringify_ConsE)
  have "json_stringify ?v \<noteq> IN_PROGRESS_MARKER" by (simp add: IN_PROGRESS_MARKER_def)
  with json_parse_stringify [OF plain] cs show ?thesis
    by (simp add: read_cached_def del: json_stringify.simps)
qed

lemma completed_entry:
  assumes "setCompleted key st body v = (Inr x, w1)" "\<not> fails (host w1) (tick w1 - 1)"
  shows "map_get (kv w1) (redisKey key) = Some (json_stringify (JObj [(''status'', js_int st), (''body'', body)]))"
  using assms by (auto simp: setCompleted_def prog_defs Let_def map_get_set simp del: json_stringify.simps split: if_splits)

lemma first_run_stores:
  assumes key: "nonempty (map_get (rq_headers req) ''idempotency-key'') = Some key"
    and fresh: "map_get (kv w) (redisKey key) = None"
    and run: "idempotencyMiddleware handler req w = (Inr (False, r), w1)"
    and ok: "rs_status r < 500" "\<not> fails (host w1) (tick w1 - 1)"
  shows "map_get (kv w1) (redisKey key) = Some (json_stringify (JObj [(''status'', js_int (rs_status r)), (''body'', rs_body r)]))"
proof -
  obtain w0 where miss: "getCached key w = (Inr Miss, w0)"
    using fresh by (cases "getCached key w") (auto simp: getCached_def prog_defs read_cached_def Let_def split: if_splits)
  from run [unfolded idempotencyMiddleware_def key option.case andthen_def [of "getCached key"] miss prod.case sum.case cached_response.case]
  obtain v where "setCompleted key (rs_status r) (rs_body r) v = (Inr (), w1)"
    using ok(1) by (auto simp: run_Inr only_if_def)
  from completed_entry [OF this ok(2)] show ?thesis .
qed

text \<open>C20. A request that is repeated with its idempotency key gets the answer of the first request, marked as replayed, and its
  handler does not run: nothing but the time passes.  The first answer must be below 500, which is when it is stored, and its
  body one that JSON prints without loss.\<close>

theorem repeated_request_is_replayed:
  assumes "nonempty (map_get (rq_headers req) ''idempotency-key'') = Some key"
    and "map_get (kv w) (redisKey key) = None"
    and "idempotencyMiddleware handler req w = (Inr (False, r), w1)"
    and "0 \<le> rs_status r" "rs_status r < 500" "json_plain (rs_body r)" "\<not> fails (host w1) (tick w1 - 1)"
    and "nonempty (map_get (rq_headers req') ''idempotency-key'') = Some key"
    and "map_get (kv w2) (redisKey key) = map_get (kv w1) (redisKey key)" "\<not> fails (host w2) (tick w2)"
  shows "idempotencyMiddleware handler' req' w2 = (Inr (True, r), w2\<lparr>tick := tick w2 + 1\<rparr>)"
proof -
  have st: "\<bar>rs_status r\<bar> < 2 ^ 53" using assms(4,5) by simp
  have "getCached key w2 = (Inr (Completed (js_int (rs_status r)) (rs_body r)), w2\<lparr>tick := tick w2 + 1\<rparr>)"
    using first_run_stores [OF assms(1,2,3,5,7)] assms(9,10) read_completed [OF assms(6) st]
    by (simp add: getCached_def prog_defs Let_def del: json_stringify.simps)
  with assms(8) show ?thesis
    by (simp add: idempotencyMiddleware_def andthen_def from_option_def ret_def js_int_def)
qed

text \<open>A request with a key, and its answer.\<close>

definition keyed :: http_request where
  "keyed = anonymous\<lparr>rq_headers := [(''idempotency-key'', ''k1'')]\<rparr>"

definition accepted :: "jsval http_response" where
  "accepted = \<lparr>rs_status = 202, rs_body = JObj [(''success'', JBool True)]\<rparr>"

theorem repeated_request_is_replayed_witness:
  "fst (idempotencyMiddleware (\<lambda>_. raise FsErr) keyed (snd (idempotencyMiddleware (\<lambda>_. ret accepted) keyed idle_world))) = Inr (True, accepted)"
proof -
  let ?first = "idempotencyMiddleware (\<lambda>_. ret accepted) keyed idle_world"
  have key: "nonempty (map_get (rq_headers keyed) ''idempotency-key'') = Some ''k1''"
    by (simp add: keyed_def nonempty_def)
  have first: "?first = (Inr (False, accepted), snd ?first)" "host (snd ?first) = quiet_host"
    using key by (simp_all add: idempotencyMiddleware_def getCached_def setInProgress_def setCompleted_def prog_defs Let_def read_cached_def
        idle_world_def boot_world_def quiet_host_def accepted_def map_get_set del: json_stringify.simps)
  show ?thesis
    using repeated_request_is_replayed [OF key _ first(1) _ _ _ _ key refl, of "\<lambda>_. raise FsErr"] first(2)
    by (simp add: accepted_def idle_world_def boot_world_def quiet_host_def)
qed

end
