(* ===== verification/IdempotencySteps.thy ===== *)
theory IdempotencySteps
  imports ApiProps
begin

text \<open>
  The idempotency middleware of \<open>idempotency.middleware.ts\<close> one \<open>await\<close> at a time: requests with the same key may be between
  reading the key and claiming it at the same moment.  Once a key is claimed, no request runs its handler again; before
  that several can.
\<close>

section \<open>A request and its awaits\<close>

text \<open>The handler of the route is run as a whole; its answer is sent before it is stored.\<close>

datatype request_await =
  Checking http_request
| Claiming string http_request
| Serving string http_request
| Storing string "jsval http_response"
| Replied "js_error + bool \<times> jsval http_response"

fun request_step :: "(http_request \<Rightarrow> jsval http_response prog) \<Rightarrow> request_await \<Rightarrow> world \<Rightarrow> request_await \<times> world" where
  "request_step handler (Checking req) w =
     (case nonempty (map_get (rq_headers req) ''idempotency-key'') of
        None \<Rightarrow> (case handler req w of (Inl e, w1) \<Rightarrow> (Replied (Inl e), w1) | (Inr r, w1) \<Rightarrow> (Replied (Inr (False, r)), w1))
      | Some key \<Rightarrow>
          (case getCached key w of
             (Inl e, w1) \<Rightarrow> (Replied (Inl e), w1)
           | (Inr Miss, w1) \<Rightarrow> (Claiming key req, w1)
           | (Inr InProgress, w1) \<Rightarrow> (Replied (Inr (False, error_json (api_duplicateRequest key))), w1)
           | (Inr (Completed status body), w1) \<Rightarrow>
               (case as_int status of
                  None \<Rightarrow> (Replied (Inl (PlainError ''invalid status code'')), w1)
                | Some st \<Rightarrow> (Replied (Inr (True, \<lparr>rs_status = st, rs_body = body\<rparr>)), w1))))"
| "request_step handler (Claiming key req) w =
     (case setInProgress key w of (Inl e, w1) \<Rightarrow> (Replied (Inl e), w1) | (Inr _, w1) \<Rightarrow> (Serving key req, w1))"
| "request_step handler (Serving key req) w =
     (case handler req w of
        (Inl e, w1) \<Rightarrow> (Replied (Inl e), w1)
      | (Inr r, w1) \<Rightarrow> (if rs_status r < 500 then Storing key r else Replied (Inr (False, r)), w1))"
| "request_step handler (Storing key r) w =
     (case setCompleted key (rs_status r) (rs_body r) w of
        (Inl e, w1) \<Rightarrow> (Replied (Inl e), w1) | (Inr _, w1) \<Rightarrow> (Replied (Inr (False, r)), w1))"
| "request_step handler (Replied r) w = (Replied r, w)"

text \<open>Four answers at most, and with nothing in between they are the middleware.\<close>

fun request_steps :: "nat \<Rightarrow> (http_request \<Rightarrow> jsval http_response prog) \<Rightarrow> request_await \<times> world \<Rightarrow> request_await \<times> world" where
  "request_steps 0 handler st = st"
| "request_steps (Suc n) handler (p, w) = request_steps n handler (request_step handler p w)"

lemma request_is_its_steps:
  "request_steps 4 handler (Checking req, w) = (case idempotencyMiddleware handler req w of (r, w1) \<Rightarrow> (Replied r, w1))"
proof (cases "nonempty (map_get (rq_headers req) ''idempotency-key'')")
  case None
  then show ?thesis
    by (auto simp: numeral_eq_Suc idempotencyMiddleware_def andthen_def ret_def split: prod.splits sum.splits)
next
  case (Some key)
  then show ?thesis
    by (auto simp: numeral_eq_Suc idempotencyMiddleware_def andthen_def only_if_def from_option_def raise_def ret_def
        split: prod.splits sum.splits cached_response.splits option.splits)
qed

section \<open>Requests that overlap\<close>

text \<open>Only the middleware writes the keys; while \<open>ok\<close> holds, Redis answers.\<close>

type_synonym serving = "world \<times> request_await list"

inductive races :: "(http_request \<Rightarrow> jsval http_response prog) \<Rightarrow> serving \<Rightarrow> serving \<Rightarrow> bool" for handler where
  elsewhere: "kv w' = kv w \<Longrightarrow> races handler (w, ps) (w', ps)"
| request: "races handler (w, ps) (w, ps @ [Checking req])"
| reply: "\<not> fails (host w) (tick w) \<Longrightarrow> request_step handler p w = (p', w') \<Longrightarrow> races handler (w, ps @ p # qs) (w', ps @ p' # qs)"

text \<open>The key reads as claimed or as answered, and no request is about to run its handler under it.\<close>

fun runs_under :: "string \<Rightarrow> request_await \<Rightarrow> bool" where
  "runs_under key (Claiming k req) \<longleftrightarrow> k = key"
| "runs_under key (Serving k req) \<longleftrightarrow> k = key"
| "runs_under key p \<longleftrightarrow> False"

fun storable :: "request_await \<Rightarrow> bool" where
  "storable (Storing k r) \<longleftrightarrow> json_plain (rs_body r) \<and> 0 \<le> rs_status r \<and> rs_status r < 500"
| "storable p \<longleftrightarrow> True"

definition held :: "string \<Rightarrow> world \<Rightarrow> bool" where
  "held key w \<longleftrightarrow> read_cached (map_get (kv w) (redisKey key)) \<noteq> Miss"

definition plain_handler :: "(http_request \<Rightarrow> jsval http_response prog) \<Rightarrow> bool" where
  "plain_handler handler \<longleftrightarrow> (\<forall>req w r w'. handler req w = (r, w') \<longrightarrow> kv w' = kv w \<and>
     (case r of Inl e \<Rightarrow> True | Inr a \<Rightarrow> json_plain (rs_body a) \<and> 0 \<le> rs_status a))"

lemma plain_handlerD:
  "plain_handler handler \<Longrightarrow> handler req w = (r, w') \<Longrightarrow> kv w' = kv w"
  "plain_handler handler \<Longrightarrow> handler req w = (Inr a, w') \<Longrightarrow> json_plain (rs_body a) \<and> 0 \<le> rs_status a"
  by (fastforce simp: plain_handler_def)+

lemma redisKey_inject [simp]: "redisKey a = redisKey b \<longleftrightarrow> a = b"
  by (simp add: redisKey_def)

lemma getCached_answered:
  "\<not> fails (host w) (tick w) \<Longrightarrow> getCached key w = (Inr (read_cached (map_get (kv w) (redisKey key))), w\<lparr>tick := tick w + 1\<rparr>)"
  by (simp add: getCached_def prog_defs Let_def)

lemma setInProgress_answered:
  "\<not> fails (host w) (tick w) \<Longrightarrow> setInProgress key w = (Inr (), w\<lparr>tick := tick w + 1,
     kv := (case map_get (kv w) (redisKey key) of None \<Rightarrow> map_set (redisKey key) IN_PROGRESS_MARKER (kv w) | Some _ \<Rightarrow> kv w)\<rparr>)"
  by (simp add: setInProgress_def prog_defs Let_def split: option.splits)

lemma setCompleted_answered:
  "\<not> fails (host w) (tick w) \<Longrightarrow> setCompleted key st body w = (Inr (), w\<lparr>tick := tick w + 1,
     kv := map_set (redisKey key) (json_stringify (JObj [(''status'', js_int st), (''body'', body)])) (kv w)\<rparr>)"
  by (simp add: setCompleted_def prog_defs Let_def del: json_stringify.simps)

lemma claimed_reads: "read_cached (Some IN_PROGRESS_MARKER) = InProgress"
  by (simp add: read_cached_def IN_PROGRESS_MARKER_def)

lemma step_keeps_held:
  assumes step: "request_step handler p w = (p', w')" and ok: "\<not> fails (host w) (tick w)" and plain: "plain_handler handler"
    and held: "held key w" and p: "\<not> runs_under key p" "storable p"
  shows "held key w' \<and> \<not> runs_under key p' \<and> storable p'"
proof (cases p)
  case (Checking req)
  show ?thesis
  proof (cases "nonempty (map_get (rq_headers req) ''idempotency-key'')")
    case None
    with step Checking held plain show ?thesis
      by (auto simp: held_def dest: plain_handlerD [OF plain] split: prod.splits sum.splits)
  next
    case (Some k)
    with step Checking held show ?thesis
      by (auto simp: held_def getCached_answered [OF ok] split: cached_response.splits option.splits)
  qed
next
  case (Claiming k req)
  with step p held show ?thesis
    by (auto simp: setInProgress_answered [OF ok] held_def map_get_set split: option.splits)
next
  case (Serving k req)
  with step p held plain show ?thesis
    by (auto simp: held_def dest: plain_handlerD [OF plain] split: prod.splits sum.splits if_splits)
next
  case (Storing k r)
  with p have "read_cached (Some (json_stringify (JObj [(''status'', js_int (rs_status r)), (''body'', rs_body r)]))) = Completed (js_int (rs_status r)) (rs_body r)"
    by (intro read_completed) auto
  with step Storing held show ?thesis
    by (auto simp: setCompleted_answered [OF ok] held_def map_get_set simp del: json_stringify.simps split: if_splits)
qed (use step held in auto)

text \<open>Once a key is claimed or answered, and the requests that had found it free are through with their handlers, no request runs a
  handler under it again, as long as the key does not expire and Redis answers, however requests overlap.\<close>

lemma claimed_key_runs_no_handler:
  assumes "(races handler)\<^sup>*\<^sup>* (w, ps) (w', ps')" "plain_handler handler"
    and "held key w" "list_all (\<lambda>p. \<not> runs_under key p \<and> storable p) ps"
  shows "held key w' \<and> list_all (\<lambda>p. \<not> runs_under key p \<and> storable p) ps'"
  using assms(1)
proof (induction "(w', ps')" arbitrary: w' ps' rule: rtranclp_induct)
  case base
  from assms(3,4) show ?case by simp
next
  case (step y)
  obtain w1 ps1 where y: "y = (w1, ps1)" by fastforce
  from step.hyps(3) [OF y] have IH: "held key w1" "list_all (\<lambda>p. \<not> runs_under key p \<and> storable p) ps1" by simp_all
  from step.hyps(2) [unfolded y] show ?case
  proof cases
    case elsewhere
    with IH show ?thesis by (simp add: held_def)
  next
    case (request req)
    with IH show ?thesis by simp
  next
    case (reply p p' qs rs)
    with IH step_keeps_held [OF reply(4,3) assms(2) IH(1)] show ?thesis by simp
  qed
qed

text \<open>Two requests that overlap before either has claimed the key both come to run their handlers: the result of \<open>SET NX\<close> is not
  looked at.\<close>

lemma overlapping_requests_both_run:
  assumes key: "nonempty (map_get (rq_headers req) ''idempotency-key'') = Some key"
    and fresh: "map_get (kv w) (redisKey key) = None" and up: "fails (host w) = (\<lambda>_. False)"
  shows "\<exists>w'. (races handler)\<^sup>*\<^sup>* (w, []) (w', [Serving key req, Serving key req])"
proof -
  define w1 where "w1 = w\<lparr>tick := tick w + 1\<rparr>"
  define w2 where "w2 = w1\<lparr>tick := tick w1 + 1\<rparr>"
  define w3 where "w3 = snd (setInProgress key w2)"
  define w4 where "w4 = snd (setInProgress key w3)"
  note ok = setInProgress_answered getCached_answered
  have check: "request_step handler (Checking req) v = (Claiming key req, v\<lparr>tick := tick v + 1\<rparr>)"
    if "fails (host v) = (\<lambda>_. False)" "map_get (kv v) (redisKey key) = None" for v
    using that key by (simp add: ok read_cached_def)
  have claim: "request_step handler (Claiming key req) v = (Serving key req, snd (setInProgress key v))"
    if "fails (host v) = (\<lambda>_. False)" for v
    using that by (simp add: ok)
  have hosts: "fails (host w1) = (\<lambda>_. False)" "fails (host w2) = (\<lambda>_. False)" "fails (host w3) = (\<lambda>_. False)"
    using up by (simp_all add: w1_def w2_def w3_def ok)
  have "races handler (w, []) (w, [Checking req])" using races.request [of handler w "[]"] by simp
  moreover have "races handler (w, [Checking req]) (w, [Checking req, Checking req])"
    using races.request [of handler w "[Checking req]"] by simp
  moreover have "races handler (w, [Checking req, Checking req]) (w1, [Claiming key req, Checking req])"
    using races.reply [of w handler "Checking req" "Claiming key req" w1 "[]" "[Checking req]"] check [OF up fresh] up
    by (simp add: w1_def)
  moreover have "races handler (w1, [Claiming key req, Checking req]) (w2, [Claiming key req, Claiming key req])"
    using races.reply [of w1 handler "Checking req" "Claiming key req" w2 "[Claiming key req]" "[]"] check [OF hosts(1)] fresh hosts(1)
    by (simp add: w2_def w1_def)
  moreover have "races handler (w2, [Claiming key req, Claiming key req]) (w3, [Serving key req, Claiming key req])"
    using races.reply [of w2 handler "Claiming key req" "Serving key req" w3 "[]" "[Claiming key req]"] claim [OF hosts(2)] hosts(2)
    by (simp add: w3_def)
  moreover have "races handler (w3, [Serving key req, Claiming key req]) (w4, [Serving key req, Serving key req])"
    using races.reply [of w3 handler "Claiming key req" "Serving key req" w4 "[Serving key req]" "[]"] claim [OF hosts(3)] hosts(3)
    by (simp add: w4_def)
  ultimately have "(races handler)\<^sup>*\<^sup>* (w, []) (w4, [Serving key req, Serving key req])"
    by (meson converse_rtranclp_into_rtranclp rtranclp.rtrancl_refl)
  then show ?thesis by blast
qed

end
