(* ===== verification/Delivery.thy ===== *)
theory Delivery
  imports System
begin

text \<open>
  At-least-once delivery of events by the whole server.  Every event of the loop but a tick of the relay
  only appends fresh rows to the outbox and leaves the Redis streams alone (\<open>appending\<close>), and a restart keeps both, so the
  delivery invariant \<open>outbox_ok\<close>, which a tick preserves, holds in every reachable world.
\<close>

section \<open>The delivery invariant\<close>

lemma appending_outbox_ok:
  assumes "appending w w'" "outbox_ok w"
  shows "outbox_ok w'"
proof -
  from assms(1) obtain new where "outbox (db w') = outbox (db w) @ new" "\<forall>e \<in> set new. fresh_row e"
    and "distinct (map ob_id (outbox (db w))) \<longrightarrow> distinct (map ob_id (outbox (db w')))"
    by (auto simp: appending_def appends_def)
  moreover have "delivery_ok w' e" if "delivery_ok w e" for e
    using that assms(1) by (auto simp: delivery_ok_def appending_def published_as_def)
  moreover have "delivery_ok w' e" if "fresh_row e" for e
    using that by (simp add: delivery_ok_def fresh_row_def MAX_ATTEMPTS_def)
  ultimately show ?thesis using assms(2) by (auto simp: outbox_ok_def)
qed

lemma appending_deletions:
  "conforms appending (internal_api tokens render token_delete_route req)"
  "conforms appending (station_delete_route req)"
proof -
  have "conforms appending (token_delete_route req)" for req
    by (intro appending.conforms_token_route appending_db_do appends_same) (simp add: delete_idToken_Inr)
  then show "conforms appending (internal_api tokens render token_delete_route req)"
    by (intro appending.conforms_internal) (auto simp: off_stream_def intro!: appending_redis)
  show "conforms appending (station_delete_route req)"
    unfolding station_delete_route_def find_provisioning_by_station_def deleteByStationId_def delete_station_def clear_station_rows_def
      station_by_id_def
    by (intro contract_intros appending_db_do; auto simp: admin_defs store_defs op_Inr dest: delete_station_row_rows intro!: appends_same)
qed

lemma serves_appends:
  assumes "serves w w'"
  shows "appending w w' \<or> relay_timer w \<and> (\<exists>r. relay_tick w = (r, w')) \<or> w' = restarted w"
  using assms
proof cases
  case (connect url ws r)
  from conformsD [OF appending_sockets(1) connect] show ?thesis by (simp add: appending_def)
next
  case (socket_closed s ws code reason r)
  from conformsD [OF appending_sockets(3) socket_closed] show ?thesis by (simp add: appending_def)
next
  case (settled_call mid call outcome rest r)
  from conformsD [OF appending_resume settled_call(2)] show ?thesis by (simp add: appending_def)
next
  case (relay r)
  then show ?thesis by (auto simp: relay_interval_def appending.refl split: if_splits)
next
  case (admin m r)
  from conformsD [OF administers_contract [OF admin(1)] admin(2)] show ?thesis by (simp add: administrative_def)
qed (auto simp: appending_def appends_refl startOutboxRelay_def stopOutboxRelay_def stopOcppCommandSweeper_def set_sweeper_def
      expire_key_def
    dest: conformsD [OF appending_frame] conformsD [OF appending_deletions(1)]
      conformsD [OF appending_sockets(2)] conformsD [OF appending_sockets(4)] conformsD [OF appending_sockets(5)]
      conformsD [OF appending_sockets(6)] conformsD [OF appending_sockets(7)] conformsD [OF appending_sockets(8)]
      conformsD [OF appending_commands(1)] conformsD [OF appending_commands(2)] conformsD [OF appending_commands(3)]
      conformsD [OF appending_commands(4)] conformsD [OF appending_commands(5)] conformsD [OF appending_commands(6)])

lemma runs_appends:
  "runs w w' \<Longrightarrow> appending w w' \<or> relay_timer w \<and> (\<exists>r. relay_tick w = (r, w')) \<or> w' = restarted w"
  using serves_appends appending_deletions(2) unfolding runs_def conforms_def by blast

lemma restarted_outbox_ok: "outbox_ok (restarted w) \<longleftrightarrow> outbox_ok w"
  by (simp add: outbox_ok_def delivery_ok_def published_as_def)

lemma reaches_outbox_ok: "reaches w w' \<Longrightarrow> outbox_ok w \<Longrightarrow> outbox_ok w'"
  unfolding reaches_def
proof (induction rule: rtranclp_induct)
  case (step w1 w2)
  from runs_appends [OF step.hyps(2)] show ?case
    using appending_outbox_ok [OF _ step.IH [OF step.prems]] relay_tick_preserves [OF step.IH [OF step.prems]] restarted_outbox_ok [of w1]
      step.IH [OF step.prems] by blast
qed simp

end
