(* ===== verification/RelaySteps.thy ===== *)
theory RelaySteps
  imports Delivery
begin

text \<open>
  The relay of \<open>outboxRelay.ts\<close> one \<open>await\<close> at a time.  A tick of the interval timer runs concurrently with the rest of
  the process: while it waits for Redis or for the database, frames are handled, requests are served and further timers fire.
  A tick in progress is the \<open>await\<close> it stands at (\<open>relay_await\<close>) with the local variables that live across it; \<open>relay_step\<close>
  lets the awaited call answer and runs the code up to the next \<open>await\<close>.  \<open>interleaves\<close> is one step of the process with any
  number of ticks in progress.  Run without interruption, the steps are the tick \<open>relay_tick\<close> of theory \<open>Outbox\<close>.
\<close>

section \<open>A tick and its awaits\<close>

datatype relay_await =
  Reading
| Publishing OutboxEvent "OutboxEvent list"
| Marking OutboxEvent "OutboxEvent list" int
| Burying OutboxEvent "OutboxEvent list" string
| Closing OutboxEvent "OutboxEvent list" string int
| Counting OutboxEvent "OutboxEvent list" string
| Finished

fun next_event :: "OutboxEvent list \<Rightarrow> relay_await" where
  "next_event [] = Finished"
| "next_event (e # es) = Publishing e es"

text \<open>The \<open>catch\<close> block up to its first \<open>await\<close>.\<close>

definition attempt_failed :: "OutboxEvent \<Rightarrow> OutboxEvent list \<Rightarrow> js_error \<Rightarrow> world \<Rightarrow> relay_await \<times> world" where
  "attempt_failed e es err w =
     (let reason = err_message (host w) err in
      (if MAX_ATTEMPTS \<le> ob_attempts e + 1 then Burying e es reason else Counting e es reason, w))"

text \<open>\<open>new Date()\<close> among the arguments of the next call.\<close>

definition stamped :: "(int \<Rightarrow> relay_await) \<Rightarrow> world \<Rightarrow> relay_await \<times> world" where
  "stamped f w = (f (clock (host w) (tick w)), w\<lparr>tick := tick w + 1\<rparr>)"

fun relay_step :: "relay_await \<Rightarrow> world \<Rightarrow> relay_await \<times> world" where
  "relay_step Reading w = (case db_read relay_batch w of
     (Inl err, w1) \<Rightarrow> (Finished, w1)
   | (Inr batch, w1) \<Rightarrow> (next_event batch, w1))"
| "relay_step (Publishing e es) w = (case publishEventToStream (publishable e) w of
     (Inl err, w1) \<Rightarrow> attempt_failed e es err w1
   | (Inr _, w1) \<Rightarrow> stamped (Marking e es) w1)"
| "relay_step (Marking e es now) w = (case db_do (mark_published (ob_id e) now) w of
     (Inl err, w1) \<Rightarrow> attempt_failed e es err w1
   | (Inr _, w1) \<Rightarrow> (next_event es, w1))"
| "relay_step (Burying e es reason) w = (case moveToDeadLetter (publishable e) reason w of
     (_, w1) \<Rightarrow> stamped (Closing e es reason) w1)"
| "relay_step (Closing e es reason now) w = (case db_do (mark_dead (ob_id e) (ob_attempts e + 1) reason now) w of
     (Inl err, w1) \<Rightarrow> (Finished, w1)
   | (Inr _, w1) \<Rightarrow> (next_event es, w1))"
| "relay_step (Counting e es reason) w = (case db_do (mark_failed (ob_id e) (ob_attempts e + 1) reason) w of
     (Inl err, w1) \<Rightarrow> (Finished, w1)
   | (Inr _, w1) \<Rightarrow> (next_event es, w1))"
| "relay_step Finished w = (Finished, w)"

text \<open>How many answers a tick still waits for, at most.\<close>

fun awaits_left :: "relay_await \<Rightarrow> nat" where
  "awaits_left Reading = 4 * BATCH_SIZE + 1"
| "awaits_left (Publishing e es) = 4 * length es + 4"
| "awaits_left (Marking e es now) = 4 * length es + 3"
| "awaits_left (Burying e es reason) = 4 * length es + 2"
| "awaits_left (Closing e es reason now) = 4 * length es + 1"
| "awaits_left (Counting e es reason) = 4 * length es + 1"
| "awaits_left Finished = 0"

lemma awaits_left_next [simp]: "awaits_left (next_event es) = 4 * length es"
  by (cases es) simp_all

lemma relay_step_progress:
  assumes "relay_step p w = (p', w')" and "p \<noteq> Finished"
  shows "awaits_left p' < awaits_left p"
  using assms
  by (cases p)
    (auto simp: attempt_failed_def stamped_def Let_def db_read_def db_do_def relay_batch_def min_def
      split: prod.splits sum.splits if_splits)

text \<open>A tick that nothing interrupts.\<close>

function uninterrupted :: "relay_await \<Rightarrow> world \<Rightarrow> world" where
  "uninterrupted p w = (if p = Finished then w else (case relay_step p w of (p', w') \<Rightarrow> uninterrupted p' w'))"
  by pat_completeness auto
termination
  by (relation "measure (\<lambda>(p, w). awaits_left p)") (auto intro: relay_step_progress simp del: relay_step.simps split: prod.splits)

declare uninterrupted.simps [simp del]

lemma uninterrupted_Finished [simp]: "uninterrupted Finished w = w"
  by (simp add: uninterrupted.simps)

lemma uninterrupted_step:
  "p \<noteq> Finished \<Longrightarrow> relay_step p w = (p', w') \<Longrightarrow> uninterrupted p w = uninterrupted p' w'"
  by (simp add: uninterrupted.simps [of p])

text \<open>The rest of the loop after the \<open>catch\<close> block, and after the whole body, of one event.\<close>

lemma uninterrupted_failed:
  "(case attempt_failed e es err w of (p, w1) \<Rightarrow> uninterrupted p w1)
   = (case delivery_failed e err w of (Inl x, w1) \<Rightarrow> w1 | (Inr _, w1) \<Rightarrow> uninterrupted (next_event es) w1)"
proof (cases "MAX_ATTEMPTS \<le> ob_attempts e + 1")
  case True
  let ?reason = "err_message (host w) err"
  obtain q w1 where bury: "moveToDeadLetter (publishable e) ?reason w = (q, w1)" by fastforce
  then have "ignore_err (moveToDeadLetter (publishable e) ?reason) w = (Inr (), w1)"
    by (cases q) (simp_all add: ignore_err_def catch_err_def andthen_def ret_def)
  with True bury show ?thesis
    by (auto simp: attempt_failed_def delivery_failed_def ask_def andthen_def Let_def uninterrupted_step stamped_def js_now_def ret_def
        split: prod.splits sum.splits)
next
  case False
  then show ?thesis
    by (auto simp: attempt_failed_def delivery_failed_def ask_def andthen_def Let_def uninterrupted_step ret_def
        split: prod.splits sum.splits)
qed


lemma relay_event_cases:
  "relay_event e w = (case publishEventToStream (publishable e) w of
     (Inl err, w1) \<Rightarrow> delivery_failed e err w1
   | (Inr _, w1) \<Rightarrow> (case db_do (mark_published (ob_id e) (clock (host w1) (tick w1))) (w1\<lparr>tick := tick w1 + 1\<rparr>) of
       (Inl err, w2) \<Rightarrow> delivery_failed e err w2
     | (Inr _, w2) \<Rightarrow> (Inr (), w2)))"
  by (auto simp: relay_event_def catch_err_def deliver_def andthen_def js_now_def ret_def split: prod.splits sum.splits)

lemma uninterrupted_loop: "uninterrupted (next_event es) w = snd (for_each es relay_event w)"
proof (induction es arbitrary: w)
  case (Cons e es)
  obtain q w1 where publish: "publishEventToStream (publishable e) w = (q, w1)" by fastforce
  have failed: "(case attempt_failed e es err w of (p, w1) \<Rightarrow> uninterrupted p w1)
      = snd (andthen (delivery_failed e err) (\<lambda>_. for_each es relay_event) w)" for err w
    by (auto simp: uninterrupted_failed andthen_def Cons.IH split: prod.splits sum.splits)
  show ?case
  proof (cases q)
    case (Inl err)
    with publish have "uninterrupted (next_event (e # es)) w = (case attempt_failed e es err w1 of (p, w1) \<Rightarrow> uninterrupted p w1)"
      by (simp add: uninterrupted_step split: prod.splits)
    with Inl publish show ?thesis
      by (simp add: failed relay_event_cases [of e w] andthen_def)
  next
    case (Inr x)
    let ?now = "clock (host w1) (tick w1)" and ?w2 = "w1\<lparr>tick := tick w1 + 1\<rparr>"
    obtain r w3 where mark: "db_do (mark_published (ob_id e) ?now) ?w2 = (r, w3)" by fastforce
    from Inr publish have "uninterrupted (next_event (e # es)) w = uninterrupted (Marking e es ?now) ?w2"
      by (simp add: uninterrupted_step stamped_def)
    also have "\<dots> = snd (for_each (e # es) relay_event w)"
    proof (cases r)
      case (Inl err)
      with mark have "uninterrupted (Marking e es ?now) ?w2 = (case attempt_failed e es err w3 of (p, w1) \<Rightarrow> uninterrupted p w1)"
        by (simp add: uninterrupted_step split: prod.splits)
      with Inl \<open>q = Inr x\<close> publish mark show ?thesis
        by (simp add: failed relay_event_cases [of e w] andthen_def)
    next
      case answered: (Inr y)
      with Inr publish mark show ?thesis
        by (simp add: uninterrupted_step Cons.IH relay_event_cases [of e w] andthen_def)
    qed
    finally show ?thesis .
  qed
qed (simp add: ret_def)

lemma uninterrupted_pass: "uninterrupted Reading w = snd (relay_pass w)"
  by (auto simp: uninterrupted.simps [of Reading] uninterrupted_loop relay_pass_def andthen_def split: prod.splits sum.splits)

text \<open>A tick of the relay that nothing interrupts is the atomic tick: raising the flag, letting every awaited call answer in
  turn, however the calls fail, and lowering the flag gives the world of \<open>relay_tick\<close>.\<close>

lemma tick_is_its_steps:
  "snd (relay_tick w) =
     (if relay_running w then w else (uninterrupted Reading (w\<lparr>relay_running := True\<rparr>))\<lparr>relay_running := False\<rparr>)"
  by (auto simp: relay_tick_def uninterrupted_pass catch_err_def ret_def split: prod.splits sum.splits)

section \<open>Ticks interleaved with everything else\<close>

text \<open>
  The world and the ticks in progress, each at its await.  Anything else the process does may happen between two awaits
  (\<open>elsewhere\<close>): every event of \<open>runs\<close> but an atomic tick of the relay is \<open>appending\<close> (\<open>runs_appends\<close>), and the ticks are
  the ones of this relation.  The timer starts a tick unless the flag is up (\<open>fires\<close>).  An awaited call answers, in a world
  where \<open>ok\<close> holds, and the tick goes on to its next await or ends and lowers the flag (\<open>answers\<close>).  The process may crash at any
  await and start again without the tick, unless it stays \<open>up\<close> (\<open>crashes\<close>).
\<close>

type_synonym ticking = "world \<times> relay_await list"

inductive interleaves :: "(world \<Rightarrow> bool) \<Rightarrow> bool \<Rightarrow> ticking \<Rightarrow> ticking \<Rightarrow> bool" for ok up where
  elsewhere: "runs w w' \<Longrightarrow> appending w w' \<Longrightarrow> interleaves ok up (w, ts) (w', ts)"
| fires: "relay_timer w \<Longrightarrow>
    interleaves ok up (w, ts) (if relay_running w then (w, ts) else (w\<lparr>relay_running := True\<rparr>, ts @ [Reading]))"
| answers: "ok w \<Longrightarrow> p \<noteq> Finished \<Longrightarrow> relay_step p w = (p', w') \<Longrightarrow>
    interleaves ok up (w, ts @ p # us) (if p' = Finished then (w'\<lparr>relay_running := False\<rparr>, ts @ us) else (w', ts @ p' # us))"
| crashes: "\<not> up \<Longrightarrow> interleaves ok up (w, ts) (restarted w, [])"

inductive_cases interleavesE: "interleaves ok up (w, ts) (w', ts')"

abbreviation interleaved :: "(world \<Rightarrow> bool) \<Rightarrow> bool \<Rightarrow> ticking \<Rightarrow> ticking \<Rightarrow> bool" where
  "interleaved ok up \<equiv> (interleaves ok up)\<^sup>*\<^sup>*"

text \<open>The rows a tick has still to deal with are as it read them, and it stands at an await for a reason.\<close>

definition todo :: "world \<Rightarrow> OutboxEvent list \<Rightarrow> bool" where
  "todo w es \<longleftrightarrow> distinct es \<and> set es \<subseteq> set (outbox (db w)) \<and> list_all is_due es"

fun stands :: "world \<Rightarrow> relay_await \<Rightarrow> bool" where
  "stands w (Publishing e es) \<longleftrightarrow> todo w (e # es)"
| "stands w (Marking e es now) \<longleftrightarrow> todo w (e # es) \<and> published_as e w"
| "stands w (Burying e es reason) \<longleftrightarrow> todo w (e # es) \<and> ob_attempts e + 1 = MAX_ATTEMPTS"
| "stands w (Closing e es reason now) \<longleftrightarrow> todo w (e # es) \<and> ob_attempts e + 1 = MAX_ATTEMPTS"
| "stands w (Counting e es reason) \<longleftrightarrow> todo w (e # es) \<and> ob_attempts e + 1 < MAX_ATTEMPTS"
| "stands w Reading \<longleftrightarrow> True"
| "stands w Finished \<longleftrightarrow> True"

lemma stands_next [simp]: "stands w (next_event es) \<longleftrightarrow> todo w es"
  by (cases es) (simp_all add: todo_def)

lemma todo_tick [simp]: "todo (w\<lparr>tick := n\<rparr>) = todo w" "todo (w\<lparr>relay_running := b\<rparr>) = todo w"
  by (simp_all add: fun_eq_iff todo_def)

lemma todo_keep: "todo w es \<Longrightarrow> set (outbox (db w)) \<subseteq> set (outbox (db w')) \<Longrightarrow> todo w' es"
  by (auto simp: todo_def)

lemma todo_tail: "todo w (e # es) \<Longrightarrow> todo w es"
  by (simp add: todo_def)

lemma stands_keep:
  "stands w p \<Longrightarrow> set (outbox (db w)) \<subseteq> set (outbox (db w')) \<Longrightarrow> prefix (stream w) (stream w') \<Longrightarrow> stands w' p"
  by (cases p) (auto intro: todo_keep published_as_mono)

text \<open>Updating the row of the event at the head: the rest of the batch is not touched.\<close>

lemma todo_update:
  assumes ids: "distinct (map ob_id (outbox (db w)))" and "todo w (e # es)"
    and rows: "outbox (db w') = update_where (\<lambda>r. ob_id r = ob_id e) (\<lambda>_. e') (outbox (db w))"
  shows "todo w' es"
proof -
  have "x \<in> set (outbox (db w'))" if "x \<in> set es" for x
  proof -
    from that assms(2) have "x \<in> set (outbox (db w))" "x \<noteq> e" by (auto simp: todo_def)
    with assms(2) ids have "ob_id x \<noteq> ob_id e" by (auto simp: todo_def dest: distinct_map_eq)
    with \<open>x \<in> set (outbox (db w))\<close> show ?thesis by (auto simp: rows set_update_where)
  qed
  with assms(2) show ?thesis by (auto simp: todo_def)
qed

lemma outbox_ok_keep:
  "outbox_ok w \<Longrightarrow> outbox (db w') = outbox (db w) \<Longrightarrow> prefix (stream w) (stream w') \<Longrightarrow> outbox_ok w'"
  by (auto simp: outbox_ok_def delivery_ok_def intro: published_as_mono)

lemma outbox_ok_update:
  assumes ok: "outbox_ok w" and e: "is_due e"
    and rows: "outbox (db w') = update_where (\<lambda>r. ob_id r = ob_id e) (\<lambda>_. e') (outbox (db w))"
    and same: "stream w' = stream w" and out: "attempt_outcome e w' e'"
  shows "outbox_ok w'"
proof -
  have "map ob_id (outbox (db w')) = map ob_id (outbox (db w))"
    using attempt_outcome_key [OF out] by (auto simp: rows update_where_def)
  moreover have "delivery_ok w' x" if "x \<in> set (outbox (db w'))" for x
    using that ok outcome_ok [OF out e] same
    by (auto simp: rows set_update_where outbox_ok_def delivery_ok_def published_as_def)
  ultimately show ?thesis using ok by (simp add: outbox_ok_def)
qed

text \<open>What a call of the relay does: it fails, leaving rows and streams, or its effect is the one of the model.\<close>

lemma update_step:
  assumes "distinct (map ob_id (outbox (db w)))" "todo w (e # es)" "db_do (update_outbox (ob_id e) f) w = (r, w')"
  obtains err where "r = Inl err" "outbox (db w') = outbox (db w)" "stream w' = stream w" "relay_running w' = relay_running w"
      "txn w = TxAborted \<or> fails (host w) (tick w)"
  | x where "r = Inr x" "outbox (db w') = update_where (\<lambda>r. ob_id r = ob_id e) (\<lambda>_. f e) (outbox (db w))"
      "stream w' = stream w" "relay_running w' = relay_running w"
proof (cases "txn w = TxAborted \<or> fails (host w) (tick w)")
  case True
  with assms show thesis by (auto simp: update_outbox_run todo_def intro: that(1))
next
  case False
  with assms show thesis by (auto simp: update_outbox_run todo_def intro: that(2))
qed

lemma attempt_failed_stands:
  assumes "todo w (e # es)" "attempt_failed e es err w = (p, w')"
  shows "w' = w \<and> stands w p"
  using assms by (auto simp: attempt_failed_def Let_def todo_def is_due_def split: if_splits)

lemma redis_step:
  assumes "redis_do (\<lambda>w. ((), f w)) w = (r, w')" "\<And>w. db (f w) = db w \<and> prefix (stream w) (stream (f w)) \<and> relay_running (f w) = relay_running w"
  shows "db w' = db w \<and> prefix (stream w) (stream w') \<and> relay_running w' = relay_running w"
  using assms(1) assms(2) [of "w\<lparr>tick := tick w + 1\<rparr>"] by (auto simp: redis_do_def Let_def split: if_splits)

definition sound :: "world \<Rightarrow> relay_await \<Rightarrow> world \<Rightarrow> bool" where
  "sound w p w' \<longleftrightarrow> outbox_ok w' \<and> stands w' p \<and> relay_running w' = relay_running w \<and> prefix (stream w) (stream w')"

lemma sound_idle:
  assumes "outbox_ok w" "stands w p" "outbox (db w') = outbox (db w)" "prefix (stream w) (stream w')" "relay_running w' = relay_running w"
  shows "sound w p w'"
  using assms outbox_ok_keep [of w w'] stands_keep [of w p w'] by (simp add: sound_def)

text \<open>The update of its row at the end of an attempt.\<close>

lemma sound_update:
  assumes ok: "outbox_ok w" and es: "todo w (e # es)"
    and run: "db_do (update_outbox (ob_id e) f) w = (r, w')"
    and outcome: "\<And>w'. stream w' = stream w \<Longrightarrow> attempt_outcome e w' (f e)"
  shows "case r of Inl _ \<Rightarrow> outbox (db w') = outbox (db w) \<and> stream w' = stream w \<and> relay_running w' = relay_running w
    | Inr _ \<Rightarrow> sound w (next_event es) w'"
proof -
  from ok have ids: "distinct (map ob_id (outbox (db w)))" by (simp add: outbox_ok_def)
  from es have due: "is_due e" by (simp add: todo_def)
  show ?thesis
  proof (cases rule: update_step [OF ids es run])
    case (2 x)
    have "outbox_ok w'" by (rule outbox_ok_update [OF ok due 2(2,3)]) (simp add: outcome 2)
    with 2 todo_update [OF ids es 2(2)] show ?thesis by (simp add: sound_def)
  qed simp
qed

lemma relay_step_sound:
  assumes ok: "outbox_ok w" and at: "stands w p" and run: "relay_step p w = (p', w')"
  shows "sound w p' w'"
proof (cases p)
  case Reading
  from ok have batch: "todo w (relay_batch (db w))"
    using relay_batch_props [of "db w"] by (simp add: todo_def outbox_ok_def list_all_iff)
  have "outbox (db w') = outbox (db w) \<and> stream w' = stream w \<and> relay_running w' = relay_running w \<and>
      (p' = Finished \<or> p' = next_event (relay_batch (db w)))"
    using run Reading by (auto simp: db_read_def db_do_def Let_def split: if_splits)
  with ok batch show ?thesis by (intro sound_idle) auto
next
  case (Publishing e es)
  obtain q w1 where publish: "publishEventToStream (publishable e) w = (q, w1)" by fastforce
  then have w1: "db w1 = db w \<and> prefix (stream w) (stream w1) \<and> relay_running w1 = relay_running w"
    unfolding publishEventToStream_def by (rule redis_step) simp
  have es: "todo w1 (e # es)" using at Publishing w1 by (simp add: todo_keep)
  show ?thesis
  proof (cases q)
    case (Inl err)
    with run Publishing publish attempt_failed_stands [OF es, of err p' w'] have "w' = w1" "stands w1 p'" by auto
    with ok w1 outbox_ok_keep [of w w1] show ?thesis by (simp add: sound_def)
  next
    case (Inr x)
    with publish have "published_as e w1"
      by (auto simp: publishEventToStream_def redis_do_def Let_def published_as_def split: if_splits)
    with Inr run Publishing publish es ok w1 outbox_ok_keep [of w w'] show ?thesis
      by (auto simp: sound_def stamped_def published_as_def intro: todo_keep)
  qed
next
  case (Marking e es now)
  obtain q w1 where mark: "db_do (mark_published (ob_id e) now) w = (q, w1)" by fastforce
  have "attempt_outcome e w' (e\<lparr>ob_publishedAt := Some now, ob_lastError := None\<rparr>)" if "stream w' = stream w" for w'
    by (rule outcome_published) (use at Marking that in \<open>simp add: published_as_def\<close>)
  note upd = sound_update [OF ok _ mark [unfolded mark_published_def] this]
  show ?thesis
  proof (cases q)
    case (Inl err)
    with upd at Marking have w1: "outbox (db w1) = outbox (db w)" "stream w1 = stream w" "relay_running w1 = relay_running w" by auto
    with at Marking have es: "todo w1 (e # es)" by (simp add: todo_def)
    with Inl run Marking mark attempt_failed_stands [OF es, of err p' w'] have "w' = w1" "stands w1 p'" by auto
    with ok w1 outbox_ok_keep [of w w1] show ?thesis by (simp add: sound_def)
  next
    case (Inr x)
    with upd at Marking run mark show ?thesis by auto
  qed
next
  case (Burying e es reason)
  obtain q w1 where bury: "moveToDeadLetter (publishable e) reason w = (q, w1)" by fastforce
  then have w1: "db w1 = db w \<and> prefix (stream w) (stream w1) \<and> relay_running w1 = relay_running w"
    unfolding moveToDeadLetter_def by (rule redis_step) simp
  with ok at Burying run bury show ?thesis
    by (intro sound_idle) (auto simp: stamped_def)
next
  case (Closing e es reason now)
  obtain q w1 where mark: "db_do (mark_dead (ob_id e) (ob_attempts e + 1) reason now) w = (q, w1)" by fastforce
  from at Closing have "ob_attempts e + 1 = MAX_ATTEMPTS" by simp
  note upd = sound_update [OF ok _ mark [unfolded mark_dead_def] outcome_dead [OF this, where r = reason and t = now]]
  from at Closing run mark upd ok show ?thesis
    by (cases q) (auto intro: sound_idle)
next
  case (Counting e es reason)
  obtain q w1 where mark: "db_do (mark_failed (ob_id e) (ob_attempts e + 1) reason) w = (q, w1)" by fastforce
  from at Counting have "ob_attempts e + 1 < MAX_ATTEMPTS" by simp
  note upd = sound_update [OF ok _ mark [unfolded mark_failed_def] outcome_retry [OF this, where r = reason]]
  from at Counting run mark upd ok show ?thesis
    by (cases q) (auto intro: sound_idle)
next
  case Finished
  with ok run show ?thesis by (simp add: sound_def)
qed

text \<open>At most one tick is in progress, exactly when the flag is up, and it stands where its batch lets it.\<close>

fun relay_safe :: "ticking \<Rightarrow> bool" where
  "relay_safe (w, ts) \<longleftrightarrow> outbox_ok w \<and>
     (case ts of [] \<Rightarrow> \<not> relay_running w | [p] \<Rightarrow> relay_running w \<and> p \<noteq> Finished \<and> stands w p | _ \<Rightarrow> False)"

lemma relay_safe_cases:
  assumes "relay_safe (w, ts)"
  obtains "outbox_ok w" "ts = []" "\<not> relay_running w"
  | p where "outbox_ok w" "ts = [p]" "relay_running w" "p \<noteq> Finished" "stands w p"
  using assms by (auto split: list.splits)

lemma relay_safe_one:
  assumes "relay_safe (w, ts @ p # us)"
  shows "ts = []" "us = []" "outbox_ok w" "relay_running w" "stands w p"
  using relay_safe_cases [OF assms] by (auto simp: append_eq_Cons_conv)

lemma interleaves_safe:
  assumes "interleaves ok up c c'" "relay_safe c"
  shows "relay_safe c'"
  using assms
proof (induction rule: interleaves.induct)
  case (elsewhere w w' ts)
  from elsewhere.hyps(2) have same: "set (outbox (db w)) \<subseteq> set (outbox (db w'))" "stream w' = stream w" "relay_running w' = relay_running w"
    by (auto simp: appending_def appends_def)
  from elsewhere.prems show ?case
  proof (cases rule: relay_safe_cases)
    case 1
    with same appending_outbox_ok [OF elsewhere.hyps(2)] show ?thesis by simp
  next
    case (2 p)
    with same appending_outbox_ok [OF elsewhere.hyps(2)] stands_keep [of w p w'] show ?thesis by simp
  qed
next
  case (fires w ts)
  from fires.prems show ?case
    by (cases rule: relay_safe_cases) (auto intro: outbox_ok_keep)
next
  case (answers w p p' w' ts us)
  note p = relay_safe_one [OF answers.prems]
  from relay_step_sound [OF p(3,5) answers.hyps(3)] p show ?case
    by (auto simp: sound_def intro: outbox_ok_keep)
next
  case (crashes w ts)
  then show ?case by (simp add: restarted_outbox_ok)
qed

lemma interleaved_safe: "interleaved ok up c c' \<Longrightarrow> relay_safe c \<Longrightarrow> relay_safe c'"
  by (induction rule: rtranclp_induct) (auto intro: interleaves_safe)

section \<open>Exactly once while the calls of the relay are answered\<close>

definition answered :: "world \<Rightarrow> bool" where
  "answered w \<longleftrightarrow> txn w \<noteq> TxAborted \<and> \<not> fails (host w) (tick w)"

text \<open>The id by which a consumer of the stream tells entries apart.\<close>

definition entry_id :: "(string \<times> string) list \<Rightarrow> string option" where
  "entry_id x = map_of x ''eventId''"

lemma entry_id_stream_entry [simp]: "entry_id (stream_entry ev) = Some (pe_eventId ev)"
  by (simp add: entry_id_def stream_entry_def)

definition is_delivered :: "OutboxEvent \<Rightarrow> bool" where
  "is_delivered e \<longleftrightarrow> ob_publishedAt e \<noteq> None \<and> ob_attempts e < MAX_ATTEMPTS"

definition delivered_ids :: "db \<Rightarrow> string set" where
  "delivered_ids d = ob_eventId ` set (filter is_delivered (outbox d))"

fun marking_ids :: "relay_await list \<Rightarrow> string set" where
  "marking_ids [Marking e es now] = {ob_eventId e}"
| "marking_ids ts = {}"

fun unharmed :: "relay_await \<Rightarrow> bool" where
  "unharmed (Burying e es reason) \<longleftrightarrow> False"
| "unharmed (Closing e es reason now) \<longleftrightarrow> False"
| "unharmed (Counting e es reason) \<longleftrightarrow> False"
| "unharmed p \<longleftrightarrow> True"

text \<open>The stream holds one entry for each delivered event and for the event being marked.\<close>

fun once :: "ticking \<Rightarrow> bool" where
  "once (w, ts) \<longleftrightarrow> distinct (map ob_eventId (outbox (db w))) \<and> distinct (map entry_id (stream w)) \<and>
     set (map entry_id (stream w)) = Some ` (delivered_ids (db w) \<union> marking_ids ts) \<and> list_all unharmed ts"

lemma next_event_quiet [simp]: "marking_ids [next_event es] = {}" "unharmed (next_event es)"
  by (cases es; simp)+

lemma once_cong:
  "once (w, ts) \<Longrightarrow> outbox (db w') = outbox (db w) \<Longrightarrow> stream w' = stream w \<Longrightarrow> marking_ids ts' = marking_ids ts \<Longrightarrow>
   list_all unharmed ts' \<Longrightarrow> once (w', ts')"
  by (simp add: delivered_ids_def)

lemma once_appending: "appending w w' \<Longrightarrow> once (w, ts) \<Longrightarrow> once (w', ts)"
  by (auto simp: appending_def appends_def delivered_ids_def fresh_row_def is_delivered_def filter_empty_conv)

lemma once_publish:
  assumes "once (w, [Publishing e es])" "todo w (e # es)" "outbox (db w') = outbox (db w)"
    and "stream w' = stream w @ [stream_entry (publishable e)]"
  shows "once (w', [Marking e es now])"
proof -
  have "ob_eventId e \<notin> delivered_ids (db w)"
  proof
    assume "ob_eventId e \<in> delivered_ids (db w)"
    then obtain x where x: "x \<in> set (outbox (db w))" "is_delivered x" "ob_eventId x = ob_eventId e"
      by (auto simp: delivered_ids_def)
    with assms(1,2) have "x = e" by (auto simp: todo_def dest: distinct_map_eq)
    with x assms(2) show False by (simp add: todo_def is_due_def is_delivered_def)
  qed
  with assms show ?thesis by (auto simp: delivered_ids_def publishable_def)
qed

lemma once_mark:
  assumes "once (w, [Marking e es now])" "todo w (e # es)" "distinct (map ob_id (outbox (db w)))"
    and rows: "outbox (db w') = update_where (\<lambda>r. ob_id r = ob_id e)
      (\<lambda>_. e\<lparr>ob_publishedAt := Some now, ob_lastError := None\<rparr>) (outbox (db w))"
    and "stream w' = stream w"
  shows "once (w', [next_event es])"
proof -
  have row: "ob_eventId x = ob_eventId e" if "x \<in> set (outbox (db w))" "ob_id x = ob_id e" for x
    using that assms(2,3) by (auto simp: todo_def dest: distinct_map_eq)
  then have "map ob_eventId (outbox (db w')) = map ob_eventId (outbox (db w))"
    by (auto simp: rows update_where_def)
  moreover have "delivered_ids (db w') = insert (ob_eventId e) (delivered_ids (db w))"
  proof (intro set_eqI iffI)
    fix i assume "i \<in> delivered_ids (db w')"
    then show "i \<in> insert (ob_eventId e) (delivered_ids (db w))"
      by (auto simp: delivered_ids_def rows set_update_where)
  next
    fix i assume i: "i \<in> insert (ob_eventId e) (delivered_ids (db w))"
    have e: "ob_eventId e \<in> delivered_ids (db w')"
      unfolding delivered_ids_def
      by (rule rev_image_eqI [of "e\<lparr>ob_publishedAt := Some now, ob_lastError := None\<rparr>"])
        (use assms(2) in \<open>auto simp: rows set_update_where todo_def is_due_def is_delivered_def\<close>)
    from i consider "i = ob_eventId e" | x where "x \<in> set (outbox (db w))" "is_delivered x" "i = ob_eventId x"
      by (auto simp: delivered_ids_def)
    then show "i \<in> delivered_ids (db w')"
    proof cases
      case (2 x)
      then show ?thesis
        using e row by (cases "ob_id x = ob_id e") (auto simp: delivered_ids_def rows set_update_where)
    qed (use e in simp)
  qed
  ultimately show ?thesis using assms(1,5) by simp
qed

lemma once_answered:
  assumes once: "once (w, [p])" and at: "stands w p" and ids: "distinct (map ob_id (outbox (db w)))"
    and ok: "answered w" and run: "relay_step p w = (p', w')"
  shows "once (w', [p'])"
proof (cases p)
  case Reading
  with run ok have "outbox (db w') = outbox (db w)" "stream w' = stream w" "p' = next_event (relay_batch (db w))"
    by (auto simp: db_read_def db_do_def Let_def answered_def)
  with once Reading show ?thesis by (simp add: delivered_ids_def)
next
  case (Publishing e es)
  with run ok have "db w' = db w" "stream w' = stream w @ [stream_entry (publishable e)]"
      "p' = Marking e es (clock (host w) (tick w + 1))"
    by (auto simp: publishEventToStream_def redis_do_def Let_def answered_def stamped_def)
  with once_publish [of w e es w'] once at Publishing show ?thesis by simp
next
  case (Marking e es now)
  with at have es: "todo w (e # es)" by simp
  obtain q w1 where mark: "db_do (mark_published (ob_id e) now) w = (q, w1)" by fastforce
  from update_step [OF ids es mark [unfolded mark_published_def]] ok
  have "outbox (db w1) = update_where (\<lambda>r. ob_id r = ob_id e)
      (\<lambda>_. e\<lparr>ob_publishedAt := Some now, ob_lastError := None\<rparr>) (outbox (db w))" "stream w1 = stream w" "\<exists>x. q = Inr x"
    by (auto simp: answered_def)
  moreover from this mark run Marking have "w' = w1" "p' = next_event es" by auto
  ultimately show ?thesis using once_mark [OF once [unfolded Marking] es ids] by simp
qed (use once run in auto)

lemma interleaves_once:
  assumes "interleaves answered True c c'" "relay_safe c" "once c"
  shows "once c'"
  using assms
proof (induction rule: interleaves.induct)
  case (elsewhere w w' ts)
  then show ?case by (blast intro: once_appending)
next
  case (fires w ts)
  from fires.prems(1) show ?case
    by (cases rule: relay_safe_cases) (use fires.prems(2) in \<open>auto intro: once_cong\<close>)
next
  case (answers w p p' w' ts us)
  note p = relay_safe_one [OF answers.prems(1)]
  from p(3) have ids: "distinct (map ob_id (outbox (db w)))" by (simp add: outbox_ok_def)
  from answers.prems(2) p have "once (w, [p])" by simp
  from once_answered [OF this p(5) ids answers.hyps(1,3)] have "once (w', [p'])" .
  with p show ?case by (auto intro: once_cong)
qed simp

lemma interleaved_once: "interleaved answered True c c' \<Longrightarrow> relay_safe c \<Longrightarrow> once c \<Longrightarrow> relay_safe c' \<and> once c'"
  by (induction rule: rtranclp_induct) (auto intro: interleaves_safe interleaves_once)

section \<open>The entries of the stream\<close>

text \<open>
  An entry comes from a row of the outbox, and the row's payload is one of the interface its event type names
  (\<open>CsmsEventPayloadMap\<close>), which the database and the type of \<open>writeOutbox\<close> do not check.
\<close>

definition well_typed :: "OutboxEvent \<Rightarrow> bool" where
  "well_typed e \<longleftrightarrow> payload_type (ob_payload e) = ob_eventType e"

definition typed_events :: "world \<Rightarrow> bool" where
  "typed_events w \<longleftrightarrow> list_all well_typed (outbox (db w)) \<and>
     set (stream w) \<subseteq> (\<lambda>e. stream_entry (publishable e)) ` set (outbox (db w))"

lemma same_keys:
  assumes "map event_key rows' = map event_key rows"
  shows "list_all well_typed rows' = list_all well_typed rows"
    "(\<lambda>e. stream_entry (publishable e)) ` set rows' = (\<lambda>e. stream_entry (publishable e)) ` set rows"
proof -
  have "well_typed e = (\<lambda>(_, _, ty, _, _, p, _). payload_type p = ty) (event_key e)" for e
    by (simp add: well_typed_def event_key_def)
  then have "list_all well_typed es = list_all (\<lambda>(_, _, ty, _, _, p, _). payload_type p = ty) (map event_key es)" for es
    by (simp add: list_all_iff)
  with assms show "list_all well_typed rows' = list_all well_typed rows" by simp
  define entry where "entry = (\<lambda>(i :: int, eventId, ty, aty, aid, p, occurred). stream_entry
    \<lparr>pe_eventId = eventId, pe_eventType = event_type_text ty, pe_occurredAt = date_iso occurred, pe_aggregateType = aty,
     pe_aggregateId = aid, pe_payload = payload_json p\<rparr>)"
  have "(\<lambda>e. stream_entry (publishable e)) ` set es = entry ` set (map event_key es)" for es
    by (auto simp: image_image entry_def event_key_def publishable_def)
  with assms show "(\<lambda>e. stream_entry (publishable e)) ` set rows' = (\<lambda>e. stream_entry (publishable e)) ` set rows"
    by (metis list.set_map)
qed

lemma update_outbox_keys:
  assumes "db_do (update_outbox i f) w = (r, w')" "\<And>e. event_key (f e) = event_key e"
  shows "map event_key (outbox (db w')) = map event_key (outbox (db w)) \<and> stream w' = stream w"
  using assms by (auto simp: db_do_def Let_def store_defs op_Inr map_update_where [of event_key f] split: if_splits sum.splits)

text \<open>A step of a tick changes the delivery columns of rows, and publishes nothing but the event it stands at.\<close>

lemma relay_step_keys:
  assumes "relay_step p w = (p', w')"
  shows "map event_key (outbox (db w')) = map event_key (outbox (db w))"
    "stream w' = stream w \<or> (\<exists>e es. p = Publishing e es \<and> stream w' = stream w @ [stream_entry (publishable e)])"
proof -
  have "map event_key (outbox (db w')) = map event_key (outbox (db w)) \<and>
    (stream w' = stream w \<or> (\<exists>e es. p = Publishing e es \<and> stream w' = stream w @ [stream_entry (publishable e)]))"
  proof (cases p)
    case Reading
    with assms show ?thesis by (auto simp: db_read_def db_do_def Let_def split: if_splits)
  next
    case (Publishing e es)
    with assms show ?thesis
      by (auto simp: publishEventToStream_def redis_do_def Let_def attempt_failed_def stamped_def split: if_splits)
  next
    case (Burying e es reason)
    with assms show ?thesis
      by (auto simp: moveToDeadLetter_def redis_do_def Let_def stamped_def split: if_splits)
  next
    case (Marking e es now)
    obtain q w1 where mark: "db_do (mark_published (ob_id e) now) w = (q, w1)" by fastforce
    from update_outbox_keys [OF mark [unfolded mark_published_def]] Marking mark assms show ?thesis
      by (cases q) (simp_all add: event_key_def attempt_failed_def Let_def)
  next
    case (Closing e es reason now)
    obtain q w1 where mark: "db_do (mark_dead (ob_id e) (ob_attempts e + 1) reason now) w = (q, w1)" by fastforce
    from update_outbox_keys [OF mark [unfolded mark_dead_def]] Closing mark assms show ?thesis
      by (cases q) (simp_all add: event_key_def)
  next
    case (Counting e es reason)
    obtain q w1 where mark: "db_do (mark_failed (ob_id e) (ob_attempts e + 1) reason) w = (q, w1)" by fastforce
    from update_outbox_keys [OF mark [unfolded mark_failed_def]] Counting mark assms show ?thesis
      by (cases q) (simp_all add: event_key_def)
  qed (use assms in simp)
  then show "map event_key (outbox (db w')) = map event_key (outbox (db w))"
    "stream w' = stream w \<or> (\<exists>e es. p = Publishing e es \<and> stream w' = stream w @ [stream_entry (publishable e)])" by simp_all
qed

lemma interleaves_typed:
  assumes "interleaves ok up c c'" "relay_safe c" "typed_events (fst c)"
  shows "typed_events (fst c')"
  using assms
proof (induction rule: interleaves.induct)
  case (elsewhere w w' ts)
  then show ?case
    by (auto simp: typed_events_def appending_def appends_def fresh_row_def well_typed_def list_all_iff)
next
  case (fires w ts)
  then show ?case by (auto simp: typed_events_def)
next
  case (answers w p p' w' ts us)
  note p = relay_safe_one [OF answers.prems(1)] and keys = relay_step_keys [OF answers.hyps(3)]
  from answers.prems(2) same_keys [OF keys(1)]
  have "list_all well_typed (outbox (db w'))"
    "set (stream w) \<subseteq> (\<lambda>e. stream_entry (publishable e)) ` set (outbox (db w'))" by (simp_all add: typed_events_def)
  moreover have "stream_entry (publishable e) \<in> (\<lambda>e. stream_entry (publishable e)) ` set (outbox (db w'))"
    if "p = Publishing e es" for e es
    using p(5) that same_keys(2) [OF keys(1)] by (auto simp: todo_def)
  ultimately have "typed_events w'" using keys(2) by (auto simp: typed_events_def)
  then show ?case by (auto simp: typed_events_def)
next
  case (crashes w ts)
  then show ?case by (simp add: typed_events_def)
qed

lemma interleaved_typed: "interleaved ok up c c' \<Longrightarrow> relay_safe c \<Longrightarrow> typed_events (fst c) \<Longrightarrow> typed_events (fst c') \<and> relay_safe c'"
  by (induction rule: rtranclp_induct) (auto intro: interleaves_safe interleaves_typed)

section \<open>What holds under every interleaving\<close>

lemma count_list_distinct: "distinct xs \<Longrightarrow> count_list xs x = (if x \<in> set xs then 1 else 0)"
  by (induction xs) auto

text \<open>
  A run to try the theorems on: the timer fires, the batch is read and its first event published, the relay is stopped while
  the entry is being marked, and the tick goes on to the second event.
\<close>

fun answer :: "ticking \<Rightarrow> ticking" where
  "answer (w, [p]) = (case relay_step p w of
     (p', w') \<Rightarrow> if p' = Finished then (w'\<lparr>relay_running := False\<rparr>, []) else (w', [p']))"
| "answer c = c"

definition sample_fired :: ticking where
  "sample_fired = (sample_world\<lparr>relay_timer := True, relay_running := True\<rparr>, [Reading])"

definition sample_published :: ticking where
  "sample_published = answer (answer sample_fired)"

definition sample_ticking :: ticking where
  "sample_ticking = answer (snd (stopOutboxRelay (fst sample_published)), snd sample_published)"

lemma interleaves_answer:
  "ok w \<Longrightarrow> p \<noteq> Finished \<Longrightarrow> interleaves ok up (w, [p]) (answer (w, [p]))"
  using answers [of ok w p _ _ up "[]" "[]"] by (auto split: prod.splits if_splits)

lemma sample_published_at:
  "\<exists>w e es now. sample_published = (w, [Marking e es now]) \<and> answered w \<and> stream w \<noteq> []"
  by (simp add: sample_published_def sample_fired_def db_read_def db_do_def Let_def relay_batch_def sample_db_def is_due_def
      BATCH_SIZE_def MAX_ATTEMPTS_def publishEventToStream_def redis_do_def stamped_def answered_def)

lemma sample_stream: "stream (fst sample_ticking) \<noteq> []"
proof -
  obtain w e es now where at: "sample_published = (w, [Marking e es now])" "stream w \<noteq> []" using sample_published_at by blast
  obtain p' w' where step: "relay_step (Marking e es now) (snd (stopOutboxRelay w)) = (p', w')" by fastforce
  then have "stream (fst sample_ticking) = stream w'"
    unfolding sample_ticking_def at(1) fst_conv snd_conv answer.simps by (simp del: relay_step.simps)
  with relay_step_keys(2) [OF step] at(2) show ?thesis by (auto simp: stopOutboxRelay_def)
qed

lemma sample_interleaved:
  assumes "ok = (\<lambda>_. True) \<or> ok = answered"
  shows "interleaved ok up (sample_world\<lparr>relay_timer := True\<rparr>, []) sample_ticking"
proof -
  let ?w = "sample_world\<lparr>relay_timer := True, relay_running := True\<rparr>"
  have "interleaves ok up (sample_world\<lparr>relay_timer := True\<rparr>, []) sample_fired"
    using fires [of "sample_world\<lparr>relay_timer := True\<rparr>" ok up "[]"] by (simp add: sample_fired_def)
  moreover have "interleaves ok up sample_fired (answer sample_fired)"
    unfolding sample_fired_def by (rule interleaves_answer) (use assms in \<open>auto simp: answered_def\<close>)
  moreover have "interleaves ok up (answer sample_fired) sample_published"
  proof -
    have "\<exists>w e es. answer sample_fired = (w, [Publishing e es]) \<and> answered w"
      by (simp add: sample_fired_def db_read_def db_do_def Let_def relay_batch_def sample_db_def is_due_def
          BATCH_SIZE_def MAX_ATTEMPTS_def answered_def)
    then obtain w e es where at: "answer sample_fired = (w, [Publishing e es])" "answered w" by blast
    show ?thesis unfolding sample_published_def at(1)
      by (rule interleaves_answer) (use assms at in auto)
  qed
  moreover obtain w e es now where at: "sample_published = (w, [Marking e es now])" "answered w"
    using sample_published_at by blast
  moreover have "interleaves ok up (w, [Marking e es now]) (snd (stopOutboxRelay w), [Marking e es now])"
    by (rule elsewhere) (auto simp: runs_def stopOutboxRelay_def appending_def appends_refl intro: relay_stop)
  moreover have "interleaves ok up (snd (stopOutboxRelay w), [Marking e es now]) sample_ticking"
    unfolding sample_ticking_def at(1) fst_conv snd_conv
    by (rule interleaves_answer) (use assms at in \<open>auto simp: answered_def stopOutboxRelay_def\<close>)
  ultimately show ?thesis by (metis (no_types, lifting) converse_rtranclp_into_rtranclp rtranclp.rtrancl_refl)
qed

lemma sample_start:
  "outbox_ok (sample_world\<lparr>relay_timer := True\<rparr>)" "\<not> relay_running (sample_world\<lparr>relay_timer := True\<rparr>)"
  "distinct (map ob_eventId (outbox (db (sample_world\<lparr>relay_timer := True\<rparr>))))"
  "stream (sample_world\<lparr>relay_timer := True\<rparr>) = []"
  by (simp_all add: outbox_ok_def delivery_ok_def MAX_ATTEMPTS_def sample_event_def sample_db_def sample_world_def boot_world_def
      show_int_def)

lemma uninterrupted_interleaves:
  "p \<noteq> Finished \<Longrightarrow> interleaved (\<lambda>_. True) False (w, [p]) ((uninterrupted p w)\<lparr>relay_running := False\<rparr>, [])"
proof (induction p w rule: uninterrupted.induct)
  case (1 p w)
  obtain p' w' where step: "relay_step p w = (p', w')" by fastforce
  have first: "interleaves (\<lambda>_. True) False (w, [p]) (if p' = Finished then (w'\<lparr>relay_running := False\<rparr>, []) else (w', [p']))"
    using answers [of "\<lambda>_. True" w p p' w' False "[]" "[]"] 1(2) step by (simp split: if_splits)
  show ?case
  proof (cases "p' = Finished")
    case True
    with first uninterrupted_step [OF 1(2) step] show ?thesis by (simp add: r_into_rtranclp)
  next
    case False
    with first have "interleaves (\<lambda>_. True) False (w, [p]) (w', [p'])" by simp
    from converse_rtranclp_into_rtranclp [of "interleaves (\<lambda>_. True) False", OF this 1(1) [OF 1(2) step [symmetric] False]]
    show ?thesis by (simp add: uninterrupted_step [OF 1(2) step])
  qed
qed

lemma tick_interleaves:
  assumes "relay_timer w" "relay_tick w = (r, w')"
  shows "interleaved (\<lambda>_. True) False (w, []) (w', [])"
proof (cases "relay_running w")
  case True
  with assms show ?thesis by (simp add: relay_tick_def)
next
  case False
  with fires [OF assms(1), of "\<lambda>_. True" False "[]"]
  have "interleaves (\<lambda>_. True) False (w, []) (w\<lparr>relay_running := True\<rparr>, [Reading])" by simp
  from converse_rtranclp_into_rtranclp [of "interleaves (\<lambda>_. True) False", OF this uninterrupted_interleaves [of Reading]]
  show ?thesis using tick_is_its_steps [of w] False assms(2) by simp
qed

text \<open>The model in which a tick of the relay is one atomic step is a refinement of the one in which the ticks are interleaved,
  await by await, with every other event of the process: what the coarse model reaches, the fine one reaches too.\<close>

theorem atomic_ticks_are_interleavings:
  assumes "reaches w w'"
  shows "interleaved (\<lambda>_. True) False (w, []) (w', [])"
  using assms unfolding reaches_def
proof (induction rule: rtranclp_induct)
  case (step w1 w2)
  from runs_appends [OF step.hyps(2)] have "interleaved (\<lambda>_. True) False (w1, []) (w2, [])"
    using elsewhere [OF step.hyps(2)] tick_interleaves crashes by (blast intro: r_into_rtranclp)
  with step.IH show ?case by (rule rtranclp_trans)
qed simp

theorem atomic_ticks_are_interleavings_witness:
  "interleaved (\<lambda>_. True) False (sample_world, []) (snd (relay_interval (snd (startOutboxRelay sample_world))), [])"
proof (rule atomic_ticks_are_interleavings)
  have "reaches sample_world (snd (startOutboxRelay sample_world))"
    by (rule reaches_step [OF reaches_refl relay_start [OF surjective_pairing]])
  then show "reaches sample_world (snd (relay_interval (snd (startOutboxRelay sample_world))))"
    by (rule reaches_step [OF _ relay [OF surjective_pairing]])
qed

text \<open>C8. However ticks of the relay and everything else the process does interleave, however calls fail and wherever the process
  crashes and starts again, at most one tick is in progress, the flag is up exactly while it is, and the delivery invariant holds at every await: no row is marked published without
  its entry in the stream unless ten attempts failed.\<close>

theorem ticks_interleave_safely:
  assumes "outbox_ok w" "\<not> relay_running w" and "interleaved (\<lambda>_. True) False (w, []) (w', ts)"
  shows "length ts \<le> 1 \<and> (relay_running w' \<longleftrightarrow> ts \<noteq> []) \<and> outbox_ok w'"
proof -
  from interleaved_safe [OF assms(3)] assms(1,2) have "relay_safe (w', ts)" by simp
  then show ?thesis by (cases rule: relay_safe_cases) auto
qed

theorem ticks_interleave_safely_witness:
  "length (snd sample_ticking) \<le> 1 \<and> (relay_running (fst sample_ticking) \<longleftrightarrow> snd sample_ticking \<noteq> []) \<and>
   outbox_ok (fst sample_ticking)"
  using ticks_interleave_safely [OF sample_start(1,2), of "fst sample_ticking" "snd sample_ticking"]
    sample_interleaved [of "\<lambda>_. True"] by simp

text \<open>C9. As long as Redis and the database answer the relay and the process stays up, every event is published exactly once, under
  every interleaving: the
  stream has one entry for an event that is marked published, or whose mark is under way, and none for the others.\<close>

theorem published_exactly_once:
  assumes "outbox_ok w" "\<not> relay_running w" "distinct (map ob_eventId (outbox (db w)))" "stream w = []"
    and "interleaved answered True (w, []) (w', ts)"
  shows "list_all (\<lambda>e. count_list (map entry_id (stream w')) (Some (ob_eventId e)) =
    (if is_delivered e \<or> ob_eventId e \<in> marking_ids ts then 1 else 0)) (outbox (db w'))"
proof -
  have "delivered_ids (db w) = {}"
    using assms(1,4) by (auto simp: delivered_ids_def is_delivered_def outbox_ok_def delivery_ok_def published_as_def)
  then have "relay_safe (w, [])" "once (w, [])" using assms by simp_all
  from interleaved_once [OF assms(5) this]
  have once: "distinct (map ob_eventId (outbox (db w')))" "distinct (map entry_id (stream w'))"
    "set (map entry_id (stream w')) = Some ` (delivered_ids (db w') \<union> marking_ids ts)" by simp_all
  have "is_delivered e \<longleftrightarrow> ob_eventId e \<in> delivered_ids (db w')" if "e \<in> set (outbox (db w'))" for e
    using that once(1) by (auto simp: delivered_ids_def dest: distinct_map_eq)
  then show ?thesis
    using once(2,3) by (auto simp: list_all_iff count_list_distinct)
qed

theorem published_exactly_once_witness:
  "list_all (\<lambda>e. count_list (map entry_id (stream (fst sample_ticking))) (Some (ob_eventId e)) =
    (if is_delivered e \<or> ob_eventId e \<in> marking_ids (snd sample_ticking) then 1 else 0)) (outbox (db (fst sample_ticking)))"
  using published_exactly_once [OF sample_start, of "fst sample_ticking" "snd sample_ticking"]
    sample_interleaved [of answered] by simp



lemma awaits_left_fold: "awaits_left (fold (\<lambda>w p. fst (relay_step p w)) ws p) \<le> awaits_left p - length ws"
proof (induction ws arbitrary: p)
  case (Cons w ws)
  have "awaits_left (fst (relay_step p w)) \<le> awaits_left p - 1"
    using relay_step_progress [OF surjective_pairing, of p w] by (cases "p = Finished") auto
  with Cons.IH [of "fst (relay_step p w)"] show ?case by simp
qed simp

text \<open>A tick of the relay ends: whatever happens between its awaits and however its calls fail, after \<open>401\<close> answers, four for each
  of the hundred events of a full batch and one for reading it, none is outstanding.\<close>

theorem tick_ends:
  assumes "4 * BATCH_SIZE + 1 \<le> length ws"
  shows "fold (\<lambda>w p. fst (relay_step p w)) ws Reading = Finished"
proof -
  have "awaits_left (fold (\<lambda>w p. fst (relay_step p w)) ws Reading) = 0"
    using awaits_left_fold [of ws Reading] assms by simp
  then show ?thesis by (cases "fold (\<lambda>w p. fst (relay_step p w)) ws Reading") simp_all
qed

theorem tick_ends_witness: "fold (\<lambda>w p. fst (relay_step p w)) (replicate 401 sample_world) Reading = Finished"
  by (rule tick_ends) (simp add: BATCH_SIZE_def)

end
