(* ===== verification/Routes.thy ===== *)
theory Routes
  imports System
begin

text \<open>
  The HTTP application (\<open>packages/core/src/app.ts\<close>, \<open>internal-api/index.ts\<close> and the router files): which handler serves
  which method and path, and the middlewares a request passes on its way.  A path is the list of its segments, without
  the empty one of a trailing slash.  Routers are tried in the order in which they are registered and the first match
  serves the request, as in Express 4: literal segments compare without regard to case, a parameter takes one non-empty
  segment.  The portal's routers are exported for the portal server, which is not in this repository.
\<close>

section \<open>Routers\<close>

datatype segment = Lit string | Par string

datatype guard = InternalAuth | Idempotency | ProvisionLimit

datatype endpoint =
  ToHealth | ToDownload | ToChargerAuth | ToProvision
| ToStations | ToBySerial | ToStation | ToConnection | ToConnectors | ToMessages | ToCommandResults
| ToCommand string | ToUpdateFirmware
| ToDiagnosticsRequest | ToDiagnostics | ToConfigs | ToConfigPut
| ToSessionStart | ToSessionStop
| ToUpload | ToFirmwares | ToCampaignStart | ToCampaign | ToCampaignCancel
| ToProvisionings | ToRegister | ToReject | ToManufacturers | ToManufacturerCreate
| ToTokens | ToToken | ToTokenCreate | ToTokenUpdate | ToTokenDelete

datatype 'e layer = Route "guard list" string "segment list" 'e | Mount "guard list" "string list" "'e layer list"

fun match_path :: "segment list \<Rightarrow> string list \<Rightarrow> (string \<times> string) list option" where
  "match_path [] [] = Some []"
| "match_path (Lit l # ps) (s # ss) = (if js_lower l = js_lower s then match_path ps ss else None)"
| "match_path (Par k # ps) (s # ss) = (if s = [] then None else map_option (Cons (k, s)) (match_path ps ss))"
| "match_path _ _ = None"

fun strip_mount :: "string list \<Rightarrow> string list \<Rightarrow> string list option" where
  "strip_mount [] ss = Some ss"
| "strip_mount (l # ls) (s # ss) = (if js_lower l = js_lower s then strip_mount ls ss else None)"
| "strip_mount (l # ls) [] = None"

text \<open>
  The middlewares passed, and the endpoint with its parameters.  A router whose mount path matches runs its middlewares;
  if none of its routes match, the request goes on behind it.
\<close>

fun dispatch_path :: "'e layer list \<Rightarrow> string \<Rightarrow> string list \<Rightarrow> guard list \<times> ('e \<times> (string \<times> string) list) option" where
  "dispatch_path [] m path = ([], None)"
| "dispatch_path (Route gs m' ps e # ls) m path =
     (case (if m' = m then match_path ps path else None) of
        Some params \<Rightarrow> (gs, Some (e, params))
      | None \<Rightarrow> dispatch_path ls m path)"
| "dispatch_path (Mount gs pre r # ls) m path =
     (case strip_mount pre path of
        None \<Rightarrow> dispatch_path ls m path
      | Some rest \<Rightarrow>
          (case dispatch_path r m rest of
             (passed, Some target) \<Rightarrow> (gs @ passed, Some target)
           | (passed, None) \<Rightarrow> (case dispatch_path ls m path of (further, target) \<Rightarrow> (gs @ passed @ further, target))))"

section \<open>The routers of the internal API\<close>

abbreviation get_route :: "segment list \<Rightarrow> 'e \<Rightarrow> 'e layer" where "get_route \<equiv> Route [] ''GET''"
abbreviation post_route :: "segment list \<Rightarrow> 'e \<Rightarrow> 'e layer" where "post_route \<equiv> Route [] ''POST''"
abbreviation put_route :: "segment list \<Rightarrow> 'e \<Rightarrow> 'e layer" where "put_route \<equiv> Route [] ''PUT''"
abbreviation patch_route :: "segment list \<Rightarrow> 'e \<Rightarrow> 'e layer" where "patch_route \<equiv> Route [] ''PATCH''"
abbreviation delete_route_at :: "segment list \<Rightarrow> 'e \<Rightarrow> 'e layer" where "delete_route_at \<equiv> Route [] ''DELETE''"

definition stationsRouter :: "endpoint layer list" where
  "stationsRouter =
     [get_route [] ToStations,
      get_route [Lit ''by-serial'', Par ''serial''] ToBySerial,
      get_route [Par ''stationId''] ToStation,
      get_route [Par ''stationId'', Lit ''connection''] ToConnection,
      get_route [Par ''stationId'', Lit ''connectors''] ToConnectors,
      get_route [Par ''stationId'', Lit ''ocpp-messages''] ToMessages,
      get_route [Par ''stationId'', Lit ''command-results''] ToCommandResults]"

definition commandsRouter :: "endpoint layer list" where
  "commandsRouter = map (\<lambda>action. post_route [Par ''stationId'', Lit ''commands'', Lit action] (ToCommand action))
     [''reset'', ''change-availability'', ''change-configuration'', ''get-configuration'', ''clear-cache'',
      ''unlock-connector'', ''trigger-message'', ''data-transfer'']"

definition stationFirmwareRouter :: "endpoint layer list" where
  "stationFirmwareRouter = [post_route [Lit ''update''] ToUpdateFirmware]"

definition diagnosticsRouter :: "endpoint layer list" where
  "diagnosticsRouter =
     [post_route [Par ''stationId'', Lit ''diagnostics''] ToDiagnosticsRequest,
      get_route [Par ''stationId'', Lit ''diagnostics''] ToDiagnostics,
      get_route [Par ''stationId'', Lit ''config''] ToConfigs,
      put_route [Par ''stationId'', Lit ''config'', Par ''key''] ToConfigPut]"

definition sessionsRouter :: "endpoint layer list" where
  "sessionsRouter = [post_route [Lit ''start''] ToSessionStart, post_route [Par ''sessionId'', Lit ''stop''] ToSessionStop]"

definition firmwareRouter :: "endpoint layer list" where
  "firmwareRouter =
     [post_route [Lit ''upload''] ToUpload,
      get_route [] ToFirmwares,
      post_route [Lit ''campaigns''] ToCampaignStart,
      get_route [Lit ''campaigns'', Par ''id''] ToCampaign,
      delete_route_at [Lit ''campaigns'', Par ''id''] ToCampaignCancel]"

definition provisioningRouter :: "endpoint layer list" where
  "provisioningRouter =
     [get_route [] ToProvisionings, post_route [] ToRegister, put_route [Par ''id'', Lit ''reject''] ToReject]"

definition manufacturersRouter :: "endpoint layer list" where
  "manufacturersRouter = [get_route [] ToManufacturers, post_route [] ToManufacturerCreate]"

definition idTokensRouter :: "endpoint layer list" where
  "idTokensRouter =
     [get_route [] ToTokens, get_route [Par ''idTag''] ToToken, post_route [] ToTokenCreate,
      put_route [Par ''idTag''] ToTokenUpdate, delete_route_at [Par ''idTag''] ToTokenDelete]"

definition createInternalApiRouter :: "endpoint layer list" where
  "createInternalApiRouter =
     [Mount [] [''stations''] stationsRouter, Mount [] [''stations''] commandsRouter,
      Mount [] [''stations''] stationFirmwareRouter, Mount [] [''stations''] diagnosticsRouter,
      Mount [] [''sessions''] sessionsRouter, Mount [] [''firmware''] firmwareRouter,
      Mount [] [''provisioning''] provisioningRouter, Mount [] [''manufacturers''] manufacturersRouter,
      Mount [] [''id-tokens''] idTokensRouter]"

definition provisionRoutes :: "endpoint layer list" where
  "provisionRoutes = [Route [ProvisionLimit] ''POST'' [] ToProvision]"

text \<open>The middlewares of the internal router are its first layers, so every request below its mount path passes them.
  The charger's endpoint includes its \<open>manufacturerAuth\<close>.\<close>

definition createCoreApp :: "endpoint layer list" where
  "createCoreApp =
     [get_route [Lit ''health''] ToHealth,
      Mount [InternalAuth, Idempotency] [''api'', ''internal'', ''v1''] createInternalApiRouter,
      get_route [Lit ''firmware'', Par ''filename''] ToDownload,
      Route [ProvisionLimit] ''POST'' [Lit ''auths''] ToChargerAuth,
      Mount [] [''provision''] provisionRoutes]"

lemmas core_routers = stationsRouter_def commandsRouter_def stationFirmwareRouter_def diagnosticsRouter_def sessionsRouter_def
  firmwareRouter_def provisioningRouter_def manufacturersRouter_def idTokensRouter_def createInternalApiRouter_def provisionRoutes_def
  createCoreApp_def

section \<open>The address of an endpoint\<close>

definition internal_url :: "string \<Rightarrow> string list \<Rightarrow> string \<times> string list" where
  "internal_url m path = (m, [''api'', ''internal'', ''v1''] @ path)"

text \<open>The method and path of the comments above the routes, with the values of the parameters.\<close>

fun endpoint_url :: "endpoint \<Rightarrow> string \<Rightarrow> string \<Rightarrow> string \<times> string list" where
  "endpoint_url ToHealth a b = (''GET'', [''health''])"
| "endpoint_url ToDownload a b = (''GET'', [''firmware'', a])"
| "endpoint_url ToChargerAuth a b = (''POST'', [''auths''])"
| "endpoint_url ToProvision a b = (''POST'', [''provision''])"
| "endpoint_url ToStations a b = internal_url ''GET'' [''stations'']"
| "endpoint_url ToBySerial a b = internal_url ''GET'' [''stations'', ''by-serial'', a]"
| "endpoint_url ToStation a b = internal_url ''GET'' [''stations'', a]"
| "endpoint_url ToConnection a b = internal_url ''GET'' [''stations'', a, ''connection'']"
| "endpoint_url ToConnectors a b = internal_url ''GET'' [''stations'', a, ''connectors'']"
| "endpoint_url ToMessages a b = internal_url ''GET'' [''stations'', a, ''ocpp-messages'']"
| "endpoint_url ToCommandResults a b = internal_url ''GET'' [''stations'', a, ''command-results'']"
| "endpoint_url (ToCommand c) a b = internal_url ''POST'' [''stations'', a, ''commands'', c]"
| "endpoint_url ToUpdateFirmware a b = internal_url ''POST'' [''stations'', a, ''firmware'', ''update'']"
| "endpoint_url ToDiagnosticsRequest a b = internal_url ''POST'' [''stations'', a, ''diagnostics'']"
| "endpoint_url ToDiagnostics a b = internal_url ''GET'' [''stations'', a, ''diagnostics'']"
| "endpoint_url ToConfigs a b = internal_url ''GET'' [''stations'', a, ''config'']"
| "endpoint_url ToConfigPut a b = internal_url ''PUT'' [''stations'', a, ''config'', b]"
| "endpoint_url ToSessionStart a b = internal_url ''POST'' [''sessions'', ''start'']"
| "endpoint_url ToSessionStop a b = internal_url ''POST'' [''sessions'', a, ''stop'']"
| "endpoint_url ToUpload a b = internal_url ''POST'' [''firmware'', ''upload'']"
| "endpoint_url ToFirmwares a b = internal_url ''GET'' [''firmware'']"
| "endpoint_url ToCampaignStart a b = internal_url ''POST'' [''firmware'', ''campaigns'']"
| "endpoint_url ToCampaign a b = internal_url ''GET'' [''firmware'', ''campaigns'', a]"
| "endpoint_url ToCampaignCancel a b = internal_url ''DELETE'' [''firmware'', ''campaigns'', a]"
| "endpoint_url ToProvisionings a b = internal_url ''GET'' [''provisioning'']"
| "endpoint_url ToRegister a b = internal_url ''POST'' [''provisioning'']"
| "endpoint_url ToReject a b = internal_url ''PUT'' [''provisioning'', a, ''reject'']"
| "endpoint_url ToManufacturers a b = internal_url ''GET'' [''manufacturers'']"
| "endpoint_url ToManufacturerCreate a b = internal_url ''POST'' [''manufacturers'']"
| "endpoint_url ToTokens a b = internal_url ''GET'' [''id-tokens'']"
| "endpoint_url ToToken a b = internal_url ''GET'' [''id-tokens'', a]"
| "endpoint_url ToTokenCreate a b = internal_url ''POST'' [''id-tokens'']"
| "endpoint_url ToTokenUpdate a b = internal_url ''PUT'' [''id-tokens'', a]"
| "endpoint_url ToTokenDelete a b = internal_url ''DELETE'' [''id-tokens'', a]"

fun endpoint_guards :: "endpoint \<Rightarrow> guard list" where
  "endpoint_guards ToHealth = []"
| "endpoint_guards ToDownload = []"
| "endpoint_guards ToChargerAuth = [ProvisionLimit]"
| "endpoint_guards ToProvision = [ProvisionLimit]"
| "endpoint_guards e = [InternalAuth, Idempotency]"

fun endpoint_params :: "endpoint \<Rightarrow> string list" where
  "endpoint_params ToDownload = [''filename'']"
| "endpoint_params ToBySerial = [''serial'']"
| "endpoint_params (ToCommand c) = [''stationId'']"
| "endpoint_params ToConfigPut = [''stationId'', ''key'']"
| "endpoint_params ToSessionStop = [''sessionId'']"
| "endpoint_params e =
     (if e \<in> {ToStation, ToConnection, ToConnectors, ToMessages, ToCommandResults, ToDiagnosticsRequest, ToDiagnostics, ToConfigs}
      then [''stationId'']
      else if e \<in> {ToCampaign, ToCampaignCancel, ToReject} then [''id'']
      else if e \<in> {ToToken, ToTokenUpdate, ToTokenDelete} then [''idTag''] else [])"

lemma lower_literals:
  "js_lower ''health'' = ''health''" "js_lower ''api'' = ''api''" "js_lower ''internal'' = ''internal''"
  "js_lower ''v1'' = ''v1''" "js_lower ''firmware'' = ''firmware''" "js_lower ''auths'' = ''auths''"
  "js_lower ''provision'' = ''provision''" "js_lower ''stations'' = ''stations''" "js_lower ''by-serial'' = ''by-serial''"
  "js_lower ''connection'' = ''connection''" "js_lower ''connectors'' = ''connectors''"
  "js_lower ''ocpp-messages'' = ''ocpp-messages''" "js_lower ''command-results'' = ''command-results''"
  "js_lower ''commands'' = ''commands''" "js_lower ''reset'' = ''reset''"
  "js_lower ''change-availability'' = ''change-availability''" "js_lower ''change-configuration'' = ''change-configuration''"
  "js_lower ''get-configuration'' = ''get-configuration''" "js_lower ''clear-cache'' = ''clear-cache''"
  "js_lower ''unlock-connector'' = ''unlock-connector''" "js_lower ''trigger-message'' = ''trigger-message''"
  "js_lower ''data-transfer'' = ''data-transfer''" "js_lower ''update'' = ''update''" "js_lower ''diagnostics'' = ''diagnostics''"
  "js_lower ''config'' = ''config''" "js_lower ''sessions'' = ''sessions''" "js_lower ''start'' = ''start''"
  "js_lower ''stop'' = ''stop''" "js_lower ''upload'' = ''upload''" "js_lower ''campaigns'' = ''campaigns''"
  "js_lower ''provisioning'' = ''provisioning''" "js_lower ''reject'' = ''reject''"
  "js_lower ''manufacturers'' = ''manufacturers''" "js_lower ''id-tokens'' = ''id-tokens''"
  by code_simp+

lemma core_url_routes:
  assumes "a \<noteq> []" "b \<noteq> []" "js_lower a \<noteq> ''by-serial''" "e \<noteq> ToUpdateFirmware"
    and "\<forall>c. e = ToCommand c \<longrightarrow> c \<in> fst ` set command_calls"
  shows "(case endpoint_url e a b of (m, path) \<Rightarrow> dispatch_path createCoreApp m path) =
    (endpoint_guards e, Some (e, zip (endpoint_params e) [a, b]))"
  using assms
  by (cases e) (auto simp: core_routers internal_url_def lower_literals command_calls_def)

text \<open>The update of one station's firmware is registered without its station: its documented address is not served, and the
  address that serves it has no parameter.\<close>

lemma firmware_update_address:
  "case endpoint_url ToUpdateFirmware a b of (m, path) \<Rightarrow> dispatch_path createCoreApp m path = ([InternalAuth, Idempotency], None)"
  "dispatch_path createCoreApp ''POST'' [''api'', ''internal'', ''v1'', ''stations'', ''update'']
     = ([InternalAuth, Idempotency], Some (ToUpdateFirmware, []))"
  by (simp_all add: core_routers internal_url_def lower_literals)

section \<open>The routers of the portal\<close>

datatype portal_endpoint =
  PStations | PStationCreate | POffline | PFacets | PStation | PStationUpdate | PStationDelete | PFaults | PFaultAdd
| PResetPassword | PTransactions
| PConfigs | PConfigCreate | PConfigUpdate | PConfigDelete
| PFaultLogs | PFaultLogCreate | PFaultLogStatus
| PFirmwareUpload | PFirmwares | PCampaigns | PCampaign | PCampaignCancel | PFirmware | PFirmwareUpdate | PFirmwareDelete
| PCampaignStart
| PManufacturers | PManufacturerCreate | PManufacturer | PManufacturerUpdate | PRegenerateToken | PDeactivate
| PCommands | PCommandStats | PCommand
| PSampleCsv | PBulkUpload | PProvisionings | PRegister | PProvisioning | PProvisioningUpdate | PProvisioningDelete | PRevoke

definition portal_stations :: "portal_endpoint layer list" where
  "portal_stations =
     [get_route [] PStations, post_route [] PStationCreate, get_route [Lit ''offline''] POffline,
      get_route [Lit ''facets''] PFacets, get_route [Par ''id''] PStation, put_route [Par ''id''] PStationUpdate,
      delete_route_at [Par ''id''] PStationDelete, get_route [Par ''id'', Lit ''faults''] PFaults,
      post_route [Par ''id'', Lit ''faults''] PFaultAdd, post_route [Par ''id'', Lit ''reset-password''] PResetPassword,
      get_route [Par ''id'', Lit ''transactions''] PTransactions]"

definition portal_configs :: "portal_endpoint layer list" where
  "portal_configs =
     [get_route [] PConfigs, post_route [] PConfigCreate, put_route [Par ''id''] PConfigUpdate,
      delete_route_at [Par ''id''] PConfigDelete]"

definition portal_faultLogs :: "portal_endpoint layer list" where
  "portal_faultLogs =
     [get_route [] PFaultLogs, post_route [] PFaultLogCreate, patch_route [Par ''id'', Lit ''status''] PFaultLogStatus]"

definition portal_firmware :: "portal_endpoint layer list" where
  "portal_firmware =
     [post_route [] PFirmwareUpload, get_route [] PFirmwares, get_route [Lit ''campaigns''] PCampaigns,
      get_route [Lit ''campaigns'', Par ''id''] PCampaign, post_route [Lit ''campaigns'', Par ''id'', Lit ''cancel''] PCampaignCancel,
      get_route [Par ''id''] PFirmware, patch_route [Par ''id''] PFirmwareUpdate, delete_route_at [Par ''id''] PFirmwareDelete,
      post_route [Par ''id'', Lit ''campaigns''] PCampaignStart]"

definition portal_manufacturers :: "portal_endpoint layer list" where
  "portal_manufacturers =
     [get_route [] PManufacturers, post_route [] PManufacturerCreate, get_route [Par ''id''] PManufacturer,
      put_route [Par ''id''] PManufacturerUpdate, post_route [Par ''id'', Lit ''regenerate-token''] PRegenerateToken,
      delete_route_at [Par ''id''] PDeactivate]"

definition portal_commands :: "portal_endpoint layer list" where
  "portal_commands = [get_route [] PCommands, get_route [Lit ''stats''] PCommandStats, get_route [Par ''id''] PCommand]"

definition portal_provisioning :: "portal_endpoint layer list" where
  "portal_provisioning =
     [get_route [Lit ''sample-csv''] PSampleCsv, post_route [Lit ''bulk-upload''] PBulkUpload, get_route [] PProvisionings,
      post_route [] PRegister, get_route [Par ''id''] PProvisioning, put_route [Par ''id''] PProvisioningUpdate,
      delete_route_at [Par ''id''] PProvisioningDelete, patch_route [Par ''id'', Lit ''revoke''] PRevoke]"

lemmas portal_routers = portal_stations_def portal_configs_def portal_faultLogs_def portal_firmware_def portal_manufacturers_def
  portal_commands_def portal_provisioning_def

text \<open>The example of a bulk registration.\<close>

definition sample_csv :: string where
  "sample_csv = concat (map (\<lambda>line. line @ [CHR 0x0A])
     [''serialNumber,manufacturerChannelId,chargingKwh'', ''SN-VENDOR-2026-001,vendor_a,3.5'',
      ''SN-VENDOR-2026-002,vendor_a,11'', ''SN-VENDOR-2026-003,vendor_b,22''])"

text \<open>The router of an endpoint, its method and its path below the mount point.\<close>

fun portal_url :: "portal_endpoint \<Rightarrow> string \<Rightarrow> portal_endpoint layer list \<times> string \<times> string list" where
  "portal_url PStations a = (portal_stations, ''GET'', [])"
| "portal_url PStationCreate a = (portal_stations, ''POST'', [])"
| "portal_url POffline a = (portal_stations, ''GET'', [''offline''])"
| "portal_url PFacets a = (portal_stations, ''GET'', [''facets''])"
| "portal_url PStation a = (portal_stations, ''GET'', [a])"
| "portal_url PStationUpdate a = (portal_stations, ''PUT'', [a])"
| "portal_url PStationDelete a = (portal_stations, ''DELETE'', [a])"
| "portal_url PFaults a = (portal_stations, ''GET'', [a, ''faults''])"
| "portal_url PFaultAdd a = (portal_stations, ''POST'', [a, ''faults''])"
| "portal_url PResetPassword a = (portal_stations, ''POST'', [a, ''reset-password''])"
| "portal_url PTransactions a = (portal_stations, ''GET'', [a, ''transactions''])"
| "portal_url PConfigs a = (portal_configs, ''GET'', [])"
| "portal_url PConfigCreate a = (portal_configs, ''POST'', [])"
| "portal_url PConfigUpdate a = (portal_configs, ''PUT'', [a])"
| "portal_url PConfigDelete a = (portal_configs, ''DELETE'', [a])"
| "portal_url PFaultLogs a = (portal_faultLogs, ''GET'', [])"
| "portal_url PFaultLogCreate a = (portal_faultLogs, ''POST'', [])"
| "portal_url PFaultLogStatus a = (portal_faultLogs, ''PATCH'', [a, ''status''])"
| "portal_url PFirmwareUpload a = (portal_firmware, ''POST'', [])"
| "portal_url PFirmwares a = (portal_firmware, ''GET'', [])"
| "portal_url PCampaigns a = (portal_firmware, ''GET'', [''campaigns''])"
| "portal_url PCampaign a = (portal_firmware, ''GET'', [''campaigns'', a])"
| "portal_url PCampaignCancel a = (portal_firmware, ''POST'', [''campaigns'', a, ''cancel''])"
| "portal_url PFirmware a = (portal_firmware, ''GET'', [a])"
| "portal_url PFirmwareUpdate a = (portal_firmware, ''PATCH'', [a])"
| "portal_url PFirmwareDelete a = (portal_firmware, ''DELETE'', [a])"
| "portal_url PCampaignStart a = (portal_firmware, ''POST'', [a, ''campaigns''])"
| "portal_url PManufacturers a = (portal_manufacturers, ''GET'', [])"
| "portal_url PManufacturerCreate a = (portal_manufacturers, ''POST'', [])"
| "portal_url PManufacturer a = (portal_manufacturers, ''GET'', [a])"
| "portal_url PManufacturerUpdate a = (portal_manufacturers, ''PUT'', [a])"
| "portal_url PRegenerateToken a = (portal_manufacturers, ''POST'', [a, ''regenerate-token''])"
| "portal_url PDeactivate a = (portal_manufacturers, ''DELETE'', [a])"
| "portal_url PCommands a = (portal_commands, ''GET'', [])"
| "portal_url PCommandStats a = (portal_commands, ''GET'', [''stats''])"
| "portal_url PCommand a = (portal_commands, ''GET'', [a])"
| "portal_url PSampleCsv a = (portal_provisioning, ''GET'', [''sample-csv''])"
| "portal_url PBulkUpload a = (portal_provisioning, ''POST'', [''bulk-upload''])"
| "portal_url PProvisionings a = (portal_provisioning, ''GET'', [])"
| "portal_url PRegister a = (portal_provisioning, ''POST'', [])"
| "portal_url PProvisioning a = (portal_provisioning, ''GET'', [a])"
| "portal_url PProvisioningUpdate a = (portal_provisioning, ''PUT'', [a])"
| "portal_url PProvisioningDelete a = (portal_provisioning, ''DELETE'', [a])"
| "portal_url PRevoke a = (portal_provisioning, ''PATCH'', [a, ''revoke''])"

definition reserved_ids :: "string list" where
  "reserved_ids = [''offline'', ''facets'', ''campaigns'', ''stats'', ''sample-csv'']"

lemma lower_portal_literals:
  "js_lower ''offline'' = ''offline''" "js_lower ''facets'' = ''facets''" "js_lower ''faults'' = ''faults''"
  "js_lower ''reset-password'' = ''reset-password''" "js_lower ''transactions'' = ''transactions''" "js_lower ''status'' = ''status''"
  "js_lower ''cancel'' = ''cancel''" "js_lower ''regenerate-token'' = ''regenerate-token''" "js_lower ''stats'' = ''stats''"
  "js_lower ''sample-csv'' = ''sample-csv''" "js_lower ''bulk-upload'' = ''bulk-upload''" "js_lower ''revoke'' = ''revoke''"
  by code_simp+

lemma portal_url_routes:
  assumes "a \<noteq> []" "js_lower a \<notin> set reserved_ids"
  shows "(case portal_url e a of (router, m, path) \<Rightarrow> map_option fst (snd (dispatch_path router m path))) = Some e"
  using assms
  by (cases e) (auto simp: portal_routers reserved_ids_def lower_portal_literals lower_literals)



end
