(* ===== verification/CoreApp.thy ===== *)
theory CoreApp
  imports Routes ApiProps
begin

text \<open>
  The HTTP application of the core server as one program: a request is routed, passes the middlewares of its route and is
  served by the handler of its endpoint, or answered 404.  Every run of it is an event of the server (theory \<open>System\<close>), so what
  holds of all reachable worlds holds while the server answers arbitrary requests.  How rows and files are
  rendered in a body is a parameter, as is the counter of \<open>express-rate-limit\<close>, a library.
\<close>

section \<open>Bodies and environment\<close>

text \<open>What the handlers answer with.\<close>

datatype core_data =
  StationsData "station_item paged" | SerialData found_station | StationData station_detail | ConnectionData connection_state
| ConnectorsData "Connector list" | MessagesData "OcppMessageRow paged" | ResultsData "OcppCommandResult paged"
| CommandData command_sent | UpdateData sent_update | DiagnosticsData jsval | DiagnosticsListData "DiagnosticsRequest listing"
| ConfigsData "ChargerConfig paged" | ConfigData ChargerConfig | StartedData session_started | StoppedData session_stopped
| FirmwareData Firmware | FirmwaresData "Firmware listing" | CampaignStartedData started_campaign | CampaignData campaign_detail
| CancelledData int | ProvisioningsData "(ChargerProvisioning \<times> ChargingStation option) paged"
| ProvisioningData ChargerProvisioning | ManufacturersData "Manufacturer listing"
| ManufacturerData "Manufacturer \<times> issued_token" | TokensData "IdToken paged" | TokenData IdToken | DeletedData string
| DownloadData download | ChargerData "charger_credentials charger_reply" | ProvisionedData ProvisionResult

record core_env =
  ce_tokens :: "string list"
  ce_render :: "core_data \<Rightarrow> jsval"
  ce_allowed :: "http_request \<Rightarrow> world \<Rightarrow> bool"

type_synonym json_handler = "http_request \<Rightarrow> (bool \<times> jsval http_response) prog"

definition json_error :: "string \<Rightarrow> string \<Rightarrow> jsval" where
  "json_error code message =
     JObj [(''success'', JBool False), (''error'', JObj [(''code'', JStr code), (''message'', JStr message)])]"

text \<open>The 404 handler of \<open>applyErrorHandler\<close> and the answer of the rate limiter.\<close>

definition notFoundHandler :: "jsval http_response" where
  "notFoundHandler = \<lparr>rs_status = 404, rs_body = json_error ''NOT_FOUND'' ''Route not found''\<rparr>"

definition rateLimitHandler :: "jsval http_response" where
  "rateLimitHandler =
     \<lparr>rs_status = 429, rs_body = json_error ''RATE_LIMIT_EXCEEDED'' ''Too many requests. Please try again later.''\<rparr>"

section \<open>Handlers\<close>

text \<open>A route of the internal API, and one whose successful body is the data itself.\<close>

definition api :: "core_env \<Rightarrow> ('a \<Rightarrow> core_data) \<Rightarrow> 'a controller \<Rightarrow> json_handler" where
  "api env f route req = andthen (route req) (\<lambda>a. ret (False, to_json (\<lambda>x. ce_render env (f x)) a))"

definition bare :: "core_env \<Rightarrow> ('a \<Rightarrow> core_data) \<Rightarrow> 'a controller \<Rightarrow> json_handler" where
  "bare env f route req = andthen (route req) (\<lambda>a. ret (False, case rs_body a of
     Data x \<Rightarrow> \<lparr>rs_status = rs_status a, rs_body = ce_render env (f x)\<rparr>
   | _ \<Rightarrow> to_json (\<lambda>x. ce_render env (f x)) a))"

definition health_handler :: json_handler where
  "health_handler req = andthen js_now (\<lambda>now. ret (False, \<lparr>rs_status = 200, rs_body =
     JObj [(''status'', JStr ''ok''), (''service'', JStr ''core''), (''timestamp'', JStr (date_iso now))]\<rparr>))"

fun core_handler :: "core_env \<Rightarrow> endpoint \<Rightarrow> json_handler" where
  "core_handler env ToHealth = health_handler"
| "core_handler env ToDownload = bare env DownloadData firmware_download"
| "core_handler env ToChargerAuth = (\<lambda>req. andthen (charger_endpoint req) (\<lambda>a.
     ret (False, \<lparr>rs_status = rs_status a, rs_body = ce_render env (ChargerData (rs_body a))\<rparr>)))"
| "core_handler env ToProvision = bare env ProvisionedData provision_route"
| "core_handler env ToStations = api env StationsData internal_stations"
| "core_handler env ToBySerial = api env SerialData internal_by_serial"
| "core_handler env ToStation = api env StationData internal_station"
| "core_handler env ToConnection = api env ConnectionData internal_connection"
| "core_handler env ToConnectors = api env ConnectorsData internal_connectors"
| "core_handler env ToMessages = api env MessagesData internal_messages"
| "core_handler env ToCommandResults = api env ResultsData internal_command_results"
| "core_handler env (ToCommand c) = (case map_of command_calls c of
     None \<Rightarrow> (\<lambda>_. ret (False, notFoundHandler)) | Some build \<Rightarrow> api env CommandData (command_route build))"
| "core_handler env ToUpdateFirmware = api env UpdateData internal_update_firmware"
| "core_handler env ToDiagnosticsRequest = api env DiagnosticsData diagnostics_request"
| "core_handler env ToDiagnostics = api env DiagnosticsListData diagnostics_list"
| "core_handler env ToConfigs = api env ConfigsData station_config_list"
| "core_handler env ToConfigPut = api env ConfigData station_config_put"
| "core_handler env ToSessionStart = api env StartedData session_start"
| "core_handler env ToSessionStop = api env StoppedData session_stop"
| "core_handler env ToUpload = api env FirmwareData internal_upload"
| "core_handler env ToFirmwares = api env FirmwaresData internal_firmware_list"
| "core_handler env ToCampaignStart = api env CampaignStartedData internal_campaign_start"
| "core_handler env ToCampaign = api env CampaignData internal_campaign_find"
| "core_handler env ToCampaignCancel = api env CancelledData internal_campaign_cancel"
| "core_handler env ToProvisionings = api env ProvisioningsData internal_list"
| "core_handler env ToRegister = api env ProvisioningData internal_register"
| "core_handler env ToReject = api env ProvisioningData internal_reject"
| "core_handler env ToManufacturers = api env ManufacturersData internal_manufacturers"
| "core_handler env ToManufacturerCreate = api env ManufacturerData internal_create_manufacturer"
| "core_handler env ToTokens = api env TokensData token_list_route"
| "core_handler env ToToken = api env TokenData token_find_route"
| "core_handler env ToTokenCreate = api env TokenData token_create_route"
| "core_handler env ToTokenUpdate = api env TokenData token_update_route"
| "core_handler env ToTokenDelete = api env DeletedData token_delete_route"

section \<open>The application\<close>

fun guarded :: "core_env \<Rightarrow> guard \<Rightarrow> json_handler \<Rightarrow> json_handler" where
  "guarded env InternalAuth k req =
     (case internalAuthMiddleware (ce_tokens env) req of Some refusal \<Rightarrow> ret (False, refusal) | None \<Rightarrow> k req)"
| "guarded env Idempotency k req = idempotencyMiddleware (\<lambda>r. andthen (k r) (\<lambda>(_, a). ret a)) req"
| "guarded env ProvisionLimit k req =
     andthen (ask (ce_allowed env req)) (\<lambda>allowed. if allowed then k req else ret (False, rateLimitHandler))"

definition serve_target :: "core_env \<Rightarrow> (endpoint \<times> (string \<times> string) list) option \<Rightarrow> json_handler" where
  "serve_target env target req = (case target of
     None \<Rightarrow> ret (False, notFoundHandler)
   | Some (e, params) \<Rightarrow> core_handler env e (req\<lparr>rq_params := params\<rparr>))"

definition core_app :: "core_env \<Rightarrow> string \<Rightarrow> string list \<Rightarrow> json_handler" where
  "core_app env m path req = (case dispatch_path createCoreApp m path of
     (guards, target) \<Rightarrow> foldr (guarded env) guards (serve_target env target) req)"

section \<open>Every request is an event of the server\<close>

fun endpoints_of :: "'e layer list \<Rightarrow> 'e list" where
  "endpoints_of [] = []"
| "endpoints_of (Route gs m ps e # ls) = e # endpoints_of ls"
| "endpoints_of (Mount gs pre r # ls) = endpoints_of r @ endpoints_of ls"

fun unguarded :: "'e layer list \<Rightarrow> bool" where
  "unguarded [] \<longleftrightarrow> True"
| "unguarded (Route gs m ps e # ls) \<longleftrightarrow> gs = [] \<and> unguarded ls"
| "unguarded (Mount gs pre r # ls) \<longleftrightarrow> gs = [] \<and> unguarded r \<and> unguarded ls"

lemma dispatch_unguarded: "unguarded ls \<Longrightarrow> fst (dispatch_path ls m path) = []"
  by (induction ls m path rule: dispatch_path.induct) (auto split: option.splits prod.splits)

lemma dispatch_target: "snd (dispatch_path ls m path) = Some (e, ps) \<Longrightarrow> e \<in> set (endpoints_of ls)"
  by (induction ls m path rule: dispatch_path.induct) (auto split: option.splits prod.splits if_splits)

lemma internal_unguarded: "unguarded createInternalApiRouter"
  by (simp add: core_routers)

text \<open>Where the core application routes a request to.\<close>

lemma core_dispatch:
  obtains (internal) rest target where "dispatch_path createCoreApp m path = ([InternalAuth, Idempotency], target)"
      "target = snd (dispatch_path createInternalApiRouter m rest)" "strip_mount [''api'', ''internal'', ''v1''] path = Some rest"
  | (public) e ps where "dispatch_path createCoreApp m path = (endpoint_guards e, Some (e, ps))"
      "e \<in> {ToHealth, ToDownload, ToChargerAuth, ToProvision}" "strip_mount [''api'', ''internal'', ''v1''] path = None"
  | (unrouted) "dispatch_path createCoreApp m path = ([], None)" "strip_mount [''api'', ''internal'', ''v1''] path = None"
proof (cases "strip_mount [''api'', ''internal'', ''v1''] path")
  case (Some rest)
  then obtain a ss where path: "path = a # ss" "js_lower a = ''api''" "strip_mount [''internal'', ''v1''] ss = Some rest"
    by (cases path) (auto simp: lower_literals split: if_splits)
  obtain gs target where r: "dispatch_path createInternalApiRouter m rest = (gs, target)" by fastforce
  with dispatch_unguarded [OF internal_unguarded, of m rest] have "gs = []" by simp
  with Some path r have "dispatch_path createCoreApp m path = ([InternalAuth, Idempotency], target)"
    by (auto simp: createCoreApp_def lower_literals provisionRoutes_def split: option.splits)
  with Some r show thesis by (intro internal) auto
next
  case None
  consider "path = []" | a where "path = [a]" | a b where "path = [a, b]" | a b c rest where "path = a # b # c # rest"
    by (metis neq_Nil_conv)
  then have "dispatch_path createCoreApp m path = ([], None) \<or>
    (\<exists>e ps. dispatch_path createCoreApp m path = (endpoint_guards e, Some (e, ps)) \<and> e \<in> {ToHealth, ToDownload, ToChargerAuth, ToProvision})"
    by cases (use None in \<open>auto simp: createCoreApp_def lower_literals provisionRoutes_def split: if_splits\<close>)
  with None unrouted public show thesis by blast
qed

lemma andthen_ret_pair: "andthen (andthen m (\<lambda>a. ret (False, f a))) (\<lambda>(_, x). ret x) = andthen m (\<lambda>a. ret (f a))"
  by (auto simp: fun_eq_iff andthen_def ret_def split: prod.splits sum.splits)

text \<open>The middlewares and a handler of the internal router are the request of theory \<open>InternalApi\<close>.\<close>

lemma guarded_api:
  "foldr (guarded env) [InternalAuth, Idempotency] (\<lambda>r. api env f route (r\<lparr>rq_params := ps\<rparr>)) req
   = internal_api (ce_tokens env) (\<lambda>x. ce_render env (f x)) route (req\<lparr>rq_params := ps\<rparr>)"
  by (simp add: internal_api_def internalAuthMiddleware_def idempotencyMiddleware_def api_def andthen_ret_pair split: option.splits)

lemma guarded_refusal:
  "foldr (guarded env) [InternalAuth, Idempotency] (\<lambda>r. ret (False, x)) req =
     (case internalAuthMiddleware (ce_tokens env) req of
        Some refusal \<Rightarrow> ret (False, refusal) | None \<Rightarrow> idempotencyMiddleware (\<lambda>_. ret x) req)"
proof -
  have "andthen (ret (False, x)) (\<lambda>(_, a). ret a) = ret x" for x :: "jsval http_response"
    by (simp add: fun_eq_iff andthen_def ret_def)
  then show ?thesis by (simp split: option.splits)
qed

lemma snd_discard: "snd (discard m w) = snd (m w)"
  by (simp add: discard_def andthen_def ret_def split: prod.splits sum.splits)

lemma admin_event: "administers (discard m) \<Longrightarrow> serves w (snd (m w))"
  by (metis serves.admin snd_discard surjective_pairing)

lemma runs_idle: "runs w w"
proof -
  have "serves w (w\<lparr>host := host w\<rparr>)" by (rule environment)
  then show ?thesis by (simp add: runs_def)
qed

lemma serve_some: "serve_target env (Some (e, ps)) = (\<lambda>r. core_handler env e (r\<lparr>rq_params := ps\<rparr>))"
  by (simp add: fun_eq_iff serve_target_def)

lemma internal_event:
  assumes "e \<in> set (endpoints_of createInternalApiRouter)"
  shows "serves w (snd (foldr (guarded env) [InternalAuth, Idempotency] (serve_target env (Some (e, ps))) req w))"
proof (cases "e = ToTokenDelete")
  case True
  show ?thesis
    unfolding serve_some True core_handler.simps guarded_api
    by (rule token_deleted [OF surjective_pairing])
next
  case False
  show ?thesis
  proof (cases "\<exists>c. e = ToCommand c")
    case True
    then obtain c where c: "e = ToCommand c" by blast
    with assms have "c \<in> fst ` set command_calls" by (auto simp: core_routers command_calls_def)
    then obtain build where build: "map_of command_calls c = Some build" by (auto dest: weak_map_of_SomeI)
    show ?thesis
      unfolding serve_some c core_handler.simps build option.case guarded_api
      by (rule admin_event, rule administers.command [OF map_of_SomeD [OF build]])
  next
    case other: False
    show ?thesis
      by (insert assms False other, cases e; simp only: serve_some core_handler.simps guarded_api endpoint.simps;
        ((rule admin_event, rule administers.intros) | (simp add: core_routers)))
  qed
qed

lemma public_event:
  assumes "e \<in> {ToHealth, ToDownload, ToChargerAuth, ToProvision}"
  shows "runs w (snd (foldr (guarded env) (endpoint_guards e) (serve_target env (Some (e, ps))) req w))"
proof -
  have then_ret: "snd (andthen m (\<lambda>a. ret (f a)) w) = snd (m w)" for m :: "'a prog" and f :: "'a \<Rightarrow> bool \<times> jsval http_response" and w
    by (simp add: andthen_def ret_def split: prod.splits sum.splits)
  have run: "snd (core_handler env e r w) = snd (m w)" if "(\<And>x. core_handler env e r x = andthen m (\<lambda>a. ret (f a)) x)"
    for m :: "'a prog" and f :: "'a \<Rightarrow> bool \<times> jsval http_response" and r w
    by (simp add: that then_ret)
  have ev: "serves w (snd (core_handler env e r w))" for r w
    using assms
  proof (elim insertE emptyE)
    assume "e = ToHealth"
    then show ?thesis
      by (simp add: health_handler_def then_ret admin_event [OF administers.health])
  next
    assume "e = ToDownload"
    then show ?thesis
      by (simp add: bare_def then_ret admin_event administers.intros)
  next
    assume "e = ToChargerAuth"
    then show ?thesis
      by (simp add: then_ret admin_event administers.intros)
  next
    assume "e = ToProvision"
    then show ?thesis
      by (simp add: bare_def then_ret admin_event administers.intros)
  qed
  have "runs w (snd (guarded env ProvisionLimit (serve_target env (Some (e, ps))) req w))"
    using ev runs_idle by (simp add: serve_some andthen_def ask_def ret_def runs_def)
  moreover have "runs w (snd (serve_target env (Some (e, ps)) req w))"
    using ev by (simp add: serve_some runs_def)
  ultimately show ?thesis using assms by auto
qed

lemma guarded_unrouted:
  "runs w (snd (foldr (guarded env) [InternalAuth, Idempotency] (serve_target env None) req w))"
proof -
  have "serve_target env None = (\<lambda>r. ret (False, notFoundHandler))" by (simp add: fun_eq_iff serve_target_def)
  then have "foldr (guarded env) [InternalAuth, Idempotency] (serve_target env None) req =
     (case internalAuthMiddleware (ce_tokens env) req of
        Some refusal \<Rightarrow> ret (False, refusal) | None \<Rightarrow> idempotencyMiddleware (\<lambda>_. ret notFoundHandler) req)"
    by (simp only: guarded_refusal)
  then show ?thesis
    using admin_event [OF administers.unrouted, of w notFoundHandler req] runs_idle [of w]
    by (auto simp: runs_def ret_def split: option.splits)
qed



definition closed_env :: core_env where
  "closed_env = \<lparr>ce_tokens = [''0123456789abcdef0123456789abcdef''], ce_render = (\<lambda>_. JNull), ce_allowed = (\<lambda>_ _. True)\<rparr>"


end
