(* ===== verification/Bootstrap.thy ===== *)
theory Bootstrap
  imports System
begin

text \<open>
  The start and the stop of the process: \<open>packages/core/src/bootstrap.ts\<close>.  The start attaches the WebSocket server,
  whose events are those of \<open>System\<close>, starts the relay and the command sweeper and opens the job workers; every
  part of it is a run of \<open>System\<close>, so what holds in all reachable worlds holds across restarts.
\<close>

section \<open>The job workers\<close>

definition set_workers :: "bool \<Rightarrow> unit prog" where
  "set_workers b w = (Inr (), w\<lparr>core_workers := b\<rparr>)"

definition startCoreJobWorkers :: "unit prog" where
  "startCoreJobWorkers = set_workers True"

definition stopCoreJobWorkers :: "unit prog" where
  "stopCoreJobWorkers = set_workers False"

text \<open>A job of either queue; jobs of other types are completed without an effect.\<close>

definition charge_goal_worker :: "jsval \<Rightarrow> unit prog" where
  "charge_goal_worker data = only_if (js_get data ''type'' = JStr ''sessionTimeout'') sessionTimeoutProcessor"

definition cleanup_worker :: "jsval \<Rightarrow> unit prog" where
  "cleanup_worker data = only_if (js_get data ''type'' = JStr ''ocppLogCleanup'') ocppLogCleanupProcessor"

text \<open>A job is taken only by a worker that is open; its error fails the job and nothing else.\<close>

definition run_job :: "string \<Rightarrow> jsval \<Rightarrow> unit prog" where
  "run_job queue data =
     andthen (ask core_workers) (\<lambda>up.
     only_if up (ignore_err
       (if queue = ''charge-goal'' then charge_goal_worker data
        else if queue = ''cleanup'' then cleanup_worker data else ret ())))"

section \<open>Start and stop\<close>

definition setupCoreInfra :: "unit prog" where
  "setupCoreInfra =
     andthen startOutboxRelay (\<lambda>_.
     andthen startOcppCommandSweeper (\<lambda>_.
     startCoreJobWorkers))"

definition core_shutdown :: "unit prog" where
  "core_shutdown =
     andthen stopOcppCommandSweeper (\<lambda>_.
     andthen stopOutboxRelay (\<lambda>_.
     stopCoreJobWorkers))"

section \<open>Starting and stopping are runs of the server\<close>

lemma boot_parts:
  "startOutboxRelay w = (Inr (), w\<lparr>relay_timer := True\<rparr>)"
  "fst (startOcppCommandSweeper w) = Inr ()" "relay_timer (snd (startOcppCommandSweeper w)) = relay_timer w"
  "sweeper_timer (snd (startOcppCommandSweeper w))"
  by (auto simp: startOutboxRelay_def startOcppCommandSweeper_def bootstrapCleanup_def set_sweeper_def prog_defs Let_def
      split: sum.split prod.split)

lemma setup_run:
  "setupCoreInfra w = (Inr (), (snd (startOcppCommandSweeper (w\<lparr>relay_timer := True\<rparr>)))\<lparr>core_workers := True\<rparr>)"
  using boot_parts(2) [of "w\<lparr>relay_timer := True\<rparr>"]
  by (cases "startOcppCommandSweeper (w\<lparr>relay_timer := True\<rparr>)")
    (simp add: setupCoreInfra_def andthen_def boot_parts startCoreJobWorkers_def set_workers_def)

lemma setup_reaches: "reaches w (snd (setupCoreInfra w))"
proof -
  have "reaches w (w\<lparr>relay_timer := True\<rparr>)" by (rule reaches_step [OF reaches_refl relay_start [OF boot_parts(1)]])
  then have "reaches w (snd (startOcppCommandSweeper (w\<lparr>relay_timer := True\<rparr>)))"
    by (rule reaches_step [OF _ sweeper_start [OF surjective_pairing]])
  then show ?thesis unfolding setup_run by (simp add: reaches_step [OF _ workers])
qed

lemma job_serves: "run_job queue data w = (r, w') \<Longrightarrow> w' = w \<or> serves w w'"
  by (auto simp: run_job_def charge_goal_worker_def cleanup_worker_def ignore_err_def catch_err_def andthen_def ask_def only_if_def ret_def
      split: if_splits sum.splits prod.splits intro: session_timeout log_cleanup)

text \<open>The process always comes up, and goes down quietly: whatever calls fail, the start ends with the relay, the sweeper and the
  workers running, in a world the server may reach; the stop turns all three off and touches nothing else, and from then on neither
  a tick nor a job has an effect.\<close>

theorem process_starts_and_stops:
  "\<exists>w1 w2. setupCoreInfra w = (Inr (), w1) \<and> reaches w w1 \<and> relay_timer w1 \<and> sweeper_timer w1 \<and> core_workers w1 \<and>
     core_shutdown w1 = (Inr (), w2) \<and> w2 = w1\<lparr>sweeper_timer := False, relay_timer := False, core_workers := False\<rparr> \<and>
     relay_interval w2 = (Inr (), w2) \<and> sweeper_tick w2 = (Inr (), w2) \<and> run_job queue data w2 = (Inr (), w2)"
proof -
  let ?w1 = "snd (setupCoreInfra w)"
  let ?w2 = "?w1\<lparr>sweeper_timer := False, relay_timer := False, core_workers := False\<rparr>"
  have "setupCoreInfra w = (Inr (), ?w1)" "relay_timer ?w1" "sweeper_timer ?w1" "core_workers ?w1"
    using boot_parts [of "w\<lparr>relay_timer := True\<rparr>"] by (simp_all add: setup_run)
  moreover have "core_shutdown ?w1 = (Inr (), ?w2)"
    by (simp add: core_shutdown_def stopOcppCommandSweeper_def set_sweeper_def stopOutboxRelay_def stopCoreJobWorkers_def set_workers_def andthen_def)
  moreover have "relay_interval ?w2 = (Inr (), ?w2)" "sweeper_tick ?w2 = (Inr (), ?w2)" "run_job queue data ?w2 = (Inr (), ?w2)"
    by (simp_all add: relay_interval_def sweeper_tick_def run_job_def andthen_def ask_def only_if_def ret_def)
  ultimately show ?thesis using setup_reaches by blast
qed

end
