(* ===== verification/Config.thy ===== *)
theory Config
  imports InternalApi
begin

text \<open>
  The environment of the server (\<open>packages/shared/src/config/env.ts\<close>): the schema as a table of rules, and its evaluation as
  zod evaluates it on texts.  \<open>z.coerce.number()\<close> is \<open>Number\<close> (theory \<open>Http\<close>, where infinite values are outside the model); what
  counts as a URL is a parameter.  The transformed flags are Booleans, the other values texts and numbers.
\<close>

section \<open>The schema\<close>

datatype env_rule =
  DefaultText string
| OptionalText
| OptionalLong nat
| LongText nat
| UrlText
| NumberOr rat
| WholeOr rat "rat option" rat
| OneOf "string list" string
| FlagOr string

definition envSchema :: "(string \<times> env_rule) list" where
  "envSchema =
     [(''NODE_ENV'', OneOf [''development'', ''production'', ''test''] ''development''),
      (''PORT'', NumberOr 3000),
      (''TIMEZONE'', DefaultText ''Asia/Ho_Chi_Minh''),
      (''MB_BANK_TZ'', OptionalText),
      (''SETTLEMENT_MORNING_CRON'', DefaultText ''0 5 * * *''),
      (''SETTLEMENT_AFTERNOON_CRON'', DefaultText ''0 16 * * *''),
      (''REFUND_BATCH_CRON'', DefaultText ''0 14 * * *''),
      (''SESSION_TIMEOUT_CRON'', DefaultText ''*/2 * * * *''),
      (''DAILY_CLEANUP_CRON'', DefaultText ''0 3 * * *''),
      (''DATABASE_URL'', UrlText),
      (''REDIS_HOST'', DefaultText ''localhost''),
      (''REDIS_PORT'', NumberOr 6379),
      (''REDIS_PASSWORD'', OptionalText),
      (''JWT_SECRET'', LongText 32),
      (''JWT_EXPIRES_IN'', DefaultText ''24h''),
      (''OCPP_RESPONSE_TIMEOUT_MS'', NumberOr 30000),
      (''OCPP_HEARTBEAT_INTERVAL_SEC'', NumberOr 60),
      (''DEFAULT_UNIT_PRICE_VND'', NumberOr 3500),
      (''MB_BANK_IS_MOCK'', FlagOr ''false''),
      (''MB_BANK_TRANSFER_URL'', OptionalText),
      (''MB_BANK_TRANSFER_MERCHANT_ID'', OptionalText),
      (''MB_BANK_TRANSFER_ACCESS_CODE'', OptionalText),
      (''MB_BANK_TRANSFER_HASH_KEY'', OptionalText),
      (''LOG_LEVEL'', OneOf [''fatal'', ''error'', ''warn'', ''info'', ''debug'', ''trace''] ''info''),
      (''LOG_PRETTY'', FlagOr ''false''),
      (''CORS_ORIGIN'', DefaultText ''https://www.pvpentech.com''),
      (''CSMS_SERVER_URL'', DefaultText ''wss://pvpentech.example.com''),
      (''PROVISION_ALLOWED_CIDRS'', OptionalText),
      (''SWAGGER_USER'', DefaultText ''admin''),
      (''SWAGGER_PASSWORD'', DefaultText ''pvpentech''),
      (''FIRMWARE_STORAGE_DIR'', DefaultText ''./storage/firmware''),
      (''FIRMWARE_BASE_URL'', DefaultText ''https://csms.pvpentech.com/firmware''),
      (''FIRMWARE_MAX_SIZE_MB'', NumberOr 100),
      (''REFUND_ATTEMPT_CONCURRENCY'', WholeOr 1 (Some 50) 5),
      (''REFUND_DISPATCH_CHUNK_SIZE'', WholeOr 1 (Some 5000) 500),
      (''REFUND_DISPATCH_MAX_CANDIDATES'', WholeOr 1 None 10000),
      (''CSMS_INTERNAL_API_TOKEN'', OptionalLong 32),
      (''CSMS_INTERNAL_API_BASE_URL'', DefaultText ''http://localhost:3001/api/internal/v1''),
      (''CORE_PORT'', NumberOr 3001),
      (''PORTAL_PORT'', NumberOr 3002),
      (''LEGACY_PORT'', NumberOr 3000)]"

section \<open>Its evaluation\<close>

definition flag_value :: "string \<Rightarrow> jsval" where
  "flag_value v = JBool (v = ''true'' \<or> v = ''1'')"

definition whole_ok :: "rat \<Rightarrow> rat option \<Rightarrow> rat \<Rightarrow> bool" where
  "whole_ok lo hi n \<longleftrightarrow> n = of_int \<lfloor>n\<rfloor> \<and> lo \<le> n \<and> (case hi of None \<Rightarrow> True | Some h \<Rightarrow> n \<le> h)"

text \<open>The value of a variable that is set, or not set, under its rule; \<open>None\<close> is an issue.\<close>

fun set_value :: "(string \<Rightarrow> bool) \<Rightarrow> env_rule \<Rightarrow> string \<Rightarrow> jsval option" where
  "set_value url (DefaultText d) v = Some (JStr v)"
| "set_value url OptionalText v = Some (JStr v)"
| "set_value url (OptionalLong n) v = (if n \<le> length v then Some (JStr v) else None)"
| "set_value url (LongText n) v = (if n \<le> length v then Some (JStr v) else None)"
| "set_value url UrlText v = (if url v then Some (JStr v) else None)"
| "set_value url (NumberOr d) v = map_option JNum (js_Number v)"
| "set_value url (WholeOr lo hi d) v =
     (case js_Number v of None \<Rightarrow> None | Some n \<Rightarrow> if whole_ok lo hi n then Some (JNum n) else None)"
| "set_value url (OneOf vs d) v = (if v \<in> set vs then Some (JStr v) else None)"
| "set_value url (FlagOr d) v = Some (flag_value v)"

fun unset_value :: "env_rule \<Rightarrow> jsval option" where
  "unset_value (DefaultText d) = Some (JStr d)"
| "unset_value OptionalText = Some JUndefined"
| "unset_value (OptionalLong n) = Some JUndefined"
| "unset_value (LongText n) = None"
| "unset_value UrlText = None"
| "unset_value (NumberOr d) = Some (JNum d)"
| "unset_value (WholeOr lo hi d) = Some (JNum d)"
| "unset_value (OneOf vs d) = Some (JStr d)"
| "unset_value (FlagOr d) = Some (flag_value d)"

definition env_value :: "(string \<Rightarrow> bool) \<Rightarrow> (string \<times> string) list \<Rightarrow> string \<times> env_rule \<Rightarrow> (string \<times> jsval) option" where
  "env_value url vars entry = (case entry of (k, rule) \<Rightarrow>
     map_option (Pair k) (case map_get vars k of None \<Rightarrow> unset_value rule | Some v \<Rightarrow> set_value url rule v))"

text \<open>\<open>safeParse(process.env)\<close>; without a value the process exits.\<close>

definition load_env :: "(string \<Rightarrow> bool) \<Rightarrow> (string \<times> string) list \<Rightarrow> (string \<times> jsval) list option" where
  "load_env url vars = all_some (map (env_value url vars) envSchema)"

definition env_get :: "(string \<times> jsval) list \<Rightarrow> string \<Rightarrow> jsval" where
  "env_get env k = (case map_get env k of None \<Rightarrow> JUndefined | Some v \<Rightarrow> v)"

section \<open>The values have their types\<close>

fun of_rule :: "env_rule \<Rightarrow> jsval \<Rightarrow> bool" where
  "of_rule (DefaultText d) v \<longleftrightarrow> (\<exists>s. v = JStr s)"
| "of_rule OptionalText v \<longleftrightarrow> v = JUndefined \<or> (\<exists>s. v = JStr s)"
| "of_rule (OptionalLong n) v \<longleftrightarrow> v = JUndefined \<or> (\<exists>s. v = JStr s \<and> n \<le> length s)"
| "of_rule (LongText n) v \<longleftrightarrow> (\<exists>s. v = JStr s \<and> n \<le> length s)"
| "of_rule UrlText v \<longleftrightarrow> (\<exists>s. v = JStr s)"
| "of_rule (NumberOr d) v \<longleftrightarrow> (\<exists>n. v = JNum n)"
| "of_rule (WholeOr lo hi d) v \<longleftrightarrow> (\<exists>n. v = JNum n \<and> whole_ok lo hi n)"
| "of_rule (OneOf vs d) v \<longleftrightarrow> (\<exists>s. v = JStr s \<and> s \<in> set vs)"
| "of_rule (FlagOr d) v \<longleftrightarrow> (\<exists>b. v = JBool b)"

fun sound_default :: "env_rule \<Rightarrow> bool" where
  "sound_default (WholeOr lo hi d) \<longleftrightarrow> whole_ok lo hi d"
| "sound_default (OneOf vs d) \<longleftrightarrow> d \<in> set vs"
| "sound_default rule \<longleftrightarrow> True"

lemma set_value_typed: "set_value url rule v = Some x \<Longrightarrow> of_rule rule x"
  by (cases rule) (auto simp: flag_value_def split: if_splits option.splits)

lemma unset_value_typed: "sound_default rule \<Longrightarrow> unset_value rule = Some x \<Longrightarrow> of_rule rule x"
  by (cases rule) (auto simp: flag_value_def)

lemma defaults_sound: "list_all (\<lambda>(k, rule). sound_default rule) envSchema"
  by (simp add: envSchema_def whole_ok_def)

lemma env_value_typed:
  assumes "env_value url vars (k, rule) = Some (k', v)" "sound_default rule"
  shows "k' = k \<and> of_rule rule v"
  using assms set_value_typed unset_value_typed by (auto simp: env_value_def split: option.splits)

lemma schema_keys_distinct: "distinct (map fst envSchema)"
  by (simp add: envSchema_def)

lemma all_some_env:
  "all_some (map (env_value url vars) rules) = Some env \<Longrightarrow> list_all2 (\<lambda>entry kv. env_value url vars entry = Some kv) rules env"
proof (induction rules arbitrary: env)
  case (Cons entry rules)
  then show ?case by (cases "env_value url vars entry") auto
qed simp

lemma load_env_get:
  assumes "load_env url vars = Some env" "(k, rule) \<in> set envSchema"
  shows "env_value url vars (k, rule) = Some (k, env_get env k)"
proof -
  have all: "list_all2 (\<lambda>entry kv. env_value url vars entry = Some kv) envSchema env"
    using assms(1) unfolding load_env_def by (rule all_some_env)
  have "list_all2 (\<lambda>entry kv. fst kv = fst entry) envSchema env"
    by (rule list_all2_mono [OF all]) (auto simp: env_value_def split: option.splits)
  then have "map fst env = map fst envSchema"
    by (induction rule: list_all2_induct) auto
  with schema_keys_distinct have keys: "distinct (map fst env)" by simp
  from assms(2) obtain i where i: "i < length envSchema" "envSchema ! i = (k, rule)" by (auto simp: in_set_conv_nth)
  with all have kv: "env_value url vars (k, rule) = Some (env ! i)" "i < length env"
    by (auto simp: list_all2_conv_all_nth dest: spec [of _ i])
  then have "fst (env ! i) = k" by (auto simp: env_value_def split: option.splits dest!: arg_cong [where f = fst])
  then obtain v where v: "env ! i = (k, v)" by (cases "env ! i") auto
  with kv(2) keys have "map_get env k = Some v" by (metis map_of_is_SomeI nth_mem)
  with kv v show ?thesis by (simp add: env_get_def)
qed

text \<open>Typing of the configuration: when the environment is accepted, every variable of the schema has a value of its declared
  type, its defaults included: the numbers are numbers and in range, the choices one of their words, the secret long enough,
  and only the variables marked optional may be undefined.\<close>

theorem configuration_is_typed:
  assumes "load_env url vars = Some env"
  shows "list_all (\<lambda>(k, rule). of_rule rule (env_get env k)) envSchema"
proof -
  have "of_rule rule (env_get env k)" if "(k, rule) \<in> set envSchema" for k rule
    using env_value_typed [OF load_env_get [OF assms that]] defaults_sound that by (auto simp: list_all_iff)
  then show ?thesis by (auto simp: list_all_iff)
qed

definition sample_vars :: "(string \<times> string) list" where
  "sample_vars = [(''DATABASE_URL'', ''postgres://db''), (''JWT_SECRET'', ''0123456789abcdef0123456789abcdef'')]"

lemma sample_env: "\<exists>env. load_env (\<lambda>_. True) sample_vars = Some env"
  by (simp add: load_env_def envSchema_def env_value_def sample_vars_def)

theorem configuration_is_typed_witness:
  "list_all (\<lambda>(k, rule). of_rule rule (env_get (the (load_env (\<lambda>_. True) sample_vars)) k)) envSchema"
proof -
  from sample_env obtain env where "load_env (\<lambda>_. True) sample_vars = Some env" by blast
  from configuration_is_typed [OF this] this show ?thesis by simp
qed

text \<open>The comment calls the internal token mandatory, but the schema accepts an environment without it, in which the token check
  of the internal API then refuses to load.\<close>

lemma token_is_optional_in_the_schema:
  assumes "map_get vars ''CSMS_INTERNAL_API_TOKEN'' = None" "load_env url vars = Some env" "api_token_env h = None"
  shows "env_get env ''CSMS_INTERNAL_API_TOKEN'' = JUndefined \<and> (\<exists>m. loadTokens h = Inl m)"
proof -
  have "env_value url vars (''CSMS_INTERNAL_API_TOKEN'', OptionalLong 32) = Some (''CSMS_INTERNAL_API_TOKEN'', env_get env ''CSMS_INTERNAL_API_TOKEN'')"
    by (rule load_env_get [OF assms(2)]) (simp add: envSchema_def)
  with assms(1,3) show ?thesis by (simp add: env_value_def loadTokens_def)
qed

text \<open>An empty variable is the number 0, not the default.\<close>

lemma empty_number_is_zero: "set_value url (NumberOr d) [] = Some (JNum 0)"
  by (simp add: js_Number_def js_trim_def)

end
