(* ===== verification/CoreServer.thy ===== *)
theory CoreServer
  imports CoreApp Bootstrap Config
begin

text \<open>
  The process of the core server (\<open>apps/core-server/src\<close>): the environment is checked, the modules load the service tokens, the
  connections are opened, the infrastructure of \<open>packages/core/src/bootstrap.ts\<close> and the HTTP server start, and a signal
  stops all of it.  Each of these calls may fail; the process then exits with code 1.  What it leaves in the database, in Redis and on
  disk is what the next start finds (\<open>restarted\<close>, theory \<open>System\<close>).
\<close>

section \<open>index.ts and bootstrap.ts\<close>

definition connect_database :: "unit prog" where
  "connect_database = db_do (\<lambda>d. Inr ((), d))"

definition ping_redis :: "unit prog" where
  "ping_redis = redis_do (\<lambda>w. ((), w))"

text \<open>Reading the translation files, and opening and closing the port.\<close>

definition initI18n :: "unit prog" where
  "initI18n = fs_do (\<lambda>fs. fs)"

definition socket_call :: "string \<Rightarrow> unit prog" where
  "socket_call message w =
     (if fails (host w) (tick w) then (Inl (PlainError message), w\<lparr>tick := tick w + 1\<rparr>) else (Inr (), w\<lparr>tick := tick w + 1\<rparr>))"

definition bootstrapCore :: "unit prog" where
  "bootstrapCore = andthen setupCoreInfra (\<lambda>_. socket_call ''listen'')"

definition bootstrap_shutdown :: "unit prog" where
  "bootstrap_shutdown = andthen core_shutdown (\<lambda>_. socket_call ''close'')"

definition core_main :: "unit prog" where
  "core_main =
     andthen connect_database (\<lambda>_.
     andthen ping_redis (\<lambda>_.
     andthen initI18n (\<lambda>_.
     bootstrapCore)))"

datatype process = Up "(string \<times> jsval) list" "string list" world | Exited nat world

text \<open>Loading the configuration, loading the tokens (when the modules are imported) and \<open>main\<close>.\<close>

definition start_process :: "(string \<Rightarrow> bool) \<Rightarrow> (string \<times> string) list \<Rightarrow> world \<Rightarrow> process" where
  "start_process url vars w =
     (case load_env url vars of
        None \<Rightarrow> Exited 1 w
      | Some env \<Rightarrow>
          (case loadTokens (host w) of
             Inl message \<Rightarrow> Exited 1 w
           | Inr tokens \<Rightarrow>
               (case core_main w of
                  (Inl e, w1) \<Rightarrow> Exited 1 w1
                | (Inr _, w1) \<Rightarrow> Up env tokens w1)))"

text \<open>\<open>onShutdown\<close>; Redis is quit when its client says it is connected.\<close>

definition on_shutdown :: "(world \<Rightarrow> bool) \<Rightarrow> world \<Rightarrow> process" where
  "on_shutdown redis_ready w =
     (case andthen bootstrap_shutdown (\<lambda>_.
           andthen connect_database (\<lambda>_.
           andthen (ask redis_ready) (\<lambda>ready. only_if ready ping_redis))) w of
        (Inl e, w1) \<Rightarrow> Exited 1 w1
      | (Inr _, w1) \<Rightarrow> Exited 0 w1)"

section \<open>The life of the process\<close>

lemma tick_event: "serves w (w\<lparr>tick := tick w + 1\<rparr>)"
  using admin_event [OF administers.health, of w] by (simp add: js_now_def)

lemma outside_Inr:
  "connect_database w = (Inr x, w') \<Longrightarrow> w' = w\<lparr>tick := tick w + 1\<rparr>"
  "ping_redis w = (Inr x, w') \<Longrightarrow> w' = w\<lparr>tick := tick w + 1\<rparr>"
  "initI18n w = (Inr x, w') \<Longrightarrow> w' = w\<lparr>tick := tick w + 1\<rparr>"
  "socket_call m w = (Inr x, w') \<Longrightarrow> w' = w\<lparr>tick := tick w + 1\<rparr>"
  by (auto simp: connect_database_def ping_redis_def initI18n_def fs_do_def socket_call_def run_Inr Let_def split: if_splits)

lemma core_main_run:
  assumes "core_main w = (Inr x, w')"
  shows "reaches w w' \<and> relay_timer w' \<and> sweeper_timer w' \<and> core_workers w'"
proof -
  from assms obtain w1 w2 w3 w4 where "w1 = w\<lparr>tick := tick w + 1\<rparr>" "w2 = w1\<lparr>tick := tick w1 + 1\<rparr>" "w3 = w2\<lparr>tick := tick w2 + 1\<rparr>"
    and infra: "setupCoreInfra w3 = (Inr (), w4)" and w': "w' = w4\<lparr>tick := tick w4 + 1\<rparr>"
    by (auto simp: core_main_def bootstrapCore_def andthen_Inr dest!: outside_Inr)
  then have "reaches w w3" by (metis reaches_refl reaches_step tick_event)
  moreover have "reaches w3 w4" using setup_reaches [of w3] infra by simp
  ultimately have "reaches w w4" unfolding reaches_def by (rule rtranclp_trans)
  then have "reaches w w'" unfolding w' by (rule reaches_step [OF _ tick_event])
  moreover obtain w5 where "setupCoreInfra w3 = (Inr (), w5)" "relay_timer w5" "sweeper_timer w5" "core_workers w5"
    using process_starts_and_stops [of w3] by blast
  ultimately show ?thesis using infra w' by simp
qed

lemma timers_off:
  "\<exists>w1. core_shutdown w = (Inr (), w1) \<and> \<not> relay_timer w1 \<and> \<not> sweeper_timer w1 \<and> \<not> core_workers w1"
  by (simp add: core_shutdown_def stopOcppCommandSweeper_def set_sweeper_def stopOutboxRelay_def stopCoreJobWorkers_def set_workers_def andthen_def)


end
