(* ===== verification/Gateway.thy ===== *)
theory Gateway
  imports CommandProps
begin

text \<open>
  The gateway between the services and the stations (\<open>gateway.interface.ts\<close>, \<open>gateway.impl.ts\<close>).  The interface is a
  record of operations, and the locale \<open>ocpp_gateway\<close> has the promises of its comments; what the services may rely on
  follows from them and holds of the code's gateway by the interpretation \<open>core_gateway\<close>.
\<close>

section \<open>The interface\<close>

record IOcppGateway =
  gw_isStationConnected :: "world \<Rightarrow> string \<Rightarrow> bool"
  gw_getConnectedStationIds :: "world \<Rightarrow> string list"
  gw_startSession :: "string \<Rightarrow> jsval \<Rightarrow> jsval \<Rightarrow> jsval \<Rightarrow> string option \<Rightarrow> jsval prog"
  gw_stopSession :: "string \<Rightarrow> jsval \<Rightarrow> string option \<Rightarrow> jsval prog"
  gw_resetStation :: "string \<Rightarrow> string \<Rightarrow> string option \<Rightarrow> jsval prog"
  gw_changeAvailability :: "string \<Rightarrow> jsval \<Rightarrow> string \<Rightarrow> string option \<Rightarrow> jsval prog"
  gw_updateFirmware :: "string \<Rightarrow> string \<Rightarrow> jsval \<Rightarrow> jsval \<Rightarrow> jsval \<Rightarrow> string option \<Rightarrow> jsval prog"
  gw_sendRawCall :: "string \<Rightarrow> string \<Rightarrow> jsval \<Rightarrow> string option prog"
  gw_forceDisconnect :: "string \<Rightarrow> unit prog"

definition ocppGateway :: IOcppGateway where
  "ocppGateway =
     \<lparr>gw_isStationConnected = isConnected, gw_getConnectedStationIds = getConnectedStationIds,
      gw_startSession = startSession, gw_stopSession = stopSession, gw_resetStation = resetStation,
      gw_changeAvailability = changeAvailability, gw_updateFirmware = gateway_updateFirmware,
      gw_sendRawCall = sendRawCall, gw_forceDisconnect = forceDisconnect\<rparr>"

text \<open>The commands to a station, with any arguments.\<close>

inductive commands :: "IOcppGateway \<Rightarrow> string \<Rightarrow> jsval prog \<Rightarrow> bool" for gw s where
  "commands gw s (gw_startSession gw s connectorId idTag profile by_user)"
| "commands gw s (gw_stopSession gw s transactionId by_user)"
| "commands gw s (gw_resetStation gw s kind by_user)"
| "commands gw s (gw_changeAvailability gw s connectorId kind by_user)"
| "commands gw s (gw_updateFirmware gw s location retrieveDate retries retryInterval by_user)"

section \<open>Its promises\<close>

locale ocpp_gateway =
  fixes gw :: IOcppGateway
  assumes ids: "set (gw_getConnectedStationIds gw w) = {s. gw_isStationConnected gw w s}"
    and refused: "commands gw s m \<Longrightarrow> \<not> gw_isStationConnected gw w s \<Longrightarrow> \<exists>e. m w = (Inl e, w)"
    and raw_offline: "\<not> gw_isStationConnected gw w s \<Longrightarrow> gw_sendRawCall gw s action payload w = (Inr None, w)"
    and raw_online: "gw_isStationConnected gw w s \<Longrightarrow> \<exists>mid ws w'. gw_sendRawCall gw s action payload w = (Inr (Some mid), w') \<and>
      sent w' = sent w @ [(ws, serializeCall mid action payload)]"
    and evicts: "\<exists>w'. gw_forceDisconnect gw s w = (Inr (), w') \<and> \<not> gw_isStationConnected gw w' s \<and> sent w' = sent w"
begin

text \<open>A raw call says by its result whether the message went out.\<close>

lemma raw_result:
  assumes "gw_sendRawCall gw s action payload w = (r, w')"
  shows "(\<exists>mid ws. r = Inr (Some mid) \<and> sent w' = sent w @ [(ws, serializeCall mid action payload)]) \<or> (r = Inr None \<and> w' = w)"
  using assms raw_offline [of w s action payload] raw_online [of w s action payload] by (cases "gw_isStationConnected gw w s") auto

lemma evicted:
  assumes "gw_forceDisconnect gw s w = (r, w')"
  shows "s \<notin> set (gw_getConnectedStationIds gw w')" "gw_sendRawCall gw s action payload w' = (Inr None, w')"
    "commands gw s m \<Longrightarrow> \<exists>e. m w' = (Inl e, w')"
  using evicts [of s w] assms ids [of w'] raw_offline [of w' s action payload] refused [of s m w'] by auto

end

section \<open>The code's gateway keeps them\<close>

interpretation core_gateway: ocpp_gateway ocppGateway
proof unfold_locales
  fix w
  show "set (gw_getConnectedStationIds ocppGateway w) = {s. gw_isStationConnected ocppGateway w s}"
    by (force simp: ocppGateway_def getConnectedStationIds_def isConnected_def split: option.splits dest: map_of_SomeD)
next
  fix s m w assume "commands ocppGateway s m" "\<not> gw_isStationConnected ocppGateway w s"
  then show "\<exists>e. m w = (Inl e, w)"
    by cases (auto simp: ocppGateway_def startSession_def stopSession_def resetStation_def changeAvailability_def
        gateway_updateFirmware_def sendRemoteStartTransaction_def sendRemoteStopTransaction_def sendReset_def
        sendChangeAvailability_def sendUpdateFirmware_def command_refused_when_away)
next
  fix w s action payload assume "\<not> gw_isStationConnected ocppGateway w s"
  then show "gw_sendRawCall ocppGateway s action payload w = (Inr None, w)"
    by (simp add: ocppGateway_def sendRawCall_def andthen_def ask_def ret_def split: option.splits)
next
  fix w s action payload assume "gw_isStationConnected ocppGateway w s"
  then obtain ws where "map_get (conns w) s = Some ws" "socks w ws = OPEN" "isConnected w s"
    by (auto simp: ocppGateway_def isConnected_def split: option.splits)
  then show "\<exists>mid ws w'. gw_sendRawCall ocppGateway s action payload w = (Inr (Some mid), w') \<and>
      sent w' = sent w @ [(ws, serializeCall mid action payload)]"
    by (auto simp: ocppGateway_def sendRawCall_def andthen_def ask_def ret_def new_uuid_def ws_send_def)
next
  fix s w
  show "\<exists>w'. gw_forceDisconnect ocppGateway s w = (Inr (), w') \<and> \<not> gw_isStationConnected ocppGateway w' s \<and> sent w' = sent w"
    by (auto simp: ocppGateway_def forceDisconnect_def andthen_def ask_def ret_def ws_terminate_def unregister_def isConnected_def
        map_get_delete split: option.splits)
qed

text \<open>C33. A station that was disconnected by force, as provisioning does with the device it replaces, is out of reach: it is not among
  the connected stations, every command of the gateway to it is refused without any effect, and a raw call answers
  \<open>null\<close> and sends nothing.\<close>

theorem evicted_station_is_out_of_reach:
  assumes "gw_forceDisconnect ocppGateway s w = (r, w')" and "commands ocppGateway s m"
  shows "s \<notin> set (gw_getConnectedStationIds ocppGateway w') \<and> (\<exists>e. m w' = (Inl e, w')) \<and>
    gw_sendRawCall ocppGateway s action payload w' = (Inr None, w')"
  using core_gateway.evicted [OF assms(1)] assms(2) by simp

theorem evicted_station_is_out_of_reach_witness:
  "let w = snd (forceDisconnect ''EN0000001'' (sample_world\<lparr>conns := [(''EN0000001'', 1)], socks := (\<lambda>_. OPEN)\<rparr>)) in
     ''EN0000001'' \<notin> set (gw_getConnectedStationIds ocppGateway w) \<and>
     (\<exists>e. gw_resetStation ocppGateway ''EN0000001'' ''Hard'' None w = (Inl e, w)) \<and>
     gw_sendRawCall ocppGateway ''EN0000001'' ''Reset'' (JObj []) w = (Inr None, w)"
proof -
  let ?w = "sample_world\<lparr>conns := [(''EN0000001'', 1)], socks := (\<lambda>_. OPEN)\<rparr>"
  have "gw_forceDisconnect ocppGateway ''EN0000001'' ?w = (fst (forceDisconnect ''EN0000001'' ?w), snd (forceDisconnect ''EN0000001'' ?w))"
    by (simp add: ocppGateway_def)
  from evicted_station_is_out_of_reach [OF this commands.intros(3) [of ocppGateway "''EN0000001''" "''Hard''" None]]
  show ?thesis by (simp add: Let_def)
qed

end
