(* ===== verification/Scripts.thy ===== *)
theory Scripts
  imports Admin
begin

text \<open>
  The operator scripts (\<open>scripts/\<close>): the purge of the firmware tables, the seed of the station number sequence and the
  comparison of the translation files.  What they print is left out.  The variables of the seed are rows of a table of
  the portal, which is not in the model's database, so their part of the seed is a function on that table.
\<close>

section \<open>purgeFirmware.ts\<close>

text \<open>\<open>deleteMany({})\<close>: deleting a campaign deletes its progress rows; a firmware of a campaign cannot be deleted.\<close>

definition delete_all_campaigns :: "nat db_op" where
  "delete_all_campaigns d = Inr (length (campaigns d), d\<lparr>campaigns := [], progresses := []\<rparr>)"

definition delete_all_firmware :: "nat db_op" where
  "delete_all_firmware =
     with_fk (\<lambda>d. \<not> list_ex (\<lambda>f. list_ex (\<lambda>c. ca_firmwareId c = fw_id f) (campaigns d)) (firmwares d))
       (\<lambda>d. Inr (length (firmwares d), d\<lparr>firmwares := []\<rparr>))"

definition purgeFirmware :: "bool \<Rightarrow> (nat \<times> nat) option prog" where
  "purgeFirmware dryRun =
     andthen (db_read (\<lambda>d. sort_key fw_id (firmwares d))) (\<lambda>firmwareList.
     andthen (db_read (\<lambda>d. length (campaigns d))) (\<lambda>campaignCount.
     andthen (db_read (\<lambda>d. length (progresses d))) (\<lambda>progressCount.
     if firmwareList = [] then ret None
     else if dryRun then ret None
     else
       andthen (db_transaction
         (andthen (db_do delete_all_campaigns) (\<lambda>deletedCampaigns.
          andthen (db_do delete_all_firmware) (\<lambda>deletedFirmware.
          ret (deletedCampaigns, deletedFirmware))))) (\<lambda>result.
       ret (Some result)))))"

section \<open>seed.ts\<close>

definition seed_sequence :: "unit prog" where
  "seed_sequence =
     andthen (db_read stationSeq) (\<lambda>existingSeq.
     case existingSeq of
       None \<Rightarrow> db_do (\<lambda>d. Inr ((), d\<lparr>stationSeq := Some 1000000\<rparr>))
     | Some _ \<Rightarrow> ret ())"

text \<open>The operator's variables: an upsert renews the description of a key and leaves its value to the operator.  The seed ends at the
  first call that fails; \<open>seed_variables n\<close> is the table after \<open>n\<close> calls.\<close>

record CsmsVariable =
  va_key :: string
  va_value :: string
  va_description :: "string option"

definition CSMS_VARIABLES :: "CsmsVariable list" where
  "CSMS_VARIABLES = map (\<lambda>(k, v, d). \<lparr>va_key = k, va_value = v, va_description = Some d\<rparr>)
     [(''DEFAULT_UNIT_PRICE_KRW'', ''250'', ''unit price (won/kWh)''),
      (''HEARTBEAT_INTERVAL_SEC'', ''60'', ''OCPP heartbeat interval (s)''),
      (''SESSION_TIMEOUT_MIN'', ''5'', ''timeout of pending sessions (min)''),
      (''MAX_CHARGE_DURATION_HR'', ''24'', ''longest session (h)''),
      (''OCPP_RESPONSE_TIMEOUT_SEC'', ''30'', ''timeout of OCPP replies (s)''),
      (''LOG_RETENTION_DAYS'', ''30'', ''retention of the message log (days)'')]"

definition upsert_variable :: "CsmsVariable \<Rightarrow> CsmsVariable list \<Rightarrow> CsmsVariable list" where
  "upsert_variable v rows =
     (if list_ex (\<lambda>r. va_key r = va_key v) rows
      then update_where (\<lambda>r. va_key r = va_key v) (\<lambda>r. r\<lparr>va_description := va_description v\<rparr>) rows
      else rows @ [v])"

definition seed_variables :: "nat \<Rightarrow> CsmsVariable list \<Rightarrow> CsmsVariable list" where
  "seed_variables n rows = fold upsert_variable (take n CSMS_VARIABLES) rows"

section \<open>validateTranslations.ts\<close>

definition NAMESPACES :: "string list" where
  "NAMESPACES = [''common'', ''error'', ''auth'', ''charge'', ''station'', ''user'', ''partner'', ''notification'']"

fun getAllKeys :: "string \<Rightarrow> (string \<times> jsval) list \<Rightarrow> string list" where
  "getAllKeys pre [] = []"
| "getAllKeys pre ((k, v) # fs) =
     (let fullKey = (if pre = [] then k else pre @ ''.'' @ k) in
      (case v of JObj gs \<Rightarrow> getAllKeys fullKey gs | _ \<Rightarrow> [fullKey]) @ getAllKeys pre fs)"

text \<open>A file by its language and namespace.  The script throws for a text that is not JSON and for \<open>null\<close>; the entries of an array
  and of a string are those of their indices.\<close>

type_synonym locales = "string \<Rightarrow> string \<Rightarrow> string option"

definition indexed :: "jsval list \<Rightarrow> (string \<times> jsval) list" where
  "indexed xs = zip (map show_nat [0..<length xs]) xs"

fun object_entries :: "jsval \<Rightarrow> (string \<times> jsval) list option" where
  "object_entries (JObj fs) = Some fs"
| "object_entries (JArr xs) = Some (indexed xs)"
| "object_entries (JStr s) = Some (indexed (map (\<lambda>c. JStr [c]) s))"
| "object_entries JNull = None"
| "object_entries JUndefined = None"
| "object_entries _ = Some []"

definition file_keys :: "string \<Rightarrow> string list option" where
  "file_keys content = map_option (getAllKeys []) (Option.bind (json_parse content) object_entries)"

text \<open>A loop whose body may throw.\<close>

primrec loop :: "('a \<Rightarrow> 's \<Rightarrow> 's option) \<Rightarrow> 'a list \<Rightarrow> 's \<Rightarrow> 's option" where
  "loop f [] s = Some s"
| "loop f (x # xs) s = Option.bind (f x s) (loop f xs)"

definition load_base :: "locales \<Rightarrow> string \<Rightarrow> (string \<times> string list) list \<times> bool \<Rightarrow> ((string \<times> string list) list \<times> bool) option" where
  "load_base read_file ns st = (case st of (baseKeys, hasError) \<Rightarrow>
     (case read_file ''ko'' ns of
        None \<Rightarrow> Some (baseKeys, True)
      | Some content \<Rightarrow> map_option (\<lambda>keys. (map_set ns keys baseKeys, hasError)) (file_keys content)))"

definition compare_file :: "locales \<Rightarrow> (string \<times> string list) list \<Rightarrow> string \<Rightarrow> string \<Rightarrow> bool \<Rightarrow> bool option" where
  "compare_file read_file baseKeys lang ns hasError =
     (case read_file lang ns of
        None \<Rightarrow> Some True
      | Some content \<Rightarrow>
          map_option (\<lambda>keys. fold (\<lambda>baseKey err. if baseKey \<notin> set keys then True else err)
              (case map_get baseKeys ns of None \<Rightarrow> [] | Some b \<Rightarrow> b) hasError) (file_keys content))"

text \<open>Whether the translations are valid; \<open>None\<close> is an exception, and everything but \<open>Some True\<close> ends with exit code 1.\<close>

definition validateTranslations :: "locales \<Rightarrow> bool option" where
  "validateTranslations read_file =
     Option.bind (loop (load_base read_file) NAMESPACES ([], False)) (\<lambda>(baseKeys, hasError).
     map_option Not (loop (\<lambda>lang. loop (compare_file read_file baseKeys lang) NAMESPACES) [''en'', ''vi''] hasError))"

section \<open>What the scripts do\<close>

text \<open>Wherever the seed stops, the values the operator has set are kept, in their order, and after a whole run every variable has a value.\<close>

definition settings_of :: "CsmsVariable list \<Rightarrow> (string \<times> string) list" where
  "settings_of rows = map (\<lambda>r. (va_key r, va_value r)) rows"

lemma settings_upsert:
  "settings_of (upsert_variable v rows) =
     settings_of rows @ (if va_key v \<in> fst ` set (settings_of rows) then [] else [(va_key v, va_value v)])"
proof -
  have "settings_of (update_where P (\<lambda>r. r\<lparr>va_description := d\<rparr>) rows) = settings_of rows" for P d
    by (simp add: settings_of_def update_where_def)
  moreover have "list_ex (\<lambda>r. va_key r = va_key v) rows \<longleftrightarrow> va_key v \<in> fst ` set (settings_of rows)"
    by (auto simp: settings_of_def list_ex_iff image_image intro: rev_image_eqI)
  ultimately show ?thesis by (simp add: upsert_variable_def settings_of_def)
qed

lemma seed_keeps_values: "prefix (settings_of rows) (settings_of (seed_variables n rows))"
proof -
  have "prefix (settings_of rows) (settings_of (fold upsert_variable vs rows))" for vs
  proof (induction vs arbitrary: rows)
    case (Cons v vs)
    have "prefix (settings_of rows) (settings_of (upsert_variable v rows))"
      by (simp add: settings_upsert)
    with Cons [of "upsert_variable v rows"] show ?case by (auto intro: prefix_order.trans)
  qed simp
  then show ?thesis by (simp add: seed_variables_def)
qed

lemma seed_completes: "va_key ` set CSMS_VARIABLES \<subseteq> fst ` set (settings_of (seed_variables 6 rows))"
proof -
  have "fst ` set (settings_of rows) \<union> va_key ` set vs \<subseteq> fst ` set (settings_of (fold upsert_variable vs rows))" for vs
  proof (induction vs arbitrary: rows)
    case (Cons v vs)
    from Cons [of "upsert_variable v rows"] show ?case by (auto simp: settings_upsert split: if_splits)
  qed simp
  then have "va_key ` set CSMS_VARIABLES \<subseteq> fst ` set (settings_of (fold upsert_variable CSMS_VARIABLES rows))" by blast
  moreover have "take 6 CSMS_VARIABLES = CSMS_VARIABLES" by (simp add: CSMS_VARIABLES_def)
  ultimately show ?thesis by (simp add: seed_variables_def)
qed

text \<open>The purge removes all firmware rows with their campaigns and progress rows, or changes nothing.\<close>

definition purge_body :: "(nat \<times> nat) prog" where
  "purge_body = andthen (db_do delete_all_campaigns) (\<lambda>deletedCampaigns.
     andthen (db_do delete_all_firmware) (\<lambda>deletedFirmware. ret (deletedCampaigns, deletedFirmware)))"

lemma purge_body_keeps_txn: "purge_body w = (Inr y, w1) \<Longrightarrow> txn w = TxOk \<Longrightarrow> txn w1 = TxOk"
  by (auto simp: purge_body_def run_Inr)

lemma purge_body_files: "purge_body w = (r, w1) \<Longrightarrow> files w1 = files w"
  by (auto simp: purge_body_def prog_defs Let_def split: if_splits sum.splits prod.splits)

lemma purge_transaction:
  assumes "db_transaction purge_body w = (r, w')"
  shows "files w' = files w \<and> (case r of Inl e \<Rightarrow> db w' = db w
    | Inr x \<Rightarrow> x = (length (campaigns (db w)), length (firmwares (db w))) \<and>
        db w' = (db w)\<lparr>campaigns := [], progresses := [], firmwares := []\<rparr>)"
proof
  show "files w' = files w"
    using assms purge_body_files by (fastforce simp: db_transaction_def Let_def split: if_splits prod.splits sum.splits)
  show "case r of Inl e \<Rightarrow> db w' = db w
    | Inr x \<Rightarrow> x = (length (campaigns (db w)), length (firmwares (db w))) \<and>
        db w' = (db w)\<lparr>campaigns := [], progresses := [], firmwares := []\<rparr>"
  proof (cases r)
    case (Inl e)
    with assms db_transaction_Inl show ?thesis by simp
  next
    case (Inr x)
    with assms have "db_transaction purge_body w = (Inr x, w')" by simp
    then obtain w1 where "purge_body (w\<lparr>tick := tick w + 1, txn := TxOk\<rparr>) = (Inr x, w1)" "db w' = db w1"
      by (rule committed_run [OF _ purge_body_keeps_txn])
    with Inr show ?thesis
      by (auto simp: purge_body_def run_Inr delete_all_campaigns_def delete_all_firmware_def with_fk_Inr)
  qed
qed

lemma andthen_read:
  "andthen (db_read f) k w =
     (if txn w = TxAborted \<or> fails (host w) (tick w)
      then (Inl (PrismaErr ConnectionLost), w\<lparr>tick := tick w + 1, txn := if txn w = NoTx then NoTx else TxAborted\<rparr>)
      else k (f (db w)) (w\<lparr>tick := tick w + 1\<rparr>))"
  by (simp add: andthen_def db_read_def db_do_def Let_def)

text \<open>The firmware purge is all or nothing: when it deletes, the firmware, campaign and progress tables are empty, the rest of the
  database is as it was and the counts it prints are those of the deleted rows; a dry run, an empty table and any failure
  leave the database alone; the files on disk are never touched.\<close>

theorem purge_all_or_nothing:
  assumes "purgeFirmware dryRun w = (r, w')"
  shows "files w' = files w \<and>
    (case r of
       Inr (Some (c, f)) \<Rightarrow> \<not> dryRun \<and> c = length (campaigns (db w)) \<and> f = length (firmwares (db w)) \<and>
         db w' = (db w)\<lparr>campaigns := [], progresses := [], firmwares := []\<rparr>
     | _ \<Rightarrow> db w' = db w)"
proof -
  let ?go = "andthen (db_transaction purge_body) (\<lambda>result. ret (Some result))"
  consider "files w' = files w" "db w' = db w" "\<exists>e. r = Inl e" | "files w' = files w" "db w' = db w" "r = Inr None"
    | n where "?go (w\<lparr>tick := n\<rparr>) = (r, w')" "\<not> dryRun"
    using assms
    by (auto simp: purgeFirmware_def purge_body_def [symmetric] andthen_read ret_def split: if_splits)
  then show ?thesis
  proof cases
    case (3 n)
    obtain q w1 where tx: "db_transaction purge_body (w\<lparr>tick := n\<rparr>) = (q, w1)" by fastforce
    from purge_transaction [OF tx] 3 tx show ?thesis by (cases q) (auto simp: andthen_def ret_def)
  qed auto
qed

theorem purge_all_or_nothing_witness:
  "let w = boot_world quiet_host (empty_db\<lparr>firmwares := [\<lparr>fw_id = 1, fw_filename = ''f.bin'', fw_originalName = ''f.bin'', fw_version = ''1'',
       fw_chargerModel = None, fw_chargerVendor = None, fw_fileSize = 1, fw_sha256 = ''00'', fw_uploadedBy = ''op'', fw_isActive = True,
       fw_notes = None\<rparr>]\<rparr>); (r, w') = purgeFirmware False w in
     files w' = files w \<and>
    (case r of
       Inr (Some (c, f)) \<Rightarrow> \<not> False \<and> c = length (campaigns (db w)) \<and> f = length (firmwares (db w)) \<and>
         db w' = (db w)\<lparr>campaigns := [], progresses := [], firmwares := []\<rparr>
     | _ \<Rightarrow> db w' = db w)"
  unfolding Let_def by (rule case_prodI2) (erule purge_all_or_nothing)

text \<open>The seed does not change the numbers stations get: the first one is 1000001 with it and without it.\<close>

lemma seed_keeps_numbering:
  assumes "seed_sequence w = (Inr (), w')" "next_station_number (db w) = Inr (n, d)"
  shows "\<exists>d'. next_station_number (db w') = Inr (n, d')"
  using assms by (auto simp: seed_sequence_def run_Inr next_station_number_def Let_def split: option.splits if_splits)

subsection \<open>The translation check\<close>

definition keys_of :: "locales \<Rightarrow> string \<Rightarrow> string \<Rightarrow> string list option" where
  "keys_of read_file lang ns = Option.bind (read_file lang ns) file_keys"

lemma fold_missing: "fold (\<lambda>k. (\<longrightarrow>) (k \<in> S)) ks e \<longleftrightarrow> e \<or> \<not> set ks \<subseteq> S"
  by (induction ks arbitrary: e) auto

lemma compare_file_valid:
  "compare_file read_file base lang ns e = Some False \<longleftrightarrow>
     \<not> e \<and> (\<exists>keys. keys_of read_file lang ns = Some keys \<and> set (case map_get base ns of None \<Rightarrow> [] | Some b \<Rightarrow> b) \<subseteq> set keys)"
  by (auto simp: compare_file_def keys_of_def fold_missing split: option.splits)

lemma loop_valid:
  assumes "\<And>x e. f x e = Some False \<longleftrightarrow> \<not> e \<and> P x"
  shows "loop f xs e = Some False \<longleftrightarrow> \<not> e \<and> (\<forall>x \<in> set xs. P x)"
proof (induction xs arbitrary: e)
  case (Cons x xs)
  show ?case
  proof (cases "f x e")
    case None
    with assms [of x e] Cons show ?thesis by auto
  next
    case (Some b)
    with assms [of x e] Cons.IH [of b] show ?thesis by (cases b) auto
  qed
qed simp

text \<open>Loading the base files: the last of equal namespaces counts, and they are distinct.\<close>

lemma load_base_pair:
  "load_base read_file ns (base, e) = (case read_file ''ko'' ns of
     None \<Rightarrow> Some (base, True) | Some content \<Rightarrow> map_option (\<lambda>keys. (map_set ns keys base, e)) (file_keys content))"
  by (simp add: load_base_def)

lemma load_base_valid:
  "loop (load_base read_file) nss (base, e) = Some (base', False) \<longleftrightarrow>
     \<not> e \<and> (\<forall>ns \<in> set nss. keys_of read_file ''ko'' ns \<noteq> None) \<and>
     base' = fold (\<lambda>ns b. map_set ns (the (keys_of read_file ''ko'' ns)) b) nss base"
proof (induction nss arbitrary: base e)
  case (Cons ns nss)
  have flag: "loop (load_base read_file) nss (b, True) \<noteq> Some (base', False)" for b
    using Cons.IH [of b True] by simp
  show ?case
  proof (cases "keys_of read_file ''ko'' ns")
    case None
    then have "loop (load_base read_file) (ns # nss) (base, e) \<noteq> Some (base', False)"
      using flag by (cases "read_file ''ko'' ns") (auto simp: load_base_pair keys_of_def)
    with None show ?thesis by auto
  next
    case (Some keys)
    then have "load_base read_file ns (base, e) = Some (map_set ns keys base, e)"
      by (cases "read_file ''ko'' ns") (auto simp: load_base_pair keys_of_def)
    with Some Cons.IH show ?thesis by auto
  qed
qed auto

lemma base_keys:
  "map_get (fold (\<lambda>ns b. map_set ns (f ns) b) nss base) ns = (if ns \<in> set nss then Some (f ns) else map_get base ns)"
  by (induction nss arbitrary: base) (auto simp: map_get_set)

text \<open>The check of the translations passes exactly when every namespace has a Korean, an English and a Vietnamese file, all of
  them JSON other than \<open>null\<close>, and every key path of the Korean one is a key path of the two others.\<close>

theorem translations_valid_iff:
  "validateTranslations read_file = Some True \<longleftrightarrow>
     list_all (\<lambda>ns. case keys_of read_file ''ko'' ns of
         None \<Rightarrow> False
       | Some ko \<Rightarrow> list_all (\<lambda>lang. case keys_of read_file lang ns of
             None \<Rightarrow> False | Some keys \<Rightarrow> set ko \<subseteq> set keys) [''en'', ''vi'']) NAMESPACES"
proof -
  let ?base = "fold (\<lambda>ns b. map_set ns (the (keys_of read_file ''ko'' ns)) b) NAMESPACES []"
  define Q where "Q b \<longleftrightarrow> (\<forall>lang \<in> set [''en'', ''vi'']. \<forall>ns \<in> set NAMESPACES. \<exists>keys. keys_of read_file lang ns = Some keys \<and>
      set (case map_get b ns of None \<Rightarrow> [] | Some k \<Rightarrow> k) \<subseteq> set keys)" for b
  have langs: "loop (\<lambda>lang. loop (compare_file read_file b lang) NAMESPACES) [''en'', ''vi''] e = Some False \<longleftrightarrow> \<not> e \<and> Q b" for b e
    unfolding Q_def by (intro loop_valid compare_file_valid)
  have "validateTranslations read_file = Some True \<longleftrightarrow>
      (\<exists>b e. loop (load_base read_file) NAMESPACES ([], False) = Some (b, e) \<and>
        loop (\<lambda>lang. loop (compare_file read_file b lang) NAMESPACES) [''en'', ''vi''] e = Some False)"
    by (auto simp: validateTranslations_def bind_eq_Some_conv)
  also have "\<dots> \<longleftrightarrow> (\<exists>b. loop (load_base read_file) NAMESPACES ([], False) = Some (b, False) \<and> Q b)"
    unfolding langs by (metis (full_types))
  also have "\<dots> \<longleftrightarrow> (\<forall>ns \<in> set NAMESPACES. keys_of read_file ''ko'' ns \<noteq> None) \<and> Q ?base"
    unfolding load_base_valid by blast
  also have "Q ?base \<longleftrightarrow> (\<forall>lang \<in> set [''en'', ''vi'']. \<forall>ns \<in> set NAMESPACES. \<exists>keys. keys_of read_file lang ns = Some keys \<and>
        set (the (keys_of read_file ''ko'' ns)) \<subseteq> set keys)"
    by (simp add: Q_def base_keys)
  also have "(\<forall>ns \<in> set NAMESPACES. keys_of read_file ''ko'' ns \<noteq> None) \<and> \<dots> \<longleftrightarrow> list_all (\<lambda>ns. case keys_of read_file ''ko'' ns of
         None \<Rightarrow> False
       | Some ko \<Rightarrow> list_all (\<lambda>lang. case keys_of read_file lang ns of
             None \<Rightarrow> False | Some keys \<Rightarrow> set ko \<subseteq> set keys) [''en'', ''vi'']) NAMESPACES"
    by (fastforce simp: list_all_iff split: option.splits)
  finally show ?thesis .
qed

end
