(* ===== verification/DateRanges.thy ===== *)
theory DateRanges
  imports Config
begin

text \<open>
  Business days and months (\<open>shared/utils/date.ts\<close>) and the origins of the CORS middleware (\<open>shared/middlewares\<close>).  The
  calendar is that of the library \<open>dayjs\<close>, a parameter; the start of today that the station list asks for is the field \<open>day_start\<close> of the
  host.
\<close>

section \<open>date.ts\<close>

datatype period = DayPeriod | MonthPeriod

text \<open>A zoned time is an instant, in milliseconds, with the name of its zone.\<close>

record calendar =
  cal_startOf :: "period \<Rightarrow> string \<Rightarrow> int \<Rightarrow> int"
  cal_add :: "nat \<Rightarrow> period \<Rightarrow> string \<Rightarrow> int \<Rightarrow> int"
  cal_format :: "string \<Rightarrow> string \<Rightarrow> int \<Rightarrow> string"

definition getZonedDayRange :: "calendar \<Rightarrow> string \<Rightarrow> int \<Rightarrow> int \<times> int" where
  "getZonedDayRange cal tz now =
     (let start = cal_startOf cal DayPeriod tz now in (start, cal_add cal 1 DayPeriod tz start))"

definition getZonedMonthRange :: "calendar \<Rightarrow> string \<Rightarrow> int \<Rightarrow> int \<times> int" where
  "getZonedMonthRange cal tz now =
     (let start = cal_startOf cal MonthPeriod tz now in (start, cal_add cal 1 MonthPeriod tz start))"

definition getZonedDayLabel :: "calendar \<Rightarrow> string \<Rightarrow> int \<Rightarrow> string" where
  "getZonedDayLabel cal tz date = cal_format cal ''YYYY-MM-DD'' tz date"

definition getZonedMonthLabel :: "calendar \<Rightarrow> string \<Rightarrow> int \<Rightarrow> string" where
  "getZonedMonthLabel cal tz date = cal_format cal ''YYYY-MM'' tz date"

text \<open>What the library documents: \<open>startOf\<close> is the first instant of the period, and \<open>add\<close> leads from there to the first instant of
  the next one.\<close>

definition periods_ok :: "calendar \<Rightarrow> string \<Rightarrow> bool" where
  "periods_ok cal tz \<longleftrightarrow> (\<forall>p t. cal_startOf cal p tz t \<le> t \<and> t < cal_add cal 1 p tz (cal_startOf cal p tz t) \<and>
     (\<forall>u. cal_startOf cal p tz t \<le> u \<and> u < cal_add cal 1 p tz (cal_startOf cal p tz t) \<longrightarrow> cal_startOf cal p tz u = cal_startOf cal p tz t))"

text \<open>The ranges of days cut time into pieces: every instant is in the range of its day, exclusive its end, and the ranges
  of two instants are the same or do not meet, so a session that is counted by its start is counted for one day.\<close>

lemma day_ranges_partition:
  assumes "periods_ok cal tz"
  shows "case getZonedDayRange cal tz t of (s, e) \<Rightarrow> s \<le> t \<and> t < e \<and>
    (case getZonedDayRange cal tz u of (s', e') \<Rightarrow> (s, e) = (s', e') \<or> e \<le> s' \<or> e' \<le> s)"
proof -
  let ?s = "cal_startOf cal DayPeriod tz" let ?e = "\<lambda>t. cal_add cal 1 DayPeriod tz (?s t)"
  note laws = assms [unfolded periods_ok_def, rule_format, of DayPeriod]
  have inside: "?s t \<le> t \<and> t < ?e t" for t using laws [of t] by blast
  have same: "?s v = ?s t" if "?s t \<le> v" "v < ?e t" for t v using laws [of t] that by blast
  have start: "?s (?s t) = ?s t" for t
    using same [of t "?s t"] inside [of t] by linarith
  have "?s t = ?s u \<or> ?e t \<le> ?s u \<or> ?e u \<le> ?s t"
    using same [of t "?s u"] same [of u "?s t"] start [of t] start [of u] by linarith
  with inside [of t] show ?thesis by (auto simp: getZonedDayRange_def Let_def)
qed

text \<open>The zone of the deployment, which is seven hours ahead all year round, has days of this kind.\<close>

definition day_ms :: int where
  "day_ms = 86400000"

definition ho_chi_minh_day :: "int \<Rightarrow> int" where
  "ho_chi_minh_day t = (t + 25200000) div day_ms * day_ms - 25200000"

definition days_only :: calendar where
  "days_only = \<lparr>cal_startOf = (\<lambda>_ _. ho_chi_minh_day), cal_add = (\<lambda>n _ _ t. t + int n * day_ms), cal_format = (\<lambda>_ _ _. [])\<rparr>"

lemma ho_chi_minh_days: "periods_ok days_only ''Asia/Ho_Chi_Minh''"
proof -
  have m: "0 < day_ms" by (simp add: day_ms_def)
  have inside: "ho_chi_minh_day t \<le> t \<and> t < ho_chi_minh_day t + day_ms" for t
    using pos_mod_bound [OF m, of "t + 25200000"] pos_mod_sign [OF m, of "t + 25200000"] div_mult_mod_eq [of "t + 25200000" day_ms]
    unfolding ho_chi_minh_day_def by linarith
  have same: "ho_chi_minh_day u = ho_chi_minh_day t" if "ho_chi_minh_day t \<le> u" "u < ho_chi_minh_day t + day_ms" for t u
  proof -
    have "(u + 25200000) div day_ms = (t + 25200000) div day_ms"
      by (rule int_div_pos_eq [where r = "u - ho_chi_minh_day t"])
        (use that in \<open>simp_all add: ho_chi_minh_day_def mult.commute\<close>)
    then show ?thesis by (simp add: ho_chi_minh_day_def)
  qed
  from inside same show ?thesis by (auto simp: periods_ok_def days_only_def)
qed

lemma documented_day: "getZonedDayRange days_only ''Asia/Ho_Chi_Minh'' 1779962400000 = (1779901200000, 1779987600000)"
  by (simp add: getZonedDayRange_def days_only_def ho_chi_minh_day_def day_ms_def Let_def)

section \<open>CORS\<close>

datatype cors_origin = AnyOrigin | Origins "string list"

record cors_options =
  cors_origin :: cors_origin
  cors_credentials :: bool
  cors_methods :: "string list"
  cors_allowedHeaders :: "string list"

definition cors_options_of :: "(string \<times> jsval) list \<Rightarrow> cors_options" where
  "cors_options_of env =
     \<lparr>cors_origin = (case as_string (env_get env ''CORS_ORIGIN'') of
        None \<Rightarrow> AnyOrigin
      | Some s \<Rightarrow> if s = [] then AnyOrigin else Origins (map js_trim (js_split (CHR '','') s))),
      cors_credentials = True,
      cors_methods = [''GET'', ''POST'', ''PUT'', ''PATCH'', ''DELETE'', ''OPTIONS''],
      cors_allowedHeaders = [''Content-Type'', ''Authorization'', ''Accept-Language'']\<rparr>"

text \<open>Any origin is let in only by a deployment that sets the variable to the empty text: an accepted environment without it has the
  default, which names one origin.\<close>

lemma default_origin:
  assumes "load_env url vars = Some env" "map_get vars ''CORS_ORIGIN'' = None"
  shows "cors_origin (cors_options_of env) = Origins [''https://www.pvpentech.com'']"
proof -
  have "env_value url vars (''CORS_ORIGIN'', DefaultText ''https://www.pvpentech.com'') = Some (''CORS_ORIGIN'', env_get env ''CORS_ORIGIN'')"
    by (rule load_env_get [OF assms(1)]) (simp add: envSchema_def)
  with assms(2) have "env_get env ''CORS_ORIGIN'' = JStr ''https://www.pvpentech.com''"
    by (simp add: env_value_def)
  moreover have "map js_trim (js_split (CHR '','') ''https://www.pvpentech.com'') = [''https://www.pvpentech.com'']" by code_simp
  ultimately show ?thesis by (simp add: cors_options_of_def)
qed

end
