(* ===== verification/Repositories.thy ===== *)
theory Repositories
  imports Settings FirmwareApi
begin

text \<open>
  The repositories of \<open>packages/core/src/repositories\<close> that wrap single calls of the database client, and the
  schema of \<open>station.validator.ts\<close>.  The services of the core make most of these calls themselves; where they and a repository
  have the same query, the lemmas below say so.  Rows of meter values and messages have no key in the model, so the lookups
  by it are left out.
\<close>

section \<open>Queries\<close>

text \<open>\<open>findMany(args)\<close> and \<open>count(args)\<close>: the arguments are a query of the caller, and without them every row is meant.\<close>

definition find_many :: "(db \<Rightarrow> 'r list) \<Rightarrow> ('r list \<Rightarrow> 'r list) option \<Rightarrow> 'r list prog" where
  "find_many rows args = db_read (\<lambda>d. case args of None \<Rightarrow> rows d | Some q \<Rightarrow> q (rows d))"

definition count_rows :: "(db \<Rightarrow> 'r list) \<Rightarrow> ('r list \<Rightarrow> 'r list) option \<Rightarrow> nat prog" where
  "count_rows rows args = db_read (\<lambda>d. length (case args of None \<Rightarrow> rows d | Some q \<Rightarrow> q (rows d)))"

text \<open>\<open>findFirst\<close> with \<open>orderBy: desc\<close>.\<close>

definition first_row :: "'r list \<Rightarrow> 'r option" where
  "first_row xs = (case xs of [] \<Rightarrow> None | x # _ \<Rightarrow> Some x)"

lemma first_row_sort_desc:
  "first_row (sort_desc key xs) = Some x \<Longrightarrow> x \<in> set xs \<and> (\<forall>y \<in> set xs. key y \<le> key x)"
proof -
  assume first: "first_row (sort_desc key xs) = Some x"
  then obtain ys where sort: "sort_key (\<lambda>x. - key x) xs = x # ys"
    by (auto simp: first_row_def sort_desc_def split: list.splits)
  have "sorted (map (\<lambda>x. - key x) (x # ys))" by (metis sort sorted_sort_key)
  moreover have "set (x # ys) = set xs" by (metis sort set_sort)
  ultimately show ?thesis by auto
qed

lemma first_row_None: "first_row (sort_desc key xs) = None \<longleftrightarrow> xs = []"
  by (auto simp: first_row_def sort_desc_def split: list.splits dest: arg_cong [where f = length])

section \<open>station.repository.ts\<close>

text \<open>The data of an update or an upsert are functions on the row that leave its key alone.\<close>

definition stations_findById :: "string \<Rightarrow> (ChargingStation \<times> Connector list) option prog" where
  "stations_findById i = db_read (\<lambda>d. map_option (\<lambda>s. (s, connectors_of i d)) (find_station i d))"

definition stations_findByIdWithDetails :: "string \<Rightarrow> (ChargingStation \<times> Connector list \<times> FaultLog list) option prog" where
  "stations_findByIdWithDetails i = db_read (\<lambda>d. map_option (\<lambda>s. (s, connectors_of i d,
     take 10 (newest_first (filter (\<lambda>l. fl_stationId l = i) (faultLogs d))))) (find_station i d))"

definition stations_findMany :: "(ChargingStation list \<Rightarrow> ChargingStation list) option \<Rightarrow> ChargingStation list prog" where
  "stations_findMany args = find_many stations args"

definition stations_count :: "(ChargingStation list \<Rightarrow> ChargingStation list) option \<Rightarrow> nat prog" where
  "stations_count args = count_rows stations args"

definition stations_create :: "ChargingStation \<Rightarrow> ChargingStation prog" where
  "stations_create row = db_do (create_station row)"

definition stations_upsert :: "string \<Rightarrow> ChargingStation \<Rightarrow> (ChargingStation \<Rightarrow> ChargingStation) \<Rightarrow> ChargingStation prog" where
  "stations_upsert i createData updateData = db_do (upsert_station i updateData createData)"

definition stations_updateById :: "string \<Rightarrow> (ChargingStation \<Rightarrow> ChargingStation) \<Rightarrow> ChargingStation prog" where
  "stations_updateById i f = db_do (update_station i f)"

definition stations_delete :: "string \<Rightarrow> ChargingStation prog" where
  "stations_delete i = db_do (delete_station_row i)"

definition stations_updateStatus :: "string \<Rightarrow> StationStatus \<Rightarrow> ChargingStation prog" where
  "stations_updateStatus i status = db_do (update_station i (\<lambda>s. s\<lparr>st_status := status\<rparr>))"

definition stations_findWithConnectors :: "string \<Rightarrow> (ChargingStation \<times> Connector list) option prog" where
  "stations_findWithConnectors i = db_read (\<lambda>d. map_option (\<lambda>s. (s, connectors_of i d)) (find_station i d))"

definition stations_findOnline :: "string list \<Rightarrow> (ChargingStation \<times> Connector list) list prog" where
  "stations_findOnline connectedIds =
     db_read (\<lambda>d. map (\<lambda>s. (s, connectors_of (st_id s) d)) (filter (\<lambda>s. st_id s \<in> set connectedIds) (stations d)))"

text \<open>The status is a string that the client checks against the enumeration.\<close>

definition stations_updateConnectorStatus :: "string \<Rightarrow> int \<Rightarrow> string \<Rightarrow> nat prog" where
  "stations_updateConnectorStatus s c currentStatus =
     andthen (arg (connector_status currentStatus)) (\<lambda>st.
     db_do (update_connectors (\<lambda>r. co_stationId r = s \<and> co_connectorId r = c) (\<lambda>r. r\<lparr>co_currentStatus := st\<rparr>)))"

definition stations_findConnector :: "string \<Rightarrow> int \<Rightarrow> Connector option prog" where
  "stations_findConnector s c = db_read (find_connector s c)"

definition stations_upsertConnector :: "string \<Rightarrow> int \<Rightarrow> string \<Rightarrow> Connector prog" where
  "stations_upsertConnector s c currentStatus =
     andthen (arg (connector_status currentStatus)) (\<lambda>st.
     db_do (upsert_connector s c (\<lambda>r. r\<lparr>co_currentStatus := st\<rparr>) (new_connector s c st)))"

definition stations_updateHeartbeat :: "string \<Rightarrow> ChargingStation prog" where
  "stations_updateHeartbeat i =
     andthen js_now (\<lambda>now. db_do (update_station i (\<lambda>s. s\<lparr>st_lastHeartbeatAt := Some now\<rparr>)))"

definition stations_updatePassword :: "string \<Rightarrow> string \<Rightarrow> ChargingStation prog" where
  "stations_updatePassword i passwordHash = db_do (update_station i (\<lambda>s. s\<lparr>st_passwordHash := Some passwordHash\<rparr>))"

text \<open>The online list of the service is that of the repository for the connected stations, and the handler of a heartbeat does what the repository
  does, without its errors.\<close>

lemma getOnlineStations_repository:
  "getOnlineStations =
     andthen (ask getConnectedStationIds) (\<lambda>connectedIds.
     if connectedIds = [] then ret [] else stations_findOnline connectedIds)"
  unfolding getOnlineStations_def by (simp only: stations_findOnline_def)

lemma heartbeat_repository:
  "heartbeatHandler i p =
     andthen (ignore_err (stations_updateHeartbeat i)) (\<lambda>_. andthen js_now (\<lambda>now. ret (JObj [(''currentTime'', JStr (date_iso now))])))"
  by (simp add: heartbeatHandler_def stations_updateHeartbeat_def)

section \<open>faultLog.repository.ts\<close>

text \<open>The arguments of a query for fault logs: the conditions on the columns the repository sets itself, the other conditions, the
  order and the page.\<close>

record fault_query =
  fq_stationId :: "string \<Rightarrow> bool"
  fq_resolvedAt :: "int option \<Rightarrow> bool"
  fq_rest :: "FaultLog \<Rightarrow> bool"
  fq_orderBy :: "FaultLog list \<Rightarrow> FaultLog list"
  fq_page :: "FaultLog list \<Rightarrow> FaultLog list"

definition no_query :: fault_query where
  "no_query = \<lparr>fq_stationId = (\<lambda>_. True), fq_resolvedAt = (\<lambda>_. True), fq_rest = (\<lambda>_. True), fq_orderBy = id, fq_page = id\<rparr>"

definition fault_matches :: "fault_query \<Rightarrow> FaultLog \<Rightarrow> bool" where
  "fault_matches q l \<longleftrightarrow> fq_stationId q (fl_stationId l) \<and> fq_resolvedAt q (fl_resolvedAt l) \<and> fq_rest q l"

definition fault_rows :: "fault_query \<Rightarrow> db \<Rightarrow> FaultLog list" where
  "fault_rows q d = fq_page q (fq_orderBy q (filter (fault_matches q) (faultLogs d)))"

definition with_station :: "db \<Rightarrow> FaultLog \<Rightarrow> FaultLog \<times> ChargingStation option" where
  "with_station d l = (l, find_station (fl_stationId l) d)"

definition faults_findById :: "int \<Rightarrow> FaultLog option prog" where
  "faults_findById i = db_read (\<lambda>d. List.find (\<lambda>l. fl_id l = i) (faultLogs d))"

definition faults_findByIdWithStation :: "int \<Rightarrow> (FaultLog \<times> ChargingStation option) option prog" where
  "faults_findByIdWithStation i = db_read (\<lambda>d. map_option (with_station d) (List.find (\<lambda>l. fl_id l = i) (faultLogs d)))"

definition faults_findMany :: "(FaultLog list \<Rightarrow> FaultLog list) option \<Rightarrow> FaultLog list prog" where
  "faults_findMany args = find_many faultLogs args"

definition faults_count :: "(FaultLog list \<Rightarrow> FaultLog list) option \<Rightarrow> nat prog" where
  "faults_count args = count_rows faultLogs args"

definition faults_create :: "FaultLog \<Rightarrow> FaultLog prog" where
  "faults_create row = db_do (create_faultLog row)"

definition faults_update :: "int \<Rightarrow> (FaultLog \<Rightarrow> FaultLog) \<Rightarrow> FaultLog prog" where
  "faults_update i f = db_do (update_faultLog i f)"

text \<open>An undefined resolver leaves the reporter alone.\<close>

definition faults_markResolved :: "int \<Rightarrow> string option \<Rightarrow> FaultLog prog" where
  "faults_markResolved i resolvedBy =
     andthen js_now (\<lambda>now.
     db_do (update_faultLog i (\<lambda>l. l\<lparr>fl_resolvedAt := Some now, fl_reportedBy := keep_or (fl_reportedBy l) resolvedBy\<rparr>)))"

definition faults_findUnresolved :: "fault_query option \<Rightarrow> (FaultLog \<times> ChargingStation option) list prog" where
  "faults_findUnresolved args =
     db_read (\<lambda>d. map (with_station d) (fault_rows ((the_default no_query args)\<lparr>fq_resolvedAt := (\<lambda>t. t = None)\<rparr>) d))"

definition faults_findByStationId :: "string \<Rightarrow> fault_query option \<Rightarrow> (FaultLog \<times> ChargingStation option) list prog" where
  "faults_findByStationId s args =
     db_read (\<lambda>d. map (with_station d) (fault_rows ((the_default no_query args)\<lparr>fq_stationId := (\<lambda>t. t = s), fq_orderBy := newest_first\<rparr>) d))"

definition faults_countByStationId :: "string \<Rightarrow> nat prog" where
  "faults_countByStationId s = db_read (\<lambda>d. length (filter (\<lambda>l. fl_stationId l = s) (faultLogs d)))"

definition faults_countUnresolved :: "string option \<Rightarrow> nat prog" where
  "faults_countUnresolved s = db_read (\<lambda>d. length (filter (\<lambda>l. fl_resolvedAt l = None \<and>
     (case nonempty s of None \<Rightarrow> True | Some t \<Rightarrow> fl_stationId l = t)) (faultLogs d)))"

text \<open>The service resolves a fault as the repository does.\<close>

lemma resolve_fault_repository: "resolve_fault i resolvedBy = faults_markResolved i resolvedBy"
  by (simp add: resolve_fault_def faults_markResolved_def)

text \<open>What the caller asks of the columns the repository sets is overridden, not combined: a query for the resolved faults of one station,
  passed to \<open>findUnresolved\<close>, gets its unresolved ones.\<close>

lemma unresolved_overrides_the_caller:
  "faults_findUnresolved (Some (q\<lparr>fq_resolvedAt := P\<rparr>)) = faults_findUnresolved (Some q)"
  by (simp add: faults_findUnresolved_def the_default_def)

section \<open>meterValue.repository.ts\<close>

definition readings_findMany :: "(MeterValue list \<Rightarrow> MeterValue list) option \<Rightarrow> MeterValue list prog" where
  "readings_findMany args = find_many meterValues args"

definition readings_count :: "(MeterValue list \<Rightarrow> MeterValue list) option \<Rightarrow> nat prog" where
  "readings_count args = count_rows meterValues args"

definition readings_create :: "MeterValue \<Rightarrow> MeterValue prog" where
  "readings_create r =
     db_do (with_fk (\<lambda>d. find_transaction (mv_transactionId r) d \<noteq> None) (on_meterValues (insert_row meterValue_ok (\<lambda>_ _. False) r)))"

definition readings_createMany :: "MeterValue list \<Rightarrow> nat prog" where
  "readings_createMany rs = db_do (create_meterValues rs)"

definition readings_findByTransactionId :: "int \<Rightarrow> MeterValue list prog" where
  "readings_findByTransactionId t =
     db_read (\<lambda>d. sort_key mv_timestamp (filter (\<lambda>r. mv_transactionId r = t) (meterValues d)))"

definition readings_getLatestByTransactionId :: "int \<Rightarrow> string option \<Rightarrow> MeterValue option prog" where
  "readings_getLatestByTransactionId t measurand =
     db_read (\<lambda>d. first_row (sort_desc mv_timestamp (filter (\<lambda>r. mv_transactionId r = t \<and>
       (case nonempty measurand of None \<Rightarrow> True | Some m \<Rightarrow> mv_measurand r = m)) (meterValues d))))"

definition readings_getEnergyReading :: "int \<Rightarrow> MeterValue option prog" where
  "readings_getEnergyReading t =
     db_read (\<lambda>d. first_row (sort_desc mv_timestamp (filter (\<lambda>r. mv_transactionId r = t \<and>
       mv_measurand r = ''Energy.Active.Import.Register'') (meterValues d))))"

definition readings_deleteByTransactionId :: "int \<Rightarrow> nat prog" where
  "readings_deleteByTransactionId t = db_do (on_meterValues (delete_rows (\<lambda>r. mv_transactionId r = t)))"

lemma energy_reading_is_a_latest:
  "readings_getEnergyReading t = readings_getLatestByTransactionId t (Some ''Energy.Active.Import.Register'')"
  by (simp add: readings_getEnergyReading_def readings_getLatestByTransactionId_def nonempty_def)

text \<open>A reading that is found belongs to the session and no other of the kind is newer; none is found only if there is none.\<close>

lemma latest_reading:
  assumes "readings_getLatestByTransactionId t (Some m) w = (Inr found, w')" "m \<noteq> []"
  defines "kind \<equiv> {r \<in> set (meterValues (db w)). mv_transactionId r = t \<and> mv_measurand r = m}"
  shows "case found of None \<Rightarrow> kind = {} | Some r \<Rightarrow> r \<in> kind \<and> (\<forall>q \<in> kind. mv_timestamp q \<le> mv_timestamp r)"
proof -
  let ?rows = "filter (\<lambda>r. mv_transactionId r = t \<and> mv_measurand r = m) (meterValues (db w))"
  from assms(1,2) have found: "found = first_row (sort_desc mv_timestamp ?rows)"
    by (auto simp: readings_getLatestByTransactionId_def nonempty_def db_read_def db_do_def Let_def split: if_splits)
  show ?thesis
  proof (cases found)
    case None
    with found first_row_None [of mv_timestamp ?rows] show ?thesis by (auto simp: kind_def filter_empty_conv)
  next
    case (Some r)
    have "r \<in> kind \<and> (\<forall>q \<in> kind. mv_timestamp q \<le> mv_timestamp r)"
      using first_row_sort_desc [of mv_timestamp ?rows r] found Some by (auto simp: kind_def)
    with Some show ?thesis by simp
  qed
qed

section \<open>ocppMessage.repository.ts\<close>

definition messages_create :: "OcppMessageRow \<Rightarrow> OcppMessageRow prog" where
  "messages_create row = db_do (create_ocppMessage row)"

definition messages_findMany :: "(OcppMessageRow list \<Rightarrow> OcppMessageRow list) option \<Rightarrow> OcppMessageRow list prog" where
  "messages_findMany args = find_many ocppMessages args"

definition messages_count :: "(OcppMessageRow list \<Rightarrow> OcppMessageRow list) option \<Rightarrow> nat prog" where
  "messages_count args = count_rows ocppMessages args"

definition messages_findByStationId :: "string \<Rightarrow> nat option \<Rightarrow> OcppMessageRow list prog" where
  "messages_findByStationId s limit =
     db_read (\<lambda>d. take (the_default 50 limit) (sort_desc om_createdAt (filter (\<lambda>r. om_stationId r = s) (ocppMessages d))))"

definition messages_findRecent :: "nat option \<Rightarrow> OcppMessageRow list prog" where
  "messages_findRecent limit = db_read (\<lambda>d. take (the_default 100 limit) (sort_desc om_createdAt (ocppMessages d)))"

definition messages_deleteOlderThan :: "int \<Rightarrow> nat prog" where
  "messages_deleteOlderThan cutoffDate = db_do (delete_messages_before cutoffDate)"

section \<open>firmware.repository.ts\<close>

definition firmware_findById :: "int \<Rightarrow> Firmware option prog" where
  "firmware_findById i = db_read (\<lambda>d. List.find (\<lambda>f. fw_id f = i) (firmwares d))"

definition firmware_findBySha256 :: "string \<Rightarrow> Firmware option prog" where
  "firmware_findBySha256 sha256 = db_read (\<lambda>d. List.find (\<lambda>f. fw_sha256 f = sha256) (firmwares d))"

definition firmware_findAll :: "rat \<Rightarrow> rat \<Rightarrow> bool option \<Rightarrow> (Firmware list \<times> nat) prog" where
  "firmware_findAll page limit isActive =
     (let rows = (\<lambda>d. newest_first (filter (\<lambda>f. case isActive of None \<Rightarrow> True | Some b \<Rightarrow> fw_isActive f = b) (firmwares d)))
      in andthen (db_read rows) (\<lambda>xs.
         andthen (arg (slice (js_mul (js_sub page 1) limit) limit xs)) (\<lambda>items.
         andthen (db_read (\<lambda>d. length (rows d))) (\<lambda>n.
         ret (items, n)))))"

definition firmware_countCampaigns :: "int \<Rightarrow> nat prog" where
  "firmware_countCampaigns i = db_read (\<lambda>d. length (filter (\<lambda>c. ca_firmwareId c = i) (campaigns d)))"

text \<open>The service works through the repository.\<close>

lemma find_firmware_repository:
  "find_firmware i = andthen (firmware_findById i) (from_option (AppErr (NotFoundError ''firmware not found'' ''firmware:notFound'')))"
  by (simp add: find_firmware_def firmware_findById_def)

lemma list_firmware_repository:
  "list_firmware page limit isActive =
     andthen (firmware_findAll page limit isActive) (\<lambda>(items, n).
     ret \<lparr>li_items = items, li_total = n, li_page = page, li_limit = limit, li_totalPages = js_ceil (js_div (of_nat n) limit)\<rparr>)"
  by (rule ext) (simp add: list_firmware_def listing_def firmware_findAll_def Let_def andthen_def ret_def split: sum.splits prod.splits)

lemma delete_firmware_repository:
  "delete_firmware i =
     andthen (find_firmware i) (\<lambda>fw.
     andthen (firmware_countCampaigns i) (\<lambda>campaignCount.
     if 0 < campaignCount
     then raise (AppErr (ConflictError (''the firmware has '' @ show_nat campaignCount @ '' campaigns'') ''firmware:hasCampaigns''))
     else
       andthen (db_do (delete_firmware_row i)) (\<lambda>_.
       andthen (ask (\<lambda>w. getAbsolutePath (host w) (fw_filename fw))) (\<lambda>filePath.
       ignore_err (fs_do (map_delete filePath))))))"
  by (simp add: delete_firmware_def firmware_countCampaigns_def)

section \<open>provisioning.repository.ts\<close>

definition provisioning_findBySerial :: "string \<Rightarrow> ChargerProvisioning option prog" where
  "provisioning_findBySerial serialNumber = db_read (find_serial serialNumber)"

definition provisioning_findMany :: "(ChargerProvisioning list \<Rightarrow> ChargerProvisioning list) option \<Rightarrow> ChargerProvisioning list prog" where
  "provisioning_findMany args = find_many provisionings args"

definition provisioning_count :: "(ChargerProvisioning list \<Rightarrow> ChargerProvisioning list) option \<Rightarrow> nat prog" where
  "provisioning_count args = count_rows provisionings args"

definition provisioning_create :: "ChargerProvisioning \<Rightarrow> ChargerProvisioning prog" where
  "provisioning_create row = db_do (create_provisioning row)"

definition provisioning_update :: "int \<Rightarrow> (ChargerProvisioning \<Rightarrow> ChargerProvisioning) \<Rightarrow> ChargerProvisioning prog" where
  "provisioning_update i f = db_do (update_provisioning (\<lambda>r. pv_id r = i) f)"

section \<open>station.validator.ts\<close>

definition stationFieldsSchema :: "jsval \<Rightarrow> bool" where
  "stationFieldsSchema b \<longleftrightarrow> z_object b \<and> z_optional z_positive_int (js_get b ''siteId'')
     \<and> list_all (\<lambda>k. z_optional (z_string 0 100) (js_get b k)) [''modelName'', ''manufacturer'', ''serialNumber'']
     \<and> z_optional (z_string 0 50) (js_get b ''firmwareVersion'')"

definition createStationSchema :: "jsval \<Rightarrow> bool" where
  "createStationSchema b \<longleftrightarrow> stationFieldsSchema b \<and> z_station_id (js_get b ''id'')"

text \<open>\<open>partial().omit({ id: true })\<close>: the fields were optional, and without the id nothing is required.\<close>

definition updateStationSchema :: "jsval \<Rightarrow> bool" where
  "updateStationSchema b \<longleftrightarrow> stationFieldsSchema b"

text \<open>The ids that the service numbers stations with pass the schema as long as the number has seven digits.\<close>

lemma generated_id_passes:
  assumes "0 \<le> n" "n < 10 ^ 7"
  shows "createStationSchema (JObj [(''id'', JStr (''EN'' @ js_padStart 7 (CHR ''0'') (show_int n)))])"
proof -
  have "length (show_int n) \<le> 7"
    using assms length_show_nat_le [of "nat n" 7] by (simp add: show_int_def nat_less_iff)
  moreover have "list_all is_digit (show_int n)"
    using assms(1) by (auto simp: show_int_def list_all_iff dest: show_nat_digits)
  ultimately show ?thesis
    by (auto simp: createStationSchema_def stationFieldsSchema_def z_station_id_def z_optional_def js_padStart_def is_digit_def list_all_iff
        split: if_splits)
qed

lemma eighth_digit_is_refused: "\<not> createStationSchema (JObj [(''id'', JStr (''EN'' @ js_padStart 7 (CHR ''0'') (show_int 10000000)))])"
  using length_show_nat_ge [of 7 10000000] by (simp add: createStationSchema_def z_station_id_def show_int_def js_padStart_def)

end
