(* ===== verification/StationProps.thy ===== *)
theory StationProps
  imports Admin
begin

text \<open>
  What the deletion of a station guarantees: it is refused while any session refers to the station, and otherwise takes the
  station and its rows away in one transaction, or nothing at all.
\<close>

section \<open>Deleting a station\<close>

text \<open>The rows that are left, table by table.\<close>

definition without_station :: "string \<Rightarrow> db \<Rightarrow> db \<Rightarrow> bool" where
  "without_station i d d' \<longleftrightarrow>
     stations d' = filter (\<lambda>s. st_id s \<noteq> i) (stations d) \<and>
     connectors d' = filter (\<lambda>c. co_stationId c \<noteq> i) (connectors d) \<and>
     ocppMessages d' = filter (\<lambda>m. om_stationId m \<noteq> i) (ocppMessages d) \<and>
     offlineLogs d' = filter (\<lambda>l. ol_stationId l \<noteq> i) (offlineLogs d) \<and>
     faultLogs d' = filter (\<lambda>l. fl_stationId l \<noteq> i) (faultLogs d) \<and>
     configs d' = filter (\<lambda>c. cc_stationId c \<noteq> i) (configs d) \<and>
     diagnostics d' = filter (\<lambda>r. dr_stationId r \<noteq> i) (diagnostics d) \<and>
     transactions d' = transactions d \<and> outbox d' = outbox d \<and> idTokens d' = idTokens d \<and>
     map pv_serialNumber (provisionings d') = map pv_serialNumber (provisionings d) \<and>
     (\<forall>r \<in> set (provisionings d'). pv_stationId r \<noteq> Some i)"

lemma clear_rows_run:
  assumes "clear_station_rows i w = (Inr x, w')"
  shows "connectors (db w') = filter (\<lambda>c. co_stationId c \<noteq> i) (connectors (db w)) \<and>
    ocppMessages (db w') = filter (\<lambda>m. om_stationId m \<noteq> i) (ocppMessages (db w)) \<and>
    offlineLogs (db w') = filter (\<lambda>l. ol_stationId l \<noteq> i) (offlineLogs (db w)) \<and>
    faultLogs (db w') = filter (\<lambda>l. fl_stationId l \<noteq> i) (faultLogs (db w)) \<and>
    configs (db w') = filter (\<lambda>c. cc_stationId c \<noteq> i) (configs (db w)) \<and>
    diagnostics (db w') = filter (\<lambda>r. dr_stationId r \<noteq> i) (diagnostics (db w)) \<and>
    stations (db w') = stations (db w) \<and> transactions (db w') = transactions (db w) \<and> outbox (db w') = outbox (db w) \<and>
    idTokens (db w') = idTokens (db w) \<and>
    map pv_serialNumber (provisionings (db w')) = map pv_serialNumber (provisionings (db w))"
  using assms
  by (auto simp: clear_station_rows_def run_Inr op_Inr update_progresses_def map_update_where)

lemma delete_row_run:
  assumes "db_do (delete_station_row i) w = (Inr x, w')"
  shows "stations (db w') = filter (\<lambda>s. st_id s \<noteq> i) (stations (db w)) \<and>
    connectors (db w') = connectors (db w) \<and> ocppMessages (db w') = ocppMessages (db w) \<and> offlineLogs (db w') = offlineLogs (db w) \<and>
    faultLogs (db w') = faultLogs (db w) \<and> configs (db w') = configs (db w) \<and> diagnostics (db w') = diagnostics (db w) \<and>
    transactions (db w') = transactions (db w) \<and> outbox (db w') = outbox (db w) \<and> idTokens (db w') = idTokens (db w) \<and>
    map pv_serialNumber (provisionings (db w')) = map pv_serialNumber (provisionings (db w)) \<and>
    (\<forall>r \<in> set (provisionings (db w')). pv_stationId r \<noteq> Some i)"
  using assms
  by (auto simp: run_Inr delete_station_row_def with_fk_Inr op_Inr map_update_where split: sum.splits)
    (auto simp: update_where_def)

lemma deletion_commits:
  assumes "db_transaction (andthen (clear_station_rows i) (\<lambda>_. andthen (db_do (delete_station_row i)) (\<lambda>_. ret ()))) w = (Inr x, w')"
  shows "without_station i (db w) (db w')"
proof -
  have txn: "txn v1 = TxOk" if "andthen (clear_station_rows i) (\<lambda>_. andthen (db_do (delete_station_row i)) (\<lambda>_. ret ())) v = (Inr y, v1)"
    "txn v = TxOk" for v y v1
    using that by (auto simp: clear_station_rows_def run_Inr)
  obtain w1 where run: "andthen (clear_station_rows i) (\<lambda>_. andthen (db_do (delete_station_row i)) (\<lambda>_. ret ()))
      (w\<lparr>tick := tick w + 1, txn := TxOk\<rparr>) = (Inr x, w1)" and db: "db w' = db w1"
    by (rule committed_run [OF assms txn])
  then obtain w2 y where "clear_station_rows i (w\<lparr>tick := tick w + 1, txn := TxOk\<rparr>) = (Inr (), w2)"
    "db_do (delete_station_row i) w2 = (Inr y, w1)"
    by (auto simp: andthen_Inr ret_def)
  from clear_rows_run [OF this(1)] delete_row_run [OF this(2)] show ?thesis
    by (simp add: without_station_def db)
qed

lemma station_by_id_run:
  assumes "station_by_id i w = (r, w')"
  shows "db w' = db w" and "r = Inr x \<Longrightarrow> find_station i (db w) \<noteq> None"
  using assms
  by (auto simp: station_by_id_def andthen_def db_read_def db_do_def ask_def from_option_def raise_def ret_def Let_def
      split: if_splits option.splits sum.splits prod.splits)

lemma read_run: "db_read f w = (r, w') \<Longrightarrow> db w' = db w \<and> (case r of Inl _ \<Rightarrow> True | Inr x \<Rightarrow> x = f (db w))"
  by (auto simp: db_read_def db_do_def Let_def split: if_splits)


text \<open>The route of the portal deletes the registration first, outside that transaction: a deletion that is refused has lost it.\<close>

definition registered_station :: ChargerProvisioning where
  "registered_station = \<lparr>pv_id = 1, pv_serialNumber = ''SN1'', pv_modelName = None, pv_clientId = Some ''EN0000001'',
     pv_stationId = Some ''EN0000001'', pv_status = PvProvisioned, pv_registeredBy = None, pv_provisionedAt = Some 0,
     pv_rejectReason = None, pv_manufacturerId = None, pv_chargingKwh = 7\<rparr>"

definition used_station_world :: world where
  "used_station_world = boot_world quiet_host (empty_db\<lparr>stations := [sample_station], provisionings := [registered_station],
     transactions := [sample_tx 2 ''s2'' TxStopped]\<rparr>)"

definition delete_request :: http_request where
  "delete_request = \<lparr>rq_params = [(''id'', ''EN0000001'')], rq_query = [], rq_headers = [], rq_body = JNull, rq_file = None,
     rq_username = None\<rparr>"

lemma refused_deletion_loses_registration:
  "map rs_status (case fst (station_delete_route delete_request used_station_world) of Inl _ \<Rightarrow> [] | Inr rs \<Rightarrow> [rs]) = [409]"
  "map st_id (stations (db (snd (station_delete_route delete_request used_station_world)))) = [''EN0000001'']"
  "length (provisionings (db (snd (station_delete_route delete_request used_station_world)))) = 0"
  by code_simp+

end
