(* ===== verification/ProvisionProps.thy ===== *)
theory ProvisionProps
  imports Admin
begin

text \<open>
  What provisioning guarantees: the credentials it hands out open the station's OCPP connection, only the
  manufacturer of a serial number gets them, and a bulk upload counts every row once.
\<close>

section \<open>What provisioning leaves alone\<close>

definition same_host :: "world \<Rightarrow> world \<Rightarrow> bool" where
  "same_host w w' \<longleftrightarrow> host w' = host w"

interpretation same_host: contract same_host
  by unfold_locales (auto simp: same_host_def)

lemma host_db_do [contract_intros]: "conforms same_host (db_do g)"
  by (rule same_host.conforms_db_do) (simp add: same_host_def)

lemma host_disconnect [contract_intros]: "conforms same_host (forceDisconnect s)"
  by (simp add: conforms_def same_host_def forceDisconnect_def andthen_def ask_def ws_terminate_def unregister_def ret_def
      split: option.splits)

lemma host_provision: "conforms same_host (provision sn m i)"
  unfolding provision_def station_id_of_def generateStationId_def store_credentials_def by (intro contract_intros)

lemma db_disconnect: "db (snd (forceDisconnect s w)) = db w"
  by (simp add: forceDisconnect_def andthen_def ask_def ws_terminate_def unregister_def ret_def split: option.splits)

section \<open>The credentials\<close>

definition has_password :: "string \<Rightarrow> string \<Rightarrow> db \<Rightarrow> bool" where
  "has_password i hash d \<longleftrightarrow> (\<exists>s. find_station i d = Some s \<and> st_passwordHash s = Some hash)"

lemma find_in_updated:
  assumes "\<And>x. P x \<Longrightarrow> P (f x)"
  shows "List.find P (update_where P f xs) = map_option f (List.find P xs)"
  using find_update_where [of P P f xs] assms find_SomeD [of P xs] by (cases "List.find P xs") auto

lemma upsert_station_password:
  assumes "upsert_station i f r d = Inr (x, d')" "st_id r = i"
    and "\<And>s. st_id (f s) = st_id s \<and> st_passwordHash (f s) = Some hash" "st_passwordHash r = Some hash"
  shows "has_password i hash d'"
proof -
  have keep: "st_id x = i \<Longrightarrow> st_id (f x) = i" for x using assms(3) by simp
  from assms(1) show ?thesis
    unfolding upsert_station_def on_stations_def lift_rows_Inr upsert_row_Inr insert_row_Inr update_row_Inr
    using assms(2-4) find_in_updated [of "\<lambda>q. st_id q = i" f, OF keep]
    by (auto simp: has_password_def find_station_def find_append_None)
qed

lemma store_credentials_run:
  assumes "store_credentials r i hash m now w = (Inr x, w')"
  shows "has_password i hash (db w') \<and> map pv_serialNumber (provisionings (db w')) = map pv_serialNumber (provisionings (db w))"
proof -
  from assms [unfolded store_credentials_def]
  obtain w1 where run: "andthen (db_do (upsert_station i (\<lambda>s. model_or m (s\<lparr>st_passwordHash := Some hash\<rparr>))
            (new_station i (pv_serialNumber r) (Some hash) m None (pv_chargingKwh r)))) (\<lambda>_.
        andthen (db_do (update_provisioning (\<lambda>q. pv_serialNumber q = pv_serialNumber r)
            (\<lambda>q. q\<lparr>pv_stationId := Some i, pv_status := PvProvisioned, pv_provisionedAt := Some now\<rparr>))) (\<lambda>_.
        ret ())) (w\<lparr>tick := tick w + 1, txn := TxOk\<rparr>) = (Inr x, w1)" and db: "db w' = db w1"
    by (rule committed_run, (auto simp: run_Inr)[1], blast)
  from run obtain y d1 z where 1: "upsert_station i (\<lambda>s. model_or m (s\<lparr>st_passwordHash := Some hash\<rparr>))
            (new_station i (pv_serialNumber r) (Some hash) m None (pv_chargingKwh r)) (db w) = Inr (y, d1)"
    and 2: "update_provisioning (\<lambda>q. pv_serialNumber q = pv_serialNumber r)
            (\<lambda>q. q\<lparr>pv_stationId := Some i, pv_status := PvProvisioned, pv_provisionedAt := Some now\<rparr>) d1 = Inr (z, db w1)"
    by (auto simp: run_Inr)
  from 1 have "has_password i hash d1"
    by (rule upsert_station_password) (auto simp: new_station_def model_or_def split: option.splits)
  moreover from 1 have "provisionings d1 = provisionings (db w)"
    by (auto simp: upsert_station_def on_stations_def lift_rows_Inr)
  moreover from 2 have "stations (db w1) = stations d1"
    "provisionings (db w1) = update_where (\<lambda>q. pv_serialNumber q = pv_serialNumber r)
       (\<lambda>q. q\<lparr>pv_stationId := Some i, pv_status := PvProvisioned, pv_provisionedAt := Some now\<rparr>) (provisionings d1)"
    by (auto simp: update_provisioning_Inr update_unique_Inr)
  ultimately show ?thesis
    unfolding db by (simp add: has_password_def find_station_def map_update_where)
qed

abbreviation resolved_model :: "string option \<Rightarrow> ChargerProvisioning \<Rightarrow> string option" where
  "resolved_model m r \<equiv> (case nonempty m of Some m \<Rightarrow> Some m | None \<Rightarrow> nonempty (pv_modelName r))"

text \<open>The part of \<open>provision\<close> after its checks.\<close>

definition provision_tail :: "ChargerProvisioning \<Rightarrow> string option \<Rightarrow> ProvisionResult prog" where
  "provision_tail r m =
     andthen (station_id_of r) (\<lambda>stationId.
     andthen (random_password 32) (\<lambda>plainPassword.
     andthen (ask (\<lambda>w. bcrypt_hash (host w) plainPassword)) (\<lambda>passwordHash.
     andthen js_now (\<lambda>now.
     andthen (store_credentials r stationId passwordHash (resolved_model m r) now) (\<lambda>_.
     andthen (only_if (pv_status r = PvProvisioned) (forceDisconnect stationId)) (\<lambda>_.
     andthen (ask (\<lambda>w. csms_url (host w))) (\<lambda>url.
     ret \<lparr>pr_station_id = stationId, pr_csms_server = url, pr_uri = ''/ws/'', pr_port = 443,
       pr_password = plainPassword\<rparr>)))))))"

lemma host_station_id: "conforms same_host (station_id_of r)"
  unfolding station_id_of_def generateStationId_def by (intro contract_intros)

lemma provision_tail_run:
  assumes "provision_tail r m w = (Inr res, w')"
  shows "has_password (pr_station_id res) (bcrypt_hash (host w) (pr_password res)) (db w')"
    and "case nonempty (pv_stationId r) of Some s \<Rightarrow> pr_station_id res = s | None \<Rightarrow> True"
proof -
  from assms obtain sid w1 v where sid: "station_id_of r w = (Inr sid, w1)"
    and store: "store_credentials r sid (bcrypt_hash (host w1) (pr_password res)) (resolved_model m r)
      (clock (host w1) (Suc (tick w1))) (w1\<lparr>tick := Suc (Suc (tick w1))\<rparr>) = (Inr (), v)"
    and net: "only_if (pv_status r = PvProvisioned) (forceDisconnect sid) v = (Inr (), w')" and res: "pr_station_id res = sid"
    by (auto simp: provision_tail_def run_Inr)
  from conformsD [OF host_station_id sid] have "host w1 = host w" by (simp add: same_host_def)
  with store_credentials_run [OF store]
  have "has_password sid (bcrypt_hash (host w) (pr_password res)) (db v)" by simp
  moreover have "db w' = db v"
    using net db_disconnect [of sid v] by (auto simp: only_if_def ret_def split: if_splits)
  ultimately show "has_password (pr_station_id res) (bcrypt_hash (host w) (pr_password res)) (db w')" by (simp add: res)
  from res sid show "case nonempty (pv_stationId r) of Some s \<Rightarrow> pr_station_id res = s | None \<Rightarrow> True"
    by (auto simp: station_id_of_def ret_def split: option.splits)
qed

lemma provision_Inr:
  assumes "provision serialNumber m i w = (Inr res, w')"
  obtains r where "find_serial serialNumber (db w) = Some r" "i = None \<or> pv_manufacturerId r = i"
    "pv_status r \<notin> {PvRejected, PvRevoked}"
    "has_password (pr_station_id res) (bcrypt_hash (host w') (pr_password res)) (db w')"
    "case nonempty (pv_stationId r) of Some s \<Rightarrow> pr_station_id res = s | None \<Rightarrow> True"
proof -
  from conformsD [OF host_provision assms] have h: "host w' = host w" by (simp add: same_host_def)
  from assms obtain r where r: "find_serial serialNumber (db w) = Some r"
    and guard: "i = None \<or> pv_manufacturerId r = i" "pv_status r \<notin> {PvRejected, PvRevoked}"
    and rest: "provision_tail r m (w\<lparr>tick := Suc (tick w)\<rparr>) = (Inr res, w')"
    unfolding provision_def provision_tail_def [symmetric]
    by (auto simp: run_Inr split: if_splits)
  from provision_tail_run [OF rest] guard r that h show thesis by auto
qed

section \<open>The credentials open the connection\<close>

lemma basic_auth_accepts:
  assumes "base64_decode enc = i @ '':'' @ pw" "CHR '':'' \<notin> set i"
  shows "credentials_match h i hash (Some (''Basic '' @ enc)) = bcrypt_compare h pw hash"
  using assms js_indexOf_append [of "CHR '':''" i pw] by (simp add: credentials_match_def js_startsWith_def)

text \<open>C15. A charger that was provisioned can connect: with the station id and the password it was given, the Basic
  authentication of the OCPP server accepts it, whoever checks the hash as \<open>bcrypt\<close> documents.\<close>

theorem provisioned_charger_can_connect:
  assumes "provision serialNumber model manufacturerId w = (Inr res, w')"
    and "bcrypt_compare (host w') (pr_password res) (bcrypt_hash (host w') (pr_password res))"
    and "base64_decode enc = pr_station_id res @ '':'' @ pr_password res" "CHR '':'' \<notin> set (pr_station_id res)"
    and "txn w' = NoTx" "\<not> fails (host w') (tick w')"
  shows "fst (verifyOcppBasicAuth (pr_station_id res) (Some (''Basic '' @ enc)) w') = Inr True"
proof -
  from provision_Inr [OF assms(1)] obtain s where "find_station (pr_station_id res) (db w') = Some s"
    "st_passwordHash s = Some (bcrypt_hash (host w') (pr_password res))"
    by (auto simp: has_password_def)
  with assms(2,5,6) basic_auth_accepts [OF assms(3,4)] show ?thesis
    by (simp add: verifyOcppBasicAuth_def db_read_def db_do_def andthen_def ask_def ret_def)
qed

definition sample_provisioning :: ChargerProvisioning where
  "sample_provisioning = \<lparr>pv_id = 1, pv_serialNumber = ''SN9'', pv_modelName = None, pv_clientId = Some ''EN0000009'',
     pv_stationId = None, pv_status = PvRegistered, pv_registeredBy = None, pv_provisionedAt = None, pv_rejectReason = None,
     pv_manufacturerId = None, pv_chargingKwh = 7\<rparr>"

definition provisioning_world :: world where
  "provisioning_world = boot_world quiet_host (empty_db\<lparr>provisionings := [sample_provisioning]\<rparr>)"

definition sample_credentials :: ProvisionResult where
  "sample_credentials = \<lparr>pr_station_id = ''EN0000009'', pr_csms_server = ''wss://csms'', pr_uri = ''/ws/'', pr_port = 443,
     pr_password = ''AAAAAAAAAAAAAAAAAAAAAAAAAAAAAAA1''\<rparr>"

lemma sample_provision:
  "fst (provision ''SN9'' None None provisioning_world) = Inr sample_credentials"
  "txn (snd (provision ''SN9'' None None provisioning_world)) = NoTx"
  by code_simp+

lemma sample_provision_host: "host (snd (provision ''SN9'' None None provisioning_world)) = quiet_host"
  using conformsD [OF host_provision surjective_pairing [of "provision ''SN9'' None None provisioning_world"]]
  by (simp add: same_host_def provisioning_world_def boot_world_def)

theorem provisioned_charger_can_connect_witness:
  "fst (verifyOcppBasicAuth ''EN0000009'' (Some (''Basic '' @ ''RU4wMDAwMDA5OkFBQUFBQUFBQUFBQUFBQUFBQUFBQUFBQUFBQUFBQUEx''))
     (snd (provision ''SN9'' None None provisioning_world))) = Inr True"
proof -
  let ?w = "snd (provision ''SN9'' None None provisioning_world)"
  have run: "provision ''SN9'' None None provisioning_world = (Inr sample_credentials, ?w)"
    using sample_provision(1) by (metis prod.collapse)
  have dec: "base64_decode ''RU4wMDAwMDA5OkFBQUFBQUFBQUFBQUFBQUFBQUFBQUFBQUFBQUFBQUEx'' = pr_station_id sample_credentials @ '':'' @ pr_password sample_credentials"
    by code_simp
  show ?thesis
    using provisioned_charger_can_connect [OF run _ dec] sample_provision(2) sample_provision_host
    by (simp add: sample_credentials_def quiet_host_def)
qed

section \<open>Only the manufacturer of a serial number\<close>

lemma manufacturerAuth_run:
  assumes "manufacturerAuth req w = (r, w1)"
  shows "db w1 = db w \<and> host w1 = host w"
    and "r = Inr (Inr ma) \<Longrightarrow> \<exists>tok ch. map_get (rq_headers req) ''x-token'' = Some tok \<and> map_get (rq_headers req) ''x-channel'' = Some ch \<and>
      find_channel ch (db w) = Some ma \<and> ma_isActive ma \<and> bcrypt_compare (host w) tok (ma_tokenHash ma)"
    and "r = Inr (Inl rs) \<Longrightarrow> rs_status rs \<noteq> 200" and "r = Inl e \<Longrightarrow> False"
  using assms
  by (auto simp: manufacturerAuth_def andthen_def catch_err_def ask_def ret_def db_read_def db_do_def Let_def charger_refusal_def
      nonempty_def split: if_splits option.splits)

lemma store_credentials_Inl: "store_credentials r i hash m now w = (Inl e, w') \<Longrightarrow> db w' = db w"
  unfolding store_credentials_def by (rule db_transaction_Inl)

text \<open>The rows a station's registration consists of.\<close>

definition same_registry :: "db \<Rightarrow> db \<Rightarrow> bool" where
  "same_registry d d' \<longleftrightarrow> stations d' = stations d \<and> provisionings d' = provisionings d"

interpretation same_registry: db_contract same_registry
  by unfold_locales (auto simp: same_registry_def)

lemma registry_station_id: "conforms (on_db same_registry) (station_id_of r)"
  unfolding station_id_of_def generateStationId_def
  by (intro contract_intros same_registry.conforms_op) (auto simp: next_station_number_Inr same_registry_def)

lemma provision_Inl:
  assumes "provision serialNumber m i w = (Inl e, w')"
  shows "on_db same_registry w w'"
proof -
  have tail: "on_db same_registry u w'" if t: "provision_tail r m u = (Inl e, w')" for r u
  proof (rule same_registry.run_skip [OF t [unfolded provision_tail_def] registry_station_id], goal_cases)
    case (1 sid u1)
    from 1(2) show ?case
      by (auto simp: andthen_def random_password_def ask_def js_now_def ret_def only_if_def forceDisconnect_def ws_terminate_def
          unregister_def on_db_def same_registry_def dest!: store_credentials_Inl split: sum.splits if_splits prod.splits option.splits)
  qed
  show ?thesis
  proof (rule same_registry.run_skip [OF assms [unfolded provision_def, folded provision_tail_def] same_registry.conforms_db_read],
      goal_cases)
    case (1 found w1)
    from 1(2) show ?case
      by (auto simp: from_option_def andthen_def raise_def ret_def same_registry.refl dest: tail split: option.splits if_splits)
  qed
qed

lemma chargerAuth_run:
  assumes "chargerAuth i req w = (r, w')"
  shows "\<exists>rs. r = Inr rs \<and> (rs_status rs \<noteq> 200 \<and> on_db same_registry w w' \<or>
    (\<exists>serial res. js_get (rq_body req) ''origin'' = JStr serial \<and>
       provision serial (text_of (js_get (rq_body req) ''model'')) i w = (Inr res, w') \<and>
       ch_data (rs_body rs) = Some \<lparr>cred_clientId = pr_station_id res, cred_pwd = pr_password res, cred_wsUrl = pr_csms_server res\<rparr>))"
proof (cases "z_object (rq_body req) \<and> z_string 1 100 (js_get (rq_body req) ''origin'') \<and> z_string 1 100 (js_get (rq_body req) ''model'')")
  case False
  with assms show ?thesis
    by (auto simp: chargerAuth_def andthen_def ask_def ret_def Let_def charger_refusal_def same_registry.refl)
next
  case True
  then obtain serial where o: "js_get (rq_body req) ''origin'' = JStr serial" by (auto simp: z_string_def split: jsval.splits)
  obtain q w1 where run: "provision serial (text_of (js_get (rq_body req) ''model'')) i w = (q, w1)"
    by (cases "provision serial (text_of (js_get (rq_body req) ''model'')) i w")
  from assms True o run have "w' = w1"
    by (auto simp: chargerAuth_def andthen_def catch_err_def ask_def ret_def Let_def text_of_def the_default_def split: sum.splits)
  with assms True o run provision_Inl [of serial "text_of (js_get (rq_body req) ''model'')" i w] show ?thesis
    by (cases q) (auto simp: chargerAuth_def andthen_def catch_err_def ask_def ret_def Let_def text_of_def the_default_def charger_refusal_def
        split: js_error.splits)
qed

text \<open>C16. Only the owner of a serial number gets credentials: a request that is answered with data carries the token of an
  active manufacturer, the serial number is registered for that manufacturer and neither rejected nor revoked; every other request
  leaves the stations and the registrations as they were.\<close>

theorem credentials_only_for_own_serial:
  assumes "charger_endpoint req w = (r, w')"
  shows "\<exists>rs. r = Inr rs \<and> (rs_status rs \<noteq> 200 \<and> stations (db w') = stations (db w) \<and> provisionings (db w') = provisionings (db w) \<or>
    (\<exists>token channel ma serial p. map_get (rq_headers req) ''x-token'' = Some token \<and> map_get (rq_headers req) ''x-channel'' = Some channel \<and>
       find_channel channel (db w) = Some ma \<and> ma_isActive ma \<and> bcrypt_compare (host w) token (ma_tokenHash ma) \<and>
       js_get (rq_body req) ''origin'' = JStr serial \<and> find_serial serial (db w) = Some p \<and>
       pv_manufacturerId p = Some (ma_id ma) \<and> pv_status p \<notin> {PvRejected, PvRevoked}))"
proof -
  obtain q w1 where auth: "manufacturerAuth req w = ((q :: js_error + (charger_credentials charger_reply http_response + Manufacturer)), w1)"
    by (cases "manufacturerAuth req w :: (js_error + (charger_credentials charger_reply http_response + Manufacturer)) \<times> world")
  note a = manufacturerAuth_run [OF auth]
  consider rs where "q = Inr (Inl rs)" | ma where "q = Inr (Inr ma)"
    using a(4) by (cases q; metis sum.exhaust)
  then show ?thesis
  proof cases
    case (1 rs)
    with assms auth a(1) a(3) [OF 1] show ?thesis by (auto simp: charger_endpoint_def andthen_def ret_def)
  next
    case (2 ma)
    with assms auth have run: "chargerAuth (Some (ma_id ma)) req w1 = (r, w')"
      by (simp add: charger_endpoint_def andthen_def)
    from chargerAuth_run [OF run] a(1) a(2) [OF 2] show ?thesis
      by (auto simp: on_db_def same_registry_def elim!: provision_Inr)
  qed
qed

text \<open>The charger of \<open>sample_provisioning\<close> asks with the token of the manufacturer the serial number belongs to.\<close>

definition owner :: Manufacturer where
  "owner = \<lparr>ma_id = 5, ma_channelId = ''CH5'', ma_name = ''Maker'', ma_tokenHash = ''bcrypt:tok'', ma_isActive = True\<rparr>"

definition charger_request :: http_request where
  "charger_request = \<lparr>rq_params = [], rq_query = [], rq_headers = [(''x-token'', ''tok''), (''x-channel'', ''CH5'')],
     rq_body = JObj [(''origin'', JStr ''SN9''), (''model'', JStr ''AC7'')], rq_file = None, rq_username = None\<rparr>"

definition owned_world :: world where
  "owned_world = boot_world quiet_host (empty_db\<lparr>manufacturers := [owner],
     provisionings := [sample_provisioning\<lparr>pv_manufacturerId := Some 5\<rparr>]\<rparr>)"

definition granted :: "js_error + charger_credentials charger_reply http_response \<Rightarrow> bool" where
  "granted r = (case r of Inl _ \<Rightarrow> False | Inr rs \<Rightarrow> rs_status rs = 200)"

lemma charger_request_granted: "granted (fst (charger_endpoint charger_request owned_world))"
  by code_simp

theorem credentials_only_for_own_serial_witness:
  "\<exists>ma. find_channel ''CH5'' (db owned_world) = Some ma \<and> bcrypt_compare quiet_host ''tok'' (ma_tokenHash ma) \<and>
     (\<exists>p. find_serial ''SN9'' (db owned_world) = Some p \<and> pv_manufacturerId p = Some (ma_id ma))"
  using credentials_only_for_own_serial [OF surjective_pairing [of "charger_endpoint charger_request owned_world"]] charger_request_granted
  by (auto simp: granted_def charger_request_def owned_world_def boot_world_def)

section \<open>Bulk uploads\<close>

lemma bulk_step_run: "\<exists>out c. fst (bulk_step who cache row w) = Inr (out, c)"
  by (simp add: bulk_step_def Let_def catch_err_def bulk_failure_def ask_def ret_def split: prod.splits sum.splits)

text \<open>A registration without a station stores one row or nothing.\<close>

lemma register_rows:
  assumes "register_serial (JStr sn) who JUndefined JUndefined JUndefined mv kwh w = (q, w')"
  shows "length (provisionings (db w')) = length (provisionings (db w)) + (case q of Inl _ \<Rightarrow> 0 | Inr _ \<Rightarrow> 1)"
proof -
  have create: "length (provisionings (db v')) = length (provisionings (db v)) + (case q of Inl _ \<Rightarrow> 0 | Inr _ \<Rightarrow> 1)"
    if "db_do (create_provisioning row) v = (q, v')" for row v v'
    using that by (auto simp: db_do_def Let_def create_provisioning_def op_Inr split: if_splits sum.splits prod.splits)
  from assms show ?thesis
    by (auto simp: register_serial_def andthen_def arg_def from_option_def ret_def raise_def spread_def db_read_def db_do_def [of "\<lambda>d. Inr (f d, d)" for f]
        Let_def dest!: create split: if_splits option.splits sum.splits prod.splits)
qed

definition registered :: "bulk_outcome \<Rightarrow> nat" where
  "registered out = (if out = BulkRegistered then 1 else 0)"

lemma registered_simps [simp]:
  "registered BulkRegistered = 1" "registered BulkSkipped = 0" "registered (BulkFailed sn reason) = 0"
  by (simp_all add: registered_def)

lemma bulk_channel_db: "db (snd (bulk_channel cache ch w)) = db w"
  by (auto simp: bulk_channel_def ret_def andthen_def db_read_def db_do_def Let_def split: option.splits)

lemma bulk_try_run:
  "\<exists>out c. fst (bulk_try who sn kwh mv cache w) = Inr (out, c) \<and>
     length (provisionings (db (snd (bulk_try who sn kwh mv cache w)))) = length (provisionings (db w)) + registered out"
proof -
  have "\<exists>out c. fst (bulk_register who sn mv k cache w) = Inr (out, c) \<and>
     length (provisionings (db (snd (bulk_register who sn mv k cache w)))) = length (provisionings (db w)) + registered out" for k
  proof -
    obtain q w1 where reg: "register_serial (JStr sn) who JUndefined JUndefined JUndefined mv k w = (q, w1)"
      by (cases "register_serial (JStr sn) who JUndefined JUndefined JUndefined mv k w")
    from register_rows [OF reg] reg show ?thesis
      by (cases q) (auto simp: bulk_register_def catch_err_def andthen_def ret_def bulk_failure_def ask_def)
  qed
  then show ?thesis by (simp add: bulk_try_def ret_def split: option.splits)
qed

lemma bulk_step_rows:
  assumes "bulk_step who cache row w = (Inr (out, c), w')"
  shows "length (provisionings (db w')) = length (provisionings (db w)) + registered out"
proof (cases "js_trim (br_serialNumber row) = []")
  case True
  with assms show ?thesis by (auto simp: bulk_step_def ret_def)
next
  case False
  obtain q w1 where ch: "bulk_channel cache (br_channelId row) w = (q, w1)" by (cases "bulk_channel cache (br_channelId row) w")
  with bulk_channel_db [of cache "br_channelId row" w] have db: "db w1 = db w" by simp
  show ?thesis
  proof (cases q)
    case (Inl e)
    with assms False ch db show ?thesis
      by (auto simp: bulk_step_def Let_def catch_err_def andthen_def bulk_failure_def ask_def)
  next
    case (Inr p)
    obtain mv c1 where "p = (mv, c1)" by (cases p)
    moreover from bulk_try_run [of who "js_trim (br_serialNumber row)" "br_kwh row" mv c1 w1]
    obtain out1 c2 w2 where "bulk_try who (js_trim (br_serialNumber row)) (br_kwh row) mv c1 w1 = (Inr (out1, c2), w2)"
      "length (provisionings (db w2)) = length (provisionings (db w1)) + registered out1"
      by (cases "bulk_try who (js_trim (br_serialNumber row)) (br_kwh row) mv c1 w1") auto
    ultimately show ?thesis
      using assms False ch Inr db by (simp add: bulk_step_def Let_def catch_err_def andthen_def)
  qed
qed

lemma bulk_rows_run:
  "\<exists>res'. fst (bulk_rows who rows cache res w) = Inr res' \<and> bk_total res' = bk_total res \<and>
     bk_registered res' + bk_skipped res' = bk_registered res + bk_skipped res + length rows \<and>
     length (provisionings (db (snd (bulk_rows who rows cache res w)))) + bk_registered res =
       length (provisionings (db w)) + bk_registered res'"
proof (induction rows arbitrary: cache res w)
  case Nil
  show ?case by (simp add: ret_def)
next
  case (Cons row rows)
  obtain out c w1 where step: "bulk_step who cache row w = (Inr (out, c), w1)"
    using bulk_step_run [of who cache row w] by (metis prod.collapse)
  from bulk_step_rows [OF step] Cons.IH [of c "bulk_count out res" w1] show ?case
    by (cases out) (auto simp: andthen_def step bulk_count_def)
qed

text \<open>A bulk upload never fails as a whole and accounts for every row: the rows registered and the rows skipped make up the
  total, and exactly the registered ones are new in the database.\<close>

theorem bulk_upload_adds_up:
  "\<exists>res. fst (bulkRegister rows who w) = Inr res \<and> bk_total res = length rows \<and>
     bk_registered res + bk_skipped res = length rows \<and>
     length (provisionings (db (snd (bulkRegister rows who w)))) = length (provisionings (db w)) + bk_registered res"
  using bulk_rows_run [of who rows "[]" "\<lparr>bk_total = length rows, bk_registered = 0, bk_skipped = 0, bk_errors = []\<rparr>" w]
  by (auto simp: bulkRegister_def)

end
