(* ===== verification/FirmwareProps.thy ===== *)
theory FirmwareProps
  imports ProvisionProps
begin

text \<open>
  What the firmware component guarantees: every firmware row has its binary on disk, the binary that is downloaded is the
  one that was uploaded, a campaign is stored with its targets or not at all, and its dispatch settles every target.
\<close>

section \<open>Rows and files\<close>

definition stored_file :: "host \<Rightarrow> (string \<times> string) list \<Rightarrow> Firmware \<Rightarrow> bool" where
  "stored_file h fs f \<longleftrightarrow> (\<exists>buffer. map_get fs (getAbsolutePath h (fw_filename f)) = Some buffer \<and>
     sha256_hex h buffer = fw_sha256 f \<and> int (length buffer) = fw_fileSize f)"

definition files_match :: "world \<Rightarrow> bool" where
  "files_match w \<longleftrightarrow> list_all (stored_file (host w) (files w)) (firmwares (db w)) \<and> distinct (map fw_filename (firmwares (db w)))"

lemma files_matchI:
  assumes "files_match w" "host w' = host w" "files w' = files w" "firmwares (db w') = firmwares (db w)"
  shows "files_match w'"
  using assms by (simp add: files_match_def)

lemma getAbsolutePath_inj: "getAbsolutePath h a = getAbsolutePath h b \<longleftrightarrow> a = b"
  by (simp add: getAbsolutePath_def)

lemma stored_file_other:
  assumes "stored_file h fs f" "fw_filename f \<noteq> name"
  shows "stored_file h (map_set (getAbsolutePath h name) buffer fs) f" "stored_file h (map_delete (getAbsolutePath h name) fs) f"
  using assms by (auto simp: stored_file_def map_get_set map_get_delete getAbsolutePath_inj)

lemma create_firmware_Inr:
  "create_firmware r d = Inr (x, d') \<Longrightarrow> \<exists>i. x = r\<lparr>fw_id := i\<rparr> \<and> firmwares d' = firmwares d @ [x] \<and>
     (\<forall>q \<in> set (firmwares d). fw_filename q \<noteq> fw_filename r)"
  by (auto simp: create_firmware_def op_Inr split: prod.splits sum.splits)

text \<open>The rest of an upload, once the file is written.\<close>

lemma files_match_other:
  assumes "files_match w" "name \<notin> fw_filename ` set (firmwares (db w))" "host w' = host w" "firmwares (db w') = firmwares (db w)"
    and "files w' = map_set (getAbsolutePath (host w) name) buffer (files w) \<or> files w' = map_delete (getAbsolutePath (host w) name)
      (map_set (getAbsolutePath (host w) name) buffer (files w))"
  shows "files_match w'"
proof -
  have "stored_file (host w) (files w') f" if "f \<in> set (firmwares (db w))" for f
  proof -
    from assms(1,2) that have ok: "stored_file (host w) (files w) f" and "fw_filename f \<noteq> name"
      by (auto simp: files_match_def list_all_iff)
    with assms(5) stored_file_other(1) [OF ok, of name buffer]
      stored_file_other(2) [of "host w" "map_set (getAbsolutePath (host w) name) buffer (files w)" f name]
    show ?thesis by auto
  qed
  with assms show ?thesis by (simp add: files_match_def list_all_iff)
qed

lemma db_do_Inl:
  "db_do g w = (Inl e, w') \<Longrightarrow> db w' = db w \<and> host w' = host w \<and> files w' = files w"
  by (auto simp: db_do_def Let_def split: if_splits sum.splits prod.splits)

lemma fs_do_run:
  assumes "fs_do f w = (r, w')"
  shows "db w' = db w \<and> host w' = host w \<and> files w' = (case r of Inl _ \<Rightarrow> files w | Inr _ \<Rightarrow> f (files w))"
    and "r = Inl e \<Longrightarrow> e = FsErr"
  using assms by (auto simp: fs_do_def Let_def split: if_splits)

lemma remove_run:
  assumes "andthen (ignore_err (fs_do f)) (\<lambda>_. raise err) w = (r, w')"
  shows "r = Inl err \<and> db w' = db w \<and> host w' = host w \<and> (files w' = files w \<or> files w' = f (files w))"
  using assms by (auto simp: ignore_err_def andthen_def catch_err_def ret_def raise_def fs_do_def Let_def split: if_splits)

lemma store_firmware_run:
  assumes run: "store_firmware (getAbsolutePath (host w) (fw_filename row)) row buffer w = (r, w')" and ok: "files_match w"
    and row: "sha256_hex (host w) buffer = fw_sha256 row" "int (length buffer) = fw_fileSize row"
  shows "case r of Inr x \<Rightarrow> files_match w' \<and> (\<exists>i. x = row\<lparr>fw_id := i\<rparr>) \<and> x \<in> set (firmwares (db w')) \<and> host w' = host w \<and>
        map_get (files w') (getAbsolutePath (host w) (fw_filename row)) = Some buffer
    | Inl e \<Rightarrow> fw_filename row \<notin> fw_filename ` set (firmwares (db w)) \<longrightarrow> files_match w'"
proof -
  let ?path = "getAbsolutePath (host w) (fw_filename row)"
  obtain q w1 where wr: "fs_do (map_set ?path buffer) w = (q, w1)" by (cases "fs_do (map_set ?path buffer) w")
  note f1 = fs_do_run(1) [OF wr]
  show ?thesis
  proof (cases q)
    case (Inl e)
    with run wr f1 files_matchI [OF ok, of w1] show ?thesis by (auto simp: store_firmware_def andthen_def)
  next
    case Inr
    obtain s w2 where cr: "db_do (create_firmware row) w1 = (s, w2)" by (cases "db_do (create_firmware row) w1")
    show ?thesis
    proof (cases s)
      case (Inr x)
      with cr obtain d where d: "create_firmware row (db w1) = Inr (x, d)" and w2: "w2 = w1\<lparr>tick := tick w1 + 1, db := d\<rparr>"
        by (auto simp: db_do_Inr)
      from create_firmware_Inr [OF d] obtain i where x: "x = row\<lparr>fw_id := i\<rparr>" "firmwares d = firmwares (db w) @ [x]"
        "\<forall>y \<in> set (firmwares (db w)). fw_filename y \<noteq> fw_filename row" using f1 by auto
      from run wr \<open>q = Inr _\<close> cr Inr have "r = Inr x" "w' = w2"
        by (simp_all add: store_firmware_def andthen_def catch_err_def)
      then show ?thesis
        using ok f1 \<open>q = Inr _\<close> x row w2 stored_file_other(1) [of "host w" "files w" _ "fw_filename row" buffer]
        by (auto simp: files_match_def list_all_iff stored_file_def [of _ _ "row\<lparr>fw_id := i\<rparr>"] map_get_set)
    next
      case (Inl e)
      from run wr \<open>q = Inr _\<close> cr Inl have rm: "andthen (ignore_err (fs_do (map_delete ?path))) (\<lambda>_. raise e) w2 = (r, w')"
        by (simp add: store_firmware_def andthen_def catch_err_def)
      from remove_run [OF rm] db_do_Inl [OF cr [unfolded Inl]] f1 \<open>q = Inr _\<close> files_match_other [OF ok, of "fw_filename row" w' buffer]
      show ?thesis by auto
    qed
  qed
qed

lemma upload_run:
  assumes run: "upload buffer p w = (r, w')" and ok: "files_match w"
  shows "case r of Inr x \<Rightarrow> files_match w' \<and> host w' = host w \<and> (\<exists>i. x = (firmware_row p buffer (sha256_hex (host w) buffer))\<lparr>fw_id := i\<rparr>) \<and>
        x \<in> set (firmwares (db w')) \<and> map_get (files w') (getAbsolutePath (host w) (fw_filename x)) = Some buffer
    | Inl e \<Rightarrow> stored_name (sha256_hex (host w) buffer) (up_originalName p) \<notin> fw_filename ` set (firmwares (db w)) \<longrightarrow> files_match w'"
proof -
  let ?sha = "sha256_hex (host w) buffer" let ?row = "firmware_row p buffer (sha256_hex (host w) buffer)"
  have name: "fw_filename ?row = stored_name ?sha (up_originalName p)" by (simp add: firmware_row_def)
  consider (refused) e where "r = Inl e" "db w' = db w" "host w' = host w" "files w' = files w"
    | (stored) w2 where "store_firmware (getAbsolutePath (host w) (fw_filename ?row)) ?row buffer w2 = (r, w')" "db w2 = db w"
        "host w2 = host w" "files w2 = files w"
  proof -
    obtain a w1 where rd: "db_read (\<lambda>d. List.find (\<lambda>f. fw_sha256 f = ?sha) (firmwares d)) w = (a, w1)" by fastforce
    have w1: "db w1 = db w" "host w1 = host w" "files w1 = files w"
      using rd by (auto simp: db_read_def db_do_def Let_def split: if_splits)
    obtain b w2 where mk: "fs_do (\<lambda>fs. fs) w1 = (b, w2)" by fastforce
    have w2: "db w2 = db w" "host w2 = host w" "files w2 = files w"
      using fs_do_run(1) [OF mk] w1 by (auto split: sum.splits)
    from run rd mk w1 w2 show thesis
      by (auto simp: upload_def andthen_def ask_def raise_def Let_def name split: if_splits sum.splits option.splits
          intro: that)
  qed
  then show ?thesis
  proof cases
    case refused
    with files_matchI [OF ok] show ?thesis by simp
  next
    case stored
    from files_matchI [OF ok] stored have ok2: "files_match w2" by simp
    have "sha256_hex (host w2) buffer = fw_sha256 ?row" "int (length buffer) = fw_fileSize ?row"
      using stored by (simp_all add: firmware_row_def)
    moreover have "store_firmware (getAbsolutePath (host w2) (fw_filename ?row)) ?row buffer w2 = (r, w')" using stored by simp
    ultimately show ?thesis using store_firmware_run [OF _ ok2, of ?row buffer r w'] stored
      by (cases r) (auto simp: name)
  qed
qed

lemma find_firmware_run:
  assumes "find_firmware i w = (r, w')"
  shows "db w' = db w \<and> host w' = host w \<and> files w' = files w"
    and "r = Inr f \<Longrightarrow> List.find (\<lambda>f. fw_id f = i) (firmwares (db w)) = Some f"
  using assms by (auto simp: find_firmware_def andthen_def db_read_def db_do_def from_option_def raise_def ret_def Let_def
      split: if_splits option.splits sum.splits prod.splits)

lemma change_keeps_match:
  assumes "files_match w" shows "files_match (snd (change_firmware i x w))"
proof -
  obtain a w1 where f: "find_firmware i w = (a, w1)" by fastforce
  from find_firmware_run(1) [OF f] files_matchI [OF assms] have ok: "files_match w1" by simp
  obtain b w2 where u: "db_do (update_firmware i (apply_firmware_data x)) w1 = (b, w2)" by fastforce
  have "files_match w2"
  proof (cases b)
    case (Inl e)
    with db_do_Inl [of "update_firmware i (apply_firmware_data x)" w1 e w2] u files_matchI [OF ok] show ?thesis by simp
  next
    case (Inr y)
    have same: "stored_file h s (apply_firmware_data x f) = stored_file h s f" "fw_filename (apply_firmware_data x f) = fw_filename f" for h s f
      by (simp_all add: stored_file_def apply_firmware_data_def)
    have "map fw_filename (update_where P (apply_firmware_data x) fs) = map fw_filename fs"
      "list_all (stored_file h s) (update_where P (apply_firmware_data x) fs) = list_all (stored_file h s) fs" for P fs h s
      by (simp_all add: map_update_where same) (induction fs; simp add: update_where_def same)
    with u Inr ok show ?thesis by (auto simp: db_do_Inr update_firmware_def op_Inr files_match_def)
  qed
  with f u ok show ?thesis by (simp add: change_firmware_def andthen_def split: sum.split)
qed

lemma distinct_names_other:
  assumes "distinct (map g xs)" "x \<in> set xs" "P x" "y \<in> set (filter (\<lambda>q. \<not> P q) xs)"
  shows "g y \<noteq> g x"
  using assms by (auto simp: distinct_map dest: inj_onD)

lemma delete_keeps_match:
  assumes "files_match w" shows "files_match (snd (delete_firmware i w))"
proof -
  obtain a w1 where f: "find_firmware i w = (a, w1)" by fastforce
  note f1 = find_firmware_run [OF f]
  from f1(1) files_matchI [OF assms] have ok: "files_match w1" by simp
  obtain n w2 where c: "db_read (\<lambda>d. length (filter (\<lambda>c. ca_firmwareId c = i) (campaigns d))) w1 = (n, w2)" by fastforce
  have w2: "db w2 = db w1 \<and> host w2 = host w1 \<and> files w2 = files w1"
    using c by (auto simp: db_read_def db_do_def Let_def split: if_splits)
  with files_matchI [OF ok] have ok2: "files_match w2" by simp
  obtain b w3 where d: "db_do (delete_firmware_row i) w2 = (b, w3)" by fastforce
  show ?thesis
  proof (cases b)
    case (Inl e)
    with db_do_Inl [of "delete_firmware_row i" w2 e w3] d files_matchI [OF ok2] have "files_match w3" by simp
    with f c d Inl ok ok2 show ?thesis by (simp add: delete_firmware_def andthen_def raise_def split: sum.split)
  next
    case (Inr y)
    with d w2 f1 have rows: "firmwares (db w3) = filter (\<lambda>q. fw_id q \<noteq> i) (firmwares (db w))" "host w3 = host w" "files w3 = files w"
      by (auto simp: db_do_Inr delete_firmware_row_def with_fk_Inr op_Inr)
    have gone: "files_match v" if fw: "a = Inr fw" and v: "host v = host w" "firmwares (db v) = firmwares (db w3)"
      "files v = files w \<or> files v = map_delete (getAbsolutePath (host w) (fw_filename fw)) (files w)" for v fw
    proof -
      from find_SomeD [OF f1(2) [OF fw]] have "fw \<in> set (firmwares (db w))" "fw_id fw = i" by auto
      with assms distinct_names_other [of fw_filename "firmwares (db w)" fw "\<lambda>q. fw_id q = i"]
      have other: "fw_filename q \<noteq> fw_filename fw" if "q \<in> set (firmwares (db w3))" for q
        using that rows by (auto simp: files_match_def)
      then show ?thesis
        using assms v rows stored_file_other(2) [of "host w" "files w" _ "fw_filename fw"]
        by (auto simp: files_match_def list_all_iff distinct_map_filter)
    qed
    show ?thesis
    proof (cases a)
      case (Inr fw)
      obtain z w4 where rm: "ignore_err (fs_do (map_delete (getAbsolutePath (host w3) (fw_filename fw)))) w3 = (z, w4)" by fastforce
      then have "host w4 = host w \<and> db w4 = db w3 \<and>
          (files w4 = files w \<or> files w4 = map_delete (getAbsolutePath (host w) (fw_filename fw)) (files w))"
        using rows by (auto simp: ignore_err_def catch_err_def andthen_def ret_def fs_do_def Let_def split: if_splits)
      with gone [OF Inr, of w4] have "files_match w4" by simp
      with f c d Inr \<open>b = Inr y\<close> rm ok2 show ?thesis
        by (simp add: delete_firmware_def andthen_def raise_def ask_def split: sum.split)
    qed (use f ok in \<open>simp add: delete_firmware_def andthen_def\<close>)
  qed
qed

text \<open>C24. The firmware table and the files on disk stay in step: if every row has its binary, with the checksum and the length
  of the row, then so it is after an upload, a change and a deletion.  An upload that fails may break this only where its stored
  name, which has twelve characters of the checksum, is that of another row.\<close>

theorem firmware_rows_keep_their_files:
  assumes "files_match w"
  shows "(case upload buffer p w of
      (Inr x, w') \<Rightarrow> files_match w'
    | (Inl e, w') \<Rightarrow> stored_name (sha256_hex (host w) buffer) (up_originalName p) \<in> fw_filename ` set (firmwares (db w)) \<or> files_match w') \<and>
    files_match (snd (change_firmware i x w)) \<and> files_match (snd (delete_firmware i w))"
  using upload_run [OF surjective_pairing assms, of buffer p] change_keeps_match [OF assms] delete_keeps_match [OF assms]
  by (auto split: prod.split sum.split sum.split_asm)

definition shelf_row :: Firmware where
  "shelf_row = \<lparr>fw_id = 7, fw_filename = ''sha256:DATA0-ac7.bin'', fw_originalName = ''ac7.bin'', fw_version = ''1.2'',
     fw_chargerModel = None, fw_chargerVendor = None, fw_fileSize = 5, fw_sha256 = ''sha256:DATA0'', fw_uploadedBy = ''admin'',
     fw_isActive = True, fw_notes = None\<rparr>"

definition shelf_world :: world where
  "shelf_world = (boot_world quiet_host (empty_db\<lparr>firmwares := [shelf_row]\<rparr>))\<lparr>files := [(''/fw/sha256:DATA0-ac7.bin'', ''DATA0'')]\<rparr>"

lemma shelf_match: "files_match shelf_world"
  by (simp add: files_match_def shelf_world_def boot_world_def shelf_row_def stored_file_def getAbsolutePath_def quiet_host_def)

theorem firmware_rows_keep_their_files_witness:
  "files_match (snd (delete_firmware 7 shelf_world)) \<and> files_match (snd (change_firmware 7 (firmware_data_of (JObj [])) shelf_world))"
  using firmware_rows_keep_their_files [OF shelf_match] by blast

section \<open>Downloading\<close>

text \<open>C25. What a charger downloads is what was uploaded: after a successful upload, a request for the stored name is answered with
  the uploaded bytes, their length and their checksum, provided the name is one the download accepts.\<close>

theorem download_returns_the_upload:
  assumes "upload buffer p w = (Inr fw, w1)" "files_match w" "\<not> bad_filename (fw_filename fw)"
    and "param req ''filename'' = fw_filename fw" "txn w1 = NoTx" "\<not> fails (host w1) (tick w1)"
  shows "\<exists>d. fst (firmware_download req w1) = Inr (reply_data 200 d) \<and> dl_content d = buffer \<and>
    dl_sha256 d = sha256_hex (host w) buffer \<and> dl_length d = int (length buffer)"
proof -
  from upload_run [OF assms(1,2)] obtain i where ok: "files_match w1" "host w1 = host w" "fw \<in> set (firmwares (db w1))"
    "fw = (firmware_row p buffer (sha256_hex (host w) buffer))\<lparr>fw_id := i\<rparr>"
    "map_get (files w1) (getAbsolutePath (host w) (fw_filename fw)) = Some buffer" by auto
  obtain g where g: "List.find (\<lambda>f. fw_filename f = fw_filename fw) (firmwares (db w1)) = Some g"
    using ok(3) by (cases "List.find (\<lambda>f. fw_filename f = fw_filename fw) (firmwares (db w1))") (auto dest: find_NoneD)
  from find_SomeD [OF this] ok(1,3) have "g = fw" by (auto simp: files_match_def distinct_map dest: inj_onD)
  with g assms(3-6) ok show ?thesis
    by (simp add: firmware_download_def respond_def prog_defs Let_def firmware_row_def) (intro exI conjI, rule refl, simp_all)
qed

definition uploaded :: upload_params where
  "uploaded = \<lparr>up_originalName = ''ac11.bin'', up_version = ''2.0'', up_chargerModel = None, up_chargerVendor = None,
     up_uploadedBy = ''admin'', up_notes = None\<rparr>"

definition download_request :: http_request where
  "download_request = \<lparr>rq_params = [(''filename'', ''sha256:NEWER-ac11.bin'')], rq_query = [], rq_headers = [], rq_body = JNull,
     rq_file = None, rq_username = None\<rparr>"

lemma upload_sample:
  "map_option fw_filename (case fst (upload ''NEWER'' uploaded shelf_world) of Inl _ \<Rightarrow> None | Inr f \<Rightarrow> Some f) = Some ''sha256:NEWER-ac11.bin''"
  "txn (snd (upload ''NEWER'' uploaded shelf_world)) = NoTx"
  by code_simp+

theorem download_returns_the_upload_witness:
  "\<exists>d. fst (firmware_download download_request (snd (upload ''NEWER'' uploaded shelf_world))) = Inr (reply_data 200 d) \<and>
     dl_content d = ''NEWER'' \<and> dl_length d = 5"
proof -
  let ?w = "snd (upload ''NEWER'' uploaded shelf_world)"
  obtain fw where fw: "upload ''NEWER'' uploaded shelf_world = (Inr fw, ?w)" "fw_filename fw = ''sha256:NEWER-ac11.bin''"
    using upload_sample(1) by (cases "upload ''NEWER'' uploaded shelf_world") (auto split: sum.splits)
  have "host ?w = quiet_host"
    using upload_run [OF fw(1) shelf_match] by (simp add: shelf_world_def boot_world_def)
  moreover have "\<not> bad_filename (fw_filename fw)" unfolding fw(2) by code_simp
  moreover have "param download_request ''filename'' = fw_filename fw" unfolding fw(2) by code_simp
  ultimately show ?thesis
    using download_returns_the_upload [OF fw(1) shelf_match _ _ upload_sample(2), of download_request] by (auto simp: quiet_host_def)
qed

text \<open>The stored name keeps the dots of the original name, and the download refuses a name with two dots in a row: such a
  binary is stored for nothing.\<close>

lemma dotted_name_is_never_served:
  assumes "param req ''filename'' = stored_name sha ''ac7..bin''"
  shows "\<exists>e. firmware_download req w = respond (raise (AppErr e)) w \<and> ae_statusCode e = 400"
proof -
  have "bad_filename (stored_name sha ''ac7..bin'')"
  proof -
    have "sanitized ''ac7..bin'' = ''ac7'' @ ''..'' @ ''bin''" by code_simp
    then have "stored_name sha ''ac7..bin'' = (take 12 sha @ ''-ac7'') @ ''..'' @ ''bin''" by (simp add: stored_name_def)
    then show ?thesis unfolding bad_filename_def js_includes_def sublist_def by blast
  qed
  with assms show ?thesis by (auto simp: firmware_download_def BadRequestError_def)
qed

end
