(* ===== verification/CampaignProps.thy ===== *)
theory CampaignProps
  imports FirmwareProps
begin

text \<open>
  What a firmware campaign guarantees: it is stored with exactly its targets, all queued, or not at all, and its
  dispatch leaves none of them queued, whatever the stations answer.
\<close>

section \<open>Starting a campaign\<close>

definition queued_rows :: "int \<Rightarrow> string list \<Rightarrow> FirmwareCampaignProgress list \<Rightarrow> bool" where
  "queued_rows c ids rows \<longleftrightarrow> map fp_stationId rows = map Some ids \<and> list_all (\<lambda>r. fp_campaignId r = c \<and> fp_status r = FpQueued) rows"

lemma create_progresses_rows:
  assumes "create_progresses c ids now d = Inr (n, d')"
  shows "distinct ids \<and> list_all (\<lambda>s. station_exists s d) ids \<and> campaigns d' = campaigns d \<and>
    (\<exists>rows. progresses d' = progresses d @ rows \<and> queued_rows c ids rows)"
proof -
  have "map (\<lambda>x. Some (snd x)) (enumerate k ids) = map Some ids" for k
    using arg_cong [OF map_snd_enumerate [of k ids], of "map Some"] by (simp add: o_def del: map_snd_enumerate)
  with assms show ?thesis
    by (auto simp: create_progresses_def Let_def queued_rows_def list_all_iff o_def case_prod_unfold split: if_splits)
qed

lemma create_campaign_Inr:
  "create_campaign r d = Inr (c, d') \<Longrightarrow> (\<exists>i. c = r\<lparr>ca_id := i\<rparr>) \<and> campaigns d' = campaigns d @ [c] \<and> progresses d' = progresses d \<and>
     stations d' = stations d"
  by (auto simp: create_campaign_def op_Inr with_fk_Inr split: prod.splits sum.splits)

definition store_campaign :: "FirmwareCampaign \<Rightarrow> string list \<Rightarrow> FirmwareCampaign prog" where
  "store_campaign row ids =
     andthen (db_do (create_campaign row)) (\<lambda>c.
     andthen js_now (\<lambda>now.
     andthen (db_do (create_progresses (ca_id c) ids now)) (\<lambda>_. ret c)))"

lemma campaign_commits:
  assumes "db_transaction (store_campaign row ids) w = (Inr c, w')"
  shows "(\<exists>i. c = row\<lparr>ca_id := i\<rparr>) \<and> campaigns (db w') = campaigns (db w) @ [c] \<and> distinct ids \<and>
    list_all (\<lambda>s. station_exists s (db w)) ids \<and>
    (\<exists>rows. progresses (db w') = progresses (db w) @ rows \<and> queued_rows (ca_id c) ids rows)"
proof -
  have txn: "txn v1 = TxOk" if "store_campaign row ids v = (Inr y, v1)" "txn v = TxOk" for v y v1
    using that by (auto simp: store_campaign_def run_Inr)
  obtain w1 where run: "store_campaign row ids (w\<lparr>tick := tick w + 1, txn := TxOk\<rparr>) = (Inr c, w1)" and db: "db w' = db w1"
    by (rule committed_run [OF assms txn])
  then obtain d1 now n where c: "create_campaign row (db w) = Inr (c, d1)" and p: "create_progresses (ca_id c) ids now d1 = Inr (n, db w1)"
    by (auto simp: store_campaign_def run_Inr)
  have "station_exists s d1 = station_exists s (db w)" for s
    using create_campaign_Inr [OF c] by (simp add: station_exists_def)
  with create_campaign_Inr [OF c] create_progresses_rows [OF p] show ?thesis by (auto simp: db)
qed

text \<open>The stations a filter means: those it lists, or else those that match.\<close>

definition targets_of :: "CampaignTargetFilter \<Rightarrow> db \<Rightarrow> string list" where
  "targets_of f d = (case tf_stationIds f of Some (s # ss) \<Rightarrow> s # ss | _ \<Rightarrow> map st_id (filter (target_matches f) (stations d)))"

lemma targets_run:
  assumes "resolveTargets f w = (r, w')"
  shows "db w' = db w"
    and "r = Inr ids \<Longrightarrow> ids = targets_of f (db w)"
  using assms by (auto simp: targets_of_def resolveTargets_def ret_def raise_def db_read_def db_do_def Let_def split: if_splits option.splits list.splits)

text \<open>C23. A campaign starts whole or not at all: it needs an active firmware and at least one target, each of them an existing
  station and none twice, and then the campaign is running and exactly its targets are queued; otherwise nothing is stored.\<close>

theorem campaign_starts_whole:
  "case start_campaign fid f who notes w of
     (Inl e, w') \<Rightarrow> db w' = db w
   | (Inr (c, name, ids), w') \<Rightarrow>
       ca_firmwareId c = fid \<and> ca_status c = FcRunning \<and> campaigns (db w') = campaigns (db w) @ [c] \<and>
       (\<exists>fw. List.find (\<lambda>r. fw_id r = fid) (firmwares (db w)) = Some fw \<and> fw_isActive fw \<and> name = fw_filename fw) \<and>
       ids = targets_of f (db w) \<and>
       ids \<noteq> [] \<and> distinct ids \<and> list_all (\<lambda>s. station_exists s (db w)) ids \<and>
       (\<exists>rows. progresses (db w') = progresses (db w) @ rows \<and> queued_rows (ca_id c) ids rows)"
proof -
  let ?row = "\<lparr>ca_id = 0, ca_firmwareId = fid, ca_status = FcRunning, ca_startedBy = who, ca_notes = notes, ca_completedAt = None\<rparr>"
  obtain a w1 where find: "find_firmware fid w = (a, w1)" by fastforce
  note f1 = find_firmware_run [OF find]
  obtain b w2 where targets: "resolveTargets f w1 = (b, w2)" by fastforce
  note t1 = targets_run [OF targets, unfolded f1(1) [THEN conjunct1]]
  obtain q w3 where store: "db_transaction (store_campaign ?row (projr b)) w2 = (q, w3)" by fastforce
  have start: "start_campaign fid f who notes = andthen (find_firmware fid) (\<lambda>fw.
      if \<not> fw_isActive fw then raise (AppErr (ConflictError ''a campaign needs an active firmware'' ''firmware:inactive''))
      else andthen (resolveTargets f) (\<lambda>ids.
        if ids = [] then raise (AppErr (BadRequestError ''no stations match the filter'' ''firmwareCampaign:noTargets''))
        else andthen (db_transaction (store_campaign ?row ids)) (\<lambda>c. ret (c, fw_filename fw, ids))))"
    unfolding start_campaign_def store_campaign_def by (rule refl)
  show ?thesis
    unfolding start
    using find f1 targets t1 store db_transaction_Inl [of "store_campaign ?row (projr b)" w2 _ w3] campaign_commits [of ?row "projr b" w2 _ w3]
    by (auto simp: andthen_def raise_def ret_def split: sum.splits)
qed

section \<open>What a command leaves alone\<close>

definition same_progress :: "db \<Rightarrow> db \<Rightarrow> bool" where
  "same_progress d d' \<longleftrightarrow> progresses d' = progresses d"

interpretation same_progress: db_contract same_progress
  by unfold_locales (auto simp: same_progress_def)

text \<open>Outside a transaction before, outside one afterwards.\<close>

definition outside :: "world \<Rightarrow> world \<Rightarrow> bool" where
  "outside w w' \<longleftrightarrow> host w' = host w \<and> (txn w = NoTx \<longrightarrow> txn w' = NoTx)"

interpretation outside: composable outside
  by unfold_locales (auto simp: outside_def)

lemma outside_db_do [contract_intros]: "conforms outside (db_do g)"
  by (auto simp: conforms_def outside_def db_do_def Let_def split: sum.splits prod.splits)

lemma outside_calls [contract_intros]:
  "conforms outside js_now" "conforms outside new_uuid" "conforms outside (db_read f)"
  "conforms outside (waitFor mid call)" "conforms outside (ws_send ws frame)" "conforms outside (await_reply mid)"
  by (simp_all add: conforms_def outside_def js_now_def new_uuid_def db_read_def db_do_def Let_def
      waitFor_def ws_send_def await_reply_def split: sum.split prod.split)

lemma outside_transaction [contract_intros]:
  assumes "conforms same_host m" shows "conforms outside (db_transaction m)"
proof (rule conformsI)
  fix w r w' assume run: "db_transaction m w = (r, w')"
  then have "txn w = NoTx \<longrightarrow> txn w' = NoTx"
    by (auto simp: db_transaction_def Let_def split: if_splits sum.splits prod.splits)
  with conformsD [OF same_host.conforms_transaction [OF assms] run] show "outside w w'"
    by (simp add: outside_def same_host_def)
qed

lemma host_writeOutbox [contract_intros]: "conforms same_host (writeOutbox ev)"
  unfolding writeOutbox_def by (intro contract_intros)

lemma outside_command: "conforms outside (gateway_updateFirmware s location date retries interval who)"
  unfolding gateway_updateFirmware_def sendUpdateFirmware_def sendCommand_def command_begin_def open_socket_def sendAndLog_def
    logOutbound_def persist_def command_settle_def record_response_def record_failure_def Let_def
  by (intro contract_intros)

lemma progress_calls [contract_intros]:
  "conforms (on_db same_progress) (waitFor mid call)" "conforms (on_db same_progress) (ws_send ws frame)"
  "conforms (on_db same_progress) (await_reply mid)"
  by (simp_all add: conforms_def on_db_def same_progress.db_refl waitFor_def ws_send_def await_reply_def)

lemma progress_command: "conforms (on_db same_progress) (gateway_updateFirmware s location date retries interval who)"
  unfolding gateway_updateFirmware_def sendUpdateFirmware_def sendCommand_def command_begin_def open_socket_def sendAndLog_def
    logOutbound_def persist_def command_settle_def record_response_def record_failure_def writeOutbox_def Let_def
  by (intro contract_intros same_progress.conforms_op) (auto simp: store_defs op_Inr same_progress_def)

section \<open>Dispatching a campaign\<close>

text \<open>A row is settled when its station was sent the command or could not be.\<close>

definition settled_row :: "FirmwareCampaignProgress \<Rightarrow> bool" where
  "settled_row r \<longleftrightarrow> fp_status r \<in> {FpSent, FpSendError}"

definition dispatched :: "int \<Rightarrow> string list \<Rightarrow> FirmwareCampaignProgress list \<Rightarrow> FirmwareCampaignProgress list \<Rightarrow> bool" where
  "dispatched c ids rows rows' \<longleftrightarrow>
     list_all2 (\<lambda>r r'. fp_id r' = fp_id r \<and> fp_campaignId r' = fp_campaignId r \<and> fp_stationId r' = fp_stationId r \<and>
       (if fp_campaignId r = c \<and> fp_stationId r \<in> Some ` set ids then settled_row r' else r' = r)) rows rows'"

definition calm :: "world \<Rightarrow> bool" where
  "calm w \<longleftrightarrow> (\<forall>n. \<not> fails (host w) n) \<and> txn w = NoTx \<and> list_all progress_ok (progresses (db w))"

lemma calm_outside: "calm w \<Longrightarrow> outside w w' \<Longrightarrow> progresses (db w') = progresses (db w) \<Longrightarrow> calm w'"
  by (simp add: calm_def outside_def)

lemma dispatched_trans:
  assumes "dispatched c [s] rows rows1" "dispatched c ss rows1 rows2" shows "dispatched c (s # ss) rows rows2"
proof -
  have "list_all2 (\<lambda>r r'. fp_id r' = fp_id r \<and> fp_campaignId r' = fp_campaignId r \<and> fp_stationId r' = fp_stationId r \<and>
       (if fp_campaignId r = c \<and> fp_stationId r \<in> Some ` set (s # ss) then settled_row r' else r' = r)) rows rows2"
    by (rule list_all2_trans [OF _ assms [unfolded dispatched_def]]) (auto split: if_splits)
  then show ?thesis by (simp add: dispatched_def)
qed

lemma marked_rows:
  assumes "\<And>r. fp_id (f r) = fp_id r \<and> fp_campaignId (f r) = fp_campaignId r \<and> fp_stationId (f r) = fp_stationId r \<and> settled_row (f r)"
  shows "dispatched c [s] rows (update_where (target_row c s) f rows)"
  using assms by (auto simp: dispatched_def update_where_def list_all2_conv_all_nth target_row_def)

lemma mark_run:
  assumes "calm w" "\<And>r. progress_ok r \<Longrightarrow> progress_ok (f r)"
  shows "\<exists>w'. db_do (update_progresses P f) w = (Inr (length (filter P (progresses (db w)))), w') \<and> calm w' \<and>
    progresses (db w') = update_where P f (progresses (db w))"
  using assms by (auto simp: calm_def db_do_def Let_def update_progresses_def update_rows_def on_progresses_def lift_rows_def list_all_iff
      update_where_def)

lemma calm_tick: "calm (w\<lparr>tick := n\<rparr>) = calm w"
  by (simp add: calm_def)

lemma mark_send_error_run:
  assumes "calm w" "length error \<le> 500"
  shows "\<exists>w'. mark_send_error c s error w = (Inr (), w') \<and> calm w' \<and> dispatched c [s] (progresses (db w)) (progresses (db w'))"
proof -
  let ?f = "\<lambda>a b r. r\<lparr>fp_status := FpSendError, fp_error := Some error, fp_startedAt := Some a, fp_completedAt := Some b, fp_updatedAt := b\<rparr>"
  let ?w = "w\<lparr>tick := Suc (Suc (tick w))\<rparr>" let ?a = "clock (host w) (tick w)" let ?b = "clock (host w) (Suc (tick w))"
  have "progress_ok (?f a b r)" for a b r using assms(2) by (simp add: progress_ok_def fits_opt_def)
  with mark_run [of ?w "?f ?a ?b" "target_row c s"] assms(1) obtain w' n where
    "db_do (update_progresses (target_row c s) (?f ?a ?b)) ?w = (Inr n, w')" "calm w'"
    "progresses (db w') = update_where (target_row c s) (?f ?a ?b) (progresses (db w))"
    by (auto simp: calm_tick)
  moreover have "dispatched c [s] (progresses (db w)) (update_where (target_row c s) (?f ?a ?b) (progresses (db w)))"
    by (rule marked_rows) (simp add: settled_row_def)
  ultimately show ?thesis
    by (simp add: mark_send_error_def ignore_err_def catch_err_def andthen_def js_now_def ret_def)
qed

lemma mark_sent_run:
  assumes "calm w"
  shows "\<exists>w'. mark_sent c s w = (Inr (), w') \<and> calm w' \<and> dispatched c [s] (progresses (db w)) (progresses (db w'))"
proof -
  let ?f = "\<lambda>a r. r\<lparr>fp_status := FpSent, fp_startedAt := Some a, fp_updatedAt := a\<rparr>"
  let ?w = "w\<lparr>tick := Suc (tick w)\<rparr>" let ?a = "clock (host w) (tick w)"
  have "progress_ok r \<Longrightarrow> progress_ok (?f a r)" for a r by (simp add: progress_ok_def)
  with mark_run [of ?w "?f ?a" "target_row c s"] assms(1) obtain w' n where
    "db_do (update_progresses (target_row c s) (?f ?a)) ?w = (Inr n, w')" "calm w'"
    "progresses (db w') = update_where (target_row c s) (?f ?a) (progresses (db w))"
    by (auto simp: calm_tick)
  moreover have "dispatched c [s] (progresses (db w)) (update_where (target_row c s) (?f ?a) (progresses (db w)))"
    by (rule marked_rows) (simp add: settled_row_def)
  ultimately show ?thesis
    by (simp add: mark_sent_def ignore_err_def catch_err_def andthen_def js_now_def ret_def)
qed

lemma dispatch_one_run:
  assumes "calm w"
  shows "\<exists>w'. dispatch_one c url date who s w = (Inr (), w') \<and> calm w' \<and> dispatched c [s] (progresses (db w)) (progresses (db w'))"
proof (cases "isConnected w s")
  case False
  with mark_send_error_run [OF assms, of "''station offline''" c s] show ?thesis
    by (simp add: dispatch_one_def andthen_def ask_def)
next
  case True
  obtain q w1 where send: "gateway_updateFirmware s url (JStr date) JUndefined JUndefined (Some who) w = (q, w1)" by fastforce
  from conformsD [OF progress_command send] have rows: "progresses (db w1) = progresses (db w)"
    by (simp add: on_db_def same_progress_def)
  with calm_outside [OF assms conformsD [OF outside_command send]] have ok: "calm w1" by simp
  show ?thesis
  proof (cases q)
    case (Inl e)
    with mark_send_error_run [OF ok, of "take 500 (err_message (host w1) e)" c s] True send rows show ?thesis
      by (simp add: dispatch_one_def andthen_def ask_def catch_err_def)
  next
    case (Inr x)
    with mark_sent_run [OF ok, of c s] True send rows show ?thesis
      by (auto simp: dispatch_one_def andthen_def ask_def catch_err_def)
  qed
qed

lemma dispatch_list_run:
  assumes "calm w"
  shows "\<exists>w'. for_each ss (dispatch_one c url date who) w = (Inr (), w') \<and> dispatched c ss (progresses (db w)) (progresses (db w'))"
  using assms
proof (induction ss arbitrary: w)
  case Nil
  show ?case by (auto simp: ret_def dispatched_def intro: list_all2_refl)
next
  case (Cons s ss)
  from dispatch_one_run [OF Cons.prems, of c url date who s] obtain w1 where
    1: "dispatch_one c url date who s w = (Inr (), w1)" "calm w1" "dispatched c [s] (progresses (db w)) (progresses (db w1))" by blast
  from Cons.IH [OF 1(2)] obtain w2 where
    2: "for_each ss (dispatch_one c url date who) w1 = (Inr (), w2)" "dispatched c ss (progresses (db w1)) (progresses (db w2))" by blast
  from dispatched_trans [OF 1(3) 2(2)] 1 2 show ?case by (simp add: andthen_def)
qed

text \<open>C22. The dispatch of a campaign goes through all its targets and never fails, whether a station is away, refuses, times out or
  answers with an error: afterwards the row of every target says that the command was sent or could not be, and no other row has
  changed.  The store must be reachable throughout.\<close>

theorem dispatch_settles_every_target:
  assumes "\<forall>n. \<not> fails (host w) n" "txn w = NoTx" "list_all progress_ok (progresses (db w))"
  shows "\<exists>w'. dispatchAll c name ids who w = (Inr (), w') \<and> dispatched c ids (progresses (db w)) (progresses (db w'))"
proof -
  have "calm (w\<lparr>tick := Suc (tick w)\<rparr>)" using assms by (simp add: calm_def)
  from dispatch_list_run [OF this] show ?thesis
    by (simp add: dispatchAll_def andthen_def ask_def js_now_def)
qed

definition queued_sample :: FirmwareCampaignProgress where
  "queued_sample = \<lparr>fp_id = 1, fp_campaignId = 4, fp_stationId = Some ''EN0000001'', fp_status = FpQueued, fp_startedAt = None,
     fp_completedAt = None, fp_error = None, fp_updatedAt = 0\<rparr>"

definition campaign_world :: world where
  "campaign_world = boot_world quiet_host (empty_db\<lparr>stations := [sample_station], progresses := [queued_sample]\<rparr>)"

theorem dispatch_settles_every_target_witness:
  "\<exists>w' r. dispatchAll 4 ''fw.bin'' [''EN0000001''] ''admin'' campaign_world = (Inr (), w') \<and> progresses (db w') = [r] \<and> settled_row r"
proof -
  have "\<forall>n. \<not> fails (host campaign_world) n" "txn campaign_world = NoTx" "list_all progress_ok (progresses (db campaign_world))"
    by (simp_all add: campaign_world_def boot_world_def quiet_host_def queued_sample_def progress_ok_def fits_opt_def)
  from dispatch_settles_every_target [OF this, of 4 "''fw.bin''" "[''EN0000001'']" "''admin''"] show ?thesis
    by (auto simp: campaign_world_def boot_world_def dispatched_def queued_sample_def list_all2_Cons1)
qed

end
