(* ===== verification/JsonProps.thy ===== *)
theory JsonProps
  imports Messages
begin

text \<open>
  The parser of the wire always has enough fuel: whatever text arrives, more fuel would not change what it reads.
\<close>

section \<open>Every value consumes text\<close>

lemma length_skip_space: "length (skip_space s) \<le> length s"
  by (simp add: skip_space_def length_dropWhile_le)

lemma parse_chars_shorter: "parse_chars s = Some (x, r) \<Longrightarrow> length r < length s"
  by (induction s arbitrary: x rule: parse_chars.induct)
    (fastforce split: if_splits list.splits option.splits nat.splits)+

lemma dropWhile_digits_le: "length (dropWhile is_digit s) \<le> length s"
  by (rule length_dropWhile_le)

lemma parse_exponent_shorter: "parse_exponent s = Some (e, r) \<Longrightarrow> length r \<le> length s"
  using dropWhile_digits_le
  by (auto simp: parse_exponent_def Let_def le_Suc_eq split: list.splits if_splits prod.splits
      intro: le_trans [OF dropWhile_digits_le] le_trans [OF dropWhile_digits_le, of "_ # _"])

lemma dropWhile_shorter: "takeWhile P s \<noteq> [] \<Longrightarrow> length (dropWhile P s) < length s"
  by (cases s) (auto simp: less_Suc_eq_le length_dropWhile_le split: if_splits)

lemma fraction_shorter:
  "(case s of x # xs \<Rightarrow> if x = CHR ''.'' then (takeWhile is_digit xs, dropWhile is_digit xs) else ([], s) | [] \<Rightarrow> ([], s)) = (fs, r) \<Longrightarrow>
     length r \<le> length s"
  by (auto split: list.splits if_splits intro: le_SucI dropWhile_digits_le)

lemma sign_shorter:
  "(case s of x # xs \<Rightarrow> if x = CHR ''-'' then (True, xs) else (False, s) | [] \<Rightarrow> (False, s)) = (neg, r) \<Longrightarrow> length r \<le> length s"
  by (auto split: list.splits if_splits)

lemma parse_number_shorter:
  assumes "parse_number s = Some (x, r)"
  shows "length r < length s"
proof -
  obtain neg s1 where s1: "(case s of x # xs \<Rightarrow> if x = CHR ''-'' then (True, xs) else (False, s) | [] \<Rightarrow> (False, s)) = (neg, s1)"
    by fastforce
  let ?s2 = "dropWhile is_digit s1"
  obtain fs s3 where s3: "(case ?s2 of x # xs \<Rightarrow> if x = CHR ''.'' then (takeWhile is_digit xs, dropWhile is_digit xs) else ([], ?s2) | [] \<Rightarrow> ([], ?s2)) = (fs, s3)"
    by fastforce
  from assms have "takeWhile is_digit s1 \<noteq> []" and e: "\<exists>e. parse_exponent s3 = Some (e, r)"
    by (auto simp: parse_number_def s1 s3 Let_def split: if_splits option.splits)
  then have "length ?s2 < length s1" by (intro dropWhile_shorter)
  moreover from e parse_exponent_shorter have "length r \<le> length s3" by blast
  ultimately show ?thesis using fraction_shorter [OF s3] sign_shorter [OF s1] by simp
qed

lemma tl_skip_shorter: "s \<noteq> [] \<Longrightarrow> length (tl (skip_space s)) < length s"
  using length_skip_space [of s] by (cases s) (auto simp: skip_space_def less_Suc_eq_le)

lemma skip_ConsD: "skip_space s = c # cs \<Longrightarrow> length cs < length s"
  using length_skip_space [of s] by simp

lemma skip_prefix_shorter: "prefix [x] (skip_space s) \<Longrightarrow> length (tl (skip_space s)) < length s"
  using length_skip_space [of s] by (cases "skip_space s") auto

lemma parse_value_ConsE:
  assumes "parse_value (Suc n) s = Some (x, r)"
  obtains (str) c cs y where "skip_space s = c # cs" "parse_chars cs = Some (y, r)"
    | (empty) c cs q where "skip_space s = c # cs" "prefix [q] (skip_space cs)" "r = tl (skip_space cs)"
    | (arr) c cs xs where "skip_space s = c # cs" "parse_elements n cs = Some (xs, r)"
    | (obj) c cs fs where "skip_space s = c # cs" "parse_members n cs = Some (fs, r)"
    | (word) c cs k where "skip_space s = c # cs" "r = drop (Suc k) (c # cs)"
    | (num) c cs where "skip_space s = c # cs" "parse_number (c # cs) = Some (x, r)"
proof -
  from assms obtain c cs where cs: "skip_space s = c # cs" by (auto split: list.splits)
  have words: "drop 4 (c # cs) = drop (Suc 3) (c # cs)" "drop 5 (c # cs) = drop (Suc 4) (c # cs)"
    by (simp_all add: numeral_eq_Suc)
  have pick: "P" if "(if b then u else v) = Some y" "b \<Longrightarrow> u = Some y \<Longrightarrow> P" "v = Some y \<Longrightarrow> P" for b P and u v :: "'b option" and y
    using that by (cases b) auto
  note S = that [OF cs]
  from assms [unfolded parse_value.simps cs list.case words] show thesis
    by (elim pick) (auto simp only: map_option_eq_Some prod.inject option.inject prod.case split_paired_Ex intro: S)
qed

lemma parse_elements_SomeE:
  assumes "parse_elements (Suc n) s = Some (xs, r)"
  obtains v r1 c cs where "parse_value n s = Some (v, r1)" "skip_space r1 = c # cs"
    "r = cs \<or> (\<exists>vs. parse_elements n cs = Some (vs, r))"
  using assms by (auto split: option.splits list.splits if_splits)

lemma parse_members_SomeE:
  assumes "parse_members (Suc n) s = Some (fs, r)"
  obtains q qs k r1 v r2 c cs where "skip_space s = q # qs" "parse_chars qs = Some (k, r1)" "prefix '':'' (skip_space r1)"
    "parse_value n (tl (skip_space r1)) = Some (v, r2)" "skip_space r2 = c # cs"
    "r = cs \<or> (\<exists>vs. parse_members n cs = Some (vs, r))"
  using assms by (auto split: option.splits list.splits if_splits)

lemma parsers_shorter:
  "(\<forall>s x r. parse_value n s = Some (x, r) \<longrightarrow> length r < length s) \<and>
   (\<forall>s xs r. parse_elements n s = Some (xs, r) \<longrightarrow> length r < length s) \<and>
   (\<forall>s fs r. parse_members n s = Some (fs, r) \<longrightarrow> length r < length s)"
proof (induction n)
  case (Suc n)
  have "length r < length s" if "parse_value (Suc n) s = Some (x, r)" for s x r
    using that
    by (cases rule: parse_value_ConsE)
      (use Suc.IH in \<open>fastforce dest: skip_ConsD parse_chars_shorter skip_prefix_shorter parse_number_shorter simp: less_Suc_eq_le\<close>)+
  moreover have "length r < length s" if "parse_elements (Suc n) s = Some (xs, r)" for s xs r
    using that
  proof (cases rule: parse_elements_SomeE)
    case (1 v r1 c cs)
    from 1(1) Suc.IH have "length r1 < length s" by blast
    moreover from 1(3) Suc.IH have "length r \<le> length cs" by (auto intro: less_imp_le)
    ultimately show ?thesis using skip_ConsD [OF 1(2)] by simp
  qed
  moreover have "length r < length s" if "parse_members (Suc n) s = Some (fs, r)" for s fs r
    using that
  proof (cases rule: parse_members_SomeE)
    case (1 q qs k r1 v r2 c cs)
    from 1(4) Suc.IH have "length r2 < length (tl (skip_space r1))" by blast
    moreover from 1(6) Suc.IH have "length r \<le> length cs" by (auto intro: less_imp_le)
    ultimately show ?thesis
      using skip_ConsD [OF 1(1)] parse_chars_shorter [OF 1(2)] skip_prefix_shorter [OF 1(3)] skip_ConsD [OF 1(5)] by simp
  qed
  ultimately show ?case by blast
qed simp

section \<open>More fuel changes nothing\<close>

text \<open>One more unit of fuel reads the same once the text is short enough for the fuel, or once the text has been read.\<close>

definition steady :: "nat \<Rightarrow> bool" where
  "steady n \<longleftrightarrow>
     (\<forall>s. 2 * length s + 1 \<le> n \<or> parse_value n s \<noteq> None \<longrightarrow> parse_value (Suc n) s = parse_value n s) \<and>
     (\<forall>s. 2 * length s + 2 \<le> n \<or> parse_elements n s \<noteq> None \<longrightarrow> parse_elements (Suc n) s = parse_elements n s) \<and>
     (\<forall>s. 2 * length s + 2 \<le> n \<or> parse_members n s \<noteq> None \<longrightarrow> parse_members (Suc n) s = parse_members n s)"

lemma steadyD:
  assumes "steady n"
  shows "2 * length s + 1 \<le> n \<or> parse_value n s \<noteq> None \<Longrightarrow> parse_value (Suc n) s = parse_value n s"
    "2 * length s + 2 \<le> n \<or> parse_elements n s \<noteq> None \<Longrightarrow> parse_elements (Suc n) s = parse_elements n s"
    "2 * length s + 2 \<le> n \<or> parse_members n s \<noteq> None \<Longrightarrow> parse_members (Suc n) s = parse_members n s"
  using assms by (simp_all only: steady_def)

lemma steady_value:
  assumes IH: "steady n" and enough: "2 * length s + 1 \<le> Suc n \<or> parse_value (Suc n) s \<noteq> None"
  shows "parse_value (Suc (Suc n)) s = parse_value (Suc n) s"
proof (cases "skip_space s")
  case (Cons c cs)
  note short = skip_ConsD [OF Cons]
  have E: "parse_elements (Suc n) cs = parse_elements n cs" if "c = CHR ''[''" "\<not> prefix '']'' (skip_space cs)"
    using enough short that Cons by (intro steadyD(2) [OF IH]) auto
  have M: "parse_members (Suc n) cs = parse_members n cs" if "c = CHR ''{''" "\<not> prefix ''}'' (skip_space cs)"
    using enough short that Cons by (intro steadyD(3) [OF IH]) auto
  show ?thesis
    using E M unfolding parse_value.simps(2) [of "Suc n" s] parse_value.simps(2) [of n s] Cons list.case
    by (simp del: parse_elements.simps parse_members.simps)
qed simp

lemma steady_elements:
  assumes IH: "steady n" and enough: "2 * length s + 2 \<le> Suc n \<or> parse_elements (Suc n) s \<noteq> None"
  shows "parse_elements (Suc (Suc n)) s = parse_elements (Suc n) s"
proof -
  have V: "parse_value (Suc n) s = parse_value n s"
    using enough by (intro steadyD(1) [OF IH]; cases "parse_value n s") auto
  have E: "parse_elements (Suc n) cs = parse_elements n cs"
    if v: "parse_value n s = Some (v, r)" and r: "skip_space r = CHR '','' # cs" for v r cs
  proof -
    from parsers_shorter [of n] v skip_ConsD [OF r] have "length cs + 2 \<le> length s" by fastforce
    with enough v r show ?thesis by (intro steadyD(2) [OF IH]) auto
  qed
  show ?thesis
    unfolding parse_elements.simps(2) [of "Suc n" s] parse_elements.simps(2) [of n s] V
    by (auto split: option.splits list.splits simp del: parse_elements.simps simp: E)
qed

lemma steady_members:
  assumes IH: "steady n" and enough: "2 * length s + 2 \<le> Suc n \<or> parse_members (Suc n) s \<noteq> None"
  shows "parse_members (Suc (Suc n)) s = parse_members (Suc n) s"
proof (cases "\<exists>qs k r1. skip_space s = CHR 0x22 # qs \<and> parse_chars qs = Some (k, r1) \<and> prefix '':'' (skip_space r1)")
  case False
  then show ?thesis by (auto split: list.splits option.splits)
next
  case True
  then obtain qs k r1 where q: "skip_space s = CHR 0x22 # qs" "parse_chars qs = Some (k, r1)" "prefix '':'' (skip_space r1)" by blast
  let ?s = "tl (skip_space r1)"
  from skip_ConsD [OF q(1)] parse_chars_shorter [OF q(2)] skip_prefix_shorter [OF q(3)] have le: "length ?s + 3 \<le> length s" by simp
  have V: "parse_value (Suc n) ?s = parse_value n ?s"
    using enough le q by (intro steadyD(1) [OF IH]; cases "parse_value n ?s") auto
  have M: "parse_members (Suc n) cs = parse_members n cs"
    if v: "parse_value n ?s = Some (v, r)" and r: "skip_space r = CHR '','' # cs" for v r cs
  proof -
    from parsers_shorter [of n] v skip_ConsD [OF r] le have "length cs + 2 \<le> length s" by fastforce
    with enough q v r show ?thesis by (intro steadyD(3) [OF IH]) auto
  qed
  have step: "(case parse_value n ?s of None \<Rightarrow> None | Some (v, r2) \<Rightarrow> F v r2) = (case parse_value n ?s of None \<Rightarrow> None | Some (v, r2) \<Rightarrow> G v r2)"
    if "\<And>v r2. parse_value n ?s = Some (v, r2) \<Longrightarrow> F v r2 = G v r2" for F G :: "jsval \<Rightarrow> string \<Rightarrow> ((string \<times> jsval) list \<times> string) option"
    using that by (auto split: option.splits)
  show ?thesis
    unfolding parse_members.simps(2) [of "Suc n" s] parse_members.simps(2) [of n s] q(1,2) list.case option.case prod.case V
    by (intro if_cong refl step list.case_cong arg_cong [of _ _ "map_option _"]) (use M in auto)
qed

lemma steady_all: "steady n"
proof (induction n)
  case 0
  show ?case by (simp add: steady_def)
next
  case (Suc n)
  show ?case
    unfolding steady_def using steady_value [OF Suc] steady_elements [OF Suc] steady_members [OF Suc] by blast
qed

lemma parse_value_more:
  assumes "2 * length s + 1 \<le> n \<or> parse_value n s \<noteq> None"
  shows "parse_value (n + k) s = parse_value n s"
  using assms steadyD(1) [OF steady_all] by (induction k) auto


end
