(* ===== verification/Spec2Isabelle.thy ===== *)
theory Spec2Isabelle
  imports CommandProps SessionProps SessionSpec HandlerOverlap IdempotencySteps RelaySteps CoreServer Gateway Scripts DateRanges Repositories
    StationProps CampaignProps JsonProps
begin

text \<open>
  A model of the core server of a charging station management system (\<open>packages/core\<close> and
  \<open>packages/shared\<close>): charging stations connect over WebSockets and speak OCPP 1.6, sessions and
  stations are rows of a database, and every change other parts of the system must hear of is an event
  written to an outbox table in the same database transaction and relayed to a Redis stream.

  \<^bold>\<open>The program.\<close>  A station opens a WebSocket (\<open>ocpp/server.ts\<close>), which is accepted if its Basic credentials match the
  hash of its row, and sends frames.  The router (\<open>ocpp/messageRouter.ts\<close>) parses, logs, validates and dispatches them to a
  handler (\<open>ocpp/handlers\<close>), whose transaction changes the tables and writes its events to the outbox; the relay
  (\<open>outbox\<close>) publishes them to a Redis stream, at least once.  In the other direction the server sends commands
  (\<open>ocpp/commands\<close>), keeps a record of each, and a sweeper and two jobs clean up what never got an answer.  Beside that
  runs the HTTP side: chargers get their credentials from \<open>/auths\<close> and \<open>/provision\<close>, the portal and the internal API
  administer stations, manufacturers, firmware, campaigns, settings and logs.

  \<^bold>\<open>The model.\<close>  A program is a function from a world to a result or a thrown error and a new world (\<open>Runtime\<close>).
  The world has the database, the sockets, the pending calls, the Redis streams and keys, the files and the timers; the
  \<open>host\<close> in it answers what the process cannot see coming: which outside calls fail, the clock, random values and
  the third-party hashes.  Every outside call takes a tick, and the host answers by tick, so a theorem over all
  hosts covers every pattern of failures.  The events of the server - frames, requests, timers, jobs, and a crash with
  the start that follows - are the step relation of \<open>System\<close>, each event a run of its handler; a command waits for the
  station's reply while other events run (\<open>Commands\<close>).  Three parts are also modelled \<open>await\<close> by \<open>await\<close>, interleaved with
  each other and with everything else: the relay's ticks (\<open>RelaySteps\<close>), the requests that pass the idempotency
  middleware (\<open>IdempotencySteps\<close>), and the handlers that change sessions and faults after
  they have read them, of which several may be in progress (\<open>HandlerSteps\<close>, \<open>HandlerOverlap\<close>).  An HTTP request is an event of the server through the
  application of \<open>CoreApp\<close>, which finds its route in the tables of \<open>Routes\<close>.

  \<^bold>\<open>The theories\<close>, in the order of the imports, with the files they model:
  \<^item> \<open>Prelude\<close>, \<open>JsNumber\<close>, \<open>JsValue\<close>, \<open>JsDate\<close>: the parts of JavaScript the code uses, tables of rows, doubles with
    their rounding, JSON with its parser and printer, dates.
  \<^item> \<open>Events\<close> (\<open>shared/types/events.ts\<close>), \<open>Errors\<close> (\<open>shared/errors\<close>), \<open>Database\<close> and \<open>Store\<close> (\<open>prisma/schema.prisma\<close>
    and the calls of its client), \<open>Runtime\<close>, \<open>Samples\<close>.
  \<^item> \<open>Messages\<close> (\<open>messageParser.ts\<close>, \<open>schemaValidator.ts\<close>), \<open>Outbox\<close> (\<open>outboxWriter.ts\<close>, \<open>streamPublisher.ts\<close>,
    \<open>outboxRelay.ts\<close>), \<open>StationHandlers\<close>, \<open>TransactionHandlers\<close> and \<open>MaintenanceHandlers\<close> (\<open>ocpp/handlers\<close>),
    \<open>Sockets\<close> (\<open>server.ts\<close>, \<open>connectionManager.ts\<close>, \<open>pendingRequests.ts\<close>, \<open>gateway.impl.ts\<close>, \<open>utils/auth.ts\<close>),
    \<open>Router\<close> (\<open>messageRouter.ts\<close>), \<open>Commands\<close> (\<open>ocpp/commands\<close>, \<open>ocppCommandResult.service.ts\<close>, \<open>jobs\<close>).
  \<^item> \<open>Http\<close> (the error handlers and what all controllers share), \<open>AdminStore\<close>, \<open>Provisioning\<close>, \<open>Manufacturers\<close>,
    \<open>StationService\<close>, \<open>Firmware\<close>, \<open>FirmwareApi\<close>, \<open>Settings\<close>, \<open>InternalApi\<close>: the services, controllers, validators,
    middlewares and routes of the same names.
  \<^item> \<open>Gateway\<close> (\<open>gateway.interface.ts\<close>, \<open>gateway.impl.ts\<close>), \<open>Routes\<close> (the routers of \<open>internal-api/routes\<close>, \<open>routes\<close> and
    \<open>app.ts\<close>), \<open>CoreApp\<close> (\<open>app.ts\<close>, \<open>internal-api/index.ts\<close>, \<open>shared/middlewares\<close>), \<open>Config\<close> (\<open>config/env.ts\<close>),
    \<open>CoreServer\<close> (\<open>apps/core-server\<close>), \<open>Scripts\<close> (\<open>scripts\<close>), \<open>DateRanges\<close> (\<open>utils/date.ts\<close>, the options of CORS),
    \<open>Repositories\<close> (\<open>repositories\<close>, \<open>station.validator.ts\<close>).
  \<^item> \<open>Contracts\<close>, \<open>Background\<close>, \<open>Admin\<close>, \<open>System\<close>, \<open>Delivery\<close>, \<open>SessionSpec\<close>, \<open>RelaySteps\<close>, \<open>HandlerSteps\<close>,
    \<open>HandlerOverlap\<close>, \<open>IdempotencySteps\<close>, \<open>Bootstrap\<close>
    (\<open>core/src/bootstrap.ts\<close>) and this theory: the server as a whole.
  \<^item> \<open>RouterProps\<close>, \<open>CommandProps\<close>, \<open>SessionProps\<close>, \<open>ProvisionProps\<close>, \<open>ApiProps\<close>, \<open>StationProps\<close>, \<open>FirmwareProps\<close>,
    \<open>CampaignProps\<close>, \<open>JsonProps\<close>: what each component guarantees.

  \<^bold>\<open>The interfaces.\<close>  A contract is a relation between the world before and after, kept by every call.  The locale
  \<open>composable\<close> asks for reflexivity and transitivity and gives the rules for the control flow; \<open>contract\<close> adds that the
  relation ignores the tick and survives a rollback, and gives the rules for calls and transactions; \<open>db_contract\<close> is a
  contract on the database alone.  A component is shown to keep a contract by composition of its calls, so only the
  transactions that touch the tables in question are executed symbolically.  The contracts are interpreted on the
  model's own relations: \<open>outbox_grows\<close>, \<open>tx_evolves\<close>, \<open>ledger_ok\<close>, \<open>started_ok\<close>, \<open>faults_ok\<close>, \<open>background\<close>,
  \<open>appending\<close>, \<open>administrative\<close> and those of the component theories.  The locale \<open>ocpp_gateway\<close> has the promises of the
  gateway's interface and is interpreted on the code's gateway.

  \<^bold>\<open>What is shown.\<close>  Over all runs of the server in which each frame is handled as a whole (\<open>reaches\<close>): the sessions refine an abstract machine
  (\<open>SessionSpec\<close>) and never reopen; every cost and every active session was announced; the fault events tell the state of
  the connectors; the event log only grows; every event is delivered or still due, also while the relay's ticks
  interleave with everything else and the process crashes between any two of their calls; as long as Redis and the database
  answer and the process stays up it is published exactly once; stream entries have the payload of their type.  The process comes up only with a checked configuration and always
  ends its timers.  When handlers overlap (\<open>overlapping\<close>), costs and active sessions stay announced, no session is lost and the log only
  grows; a session that has ended stays ended unless a StartTransaction in progress has picked it up, which
  \<open>timed_out_session_reopens\<close> shows to be possible; the fault events are true for stations that wait for their answers, and
  \<open>overlapping_reports_lose_the_end\<close> shows that they need not be for others.  At the wire: each call gets exactly
  one reply, a result settles its call only, a rejected frame changes nothing, frames are parsed back as they were
  printed, and the parser never gives up early.  For a session: start and stop are recorded with their event or not at
  all, and the cost is exact or one dong less.  For commands: the outcome and its event are recorded together, the sweeps
  touch exactly what is stale.  For the HTTP side: credentials open the connection they were issued for and only the owner
  of a serial number gets them; a bulk upload adds up; a station is deleted with its rows or not at all; every documented address
  reaches its route, a request without a service token changes nothing, every request is an event of the server,
  and a repeated one is answered from the cache; once a key is claimed, no request that comes later runs a handler under it
  (\<open>claimed_key_runs_no_handler\<close>), but two that overlap before that both run theirs
  (\<open>overlapping_requests_both_run\<close>); firmware rows keep their files, what is
  downloaded is what was uploaded; a campaign starts whole and its dispatch settles every target.

  \<^bold>\<open>Bounds and fuel.\<close>  The JSON parser recurses with fuel twice the length of the text plus two, which
  \<open>parser_never_gives_up\<close> shows to be enough for every text.  Numbers are the rationals that finite doubles denote, rounded
  after each operation; integer columns have 32 bits and texts their declared length, and a call that does not fit is an
  error of the database client.  A tick of the relay waits for at most 401 answers, four for each event of its batch and one for
  the batch (\<open>tick_ends\<close>).  The search for the shortest decimal stops after 25 digits.  Everything else recurses on
  its data.

  \<^bold>\<open>Not modelled.\<close>  The libraries (Express beyond the matching of its routes, BullMQ, Prisma's SQL, bcrypt, the translation library:
  parameters or assumed as documented), logging, the counting of the rate limiter, the Swagger texts of the routes beyond their
  addresses, the construction of clients, the rules of time zones, a parameter, and JSON web tokens, which the core does not use.  Characters above 255, numbers that overflow, LIKE wildcards and
  the \<open>deviceVariable\<close> table, which is only ever cleared, are outside the model.  Two calls of one \<open>Promise.all\<close> run in order.
  Messages of the source that are in Korean are given in English.
\<close>

section \<open>The server as a whole\<close>

text \<open>A world the server has just started in, and one inbound frame later.\<close>

definition started_world :: world where
  "started_world = boot_world quiet_host (empty_db\<lparr>stations := [sample_station], idTokens := [sample_token]\<rparr>)"

definition start_frame :: string where
  "start_frame = serializeCall ''m1'' ''StartTransaction'' (start_request ''TAG1'' 1000)"

definition served_world :: world where
  "served_world = snd (handle ''EN0000001'' 7 start_frame started_world)"

lemma served_undeleted: "reaches_undeleted started_world served_world"
  unfolding served_world_def by (rule reaches_undeleted_step [OF inbound [OF surjective_pairing]])

text \<open>A world with one announced session of each kind.\<close>

definition announced_world :: world where
  "announced_world = boot_world quiet_host (empty_db\<lparr>
     transactions := [sample_tx 2 ''s2'' TxActive, (sample_tx 3 ''s3'' TxStopped)\<lparr>tx_costVnd := Some 62\<rparr>],
     outbox := [(sample_event 1 0)\<lparr>ob_payload := TransactionStartedP (started_payload (sample_tx 2 ''s2'' TxActive) None)\<rparr>,
       (sample_event 2 0)\<lparr>ob_payload := TransactionStoppedP (stopped_payload ''EN0000001'' 1000 1018 None
          ((sample_tx 3 ''s3'' TxStopped)\<lparr>tx_costVnd := Some 62\<rparr>))\<rparr>]\<rparr>)"

lemma announced_reach: "reaches announced_world (snd (startOutboxRelay announced_world))"
  by (rule reaches_step [OF reaches_refl relay_start [OF surjective_pairing]])

lemma announced_db: "transactions (db (snd (startOutboxRelay announced_world))) =
    [sample_tx 2 ''s2'' TxActive, (sample_tx 3 ''s3'' TxStopped)\<lparr>tx_costVnd := Some 62\<rparr>]"
  by (simp add: startOutboxRelay_def announced_world_def boot_world_def)

lemma started_db [simp]: "transactions (db started_world) = []" "outbox (db started_world) = []"
  "connectors (db started_world) = []"
  by (simp_all add: started_world_def boot_world_def empty_db_def)

lemma sessions_evolve: "reaches w w' \<Longrightarrow> tx_evolves (db w) (db w')"
  by (rule tx_log.reaches_keeps [OF _ background_keeps(2) handle_tx_evolves session_timeout_keeps(2) token_deletion_keeps(2)
      station_deletion_contracts(2)])

text \<open>C3. The server refines the session machine: over any run that handles each frame as a whole, its table of sessions moves as the machine allows, where a session
  appears, a waiting one begins to charge and one that is not over ends.\<close>

theorem sessions_refine_the_machine:
  assumes "reaches w w'" "tx_ids_ok (db w)"
  shows "session_move\<^sup>*\<^sup>* (sessions_of (transactions (db w))) (sessions_of (transactions (db w')))"
  by (rule evolution_moves [OF sessions_evolve [OF assms(1)] assms(2)])

theorem sessions_refine_the_machine_witness:
  "session_move\<^sup>*\<^sup>* (sessions_of []) (sessions_of (transactions (db served_world)))"
proof -
  have "reaches started_world served_world"
    unfolding served_world_def by (rule reaches_frame)
  from sessions_refine_the_machine [OF this] show ?thesis by (simp add: tx_ids_ok_def)
qed

text \<open>C4. Whatever the server does, administrative requests included, when each frame is handled as a whole, no session disappears, none changes its identity,
  station or connector, its token is at most cleared, and one that ended never opens again.\<close>

theorem sessions_never_reopen:
  assumes "reaches w w'" "tx_ids_ok (db w)" "t \<in> set (transactions (db w))"
  shows "\<exists>t' \<in> set (transactions (db w')). tx_step t t'"
proof -
  from sessions_evolve [OF assms(1)] assms(2) obtain rows new where
    "transactions (db w') = rows @ new" "list_all2 tx_step (transactions (db w)) rows"
    by (auto simp: tx_evolves_def)
  with assms(3) show ?thesis by (force simp: list_all2_conv_all_nth in_set_conv_nth)
qed

theorem sessions_never_reopen_witness:
  "\<exists>t' \<in> set (transactions (db (snd (handle ''EN0000001'' 7 start_frame sample_world)))). tx_step (sample_tx 3 ''s3'' TxStopped) t'"
  by (rule sessions_never_reopen [OF reaches_frame]) (simp_all add: tx_ids_ok_def sample_db_def sample_tx_def)

text \<open>C13. Whatever the server does, the event log only grows: every event keeps its place, its id, its kind, its payload
  and its time.\<close>

theorem event_log_only_grows:
  assumes "reaches w w'"
  shows "prefix (map event_key (outbox (db w))) (map event_key (outbox (db w')))"
  using outbox_log.reaches_keeps [OF assms background_keeps(1) handle_outbox_grows session_timeout_keeps(1) token_deletion_keeps(1)
      station_deletion_contracts(1)]
  by (simp add: outbox_grows_def)

theorem event_log_only_grows_witness:
  "prefix (map event_key (outbox (db sample_world)))
     (map event_key (outbox (db (snd (handle ''EN0000001'' 7 start_frame sample_world)))))"
  by (rule event_log_only_grows [OF reaches_frame])

text \<open>C1. Every cost on record was announced: from a database in which this holds, every reachable session with a cost
  has a TransactionStopped event with its id and that cost.\<close>

theorem costs_are_announced:
  assumes "reaches w w'" "ledger_ok (db w)"
    and "t \<in> set (transactions (db w'))" "tx_costVnd t = Some c"
  shows "\<exists>e \<in> set (outbox (db w')). case ob_payload e of
           TransactionStoppedP p \<Rightarrow> tsp_transactionId p = tx_id t \<and> tsp_costVnd p = Some c | _ \<Rightarrow> False"
  using ledger.reaches_keeps [OF assms(1) background_keeps(3) handle_ledger session_timeout_keeps(3) token_deletion_keeps(3)
      station_deletion_contracts(3)] assms(2-4)
  by (auto simp: keeps_def ledger_ok_def announces_cost_def)

theorem costs_are_announced_witness:
  "\<exists>e \<in> set (outbox (db (snd (startOutboxRelay announced_world)))). case ob_payload e of
     TransactionStoppedP p \<Rightarrow> tsp_transactionId p = tx_id ((sample_tx 3 ''s3'' TxStopped)\<lparr>tx_costVnd := Some 62\<rparr>) \<and> tsp_costVnd p = Some 62 | _ \<Rightarrow> False"
proof -
  let ?t = "(sample_tx 3 ''s3'' TxStopped)\<lparr>tx_costVnd := Some 62\<rparr>"
  have "ledger_ok (db announced_world)"
    by (simp add: ledger_ok_def announces_cost_def announced_world_def boot_world_def sample_tx_def stopped_payload_def)
  moreover have "?t \<in> set (transactions (db (snd (startOutboxRelay announced_world))))"
    unfolding announced_db by simp
  ultimately show ?thesis
    using costs_are_announced [OF announced_reach, of ?t 62] by simp
qed





text \<open>C7. Delivery: in every reachable world each event is in the Redis stream, or was given up after ten failed
  attempts, or is still due, and event ids are distinct.\<close>

theorem every_event_is_delivered_or_due:
  assumes "reaches w w'" "outbox_ok w" "e \<in> set (outbox (db w'))"
  shows "distinct (map ob_id (outbox (db w'))) \<and> (published_as e w' \<or> ob_attempts e = MAX_ATTEMPTS \<or> is_due e)"
  using reaches_outbox_ok [OF assms(1,2)] assms(3) by (auto simp: outbox_ok_def delivery_ok_def is_due_def)

theorem every_event_is_delivered_or_due_witness:
  "let w = snd (startOutboxRelay announced_world); e = hd (outbox (db w)) in
     distinct (map ob_id (outbox (db w))) \<and> (published_as e w \<or> ob_attempts e = MAX_ATTEMPTS \<or> is_due e)"
proof -
  have "outbox_ok announced_world"
    by (simp add: outbox_ok_def delivery_ok_def announced_world_def boot_world_def sample_event_def MAX_ATTEMPTS_def)
  moreover have "hd (outbox (db (snd (startOutboxRelay announced_world)))) \<in> set (outbox (db (snd (startOutboxRelay announced_world))))"
    by (simp add: startOutboxRelay_def announced_world_def boot_world_def)
  ultimately show ?thesis
    using every_event_is_delivered_or_due [OF announced_reach] by (simp add: Let_def)
qed

end
